(* ===== verification/Relay_Prelude.thy ===== *)
theory Relay_Prelude
  imports Main "HOL-Library.Word" "HOL-Library.Char_ord" "HOL-Library.List_Lexorder"
    "HOL-Library.Product_Lexorder" "HOL-Library.Sublist"
begin

text \<open>
  Shared ground of the development: Go byte strings and the functions of package strings the
  relay uses, 64-bit durations and instants, Go error values with their unwrap chains, and the
  library lemmas the component theories build on.

  A Go string is a list of bytes (type \<^typ>\<open>string\<close>). White space is the Unicode white space
  of \<open>unicode.IsSpace\<close>, recognised by its UTF-8 encoding. Case mapping is the ASCII one.
\<close>

named_theorems trim_simps \<open>facts about trimming Go strings\<close>
named_theorems duration_simps \<open>facts about 64-bit durations\<close>

section \<open>Go strings\<close>

text \<open>The UTF-8 encodings of the code points for which \<open>unicode.IsSpace\<close> holds.\<close>

definition space_seqs :: "string list" where
  "space_seqs =
    [[CHR 0x09], [CHR 0x0A], [CHR 0x0B], [CHR 0x0C], [CHR 0x0D], [CHR 0x20],
     [CHR 0xC2, CHR 0x85], [CHR 0xC2, CHR 0xA0], [CHR 0xE1, CHR 0x9A, CHR 0x80],
     [CHR 0xE2, CHR 0x80, CHR 0x80], [CHR 0xE2, CHR 0x80, CHR 0x81],
     [CHR 0xE2, CHR 0x80, CHR 0x82], [CHR 0xE2, CHR 0x80, CHR 0x83],
     [CHR 0xE2, CHR 0x80, CHR 0x84], [CHR 0xE2, CHR 0x80, CHR 0x85],
     [CHR 0xE2, CHR 0x80, CHR 0x86], [CHR 0xE2, CHR 0x80, CHR 0x87],
     [CHR 0xE2, CHR 0x80, CHR 0x88], [CHR 0xE2, CHR 0x80, CHR 0x89],
     [CHR 0xE2, CHR 0x80, CHR 0x8A], [CHR 0xE2, CHR 0x80, CHR 0xA8],
     [CHR 0xE2, CHR 0x80, CHR 0xA9], [CHR 0xE2, CHR 0x80, CHR 0xAF],
     [CHR 0xE2, CHR 0x81, CHR 0x9F], [CHR 0xE3, CHR 0x80, CHR 0x80]]"

fun strip_any :: "string list \<Rightarrow> string \<Rightarrow> string option" where
  "strip_any [] s = None"
| "strip_any (p # ps) s = (if prefix p s then Some (drop (length p) s) else strip_any ps s)"

text \<open>The length test only serves termination: no sequence to strip is empty.\<close>

function trim_left_by :: "string list \<Rightarrow> string \<Rightarrow> string" where
  "trim_left_by ps s =
     (case strip_any ps s of
        None \<Rightarrow> s
      | Some t \<Rightarrow> if length t < length s then trim_left_by ps t else s)"
  by pat_completeness auto
termination by (relation "measure (\<lambda>(ps, s). length s)") auto

declare trim_left_by.simps [simp del]

definition TrimSpace :: "string \<Rightarrow> string" where
  "TrimSpace s = rev (trim_left_by (map rev space_seqs) (rev (trim_left_by space_seqs s)))"

definition lower_char :: "char \<Rightarrow> char" where
  "lower_char c = (if CHR ''A'' \<le> c \<and> c \<le> CHR ''Z'' then char_of (of_char c + (32::nat)) else c)"

definition ToLower :: "string \<Rightarrow> string" where
  "ToLower s = map lower_char s"

definition EqualFold :: "string \<Rightarrow> string \<Rightarrow> bool" where
  "EqualFold s t \<longleftrightarrow> ToLower s = ToLower t"

definition Contains :: "string \<Rightarrow> string \<Rightarrow> bool" where
  "Contains s sub \<longleftrightarrow> list_ex (prefix sub) (suffixes s)"

text \<open>\<open>strings.Split\<close> with a one-byte separator, and \<open>strings.Join\<close>.\<close>

fun Split :: "char \<Rightarrow> string \<Rightarrow> string list" where
  "Split sep [] = [[]]"
| "Split sep (c # cs) =
     (if c = sep then [] # Split sep cs
      else (case Split sep cs of [] \<Rightarrow> [[c]] | w # ws \<Rightarrow> (c # w) # ws))"

fun Join :: "string list \<Rightarrow> string \<Rightarrow> string" where
  "Join [] sep = []"
| "Join [w] sep = w"
| "Join (w # v # ws) sep = w @ sep @ Join (v # ws) sep"

subsection \<open>Trimming\<close>

lemma strip_any_Some:
  assumes "strip_any ps s = Some t"
  obtains p where "p \<in> set ps" "s = p @ t"
  using assms by (induction ps) (auto simp: prefix_def split: if_splits)

lemma strip_any_None_iff: "strip_any ps s = None \<longleftrightarrow> (\<forall>p \<in> set ps. \<not> prefix p s)"
  by (induction ps) auto

lemma trim_left_by_suffix: "suffix (trim_left_by ps s) s"
proof (induction ps s rule: trim_left_by.induct)
  case (1 ps s)
  show ?case
  proof (cases "strip_any ps s")
    case None
    then show ?thesis by (subst trim_left_by.simps) simp
  next
    case (Some t)
    then have "suffix t s" by (auto elim: strip_any_Some simp: suffix_def)
    with Some 1 show ?thesis
      by (subst trim_left_by.simps) (auto intro: suffix_order.trans)
  qed
qed

lemma trim_left_by_stops:
  "[] \<notin> set ps \<Longrightarrow> strip_any ps (trim_left_by ps s) = None"
proof (induction ps s rule: trim_left_by.induct)
  case (1 ps s)
  show ?case
  proof (cases "strip_any ps s")
    case None
    then show ?thesis by (subst trim_left_by.simps) simp
  next
    case (Some t)
    then obtain p where "p \<in> set ps" "s = p @ t" by (rule strip_any_Some)
    with 1(2) have "length t < length s" by (cases p) auto
    with Some 1 show ?thesis by (subst trim_left_by.simps) simp
  qed
qed

lemma trim_left_by_fix: "strip_any ps s = None \<Longrightarrow> trim_left_by ps s = s"
  by (subst trim_left_by.simps) simp

lemma space_seqs_nonempty: "[] \<notin> set space_seqs" "[] \<notin> set (map rev space_seqs)"
  by (simp_all add: space_seqs_def)

lemma TrimSpace_Nil [simp, trim_simps]: "TrimSpace [] = []"
  by code_simp

lemma TrimSpace_sublist: "sublist (TrimSpace s) s"
proof -
  let ?l = "trim_left_by space_seqs s"
  have "suffix (trim_left_by (map rev space_seqs) (rev ?l)) (rev ?l)"
    by (rule trim_left_by_suffix)
  then have "prefix (TrimSpace s) ?l"
    by (simp add: TrimSpace_def suffix_to_prefix)
  moreover have "suffix ?l s" by (rule trim_left_by_suffix)
  ultimately show ?thesis
    by (meson prefix_imp_sublist sublist_order.order_trans suffix_imp_sublist)
qed

lemma TrimSpace_set: "set (TrimSpace s) \<subseteq> set s"
  using TrimSpace_sublist by (rule set_mono_sublist)

lemma TrimSpace_id:
  assumes "strip_any space_seqs s = None" "strip_any (map rev space_seqs) (rev s) = None"
  shows "TrimSpace s = s"
  using assms by (simp add: TrimSpace_def trim_left_by_fix)

lemma TrimSpace_stops:
  "strip_any space_seqs (TrimSpace s) = None"
  "strip_any (map rev space_seqs) (rev (TrimSpace s)) = None"
proof -
  let ?l = "trim_left_by space_seqs s"
  have "suffix (trim_left_by (map rev space_seqs) (rev ?l)) (rev ?l)"
    by (rule trim_left_by_suffix)
  then have pre: "prefix (TrimSpace s) ?l"
    by (simp add: TrimSpace_def suffix_to_prefix)
  have "strip_any space_seqs ?l = None"
    using space_seqs_nonempty(1) by (rule trim_left_by_stops)
  with pre show "strip_any space_seqs (TrimSpace s) = None"
    by (auto simp: strip_any_None_iff intro: prefix_order.trans)
  show "strip_any (map rev space_seqs) (rev (TrimSpace s)) = None"
    unfolding TrimSpace_def rev_rev_ident
    using space_seqs_nonempty(2) by (rule trim_left_by_stops)
qed

lemma TrimSpace_idem [simp, trim_simps]: "TrimSpace (TrimSpace s) = TrimSpace s"
  by (rule TrimSpace_id) (rule TrimSpace_stops)+

text \<open>Bytes that start or end a white-space sequence; a string without them is trimmed already.\<close>

definition space_bytes :: "char set" where
  "space_bytes = set (concat space_seqs)"

lemma strip_any_no_space:
  assumes "set s \<inter> \<Union> (set ` set ps) = {}" "[] \<notin> set ps"
  shows "strip_any ps s = None"
proof -
  have "\<not> prefix p s" if p: "p \<in> set ps" for p
  proof
    assume "prefix p s"
    moreover have "p \<noteq> []" using p assms(2) by metis
    then obtain c cs where "p = c # cs" by (cases p) auto
    ultimately have "c \<in> set p" "c \<in> set s" by (auto simp: prefix_def)
    with p assms(1) show False by blast
  qed
  then show ?thesis by (simp add: strip_any_None_iff)
qed

lemma TrimSpace_no_space: "set s \<inter> space_bytes = {} \<Longrightarrow> TrimSpace s = s"
  using space_seqs_nonempty
  by (intro TrimSpace_id strip_any_no_space) (auto simp: space_bytes_def)

subsection \<open>Splitting and joining\<close>

lemma Split_nonempty [simp]: "Split sep s \<noteq> []"
  by (induction s) (auto split: list.splits)

lemma Join_Split: "Join (Split sep s) [sep] = s"
proof (induction s)
  case (Cons c cs)
  obtain w ws where w: "Split sep cs = w # ws" by (cases "Split sep cs") auto
  with Cons show ?case by (cases ws) auto
qed simp

lemma Split_no_sep: "w \<in> set (Split sep s) \<Longrightarrow> sep \<notin> set w"
proof (induction s arbitrary: w)
  case (Cons c cs)
  then show ?case by (auto split: if_splits list.splits)
qed simp

lemma Split_Join:
  assumes "\<forall>w \<in> set ws. sep \<notin> set w" "ws \<noteq> []"
  shows "Split sep (Join ws [sep]) = ws"
proof -
  have one: "sep \<notin> set w \<Longrightarrow> Split sep w = [w]" for w
    by (induction w) auto
  have app: "sep \<notin> set w \<Longrightarrow> Split sep (w @ sep # r) = w # Split sep r" for w r
    by (induction w) auto
  show ?thesis using assms
  proof (induction ws rule: induct_list012)
    case (3 x y zs)
    then show ?case using app [of x "Join (y # zs) [sep]"] by simp
  qed (use one in auto)
qed

lemma Split_length: "length (Split sep s) = Suc (count_list s sep)"
proof (induction s)
  case (Cons c cs)
  then show ?case by (auto split: list.splits)
qed simp

lemma Contains_iff: "Contains s sub \<longleftrightarrow> sublist sub s"
  by (auto simp: Contains_def list_ex_iff sublist_altdef')

section \<open>64-bit durations and instants\<close>

text \<open>
  A \<open>time.Duration\<close> is an \<open>int64\<close> of nanoseconds: arithmetic is on \<^typ>\<open>int\<close> with
  \<open>wrap64\<close> where the source multiplies or adds durations. A \<open>time.Time\<close> is its distance in
  nanoseconds from the Unix epoch; the zero \<open>time.Time\<close> is 1 January of year 1.
\<close>

type_synonym duration = int
type_synonym gotime = int

definition wrap64 :: "int \<Rightarrow> int" where
  "wrap64 x = (x + 2 ^ 63) mod 2 ^ 64 - 2 ^ 63"

definition maxDuration :: duration where
  "maxDuration = 2 ^ 63 - 1"

definition zero_time :: gotime where
  "zero_time = - 62135596800000000000"

definition IsZero :: "gotime \<Rightarrow> bool" where
  "IsZero t \<longleftrightarrow> t = zero_time"

definition millisecond :: duration where
  "millisecond = 1000000"

definition second :: duration where
  "second = 1000000000"

definition UnixMilli :: "gotime \<Rightarrow> int" where
  "UnixMilli t = t div millisecond"

lemma wrap64_id [duration_simps]: "- (2 ^ 63) \<le> x \<Longrightarrow> x < 2 ^ 63 \<Longrightarrow> wrap64 x = x"
  by (simp add: wrap64_def)

lemma wrap64_sint: "wrap64 x = sint (word_of_int x :: 64 word)"
  by (simp add: wrap64_def signed_of_int signed_take_bit_eq_take_bit_shift take_bit_eq_mod)

lemma wrap64_bounds: "- (2 ^ 63) \<le> wrap64 x" "wrap64 x < 2 ^ 63"
  unfolding wrap64_def by simp_all

lemma UnixMilli_millis [simp]: "UnixMilli (v * millisecond) = v"
  by (simp add: UnixMilli_def millisecond_def)

lemma UnixMilli_mono: "s \<le> t \<Longrightarrow> UnixMilli s \<le> UnixMilli t"
  by (simp add: UnixMilli_def millisecond_def zdiv_mono1)

end
