(* ===== verification/Go_Errors.thy ===== *)
theory Go_Errors
  imports Relay_Prelude
begin

text \<open>
  Go error values. A value of type \<open>goerr\<close> is an error together with the errors it wraps, so that
  \<open>errors.As\<close> and \<open>errors.Is\<close> are searches along its unwrap chain. The error types the relay
  declares (internal/spool/errors.go, internal/spool/payload_store.go,
  internal/email/sender_policy.go, internal/relay/handler.go, the \<open>SendError\<close> types of both
  providers) are constructors. A nil error is \<open>None\<close>.
\<close>

section \<open>Formatting\<close>

fun show_nat :: "nat \<Rightarrow> string" where
  "show_nat n =
     (if n < 10 then [char_of (48 + n)] else show_nat (n div 10) @ [char_of (48 + n mod 10)])"

declare show_nat.simps [simp del]

primrec nat_of_digits :: "nat \<Rightarrow> string \<Rightarrow> nat" where
  "nat_of_digits acc [] = acc"
| "nat_of_digits acc (c # cs) = nat_of_digits (10 * acc + (of_char c - 48)) cs"

definition show_int :: "int \<Rightarrow> string" where
  "show_int i = (if i < 0 then CHR ''-'' # show_nat (nat (- i)) else show_nat (nat i))"

definition show_bool :: "bool \<Rightarrow> string" where
  "show_bool b = (if b then ''true'' else ''false'')"

text \<open>The \<open>%q\<close> verb for printable text: double quotes and backslashes are escaped.\<close>

definition Quote :: "string \<Rightarrow> string" where
  "Quote s = [CHR 0x22] @
     concat (map (\<lambda>c. if c = CHR 0x22 \<or> c = CHR 0x5C then [CHR 0x5C, c] else [c]) s) @ [CHR 0x22]"

text \<open>\<open>fmt.Sprintf\<close> with the arguments given as text; every verb but \<open>%q\<close> inserts its argument.\<close>

fun Sprintf :: "string \<Rightarrow> string list \<Rightarrow> string" where
  "Sprintf [] args = []"
| "Sprintf (c # cs) args =
     (if c = CHR ''%'' then
        (case cs of
           [] \<Rightarrow> [c]
         | v # rest \<Rightarrow>
             (case args of
                [] \<Rightarrow> c # v # Sprintf rest []
              | a # more \<Rightarrow> (if v = CHR ''q'' then Quote a else a) @ Sprintf rest more))
      else c # Sprintf cs args)"

declare Sprintf.simps [simp del]

section \<open>Errors\<close>

datatype errno = ENOENT | EEXIST | ENOTDIR | EISDIR | ENOTEMPTY | ELOOP | EXDEV | EIO | EACCES | ENOSPC

datatype goerr =
    Errorf string "string list"
  | Wrapf string "string list" goerr
  | ContextCanceled
  | ContextDeadlineExceeded
  | Errno errno
  | ErrUnexpectedFileType
  | ErrServerAlreadyStarted
  | StoreError string goerr
  | RecordCorruptionError string goerr
  | PayloadCorruptionError string string goerr
  | SenderPolicyError string
  | BusyError int
  | SMTPError int "int \<times> int \<times> int" string
  | SendError string string int int int bool "goerr option"
  | Opaque string

text \<open>
  \<open>Errorf\<close> is \<open>fmt.Errorf\<close> or \<open>errors.New\<close> without a wrapped error, \<open>Wrapf\<close> is
  \<open>fmt.Errorf\<close> whose last verb is \<open>%w\<close>, \<open>SendError provider requestID attempt attempts
  statusCode retryable cause\<close> the delivery error of a provider, \<open>Opaque\<close> an error of a library
  outside the sources, known by its text only.
\<close>

fun errno_text :: "errno \<Rightarrow> string" where
  "errno_text ENOENT = ''no such file or directory''"
| "errno_text EEXIST = ''file exists''"
| "errno_text ENOTDIR = ''not a directory''"
| "errno_text EISDIR = ''is a directory''"
| "errno_text ENOTEMPTY = ''directory not empty''"
| "errno_text ELOOP = ''too many levels of symbolic links''"
| "errno_text EXDEV = ''invalid cross-device link''"
| "errno_text EIO = ''input/output error''"
| "errno_text EACCES = ''permission denied''"
| "errno_text ENOSPC = ''no space left on device''"

text \<open>The \<open>Error()\<close> methods.\<close>

fun err_text :: "goerr \<Rightarrow> string" where
  "err_text (Errorf f args) = Sprintf f args"
| "err_text (Wrapf f args e) = Sprintf f (args @ [err_text e])"
| "err_text ContextCanceled = ''context canceled''"
| "err_text ContextDeadlineExceeded = ''context deadline exceeded''"
| "err_text (Errno n) = errno_text n"
| "err_text ErrUnexpectedFileType = ''unexpected file type''"
| "err_text ErrServerAlreadyStarted = ''smtp server is single-use and has already been started''"
| "err_text (StoreError op e) =
     (if TrimSpace op = [] then ''spool store error: '' @ err_text e
      else ''spool store '' @ TrimSpace op @ '': '' @ err_text e)"
| "err_text (RecordCorruptionError i e) =
     Sprintf ''spool record %q is corrupt: %v'' [i, err_text e]"
| "err_text (PayloadCorruptionError i p e) =
     (if p \<noteq> [] then Sprintf ''spool payload %q at %s is corrupt: %v'' [i, p, err_text e]
      else Sprintf ''spool payload %q is corrupt: %v'' [i, err_text e])"
| "err_text (SenderPolicyError r) = ''sender policy rejected message: '' @ r"
| "err_text (BusyError l) =
     (if l \<le> 0 then ''relay busy, try again later''
      else Sprintf ''relay busy, try again later (max inflight: %d)'' [show_int l])"
| "err_text (SMTPError code enh msg) = msg"
| "err_text (SendError p rid att atts status retry cause) =
     (let pre = p @ Sprintf '' send failed request_id=%s attempt=%d/%d retryable=%t''
                      [rid, show_int att, show_int atts, show_bool retry]
      in if status > 0 then Sprintf ''%s status=%d'' [pre, show_int status]
         else (case cause of Some e \<Rightarrow> Sprintf ''%s err=%v'' [pre, err_text e] | None \<Rightarrow> pre))"
| "err_text (Opaque t) = t"

text \<open>The unwrap chain: the error itself, then what it wraps.\<close>

fun err_chain :: "goerr \<Rightarrow> goerr list" where
  "err_chain (Wrapf f args e) = Wrapf f args e # err_chain e"
| "err_chain (StoreError op e) = StoreError op e # err_chain e"
| "err_chain (RecordCorruptionError i e) = RecordCorruptionError i e # err_chain e"
| "err_chain (PayloadCorruptionError i p e) = PayloadCorruptionError i p e # err_chain e"
| "err_chain (SendError p r a n s b (Some e)) = SendError p r a n s b (Some e) # err_chain e"
| "err_chain e = [e]"

definition errors_Is :: "goerr \<Rightarrow> goerr \<Rightarrow> bool" where
  "errors_Is e target \<longleftrightarrow> target \<in> set (err_chain e)"

definition errors_As :: "(goerr \<Rightarrow> bool) \<Rightarrow> goerr \<Rightarrow> goerr option" where
  "errors_As is_target e = find is_target (err_chain e)"

fun is_StoreError :: "goerr \<Rightarrow> bool" where
  "is_StoreError (StoreError op e) = True"
| "is_StoreError _ = False"

fun is_RecordCorruption :: "goerr \<Rightarrow> bool" where
  "is_RecordCorruption (RecordCorruptionError i e) = True"
| "is_RecordCorruption _ = False"

fun is_PayloadCorruption :: "goerr \<Rightarrow> bool" where
  "is_PayloadCorruption (PayloadCorruptionError i p e) = True"
| "is_PayloadCorruption _ = False"

fun is_SenderPolicyError :: "goerr \<Rightarrow> bool" where
  "is_SenderPolicyError (SenderPolicyError r) = True"
| "is_SenderPolicyError _ = False"

fun is_BusyError :: "goerr \<Rightarrow> bool" where
  "is_BusyError (BusyError l) = True"
| "is_BusyError _ = False"

fun is_SMTPError :: "goerr \<Rightarrow> bool" where
  "is_SMTPError (SMTPError c x m) = True"
| "is_SMTPError _ = False"

fun is_DeliveryError :: "goerr \<Rightarrow> bool" where
  "is_DeliveryError (SendError p r a n s b c) = True"
| "is_DeliveryError _ = False"

definition AsStoreError :: "goerr \<Rightarrow> goerr option" where
  "AsStoreError = errors_As is_StoreError"

definition AsRecordCorruptionError :: "goerr \<Rightarrow> goerr option" where
  "AsRecordCorruptionError = errors_As is_RecordCorruption"

definition AsPayloadCorruptionError :: "goerr \<Rightarrow> goerr option" where
  "AsPayloadCorruptionError = errors_As is_PayloadCorruption"

definition AsSenderPolicyError :: "goerr \<Rightarrow> goerr option" where
  "AsSenderPolicyError = errors_As is_SenderPolicyError"

definition AsBusyError :: "goerr \<Rightarrow> goerr option" where
  "AsBusyError = errors_As is_BusyError"

definition AsDeliveryError :: "goerr \<Rightarrow> goerr option" where
  "AsDeliveryError = errors_As is_DeliveryError"

lemmas err_As_defs = AsStoreError_def AsRecordCorruptionError_def AsPayloadCorruptionError_def
  AsSenderPolicyError_def AsBusyError_def AsDeliveryError_def errors_As_def

text \<open>\<open>ProviderName\<close> and \<open>Temporary\<close> of the \<open>email.DeliveryError\<close> interface.\<close>

fun ProviderName :: "goerr \<Rightarrow> string" where
  "ProviderName (SendError p r a n s b c) = p"
| "ProviderName _ = []"

fun Temporary :: "goerr \<Rightarrow> bool" where
  "Temporary (SendError p r a n s b c) = b"
| "Temporary _ = False"

section \<open>Store errors\<close>

definition wrapStoreError :: "string \<Rightarrow> goerr \<Rightarrow> goerr" where
  "wrapStoreError op e = (case AsStoreError e of Some _ \<Rightarrow> e | None \<Rightarrow> StoreError op e)"

text \<open>The record id of the outermost corruption error is filled in when it is empty.\<close>

fun fill_record_id :: "string \<Rightarrow> goerr \<Rightarrow> goerr" where
  "fill_record_id rid (RecordCorruptionError i e) =
     RecordCorruptionError (if i = [] then rid else i) e"
| "fill_record_id rid (Wrapf f args e) = Wrapf f args (fill_record_id rid e)"
| "fill_record_id rid (StoreError op e) = StoreError op (fill_record_id rid e)"
| "fill_record_id rid (PayloadCorruptionError i p e) = PayloadCorruptionError i p (fill_record_id rid e)"
| "fill_record_id rid (SendError p r a n s b (Some e)) =
     SendError p r a n s b (Some (fill_record_id rid e))"
| "fill_record_id rid e = e"

definition newRecordCorruptionError :: "string \<Rightarrow> goerr \<Rightarrow> goerr" where
  "newRecordCorruptionError rid e =
     (case AsRecordCorruptionError e of
        Some _ \<Rightarrow> fill_record_id rid e
      | None \<Rightarrow> RecordCorruptionError rid e)"

lemma AsStoreError_wrapStoreError: "\<exists>s. AsStoreError (wrapStoreError op e) = Some s"
  by (auto simp: wrapStoreError_def err_As_defs split: option.splits)

lemma wrapStoreError_idem: "wrapStoreError op' (wrapStoreError op e) = wrapStoreError op e"
  using AsStoreError_wrapStoreError [of op e]
  by (auto simp: wrapStoreError_def [of op'])

lemma fill_record_id_As:
  "(AsRecordCorruptionError (fill_record_id rid e) = None) = (AsRecordCorruptionError e = None)"
  by (induction rid e rule: fill_record_id.induct) (auto simp: err_As_defs)

lemma AsRecordCorruption_new: "AsRecordCorruptionError (newRecordCorruptionError rid e) \<noteq> None"
proof (cases "AsRecordCorruptionError e")
  case None
  then show ?thesis by (simp add: newRecordCorruptionError_def) (simp add: err_As_defs)
next
  case (Some c)
  with fill_record_id_As [of rid e] show ?thesis by (simp add: newRecordCorruptionError_def)
qed

section \<open>Decimal numerals\<close>

lemma nat_of_digits_append: "nat_of_digits a (xs @ ys) = nat_of_digits (nat_of_digits a xs) ys"
  by (induction xs arbitrary: a) auto

lemma nat_of_digits_show [simp]: "nat_of_digits 0 (show_nat n) = n"
  by (induction n rule: show_nat.induct) (subst show_nat.simps, auto simp: nat_of_digits_append)

lemma show_nat_inject [simp]: "show_nat m = show_nat n \<longleftrightarrow> m = n"
  by (metis nat_of_digits_show)

lemma show_nat_digits: "c \<in> set (show_nat n) \<Longrightarrow> CHR ''0'' \<le> c \<and> c \<le> CHR ''9''"
proof (induction n rule: show_nat.induct)
  case (1 n)
  have "CHR ''0'' \<le> char_of (48 + k) \<and> char_of (48 + k) \<le> CHR ''9''" if "k < 10" for k :: nat
    using that by (simp add: less_eq_char_def)
  with 1 show ?case by (subst (asm) show_nat.simps [of n]) (auto split: if_splits)
qed

lemma show_nat_nonempty [simp]: "show_nat n \<noteq> []"
  by (subst show_nat.simps) simp

end
