(* ===== verification/Effects.thy ===== *)
theory Effects
  imports Go_Errors
begin

text \<open>
  Effectful Go code as state transformers. An operation takes the state and returns an error or a
  value together with the new state. Three sources of non-determinism are read-only oracles of the
  state, indexed by a counter of the calls made so far: the wall clock, the failures of external
  calls (system calls and database calls), and the random bytes. A theorem that quantifies over the
  state covers every clock, every sequence of failures and every draw.
\<close>

section \<open>State and operations\<close>

record env =
  clock :: "nat \<Rightarrow> gotime"
  ticks :: nat
  fault :: "nat \<Rightarrow> goerr option"
  calls :: nat
  entropy :: "nat \<Rightarrow> goerr + 8 word list"
  draws :: nat

type_synonym ('s, 'a) op = "'s \<Rightarrow> (goerr + 'a) \<times> 's"

definition retE :: "'a \<Rightarrow> ('s, 'a) op" where
  "retE x = (\<lambda>w. (Inr x, w))"

definition throwE :: "goerr \<Rightarrow> ('s, 'a) op" where
  "throwE e = (\<lambda>w. (Inl e, w))"

text \<open>Sequencing with \<open>if err != nil { return err }\<close> in between.\<close>

definition bindE :: "('s, 'a) op \<Rightarrow> ('a \<Rightarrow> ('s, 'b) op) \<Rightarrow> ('s, 'b) op" where
  "bindE m f = (\<lambda>w. case m w of (Inl e, w') \<Rightarrow> (Inl e, w') | (Inr x, w') \<Rightarrow> f x w')"

text \<open>Both outcomes handled by the caller.\<close>

definition tryE :: "('s, 'a) op \<Rightarrow> (goerr + 'a \<Rightarrow> ('s, 'b) op) \<Rightarrow> ('s, 'b) op" where
  "tryE m f = (\<lambda>w. case m w of (r, w') \<Rightarrow> f r w')"

definition mapErr :: "(goerr \<Rightarrow> goerr) \<Rightarrow> ('s, 'a) op \<Rightarrow> ('s, 'a) op" where
  "mapErr g m = (\<lambda>w. case m w of (Inl e, w') \<Rightarrow> (Inl (g e), w') | (Inr x, w') \<Rightarrow> (Inr x, w'))"

text \<open>\<open>_ = f()\<close>: the error is dropped.\<close>

definition ignoreE :: "('s, 'a) op \<Rightarrow> ('s, unit) op" where
  "ignoreE m = (\<lambda>w. case m w of (r, w') \<Rightarrow> (Inr (), w'))"

text \<open>A deferred call: it runs on every exit, gets the outcome, and its own result is dropped.\<close>

definition deferE :: "('s, 'a) op \<Rightarrow> (goerr + 'a \<Rightarrow> ('s, 'b) op) \<Rightarrow> ('s, 'a) op" where
  "deferE m d = (\<lambda>w. case m w of (r, w') \<Rightarrow> (r, snd (d r w')))"

text \<open>A loop over a slice that stops at the first error.\<close>

primrec foreachE :: "'a list \<Rightarrow> ('a \<Rightarrow> ('s, unit) op) \<Rightarrow> ('s, unit) op" where
  "foreachE [] f = retE ()"
| "foreachE (x # xs) f = bindE (f x) (\<lambda>_. foreachE xs f)"

text \<open>A fallible external call: the oracle decides whether it fails.\<close>

definition attemptE :: "('z env_scheme, 'a) op \<Rightarrow> ('z env_scheme, 'a) op" where
  "attemptE m = (\<lambda>w.
     let w' = w\<lparr>calls := Suc (calls w)\<rparr> in
     case fault w (calls w) of Some e \<Rightarrow> (Inl e, w') | None \<Rightarrow> m w')"

definition nowE :: "('z env_scheme, gotime) op" where
  "nowE = (\<lambda>w. (Inr (clock w (ticks w)), w\<lparr>ticks := Suc (ticks w)\<rparr>))"

text \<open>\<open>rand.Read\<close> of sixteen bytes.\<close>

definition randE :: "('z env_scheme, 8 word list) op" where
  "randE = (\<lambda>w. (entropy w (draws w), w\<lparr>draws := Suc (draws w)\<rparr>))"

definition fault_free :: "'z env_scheme \<Rightarrow> bool" where
  "fault_free w \<longleftrightarrow> (\<forall>i \<ge> calls w. fault w i = None)"

lemmas op_defs = retE_def throwE_def bindE_def tryE_def mapErr_def ignoreE_def deferE_def

lemma retE_apply [simp]: "retE x w = (Inr x, w)" by (simp add: retE_def)

lemma throwE_apply [simp]: "throwE e w = (Inl e, w)" by (simp add: throwE_def)

lemma bindE_retE [simp]: "bindE (retE x) f = f x" by (simp add: bindE_def fun_eq_iff)

lemma bindE_throwE [simp]: "bindE (throwE e) f = throwE e" by (simp add: bindE_def fun_eq_iff)

lemma bindE_Inr_iff:
  "bindE m f w = (Inr y, w') \<longleftrightarrow> (\<exists>x u. m w = (Inr x, u) \<and> f x u = (Inr y, w'))"
  by (auto simp: bindE_def split: prod.splits sum.splits)

lemma bindE_Inl_iff:
  "bindE m f w = (Inl e, w') \<longleftrightarrow>
     m w = (Inl e, w') \<or> (\<exists>x u. m w = (Inr x, u) \<and> f x u = (Inl e, w'))"
  by (auto simp: bindE_def split: prod.splits sum.splits)

lemma bindE_cases:
  assumes "bindE m f w = (r, w')"
  obtains (fail) e where "m w = (Inl e, w')" "r = Inl e" | (ok) x u where "m w = (Inr x, u)" "f x u = (r, w')"
  using assms by (auto simp: bindE_def split: prod.splits sum.splits)

lemma mapErr_iff:
  "mapErr g m w = (r, w') \<longleftrightarrow> (\<exists>r0. m w = (r0, w') \<and> r = map_sum g id r0)"
  by (auto simp: mapErr_def split: prod.splits sum.splits)

lemma case_throw_Inr:
  "(case x of Inl e \<Rightarrow> throwE (f e) | Inr b \<Rightarrow> g b) w = (Inr y, w') \<longleftrightarrow> (\<exists>b. x = Inr b \<and> g b w = (Inr y, w'))"
  by (cases x) auto

lemma option_throw_Inr:
  "(case x of None \<Rightarrow> m | Some e \<Rightarrow> throwE (f e)) w = (Inr y, w') \<longleftrightarrow> x = None \<and> m w = (Inr y, w')"
  by (cases x) auto

lemma tryE_iff: "tryE m f w = z \<longleftrightarrow> (\<exists>r u. m w = (r, u) \<and> f r u = z)"
  by (auto simp: tryE_def split: prod.splits)

lemma tryE_case_iff:
  "tryE m (case_sum f g) w = z \<longleftrightarrow>
     (\<exists>e u. m w = (Inl e, u) \<and> f e u = z) \<or> (\<exists>x u. m w = (Inr x, u) \<and> g x u = z)"
  by (auto simp: tryE_def split: prod.splits sum.splits)

lemma deferE_iff: "deferE m d w = (r, w') \<longleftrightarrow> (\<exists>u. m w = (r, u) \<and> snd (d r u) = w')"
  by (auto simp: deferE_def split: prod.splits)

lemma ignoreE_iff: "ignoreE m w = (z, w') \<longleftrightarrow> z = Inr () \<and> (\<exists>r. m w = (r, w'))"
  by (auto simp: ignoreE_def split: prod.splits)

lemma bindE_step: "m w = (Inr x, u) \<Longrightarrow> bindE m f w = f x u"
  by (simp add: bindE_def)

lemma bindE_fail: "m w = (Inl e, u) \<Longrightarrow> bindE m f w = (Inl e, u)"
  by (simp add: bindE_def)

lemma mapErr_Inr_iff [simp]: "mapErr g m w = (Inr x, w') \<longleftrightarrow> m w = (Inr x, w')"
  by (auto simp: mapErr_def split: prod.splits sum.splits)

lemma mapErr_Inl_iff: "mapErr g m w = (Inl e, w') \<longleftrightarrow> (\<exists>e'. m w = (Inl e', w') \<and> e = g e')"
  by (auto simp: mapErr_def split: prod.splits sum.splits)

lemma snd_mapErr [simp]: "snd (mapErr g m w) = snd (m w)"
  by (simp add: mapErr_def split: prod.splits sum.splits)

lemma snd_ignoreE [simp]: "snd (ignoreE m w) = snd (m w)"
  by (simp add: ignoreE_def split: prod.splits)

lemma fst_ignoreE [simp]: "fst (ignoreE m w) = Inr ()"
  by (simp add: ignoreE_def split: prod.splits)

section \<open>Relations every step keeps to\<close>

text \<open>
  A property of the effect of an operation whatever its outcome: the state after is related to the
  state before. For a preorder the property is closed under all combinators, so it is proved for
  the primitive calls and follows for the composed operations.
\<close>

definition effect_in :: "('s \<Rightarrow> 's \<Rightarrow> bool) \<Rightarrow> ('s, 'a) op \<Rightarrow> bool" where
  "effect_in R m \<longleftrightarrow> (\<forall>w. R w (snd (m w)))"

lemma effect_inD: "effect_in R m \<Longrightarrow> m w = (r, w') \<Longrightarrow> R w w'"
  by (metis effect_in_def snd_conv)

lemma effect_inI: "(\<And>w. R w (snd (m w))) \<Longrightarrow> effect_in R m"
  by (simp add: effect_in_def)

lemma effect_in_mono: "effect_in R m \<Longrightarrow> (\<And>w w'. R w w' \<Longrightarrow> S w w') \<Longrightarrow> effect_in S m"
  by (simp add: effect_in_def)

locale op_preorder =
  fixes R :: "'s \<Rightarrow> 's \<Rightarrow> bool"
  assumes R_refl: "R w w"
    and R_trans: "R u v \<Longrightarrow> R v w \<Longrightarrow> R u w"
begin

lemma effect_retE: "effect_in R (retE x)"
  by (simp add: effect_in_def R_refl)

lemma effect_throwE: "effect_in R (throwE e)"
  by (simp add: effect_in_def R_refl)

lemma effect_bindE: "effect_in R m \<Longrightarrow> (\<And>x. effect_in R (f x)) \<Longrightarrow> effect_in R (bindE m f)"
  by (auto simp: effect_in_def bindE_def split: prod.splits sum.splits) (metis R_trans snd_conv)+

lemma effect_bindE_res:
  "effect_in R m \<Longrightarrow> (\<And>w x w'. m w = (Inr x, w') \<Longrightarrow> effect_in R (f x)) \<Longrightarrow> effect_in R (bindE m f)"
  by (auto simp: effect_in_def bindE_def split: prod.splits sum.splits) (metis R_trans snd_conv)+

lemma effect_tryE: "effect_in R m \<Longrightarrow> (\<And>r. effect_in R (f r)) \<Longrightarrow> effect_in R (tryE m f)"
  by (auto simp: effect_in_def tryE_def split: prod.splits) (metis R_trans snd_conv)

lemma effect_mapErr: "effect_in R m \<Longrightarrow> effect_in R (mapErr g m)"
  by (simp add: effect_in_def)

lemma effect_ignoreE: "effect_in R m \<Longrightarrow> effect_in R (ignoreE m)"
  by (simp add: effect_in_def)

lemma effect_in_deferE: "effect_in R m \<Longrightarrow> (\<And>r. effect_in R (d r)) \<Longrightarrow> effect_in R (deferE m d)"
  by (auto simp: effect_in_def deferE_def split: prod.splits) (metis R_trans snd_conv)

lemma effect_foreachE: "(\<And>x. x \<in> set xs \<Longrightarrow> effect_in R (f x)) \<Longrightarrow> effect_in R (foreachE xs f)"
  by (induction xs) (auto intro: effect_retE effect_bindE)

lemma effect_if: "(b \<Longrightarrow> effect_in R m) \<Longrightarrow> (\<not> b \<Longrightarrow> effect_in R n) \<Longrightarrow>
    effect_in R (if b then m else n)"
  by simp

lemma effect_option:
  "(x = None \<Longrightarrow> effect_in R m) \<Longrightarrow> (\<And>y. x = Some y \<Longrightarrow> effect_in R (f y)) \<Longrightarrow>
    effect_in R (case x of None \<Rightarrow> m | Some y \<Rightarrow> f y)"
  by (cases x) auto

lemma effect_sum:
  "(\<And>e. x = Inl e \<Longrightarrow> effect_in R (g e)) \<Longrightarrow> (\<And>y. x = Inr y \<Longrightarrow> effect_in R (f y)) \<Longrightarrow>
    effect_in R (case x of Inl e \<Rightarrow> g e | Inr y \<Rightarrow> f y)"
  by (cases x) auto

lemma effect_prod:
  "(\<And>a b. x = (a, b) \<Longrightarrow> effect_in R (f a b)) \<Longrightarrow> effect_in R (case x of (a, b) \<Rightarrow> f a b)"
  by (cases x) auto

lemmas effect_intros = effect_retE effect_throwE effect_bindE effect_tryE effect_mapErr
  effect_ignoreE effect_in_deferE effect_foreachE effect_if effect_option effect_sum
  effect_prod

end

end
