(* ===== verification/Email_Model.thy ===== *)
theory Email_Model
  imports Effects
begin

text \<open>
  Package internal/email: the provider-agnostic message, the submission results and statuses that
  providers return, and the sender trace headers.
\<close>

type_synonym bytes = string

record attachment =
  Filename :: string
  ContentType :: string
  Data :: bytes

record message =
  EnvelopeFrom :: string
  HeaderFrom :: string
  ReplyTo :: "string list"
  To :: "string list"
  Subject :: string
  TextBody :: string
  HTMLBody :: string
  Attachments :: "attachment list"

definition empty_message :: message where
  "empty_message = \<lparr>EnvelopeFrom = [], HeaderFrom = [], ReplyTo = [], To = [], Subject = [],
     TextBody = [], HTMLBody = [], Attachments = []\<rparr>"

section \<open>Submissions\<close>

text \<open>The submission state is a string type in Go: any other text is \<open>SubmissionStateOther\<close>.\<close>

datatype submission_state =
    SubmissionStateRunning
  | SubmissionStateSucceeded
  | SubmissionStateFailed
  | SubmissionStateCanceled
  | SubmissionStateOther string

fun submission_state_text :: "submission_state \<Rightarrow> string" where
  "submission_state_text SubmissionStateRunning = ''running''"
| "submission_state_text SubmissionStateSucceeded = ''succeeded''"
| "submission_state_text SubmissionStateFailed = ''failed''"
| "submission_state_text SubmissionStateCanceled = ''canceled''"
| "submission_state_text (SubmissionStateOther s) = s"

record submission_failure =
  fail_Message :: string
  fail_Temporary :: bool
  fail_StatusCode :: int

record submission_result =
  res_OperationID :: string
  res_OperationLocation :: string
  res_RetryAfter :: duration
  res_State :: submission_state
  res_ProviderMessageID :: string
  res_Failure :: "submission_failure option"

record submission_status =
  st_OperationID :: string
  st_RetryAfter :: duration
  st_State :: submission_state
  st_ProviderMessageID :: string
  st_Failure :: "submission_failure option"

section \<open>Trace headers\<close>

definition TraceHeaderEnvelopeFrom :: string where
  "TraceHeaderEnvelopeFrom = ''X-SMTP-Relay-Envelope-From''"

definition TraceHeaderHeaderFrom :: string where
  "TraceHeaderHeaderFrom = ''X-SMTP-Relay-Header-From''"

definition SenderTraceHeaders :: "message \<Rightarrow> (string \<times> string) list" where
  "SenderTraceHeaders msg =
     (let e = TrimSpace (EnvelopeFrom msg); h = TrimSpace (HeaderFrom msg)
      in (if e \<noteq> [] then [(TraceHeaderEnvelopeFrom, e)] else []) @
         (if h \<noteq> [] then [(TraceHeaderHeaderFrom, h)] else []))"

text \<open>A nil map is \<open>None\<close>.\<close>

definition SenderTraceHeaderMap :: "message \<Rightarrow> (string \<rightharpoonup> string) option" where
  "SenderTraceHeaderMap msg =
     (let headers = SenderTraceHeaders msg
      in if headers = [] then None else Some (foldl (\<lambda>m (k, v). m(k \<mapsto> v)) Map.empty headers))"

lemma trace_header_names_distinct [simp]:
  "TraceHeaderEnvelopeFrom \<noteq> TraceHeaderHeaderFrom" "TraceHeaderHeaderFrom \<noteq> TraceHeaderEnvelopeFrom"
  by (simp_all add: TraceHeaderEnvelopeFrom_def TraceHeaderHeaderFrom_def)

text \<open>The map holds exactly the listed headers: no header of the list hides another.\<close>

lemma SenderTraceHeaderMap_eq:
  "(case SenderTraceHeaderMap msg of None \<Rightarrow> Map.empty | Some m \<Rightarrow> m) = map_of (SenderTraceHeaders msg)"
  by (auto simp: SenderTraceHeaderMap_def SenderTraceHeaders_def Let_def fun_eq_iff)

end
