(* ===== verification/Spool_Types.thy ===== *)
theory Spool_Types
  imports Email_Model
begin

unbundle bit_operations_syntax

text \<open>
  Data of package internal/spool (types.go) and its shared helpers (common.go): record states,
  the durable record, UUID generation and validation, and the normalisation of stored errors.
\<close>

section \<open>States and records\<close>

text \<open>The state is a string type in Go: any other text is \<open>StateOther\<close>.\<close>

datatype state =
    StateQueued
  | StateWorking
  | StateSubmitted
  | StateSucceeded
  | StateDeadLetter
  | StateOther string

definition allStates :: "state list" where
  "allStates = [StateQueued, StateWorking, StateSubmitted, StateSucceeded, StateDeadLetter]"

fun state_text :: "state \<Rightarrow> string" where
  "state_text StateQueued = ''queued''"
| "state_text StateWorking = ''working''"
| "state_text StateSubmitted = ''submitted''"
| "state_text StateSucceeded = ''succeeded''"
| "state_text StateDeadLetter = ''dead-letter''"
| "state_text (StateOther s) = s"

text \<open>The conversion \<open>State(text)\<close>.\<close>

definition State_of :: "string \<Rightarrow> state" where
  "State_of s = (case find (\<lambda>st. state_text st = s) allStates of Some st \<Rightarrow> st | None \<Rightarrow> StateOther s)"

definition isValidState :: "state \<Rightarrow> bool" where
  "isValidState st \<longleftrightarrow> list_ex (\<lambda>c. st = c) allStates"

record last_error =
  le_Message :: string
  le_Provider :: string
  le_Temporary :: bool
  le_Timestamp :: gotime

record spool_record =
  ID :: string
  Message :: message
  State :: state
  Attempt :: int
  NextAttemptAt :: gotime
  OperationID :: string
  OperationLocation :: string
  ProviderMessageID :: string
  FirstSubmittedAt :: gotime
  LastError :: "last_error option"
  CreatedAt :: gotime
  UpdatedAt :: gotime

record recovery_result =
  Requeued :: "spool_record list"
  Submitted :: "spool_record list"
  DeadLettered :: "spool_record list"
  OrphanedPayloads :: "string list"

lemma State_of_text [simp]: "isValidState st \<Longrightarrow> State_of (state_text st) = st"
  by (cases st) (simp_all add: isValidState_def allStates_def State_of_def)

lemma state_text_State_of [simp]: "state_text (State_of s) = s"
proof (cases "find (\<lambda>st. state_text st = s) allStates")
  case (Some st)
  then have "state_text st = s" by (auto simp: find_Some_iff)
  with Some show ?thesis by (simp add: State_of_def)
qed (simp add: State_of_def)

lemma isValidState_simps [simp]:
  "isValidState StateQueued" "isValidState StateWorking" "isValidState StateSubmitted"
  "isValidState StateSucceeded" "isValidState StateDeadLetter" "\<not> isValidState (StateOther s)"
  by (simp_all add: isValidState_def allStates_def)

lemma state_text_inj: "isValidState a \<Longrightarrow> isValidState b \<Longrightarrow> state_text a = state_text b \<Longrightarrow> a = b"
  by (metis State_of_text)

definition normalizeLastError :: "last_error option \<Rightarrow> gotime \<Rightarrow> last_error option" where
  "normalizeLastError lastErr fallback =
     (case lastErr of
        None \<Rightarrow> None
      | Some le \<Rightarrow>
          let cloned = le\<lparr>le_Message := TrimSpace (le_Message le), le_Provider := TrimSpace (le_Provider le)\<rparr>
          in Some (if IsZero (le_Timestamp cloned)
                   then (if \<not> IsZero fallback then cloned\<lparr>le_Timestamp := fallback\<rparr> else cloned)
                   else cloned))"

lemma normalizeLastError_None [simp]: "normalizeLastError None t = None"
  by (simp add: normalizeLastError_def)

lemma normalizeLastError_idem [simp]:
  "normalizeLastError (normalizeLastError le s) t = normalizeLastError le (if IsZero s then t else s)"
  by (cases le) (auto simp: normalizeLastError_def Let_def)

section \<open>Record identifiers\<close>

definition hex_digit :: "nat \<Rightarrow> char" where
  "hex_digit n = ''0123456789abcdef'' ! n"

definition hex_byte :: "8 word \<Rightarrow> string" where
  "hex_byte b = [hex_digit (unat (drop_bit 4 b)), hex_digit (unat (b AND 15))]"

definition hex_Encode :: "8 word list \<Rightarrow> string" where
  "hex_Encode bs = concat (map hex_byte bs)"

text \<open>The version and variant bits are set in bytes 6 and 8, then the bytes are printed.\<close>

definition uuid_of_bytes :: "8 word list \<Rightarrow> string" where
  "uuid_of_bytes b0 =
     (let b1 = b0[6 := (b0 ! 6 AND 0x0f) OR 0x40];
          b = b1[8 := (b1 ! 8 AND 0x3f) OR 0x80]
      in hex_Encode (take 4 b) @ ''-'' @ hex_Encode (take 2 (drop 4 b)) @ ''-'' @
         hex_Encode (take 2 (drop 6 b)) @ ''-'' @ hex_Encode (take 2 (drop 8 b)) @ ''-'' @
         hex_Encode (take 6 (drop 10 b)))"

definition newUUIDv4 :: "('z env_scheme, string) op" where
  "newUUIDv4 = bindE randE (\<lambda>b. retE (uuid_of_bytes b))"

definition is_lower_hex :: "char \<Rightarrow> bool" where
  "is_lower_hex c \<longleftrightarrow> \<not> ((c < CHR ''0'' \<or> c > CHR ''9'') \<and> (c < CHR ''a'' \<or> c > CHR ''f''))"

definition id_byte_ok :: "nat \<Rightarrow> char \<Rightarrow> bool" where
  "id_byte_ok i c =
     (if i \<in> {8, 13, 18, 23} then c = CHR ''-''
      else if i = 14 then c = CHR ''4''
      else if i = 19 then c = CHR ''8'' \<or> c = CHR ''9'' \<or> c = CHR ''a'' \<or> c = CHR ''b''
      else is_lower_hex c)"

definition validateCanonicalRecordID :: "string \<Rightarrow> goerr option" where
  "validateCanonicalRecordID i =
     (if i = [] then Some (Errorf ''record id cannot be empty'' [])
      else if TrimSpace i \<noteq> i then Some (Errorf ''record id %q must not have surrounding whitespace'' [i])
      else if length i \<noteq> 36 then Some (Errorf ''record id %q must be a canonical lowercase UUID'' [i])
      else if list_all (\<lambda>k. id_byte_ok k (i ! k)) [0..<length i] then None
      else Some (Errorf ''record id %q must be a canonical lowercase UUID'' [i]))"

abbreviation canonical_id :: "string \<Rightarrow> bool" where
  "canonical_id i \<equiv> validateCanonicalRecordID i = None"

lemma space_bytes_not_id: "c \<in> space_bytes \<Longrightarrow> \<not> is_lower_hex c \<and> c \<noteq> CHR ''-''"
proof -
  have "list_all (\<lambda>c. \<not> is_lower_hex c \<and> c \<noteq> CHR ''-'') (concat space_seqs)" by code_simp
  then show "c \<in> space_bytes \<Longrightarrow> \<not> is_lower_hex c \<and> c \<noteq> CHR ''-''"
    unfolding space_bytes_def list_all_iff by blast
qed

lemma id_byte_ok_char: "id_byte_ok k c \<Longrightarrow> is_lower_hex c \<or> c = CHR ''-''"
proof -
  have "is_lower_hex CHR ''4'' \<and> is_lower_hex CHR ''8'' \<and> is_lower_hex CHR ''9'' \<and>
    is_lower_hex CHR ''a'' \<and> is_lower_hex CHR ''b''" by code_simp
  then show "id_byte_ok k c \<Longrightarrow> is_lower_hex c \<or> c = CHR ''-''"
    by (auto simp: id_byte_ok_def split: if_splits)
qed

lemma id_bytes_trimmed:
  assumes "\<forall>k < length i. id_byte_ok k (i ! k)"
  shows "TrimSpace i = i"
proof (rule TrimSpace_no_space)
  have "is_lower_hex c \<or> c = CHR ''-''" if "c \<in> set i" for c
    using that assms id_byte_ok_char by (metis in_set_conv_nth)
  then show "set i \<inter> space_bytes = {}" using space_bytes_not_id by blast
qed

lemma canonical_id_iff: "canonical_id i \<longleftrightarrow> length i = 36 \<and> (\<forall>k < 36. id_byte_ok k (i ! k))"
  using id_bytes_trimmed [of i] by (auto simp: validateCanonicalRecordID_def list_all_iff)

lemma canonical_id_trim [simp]: "canonical_id i \<Longrightarrow> TrimSpace i = i"
  by (rule id_bytes_trimmed) (simp add: canonical_id_iff)

lemma canonical_id_nonempty: "canonical_id i \<Longrightarrow> i \<noteq> []"
  by (auto simp: validateCanonicalRecordID_def)

lemma hex_digit_ok: "n < 16 \<Longrightarrow> is_lower_hex (hex_digit n)"
proof -
  have "list_all (\<lambda>n. is_lower_hex (hex_digit n)) [0..<16]" by code_simp
  then show "n < 16 \<Longrightarrow> is_lower_hex (hex_digit n)" by (simp add: list_all_iff)
qed

lemma nibbles_small: "unat (drop_bit 4 (b :: 8 word)) < 16" "unat ((b :: 8 word) AND 15) < 16"
proof -
  have "unat (drop_bit 4 b) = unat b div 16"
    by (subst unat_drop_bit_eq, subst drop_bit_eq_div) simp
  moreover have "unat b < 2 ^ LENGTH(8)" by (rule unsigned_less)
  then have "unat b < 256" by simp
  ultimately show "unat (drop_bit 4 b) < 16" by (simp add: less_mult_imp_div_less)
  have "b AND 15 = take_bit 4 b" by (simp add: take_bit_eq_mask mask_numeral)
  then have "unat (b AND 15) = take_bit 4 (unat b)" by (simp only: unsigned_take_bit_eq)
  then have "unat (b AND 15) = unat b mod 2 ^ 4" by (simp only: take_bit_eq_mod)
  then show "unat (b AND 15) < 16" by simp
qed

lemma version_nibble: "drop_bit 4 (((b :: 8 word) AND 0x0f) OR 0x40) = 4"
  by (simp only: drop_bit_and drop_bit_or) simp

lemma variant_nibble:
  "hex_digit (unat (drop_bit 4 (((b :: 8 word) AND 0x3f) OR 0x80))) \<in> set ''89ab''"
proof -
  have "drop_bit 4 ((b AND 0x3f) OR 0x80) = (drop_bit 4 b AND 3) OR 8"
    by (simp only: drop_bit_and drop_bit_or) simp
  moreover have "drop_bit 4 b AND 3 = take_bit 2 (drop_bit 4 b)"
    by (simp add: take_bit_eq_mask mask_numeral)
  moreover define x where "x = take_bit 2 (drop_bit 4 b)"
  moreover have "unat x < 4" using take_bit_nat_less_exp [of 2] by (simp only: x_def unsigned_take_bit_eq) simp
  then have "unat x \<in> unat ` {0, 1, 2, 3 :: 8 word}" by auto
  then have "x \<in> {0, 1, 2, 3}" by (metis (no_types, lifting) imageE unsigned_word_eqI)
  ultimately show ?thesis by (auto simp: hex_digit_def)
qed

lemma list16_explicit:
  assumes "length (b :: 'a list) = 16"
  obtains b0 b1 b2 b3 b4 b5 b6 b7 b8 b9 b10 b11 b12 b13 b14 b15
  where "b = [b0, b1, b2, b3, b4, b5, b6, b7, b8, b9, b10, b11, b12, b13, b14, b15]"
  using assms by (auto simp: length_Suc_conv eval_nat_numeral)

lemma hex_nibbles_ok [simp]:
  "is_lower_hex (hex_digit (unat (drop_bit 4 (b :: 8 word))))"
  "is_lower_hex (hex_digit (unat ((b :: 8 word) AND 15)))"
  by (simp_all only: hex_digit_ok nibbles_small)

lemma id_bytes_enumerate:
  "list_all (\<lambda>(k, c). id_byte_ok k c) (enumerate n s) \<longleftrightarrow> (\<forall>j < length s. id_byte_ok (n + j) (s ! j))"
  by (induction s arbitrary: n) (auto simp: nth_Cons split: nat.splits)

lemma uuid_of_bytes_canonical:
  assumes "length b = 16" shows "canonical_id (uuid_of_bytes b)"
proof -
  from assms obtain b0 b1 b2 b3 b4 b5 b6 b7 b8 b9 b10 b11 b12 b13 b14 b15
    where b: "b = [b0, b1, b2, b3, b4, b5, b6, b7, b8, b9, b10, b11, b12, b13, b14, b15]"
    by (rule list16_explicit)
  define x where "x = (b6 AND 0x0f) OR 0x40"
  define y where "y = (b8 AND 0x3f) OR 0x80"
  have i: "uuid_of_bytes b = hex_Encode [b0, b1, b2, b3] @ ''-'' @ hex_Encode [b4, b5] @ ''-'' @
      hex_Encode [x, b7] @ ''-'' @ hex_Encode [y, b9] @ ''-'' @ hex_Encode [b10, b11, b12, b13, b14, b15]"
    by (simp add: b uuid_of_bytes_def x_def y_def)
  have x4: "hex_digit (unat (drop_bit 4 x)) = CHR ''4''"
    unfolding x_def version_nibble by (simp add: hex_digit_def)
  have y8: "hex_digit (unat (drop_bit 4 y)) \<in> set ''89ab''"
    unfolding y_def by (rule variant_nibble)
  have "list_all (\<lambda>(k, c). id_byte_ok k c) (enumerate 0 (uuid_of_bytes b))"
    unfolding i hex_Encode_def hex_byte_def using x4 y8
    by (simp add: id_byte_ok_def)
  moreover have "length (uuid_of_bytes b) = 36" by (simp add: i hex_Encode_def hex_byte_def)
  ultimately show ?thesis by (simp add: canonical_id_iff id_bytes_enumerate)
qed

end
