(* ===== verification/Payload_FS.thy ===== *)
theory Payload_FS
  imports Spool_Types
begin

text \<open>
  internal/spool/payload_fs.go: the directory-descriptor file operations of the spool. The file
  system is a tree of named nodes; a directory descriptor is the path of the directory it was
  opened on, which is exact as long as nothing but the relay renames directories under the spool
  root while an operation runs. Every system call may fail as the fault oracle says. Permissions
  and the durability of written blocks are not represented; \<open>fchmod\<close> and \<open>fsync\<close> are calls that
  can fail and change nothing. Closing a descriptor without looking at the result is left out.
\<close>

section \<open>The file tree\<close>

type_synonym path = "string list"

datatype node =
    File bytes
  | Dir "(string \<times> node) list"
  | Symlink
  | Special

fun lookup_path :: "node \<Rightarrow> path \<Rightarrow> node option" where
  "lookup_path t [] = Some t"
| "lookup_path (Dir es) (n # p) =
     (case map_of es n of None \<Rightarrow> None | Some c \<Rightarrow> lookup_path c p)"
| "lookup_path t (n # p) = None"

fun update_at :: "path \<Rightarrow> (node \<Rightarrow> node) \<Rightarrow> node \<Rightarrow> node" where
  "update_at [] f t = f t"
| "update_at (n # p) f (Dir es) = Dir (map (\<lambda>(m, c). (m, if m = n then update_at p f c else c)) es)"
| "update_at (n # p) f t = t"

definition set_entry :: "string \<Rightarrow> node \<Rightarrow> node \<Rightarrow> node" where
  "set_entry n c d =
     (case d of
        Dir es \<Rightarrow> Dir (if n \<in> fst ` set es then map (\<lambda>(m, x). (m, if m = n then c else x)) es
                     else es @ [(n, c)])
      | _ \<Rightarrow> d)"

definition del_entry :: "string \<Rightarrow> node \<Rightarrow> node" where
  "del_entry n d = (case d of Dir es \<Rightarrow> Dir (filter (\<lambda>(m, x). m \<noteq> n) es) | _ \<Rightarrow> d)"

fun is_Dir :: "node \<Rightarrow> bool" where
  "is_Dir (Dir es) = True"
| "is_Dir _ = False"

definition dir_at :: "node \<Rightarrow> path \<Rightarrow> bool" where
  "dir_at t p = (case lookup_path t p of Some d \<Rightarrow> is_Dir d | None \<Rightarrow> False)"

text \<open>The height of a tree bounds the depth of the recursive walks below.\<close>

fun height :: "node \<Rightarrow> nat" where
  "height (Dir es) = Suc (foldr (\<lambda>e m. max (height (snd e)) m) es 0)"
| "height _ = 0"

datatype mode = S_IFDIR | S_IFREG | S_IFLNK | S_IFOTHER

fun mode_of :: "node \<Rightarrow> mode" where
  "mode_of (Dir es) = S_IFDIR"
| "mode_of (File b) = S_IFREG"
| "mode_of Symlink = S_IFLNK"
| "mode_of Special = S_IFOTHER"

text \<open>\<open>short_write\<close> gives how many bytes a failing write leaves in the file.\<close>

record fs_world = env +
  fs :: node
  cwd :: path
  short_write :: "nat \<Rightarrow> nat"

section \<open>System calls\<close>

definition sys_mkdirat :: "path \<Rightarrow> string \<Rightarrow> ('z fs_world_scheme, unit) op" where
  "sys_mkdirat fd name = attemptE (\<lambda>w.
     case lookup_path (fs w) (fd @ [name]) of
       Some _ \<Rightarrow> (Inl (Errno EEXIST), w)
     | None \<Rightarrow> if dir_at (fs w) fd then (Inr (), w\<lparr>fs := update_at fd (set_entry name (Dir [])) (fs w)\<rparr>)
               else (Inl (Errno ENOENT), w))"

text \<open>\<open>open\<close> with \<open>O_DIRECTORY | O_NOFOLLOW\<close>, and with \<open>O_RDONLY | O_NOFOLLOW\<close>.\<close>

definition sys_open_dir :: "path \<Rightarrow> string \<Rightarrow> ('z fs_world_scheme, path) op" where
  "sys_open_dir fd name = attemptE (\<lambda>w.
     case lookup_path (fs w) (fd @ [name]) of
       None \<Rightarrow> (Inl (Errno ENOENT), w)
     | Some (Dir es) \<Rightarrow> (Inr (fd @ [name]), w)
     | Some _ \<Rightarrow> (Inl (Errno ENOTDIR), w))"

definition sys_open_read :: "path \<Rightarrow> string \<Rightarrow> ('z fs_world_scheme, path) op" where
  "sys_open_read fd name = attemptE (\<lambda>w.
     case lookup_path (fs w) (fd @ [name]) of
       None \<Rightarrow> (Inl (Errno ENOENT), w)
     | Some Symlink \<Rightarrow> (Inl (Errno ELOOP), w)
     | Some _ \<Rightarrow> (Inr (fd @ [name]), w))"

definition sys_fstat :: "path \<Rightarrow> ('z fs_world_scheme, mode) op" where
  "sys_fstat fd = attemptE (\<lambda>w.
     case lookup_path (fs w) fd of None \<Rightarrow> (Inl (Errno EIO), w) | Some n \<Rightarrow> (Inr (mode_of n), w))"

definition sys_fstatat :: "path \<Rightarrow> string \<Rightarrow> ('z fs_world_scheme, mode) op" where
  "sys_fstatat fd name = attemptE (\<lambda>w.
     case lookup_path (fs w) (fd @ [name]) of
       None \<Rightarrow> (Inl (Errno ENOENT), w)
     | Some n \<Rightarrow> (Inr (mode_of n), w))"

definition sys_create_excl :: "path \<Rightarrow> string \<Rightarrow> ('z fs_world_scheme, path) op" where
  "sys_create_excl fd name = attemptE (\<lambda>w.
     case lookup_path (fs w) (fd @ [name]) of
       Some _ \<Rightarrow> (Inl (Errno EEXIST), w)
     | None \<Rightarrow> if dir_at (fs w) fd
               then (Inr (fd @ [name]), w\<lparr>fs := update_at fd (set_entry name (File [])) (fs w)\<rparr>)
               else (Inl (Errno ENOENT), w))"

fun append_bytes :: "bytes \<Rightarrow> node \<Rightarrow> node" where
  "append_bytes b (File c) = File (c @ b)"
| "append_bytes b n = n"

definition sys_write :: "path \<Rightarrow> bytes \<Rightarrow> ('z fs_world_scheme, unit) op" where
  "sys_write fd b = (\<lambda>w.
     let w' = w\<lparr>calls := Suc (calls w)\<rparr> in
     case fault w (calls w) of
       Some e \<Rightarrow> (Inl e, w'\<lparr>fs := update_at fd (append_bytes (take (short_write w (calls w)) b)) (fs w)\<rparr>)
     | None \<Rightarrow> (Inr (), w'\<lparr>fs := update_at fd (append_bytes b) (fs w)\<rparr>))"

text \<open>Calls that can fail and leave the tree as it is: \<open>fsync\<close>, \<open>fchmod\<close>, \<open>close\<close>, \<open>dup\<close>.\<close>

definition sys_inert :: "('z fs_world_scheme, unit) op" where
  "sys_inert = attemptE (retE ())"

definition sys_read_all :: "path \<Rightarrow> ('z fs_world_scheme, bytes) op" where
  "sys_read_all fd = attemptE (\<lambda>w.
     case lookup_path (fs w) fd of
       Some (File b) \<Rightarrow> (Inr b, w)
     | Some (Dir es) \<Rightarrow> (Inl (Errno EISDIR), w)
     | _ \<Rightarrow> (Inl (Errno EIO), w))"

definition sys_readdir :: "path \<Rightarrow> ('z fs_world_scheme, string list) op" where
  "sys_readdir fd = attemptE (\<lambda>w.
     case lookup_path (fs w) fd of
       Some (Dir es) \<Rightarrow> (Inr (map fst es), w)
     | _ \<Rightarrow> (Inl (Errno ENOTDIR), w))"

definition sys_unlinkat :: "path \<Rightarrow> string \<Rightarrow> ('z fs_world_scheme, unit) op" where
  "sys_unlinkat fd name = attemptE (\<lambda>w.
     case lookup_path (fs w) (fd @ [name]) of
       None \<Rightarrow> (Inl (Errno ENOENT), w)
     | Some (Dir es) \<Rightarrow> (Inl (Errno EISDIR), w)
     | Some _ \<Rightarrow> (Inr (), w\<lparr>fs := update_at fd (del_entry name) (fs w)\<rparr>))"

definition sys_rmdirat :: "path \<Rightarrow> string \<Rightarrow> ('z fs_world_scheme, unit) op" where
  "sys_rmdirat fd name = attemptE (\<lambda>w.
     case lookup_path (fs w) (fd @ [name]) of
       None \<Rightarrow> (Inl (Errno ENOENT), w)
     | Some (Dir []) \<Rightarrow> (Inr (), w\<lparr>fs := update_at fd (del_entry name) (fs w)\<rparr>)
     | Some (Dir (e # es)) \<Rightarrow> (Inl (Errno ENOTEMPTY), w)
     | Some _ \<Rightarrow> (Inl (Errno ENOTDIR), w))"

text \<open>What \<open>rename\<close> says about an existing target; \<open>None\<close> lets it be replaced.\<close>

fun rename_conflict :: "node \<Rightarrow> node option \<Rightarrow> errno option" where
  "rename_conflict src None = None"
| "rename_conflict (Dir xs) (Some (Dir [])) = None"
| "rename_conflict (Dir xs) (Some (Dir (e # es))) = Some ENOTEMPTY"
| "rename_conflict (Dir xs) (Some tgt) = Some ENOTDIR"
| "rename_conflict src (Some (Dir es)) = Some EISDIR"
| "rename_conflict src (Some tgt) = None"

definition sys_renameat :: "path \<Rightarrow> string \<Rightarrow> path \<Rightarrow> string \<Rightarrow> ('z fs_world_scheme, unit) op" where
  "sys_renameat fd name fd' name' = attemptE (\<lambda>w.
     case lookup_path (fs w) (fd @ [name]) of
       None \<Rightarrow> (Inl (Errno ENOENT), w)
     | Some n \<Rightarrow>
         if \<not> dir_at (fs w) fd' then (Inl (Errno ENOENT), w)
         else (case rename_conflict n (lookup_path (fs w) (fd' @ [name'])) of
                 Some e \<Rightarrow> (Inl (Errno e), w)
               | None \<Rightarrow> (Inr (), w\<lparr>fs := update_at fd' (set_entry name' n)
                                     (update_at fd (del_entry name) (fs w))\<rparr>)))"

section \<open>Paths\<close>

definition filepath_Join :: "string \<Rightarrow> string \<Rightarrow> string" where
  "filepath_Join a b =
     (if a = [] then b else if last a = CHR ''/'' then a @ b else a @ ''/'' @ b)"

text \<open>\<open>filepath.Clean\<close>: the components without empty ones and dots, \<open>..\<close> cancelled where it can be.\<close>

fun clean_components :: "bool \<Rightarrow> string list \<Rightarrow> string list \<Rightarrow> string list" where
  "clean_components rooted acc [] = rev acc"
| "clean_components rooted acc (c # cs) =
     (if c = [] \<or> c = ''.'' then clean_components rooted acc cs
      else if c = ''..'' then
        (case acc of
           [] \<Rightarrow> if rooted then clean_components rooted [] cs else clean_components rooted [c] cs
         | a # as \<Rightarrow> if a = ''..'' then clean_components rooted (c # acc) cs
                    else clean_components rooted as cs)
      else clean_components rooted (c # acc) cs)"

definition filepath_IsAbs :: "string \<Rightarrow> bool" where
  "filepath_IsAbs p \<longleftrightarrow> prefix ''/'' p"

definition filepath_Clean :: "string \<Rightarrow> string" where
  "filepath_Clean p =
     (let rooted = filepath_IsAbs p; body = Join (clean_components rooted [] (Split CHR ''/'' p)) ''/''
      in if rooted then ''/'' @ body else if body = [] then ''.'' else body)"

section \<open>Opening, creating, reading and writing\<close>

definition syncFD :: "path \<Rightarrow> string \<Rightarrow> ('z fs_world_scheme, unit) op" where
  "syncFD fd p = mapErr (Wrapf ''fsync directory %s: %w'' [p]) sys_inert"

definition requireFileType :: "path \<Rightarrow> mode \<Rightarrow> ('z fs_world_scheme, unit) op" where
  "requireFileType fd expected =
     bindE (sys_fstat fd) (\<lambda>m. if m \<noteq> expected then throwE ErrUnexpectedFileType else retE ())"

definition openDirectoryAtNoFollow :: "path \<Rightarrow> string \<Rightarrow> ('z fs_world_scheme, path) op" where
  "openDirectoryAtNoFollow parentFD name =
     bindE (sys_open_dir parentFD name) (\<lambda>fd.
     bindE (requireFileType fd S_IFDIR) (\<lambda>_. retE fd))"

text \<open>The start of a walk: the root directory or the working directory.\<close>

definition openDirectoryNoFollow :: "string \<Rightarrow> ('z fs_world_scheme, path) op" where
  "openDirectoryNoFollow p =
     bindE (attemptE (\<lambda>w. (Inr (if filepath_IsAbs p then [] else cwd w), w))) (\<lambda>fd.
     bindE (requireFileType fd S_IFDIR) (\<lambda>_. retE fd))"

definition readRegularFileAtNoFollow :: "path \<Rightarrow> string \<Rightarrow> ('z fs_world_scheme, bytes) op" where
  "readRegularFileAtNoFollow parentFD name =
     bindE (sys_open_read parentFD name) (\<lambda>fd.
     bindE (requireFileType fd S_IFREG) (\<lambda>_.
     sys_read_all fd))"

definition readDirectoryEntriesFD :: "path \<Rightarrow> ('z fs_world_scheme, string list) op" where
  "readDirectoryEntriesFD fd = bindE sys_inert (\<lambda>_. sys_readdir fd)"

text \<open>The mode of an entry and whether it exists.\<close>

definition entryModeAt :: "path \<Rightarrow> string \<Rightarrow> ('z fs_world_scheme, mode \<times> bool) op" where
  "entryModeAt parentFD name =
     tryE (sys_fstatat parentFD name) (\<lambda>r.
       case r of
         Inl e \<Rightarrow> if errors_Is e (Errno ENOENT) then retE (S_IFOTHER, False) else throwE e
       | Inr m \<Rightarrow> retE (m, True))"

definition requireEntryTypeAt :: "path \<Rightarrow> string \<Rightarrow> mode \<Rightarrow> ('z fs_world_scheme, unit) op" where
  "requireEntryTypeAt parentFD name expected =
     bindE (sys_fstatat parentFD name) (\<lambda>m. if m \<noteq> expected then throwE ErrUnexpectedFileType else retE ())"

definition renameDirectoryAt :: "path \<Rightarrow> string \<Rightarrow> path \<Rightarrow> string \<Rightarrow> ('z fs_world_scheme, unit) op" where
  "renameDirectoryAt sourceFD sourceName targetFD targetName =
     bindE (requireEntryTypeAt sourceFD sourceName S_IFDIR) (\<lambda>_.
     sys_renameat sourceFD sourceName targetFD targetName)"

definition isCrossDeviceError :: "goerr \<Rightarrow> bool" where
  "isCrossDeviceError e \<longleftrightarrow> errors_Is e (Errno EXDEV)"

definition unexpectedEntryError :: "string \<Rightarrow> string \<Rightarrow> goerr" where
  "unexpectedEntryError rootPath name =
     Wrapf ''unexpected spool entry %s: %w'' [filepath_Join rootPath name] ErrUnexpectedFileType"

definition classifyRecordPathError :: "string \<Rightarrow> string \<Rightarrow> goerr \<Rightarrow> string \<Rightarrow> goerr" where
  "classifyRecordPathError rid p e missingMessage =
     (if errors_Is e (Errno ENOENT) then PayloadCorruptionError rid p (Errorf missingMessage [])
      else if errors_Is e (Errno ELOOP) then PayloadCorruptionError rid p (Errorf ''path must not be a symlink'' [])
      else if errors_Is e (Errno ENOTDIR) \<or> errors_Is e ErrUnexpectedFileType
      then PayloadCorruptionError rid p (Errorf ''unexpected file type'' [])
      else Wrapf ''read payload path %s: %w'' [p] e)"

text \<open>The tail shared by the directory-creating functions: open, chmod, sync, sync the parent.\<close>

definition settleDirectory :: "path \<Rightarrow> string \<Rightarrow> string \<Rightarrow> bool \<Rightarrow> ('z fs_world_scheme, path) op" where
  "settleDirectory parentFD parentPath name syncParent =
     (let p = filepath_Join parentPath name in
      bindE (mapErr (Wrapf ''open spool directory %s: %w'' [p]) (openDirectoryAtNoFollow parentFD name)) (\<lambda>fd.
      bindE (mapErr (Wrapf ''chmod spool directory %s: %w'' [p]) sys_inert) (\<lambda>_.
      bindE (syncFD fd p) (\<lambda>_.
      bindE (if syncParent then syncFD parentFD parentPath else retE ()) (\<lambda>_.
      retE fd)))))"

definition ensureDirectoryAt :: "path \<Rightarrow> string \<Rightarrow> string \<Rightarrow> ('z fs_world_scheme, path) op" where
  "ensureDirectoryAt parentFD parentPath name =
     tryE (sys_mkdirat parentFD name) (\<lambda>r.
       case r of
         Inl e \<Rightarrow>
           if \<not> errors_Is e (Errno EEXIST)
           then throwE (Wrapf ''create spool directory %s: %w'' [filepath_Join parentPath name] e)
           else settleDirectory parentFD parentPath name False
       | Inr _ \<Rightarrow> settleDirectory parentFD parentPath name True)"

definition createDirectoryAt :: "path \<Rightarrow> string \<Rightarrow> string \<Rightarrow> ('z fs_world_scheme, path) op" where
  "createDirectoryAt parentFD parentPath name =
     bindE (mapErr (Wrapf ''create spool directory %s: %w'' [filepath_Join parentPath name])
              (sys_mkdirat parentFD name)) (\<lambda>_.
     settleDirectory parentFD parentPath name True)"

text \<open>Up to sixteen random names; the loop of both callers below.\<close>

fun createRandomDirectoryAt ::
  "nat \<Rightarrow> string \<Rightarrow> string \<Rightarrow> path \<Rightarrow> string \<Rightarrow> string \<Rightarrow> ('z fs_world_scheme, string \<times> path) op" where
  "createRandomDirectoryAt 0 namePrefix what parentFD parentPath recordID =
     throwE (Errorf (''create '' @ what @ '' directory for %s: exhausted unique names'') [recordID])"
| "createRandomDirectoryAt (Suc k) namePrefix what parentFD parentPath recordID =
     bindE (mapErr (Wrapf (''generate '' @ what @ '' suffix for %s: %w'') [recordID]) newUUIDv4) (\<lambda>suf.
     let name = namePrefix @ recordID @ ''-'' @ suf in
     tryE (sys_mkdirat parentFD name) (\<lambda>r.
       case r of
         Inl e \<Rightarrow>
           if errors_Is e (Errno EEXIST)
           then createRandomDirectoryAt k namePrefix what parentFD parentPath recordID
           else throwE (Wrapf ''create spool directory %s: %w'' [filepath_Join parentPath name] e)
       | Inr _ \<Rightarrow>
           bindE (settleDirectory parentFD parentPath name True) (\<lambda>fd. retE (name, fd))))"

definition createStagingDirectoryAt :: "path \<Rightarrow> string \<Rightarrow> string \<Rightarrow> ('z fs_world_scheme, string \<times> path) op" where
  "createStagingDirectoryAt = createRandomDirectoryAt 16 ''.stage-'' ''staging''"

definition publishTempPrefix :: string where
  "publishTempPrefix = ''.publish-''"

definition createPublishTempDirectoryAt :: "path \<Rightarrow> string \<Rightarrow> string \<Rightarrow> ('z fs_world_scheme, string \<times> path) op" where
  "createPublishTempDirectoryAt = createRandomDirectoryAt 16 publishTempPrefix ''publish''"

fun uniqueTempName_n :: "nat \<Rightarrow> path \<Rightarrow> string \<Rightarrow> ('z fs_world_scheme, string) op" where
  "uniqueTempName_n 0 parentFD pre = throwE (Errorf ''exhausted unique temp names'' [])"
| "uniqueTempName_n (Suc k) parentFD pre =
     bindE newUUIDv4 (\<lambda>suf.
     tryE (sys_fstatat parentFD (pre @ suf)) (\<lambda>r.
       case r of
         Inr _ \<Rightarrow> uniqueTempName_n k parentFD pre
       | Inl e \<Rightarrow> if errors_Is e (Errno ENOENT) then retE (pre @ suf) else throwE e))"

definition uniqueTempName :: "path \<Rightarrow> string \<Rightarrow> ('z fs_world_scheme, string) op" where
  "uniqueTempName = uniqueTempName_n 16"

text \<open>
  Write to a temporary name, then rename. Until the rename has succeeded the temporary file is
  unlinked on every exit.
\<close>

definition writeThroughTemp :: "path \<Rightarrow> string \<Rightarrow> string \<Rightarrow> string \<Rightarrow> bytes \<Rightarrow> ('z fs_world_scheme, unit) op" where
  "writeThroughTemp parentFD parentPath tmpName name b =
     (let tmpPath = filepath_Join parentPath tmpName in
      deferE
        (bindE (mapErr (Wrapf ''create temp payload file %s: %w'' [tmpPath]) (sys_create_excl parentFD tmpName)) (\<lambda>fd.
         bindE (mapErr (Wrapf ''write payload file %s: %w'' [tmpPath]) (sys_write fd b)) (\<lambda>_.
         bindE (mapErr (Wrapf ''fsync payload file %s: %w'' [tmpPath]) sys_inert) (\<lambda>_.
         bindE (mapErr (Wrapf ''chmod payload file %s: %w'' [tmpPath]) sys_inert) (\<lambda>_.
         bindE (mapErr (Wrapf ''close payload file %s: %w'' [tmpPath]) sys_inert) (\<lambda>_.
         mapErr (Wrapf ''rename payload file %s -> %s: %w'' [tmpPath, filepath_Join parentPath name])
           (sys_renameat parentFD tmpName parentFD name)))))))
        (\<lambda>r. case r of Inl e \<Rightarrow> sys_unlinkat parentFD tmpName | Inr _ \<Rightarrow> retE ()))"

definition writeRegularFileAt :: "path \<Rightarrow> string \<Rightarrow> string \<Rightarrow> bytes \<Rightarrow> ('z fs_world_scheme, unit) op" where
  "writeRegularFileAt parentFD parentPath name b =
     bindE (mapErr (Wrapf ''create temp payload file in %s: %w'' [parentPath])
              (uniqueTempName parentFD ''.tmp-'')) (\<lambda>tmpName.
     bindE (writeThroughTemp parentFD parentPath tmpName name b) (\<lambda>_.
     syncFD parentFD parentPath))"

section \<open>Walking, removing and copying trees\<close>

fun walkComponents ::
  "bool \<Rightarrow> string \<Rightarrow> path \<Rightarrow> string \<Rightarrow> string list \<Rightarrow> ('z fs_world_scheme, path) op" where
  "walkComponents create p currentFD currentPath [] = retE currentFD"
| "walkComponents create p currentFD currentPath (component # rest) =
     (if component = [] \<or> component = ''.'' then walkComponents create p currentFD currentPath rest
      else if component = ''..'' then
        throwE (Errorf ''directory path %q must not contain parent traversal'' [p])
      else
        let nextPath = filepath_Join currentPath component;
            openNext = mapErr (Wrapf ''open spool directory %s: %w'' [nextPath])
                         (openDirectoryAtNoFollow currentFD component);
            advance = (\<lambda>nextFD.
              bindE (mapErr (Wrapf ''close spool directory %s: %w'' [currentPath]) sys_inert) (\<lambda>_.
              walkComponents create p nextFD nextPath rest))
        in if create then
             tryE (sys_mkdirat currentFD component) (\<lambda>r.
               case r of
                 Inl e \<Rightarrow>
                   if \<not> errors_Is e (Errno EEXIST)
                   then throwE (Wrapf ''create spool directory %s: %w'' [nextPath] e)
                   else bindE openNext advance
               | Inr _ \<Rightarrow>
                   bindE openNext (\<lambda>nextFD.
                   bindE (mapErr (Wrapf ''chmod spool directory %s: %w'' [nextPath]) sys_inert) (\<lambda>_.
                   bindE (syncFD nextFD nextPath) (\<lambda>_.
                   bindE (syncFD currentFD currentPath) (\<lambda>_.
                   advance nextFD)))))
           else bindE openNext advance)"

text \<open>The descriptor reached and the cleaned path.\<close>

definition walkDirectoryPathNoFollow :: "string \<Rightarrow> bool \<Rightarrow> ('z fs_world_scheme, path \<times> string) op" where
  "walkDirectoryPathNoFollow p create =
     (let cleanPath = filepath_Clean p in
      if cleanPath = [] then throwE (Errorf ''directory path cannot be empty'' [])
      else
        let startPath = (if filepath_IsAbs cleanPath then ''/'' else ''.'');
            comps = Split CHR ''/'' cleanPath;
            components = (if filepath_IsAbs cleanPath \<and> comps \<noteq> [] then tl comps else comps)
        in bindE (mapErr (Wrapf ''open spool directory %s: %w'' [startPath]) (openDirectoryNoFollow startPath)) (\<lambda>fd.
           bindE (walkComponents create p fd startPath components) (\<lambda>fd'.
           retE (fd', cleanPath))))"

definition ensureDirectoryPathNoFollow :: "string \<Rightarrow> ('z fs_world_scheme, path \<times> string) op" where
  "ensureDirectoryPathNoFollow p = walkDirectoryPathNoFollow p True"

definition openDirectoryPathNoFollow :: "string \<Rightarrow> ('z fs_world_scheme, path \<times> string) op" where
  "openDirectoryPathNoFollow p = walkDirectoryPathNoFollow p False"

text \<open>
  The recursive walks carry the depth they may still descend. The entry points start from the
  height of the file tree, which no walk exceeds: symbolic links are never followed.
\<close>

definition depth_error :: goerr where
  "depth_error = Errorf ''directory nesting exceeds the tree'' []"

fun removeEntryTree_n :: "nat \<Rightarrow> path \<Rightarrow> string \<Rightarrow> string \<Rightarrow> ('z fs_world_scheme, unit) op" where
  "removeEntryTree_n 0 parentFD parentPath name = throwE depth_error"
| "removeEntryTree_n (Suc k) parentFD parentPath name =
     (let p = filepath_Join parentPath name in
      bindE (mapErr (Wrapf ''stat spool entry %s: %w'' [p]) (entryModeAt parentFD name)) (\<lambda>(mode, exists).
      if \<not> exists then retE ()
      else if mode = S_IFDIR then
        bindE (mapErr (Wrapf ''open spool directory %s: %w'' [p]) (openDirectoryAtNoFollow parentFD name)) (\<lambda>dirFD.
        bindE (mapErr (Wrapf ''read directory %s: %w'' [p]) (readDirectoryEntriesFD dirFD)) (\<lambda>entries.
        bindE (foreachE entries (removeEntryTree_n k dirFD p)) (\<lambda>_.
        bindE (mapErr (Wrapf ''close spool directory %s: %w'' [p]) sys_inert) (\<lambda>_.
        mapErr (Wrapf ''remove spool directory %s: %w'' [p]) (sys_rmdirat parentFD name)))))
      else if mode = S_IFREG then
        mapErr (Wrapf ''remove spool file %s: %w'' [p]) (sys_unlinkat parentFD name)
      else throwE (Wrapf ''unexpected file type at %s: %w'' [p] ErrUnexpectedFileType)))"

definition removeEntryTreeAt :: "path \<Rightarrow> string \<Rightarrow> string \<Rightarrow> ('z fs_world_scheme, unit) op" where
  "removeEntryTreeAt parentFD parentPath name =
     (\<lambda>w. removeEntryTree_n (Suc (height (fs w))) parentFD parentPath name w)"

definition removeTreeContentsFD :: "path \<Rightarrow> string \<Rightarrow> ('z fs_world_scheme, unit) op" where
  "removeTreeContentsFD dirFD dirPath =
     bindE (mapErr (Wrapf ''read directory %s: %w'' [dirPath]) (readDirectoryEntriesFD dirFD)) (\<lambda>entries.
     foreachE entries (removeEntryTreeAt dirFD dirPath))"

text \<open>
  The loop body of \<open>copyDirectoryEntries\<close>, with \<open>copyDirectoryTreeAt\<close> for a directory entry: the
  target directory is created, filled by \<open>copyInto\<close>, synced, and removed again when something fails.
\<close>

definition copyEntry ::
  "(path \<Rightarrow> string \<Rightarrow> path \<Rightarrow> string \<Rightarrow> ('z fs_world_scheme, unit) op) \<Rightarrow>
   path \<Rightarrow> string \<Rightarrow> path \<Rightarrow> string \<Rightarrow> string \<Rightarrow> ('z fs_world_scheme, unit) op" where
  "copyEntry copyInto sourceFD sourcePath targetFD targetPath name =
     (let p = filepath_Join sourcePath name in
      bindE (mapErr (Wrapf ''stat spool entry %s: %w'' [p]) (entryModeAt sourceFD name)) (\<lambda>(mode, exists).
      if \<not> exists then throwE (Errorf ''spool entry disappeared during copy: %s'' [p])
      else if mode = S_IFDIR then
        bindE (createDirectoryAt targetFD targetPath name) (\<lambda>subFD.
        deferE
          (bindE (mapErr (Wrapf ''open spool directory %s: %w'' [p]) (openDirectoryAtNoFollow sourceFD name)) (\<lambda>srcFD.
           bindE (copyInto srcFD p subFD (filepath_Join targetPath name)) (\<lambda>_.
           syncFD subFD (filepath_Join targetPath name))))
          (\<lambda>r. case r of
             Inl e \<Rightarrow> bindE (ignoreE (removeEntryTreeAt targetFD targetPath name)) (\<lambda>_. syncFD targetFD targetPath)
           | Inr _ \<Rightarrow> retE ()))
      else if mode = S_IFREG then
        bindE (mapErr (Wrapf ''read spool file %s: %w'' [p]) (readRegularFileAtNoFollow sourceFD name)) (\<lambda>b.
        writeRegularFileAt targetFD targetPath name b)
      else throwE (Wrapf ''unexpected file type at %s: %w'' [p] ErrUnexpectedFileType)))"

primrec copyDirectoryEntries_n ::
  "nat \<Rightarrow> path \<Rightarrow> string \<Rightarrow> path \<Rightarrow> string \<Rightarrow> ('z fs_world_scheme, unit) op" where
  "copyDirectoryEntries_n 0 sourceFD sourcePath targetFD targetPath = throwE depth_error"
| "copyDirectoryEntries_n (Suc k) sourceFD sourcePath targetFD targetPath =
     bindE (mapErr (Wrapf ''read directory %s: %w'' [sourcePath]) (readDirectoryEntriesFD sourceFD)) (\<lambda>entries.
     foreachE entries (copyEntry (copyDirectoryEntries_n k) sourceFD sourcePath targetFD targetPath))"

definition copyDirectoryEntries :: "path \<Rightarrow> string \<Rightarrow> path \<Rightarrow> string \<Rightarrow> ('z fs_world_scheme, unit) op" where
  "copyDirectoryEntries sourceFD sourcePath targetFD targetPath =
     (\<lambda>w. copyDirectoryEntries_n (Suc (height (fs w))) sourceFD sourcePath targetFD targetPath w)"

definition copyDirectoryTreeAt ::
  "path \<Rightarrow> string \<Rightarrow> string \<Rightarrow> path \<Rightarrow> string \<Rightarrow> string \<Rightarrow> ('z fs_world_scheme, unit) op" where
  "copyDirectoryTreeAt sourceParentFD sourceParentPath sourceName targetParentFD targetParentPath targetName =
     bindE (createDirectoryAt targetParentFD targetParentPath targetName) (\<lambda>targetFD.
     let targetPath = filepath_Join targetParentPath targetName;
         sourcePath = filepath_Join sourceParentPath sourceName in
     deferE
       (bindE (mapErr (Wrapf ''open spool directory %s: %w'' [sourcePath])
                 (openDirectoryAtNoFollow sourceParentFD sourceName)) (\<lambda>sourceFD.
        bindE (copyDirectoryEntries sourceFD sourcePath targetFD targetPath) (\<lambda>_.
        syncFD targetFD targetPath)))
       (\<lambda>r. case r of
          Inl e \<Rightarrow> bindE (ignoreE (removeEntryTreeAt targetParentFD targetParentPath targetName)) (\<lambda>_.
                   syncFD targetParentFD targetParentPath)
        | Inr _ \<Rightarrow> retE ()))"

definition copyDirectoryContentsAt ::
  "path \<Rightarrow> string \<Rightarrow> string \<Rightarrow> path \<Rightarrow> string \<Rightarrow> string \<Rightarrow> ('z fs_world_scheme, unit) op" where
  "copyDirectoryContentsAt sourceParentFD sourceParentPath sourceName targetParentFD targetParentPath targetName =
     (let sourcePath = filepath_Join sourceParentPath sourceName;
          targetPath = filepath_Join targetParentPath targetName in
      bindE (mapErr (Wrapf ''open spool directory %s: %w'' [sourcePath])
               (openDirectoryAtNoFollow sourceParentFD sourceName)) (\<lambda>sourceFD.
      bindE (mapErr (Wrapf ''open spool directory %s: %w'' [targetPath])
               (openDirectoryAtNoFollow targetParentFD targetName)) (\<lambda>targetFD.
      copyDirectoryEntries sourceFD sourcePath targetFD targetPath)))"

text \<open>
  The search for a free quarantine name, \<open>name\<close>, \<open>name-1\<close>, \<open>name-2\<close> and so on. The bound is one
  more than the number of entries of the directory: the candidates are pairwise different.
\<close>

definition quarantine_candidate :: "string \<Rightarrow> nat \<Rightarrow> string" where
  "quarantine_candidate name i = (if i = 0 then name else name @ ''-'' @ show_nat i)"

fun uniqueQuarantineName_n :: "nat \<Rightarrow> nat \<Rightarrow> path \<Rightarrow> string \<Rightarrow> ('z fs_world_scheme, string) op" where
  "uniqueQuarantineName_n 0 i parentFD name = throwE depth_error"
| "uniqueQuarantineName_n (Suc k) i parentFD name =
     tryE (sys_fstatat parentFD (quarantine_candidate name i)) (\<lambda>r.
       case r of
         Inr _ \<Rightarrow> uniqueQuarantineName_n k (Suc i) parentFD name
       | Inl e \<Rightarrow> if errors_Is e (Errno ENOENT) then retE (quarantine_candidate name i) else throwE e)"

definition uniqueQuarantineNameAt :: "path \<Rightarrow> string \<Rightarrow> ('z fs_world_scheme, string) op" where
  "uniqueQuarantineNameAt parentFD name = (\<lambda>w.
     uniqueQuarantineName_n
       (Suc (case lookup_path (fs w) parentFD of Some (Dir es) \<Rightarrow> length es | _ \<Rightarrow> 0)) 0 parentFD name w)"

end
