(* ===== verification/Payload_Store.thy ===== *)
theory Payload_Store
  imports Payload_FS
begin

text \<open>
  internal/spool/payload_store.go: message payloads on disk. A payload is staged under
  \<open>staging/\<close>, filled with its attachments and a JSON manifest, and published into \<open>payloads/\<close> by one
  rename, or by a copy to a temporary directory and a rename when the two are on different devices.

  The digest and the JSON codec are arguments (record \<open>libs\<close>).
\<close>

section \<open>Manifests\<close>

record attachment_ref =
  ref_Filename :: string
  ref_ContentType :: string
  ref_Path :: string
  ref_SizeBytes :: int
  ref_SHA256 :: string

record manifest =
  mf_EnvelopeFrom :: string
  mf_HeaderFrom :: string
  mf_ReplyTo :: "string list"
  mf_To :: "string list"
  mf_Subject :: string
  mf_TextBody :: string
  mf_HTMLBody :: string
  mf_Attachments :: "attachment_ref list"

record libs =
  sha256_Sum256 :: "bytes \<Rightarrow> 8 word list"
  json_Marshal :: "manifest \<Rightarrow> goerr + bytes"
  json_Unmarshal :: "bytes \<Rightarrow> goerr + manifest"

definition hex_value :: "char \<Rightarrow> (8 word) option" where
  "hex_value c =
     (if CHR ''0'' \<le> c \<and> c \<le> CHR ''9'' then Some (of_char c - 48)
      else if CHR ''a'' \<le> c \<and> c \<le> CHR ''f'' then Some (of_char c - 87)
      else if CHR ''A'' \<le> c \<and> c \<le> CHR ''F'' then Some (of_char c - 55)
      else None)"

fun hex_DecodeString :: "string \<Rightarrow> 8 word list option" where
  "hex_DecodeString [] = Some []"
| "hex_DecodeString [c] = None"
| "hex_DecodeString (c # d # cs) =
     (case (hex_value c, hex_value d, hex_DecodeString cs) of
        (Some x, Some y, Some bs) \<Rightarrow> Some ((16 * x + y) # bs)
      | _ \<Rightarrow> None)"

definition payloadsDirName :: string where "payloadsDirName = ''payloads''"
definition payloadOrphansDirName :: string where "payloadOrphansDirName = ''payload-orphans''"
definition stagingDirName :: string where "stagingDirName = ''staging''"
definition messageFileName :: string where "messageFileName = ''message.json''"
definition attachmentsDirName :: string where "attachmentsDirName = ''attachments''"

definition attachmentFileName :: "nat \<Rightarrow> string" where
  "attachmentFileName i = show_nat i @ ''.bin''"

definition attachmentRelPath :: "nat \<Rightarrow> string" where
  "attachmentRelPath i = filepath_Join attachmentsDirName (attachmentFileName i)"

definition validateAttachmentRef :: "nat \<Rightarrow> attachment_ref \<Rightarrow> goerr + string" where
  "validateAttachmentRef index ref =
     (if TrimSpace (ref_Path ref) \<noteq> attachmentRelPath index
      then Inl (Errorf ''attachment path must be %q'' [attachmentRelPath index])
      else if ref_SizeBytes ref < 0 then Inl (Errorf ''attachment size must be non-negative'' [])
      else (case hex_DecodeString (TrimSpace (ref_SHA256 ref)) of
              Some digest \<Rightarrow> if length digest \<noteq> 32
                          then Inl (Errorf ''attachment sha256 must be a 32-byte hex digest'' [])
                          else Inr (attachmentFileName index)
            | None \<Rightarrow> Inl (Errorf ''attachment sha256 must be a 32-byte hex digest'' [])))"

definition attachmentRefFor :: "libs \<Rightarrow> nat \<Rightarrow> attachment \<Rightarrow> attachment_ref" where
  "attachmentRefFor lib i a =
     \<lparr>ref_Filename = Filename a, ref_ContentType = ContentType a, ref_Path = attachmentRelPath i,
      ref_SizeBytes = int (length (Data a)), ref_SHA256 = hex_Encode (sha256_Sum256 lib (Data a))\<rparr>"

definition manifestFor :: "message \<Rightarrow> attachment_ref list \<Rightarrow> manifest" where
  "manifestFor msg refs =
     \<lparr>mf_EnvelopeFrom = TrimSpace (EnvelopeFrom msg), mf_HeaderFrom = TrimSpace (HeaderFrom msg),
      mf_ReplyTo = ReplyTo msg, mf_To = To msg, mf_Subject = Subject msg, mf_TextBody = TextBody msg,
      mf_HTMLBody = HTMLBody msg, mf_Attachments = refs\<rparr>"

section \<open>The store\<close>

record payload_store =
  ps_root :: string
  ps_payloadsRoot :: string
  ps_orphanRoot :: string
  ps_stagingRoot :: string

definition payloadDir :: "payload_store \<Rightarrow> string \<Rightarrow> string" where
  "payloadDir ps rid = filepath_Join (ps_payloadsRoot ps) rid"

text \<open>A spool directory opened by name under the root.\<close>

definition openRoot :: "payload_store \<Rightarrow> ('z fs_world_scheme, path) op" where
  "openRoot ps =
     bindE (mapErr (Wrapf ''open spool root %s: %w'' [ps_root ps]) (openDirectoryPathNoFollow (ps_root ps)))
       (\<lambda>(fd, _). retE fd)"

definition openPayloads :: "payload_store \<Rightarrow> path \<Rightarrow> ('z fs_world_scheme, path) op" where
  "openPayloads ps rootFD =
     mapErr (Wrapf ''open payload root %s: %w'' [ps_payloadsRoot ps]) (openDirectoryAtNoFollow rootFD payloadsDirName)"

definition cleanupPayloadTemps :: "payload_store \<Rightarrow> path \<Rightarrow> ('z fs_world_scheme, unit) op" where
  "cleanupPayloadTemps ps payloadsFD =
     bindE (mapErr (Wrapf ''read payload root %s: %w'' [ps_payloadsRoot ps]) (readDirectoryEntriesFD payloadsFD)) (\<lambda>entries.
     let temps = filter (prefix publishTempPrefix) entries in
     bindE (foreachE temps (\<lambda>name.
        mapErr (Wrapf ''clean payload publish temp %s: %w'' [filepath_Join (ps_payloadsRoot ps) name])
          (removeEntryTreeAt payloadsFD (ps_payloadsRoot ps) name))) (\<lambda>_.
     if temps \<noteq> [] then syncFD payloadsFD (ps_payloadsRoot ps) else retE ()))"

definition NewPayloadStore :: "string \<Rightarrow> ('z fs_world_scheme, payload_store) op" where
  "NewPayloadStore root0 =
     (let root = TrimSpace root0 in
      if root = [] then throwE (Errorf ''spool root cannot be empty'' [])
      else
        bindE (mapErr (Wrapf ''ensure spool root %s: %w'' [root]) (ensureDirectoryPathNoFollow root)) (\<lambda>(rootFD, cleanRoot).
        let ps = \<lparr>ps_root = cleanRoot, ps_payloadsRoot = filepath_Join cleanRoot payloadsDirName,
                  ps_orphanRoot = filepath_Join cleanRoot payloadOrphansDirName,
                  ps_stagingRoot = filepath_Join cleanRoot stagingDirName\<rparr> in
        bindE (ensureDirectoryAt rootFD cleanRoot payloadsDirName) (\<lambda>payloadsFD.
        bindE (ensureDirectoryAt rootFD cleanRoot payloadOrphansDirName) (\<lambda>orphanFD.
        bindE (ensureDirectoryAt rootFD cleanRoot stagingDirName) (\<lambda>stagingFD.
        bindE (mapErr (Wrapf ''clean staging root %s: %w'' [ps_stagingRoot ps])
                 (removeTreeContentsFD stagingFD (ps_stagingRoot ps))) (\<lambda>_.
        bindE (syncFD stagingFD (ps_stagingRoot ps)) (\<lambda>_.
        bindE (cleanupPayloadTemps ps payloadsFD) (\<lambda>_.
        retE ps))))))))"

section \<open>Saving\<close>

text \<open>The attachment loop: writes \<open>i.bin\<close> and collects the manifest references.\<close>

fun saveAttachments ::
  "libs \<Rightarrow> path \<Rightarrow> string \<Rightarrow> nat \<Rightarrow> attachment list \<Rightarrow> ('z fs_world_scheme, attachment_ref list) op" where
  "saveAttachments lib fd p i [] = retE []"
| "saveAttachments lib fd p i (a # as) =
     bindE (writeRegularFileAt fd p (attachmentFileName i) (Data a)) (\<lambda>_.
     bindE (saveAttachments lib fd p (Suc i) as) (\<lambda>refs.
     retE (attachmentRefFor lib i a # refs)))"

definition stageAttachments :: "libs \<Rightarrow> path \<Rightarrow> string \<Rightarrow> attachment list \<Rightarrow> ('z fs_world_scheme, attachment_ref list) op" where
  "stageAttachments lib stageFD stagePath as =
     (if as \<noteq> [] then
        bindE (createDirectoryAt stageFD stagePath attachmentsDirName) (\<lambda>attachmentsFD.
        let attachmentsPath = filepath_Join stagePath attachmentsDirName in
        bindE (saveAttachments lib attachmentsFD attachmentsPath 0 as) (\<lambda>refs.
        bindE (syncFD attachmentsFD attachmentsPath) (\<lambda>_.
        bindE (mapErr (Wrapf ''close file descriptor: %w'' []) sys_inert) (\<lambda>_.
        retE refs))))
      else retE [])"

definition stagePayload :: "libs \<Rightarrow> string \<Rightarrow> path \<Rightarrow> string \<Rightarrow> message \<Rightarrow> ('z fs_world_scheme, unit) op" where
  "stagePayload lib rid stageFD stagePath msg =
     bindE (stageAttachments lib stageFD stagePath (Attachments msg)) (\<lambda>refs.
     case json_Marshal lib (manifestFor msg refs) of
       Inl e \<Rightarrow> throwE (Wrapf ''marshal payload manifest %q: %w'' [rid] e)
     | Inr b \<Rightarrow>
         bindE (writeRegularFileAt stageFD stagePath messageFileName b) (\<lambda>_.
         syncFD stageFD stagePath))"

text \<open>
  Publication across devices. The temporary directory is removed on every exit but success; on
  success the staged copy goes.
\<close>

definition publishViaPayloadTemp :: "payload_store \<Rightarrow> path \<Rightarrow> string \<Rightarrow> path \<Rightarrow> string \<Rightarrow> ('z fs_world_scheme, unit) op" where
  "publishViaPayloadTemp ps stagingFD stageName payloadsFD rid =
     bindE (createPublishTempDirectoryAt payloadsFD (ps_payloadsRoot ps) rid) (\<lambda>(tempName, tempFD).
     bindE (deferE
        (bindE (copyDirectoryContentsAt stagingFD (filepath_Join (ps_stagingRoot ps) stageName) stageName
                  payloadsFD (filepath_Join (ps_payloadsRoot ps) tempName) tempName) (\<lambda>_.
         bindE (renameDirectoryAt payloadsFD tempName payloadsFD rid) (\<lambda>_.
         syncFD payloadsFD (ps_payloadsRoot ps))))
        (\<lambda>r. case r of
           Inl e \<Rightarrow> bindE (ignoreE (removeEntryTreeAt payloadsFD (ps_payloadsRoot ps) tempName)) (\<lambda>_.
                    syncFD payloadsFD (ps_payloadsRoot ps))
         | Inr _ \<Rightarrow> retE ())) (\<lambda>_.
     bindE (ignoreE (removeEntryTreeAt stagingFD (ps_stagingRoot ps) stageName)) (\<lambda>_.
     ignoreE (syncFD stagingFD (ps_stagingRoot ps)))))"

definition publishPayload :: "payload_store \<Rightarrow> path \<Rightarrow> string \<Rightarrow> path \<Rightarrow> string \<Rightarrow> ('z fs_world_scheme, unit) op" where
  "publishPayload ps stagingFD stageName payloadsFD rid =
     (let wrap = Wrapf ''publish payload %s -> %s: %w''
                   [filepath_Join (ps_stagingRoot ps) stageName, payloadDir ps rid] in
      tryE (renameDirectoryAt stagingFD stageName payloadsFD rid) (\<lambda>r.
        case r of
          Inl e \<Rightarrow>
            if \<not> isCrossDeviceError e then throwE (wrap e)
            else mapErr wrap (publishViaPayloadTemp ps stagingFD stageName payloadsFD rid)
        | Inr _ \<Rightarrow>
            bindE (syncFD payloadsFD (ps_payloadsRoot ps)) (\<lambda>_.
            syncFD stagingFD (ps_stagingRoot ps))))"

text \<open>The deferred cleanup of \<open>Save\<close>: the staged directory goes unless the save has succeeded.\<close>

definition discardStage :: "payload_store \<Rightarrow> path \<Rightarrow> string \<Rightarrow> goerr + unit \<Rightarrow> ('z fs_world_scheme, unit) op" where
  "discardStage ps stagingFD stageName r =
     (case r of
        Inl e \<Rightarrow> bindE (ignoreE (removeEntryTreeAt stagingFD (ps_stagingRoot ps) stageName)) (\<lambda>_.
                 syncFD stagingFD (ps_stagingRoot ps))
      | Inr _ \<Rightarrow> retE ())"

definition stageAndPublish :: "libs \<Rightarrow> payload_store \<Rightarrow> path \<Rightarrow> path \<Rightarrow> string \<Rightarrow> message \<Rightarrow> ('z fs_world_scheme, unit) op" where
  "stageAndPublish lib ps payloadsFD stagingFD rid msg =
     bindE (createStagingDirectoryAt stagingFD (ps_stagingRoot ps) rid) (\<lambda>(stageName, stageFD).
     deferE
       (bindE (stagePayload lib rid stageFD (filepath_Join (ps_stagingRoot ps) stageName) msg) (\<lambda>_.
        publishPayload ps stagingFD stageName payloadsFD rid))
       (discardStage ps stagingFD stageName))"

definition openStaging :: "payload_store \<Rightarrow> path \<Rightarrow> ('z fs_world_scheme, path) op" where
  "openStaging ps rootFD =
     mapErr (Wrapf ''open staging root %s: %w'' [ps_stagingRoot ps]) (openDirectoryAtNoFollow rootFD stagingDirName)"

definition Save :: "libs \<Rightarrow> payload_store \<Rightarrow> string \<Rightarrow> message \<Rightarrow> ('z fs_world_scheme, unit) op" where
  "Save lib ps rid0 msg =
     (let rid = TrimSpace rid0 in
      case validateCanonicalRecordID rid of
        Some e \<Rightarrow> throwE e
      | None \<Rightarrow>
          bindE (openRoot ps) (\<lambda>rootFD.
          bindE (openPayloads ps rootFD) (\<lambda>payloadsFD.
          bindE (openStaging ps rootFD) (\<lambda>stagingFD.
          bindE (mapErr (Wrapf ''stat payload target %s: %w'' [payloadDir ps rid])
                   (entryModeAt payloadsFD rid)) (\<lambda>(mode, exists).
          if exists then
            (if mode \<noteq> S_IFDIR then throwE (unexpectedEntryError (ps_payloadsRoot ps) rid)
             else throwE (Errorf ''payload already exists: %s'' [payloadDir ps rid]))
          else stageAndPublish lib ps payloadsFD stagingFD rid msg)))))"

section \<open>Loading\<close>

fun loadAttachments ::
  "libs \<Rightarrow> string \<Rightarrow> string \<Rightarrow> path \<Rightarrow> nat \<Rightarrow> attachment_ref list \<Rightarrow> ('z fs_world_scheme, attachment list) op" where
  "loadAttachments lib rid dirPath fd i [] = retE []"
| "loadAttachments lib rid dirPath fd i (ref # refs) =
     (case validateAttachmentRef i ref of
        Inl e \<Rightarrow> throwE (PayloadCorruptionError rid (filepath_Join dirPath messageFileName) e)
      | Inr fileName \<Rightarrow>
          let fullPath = filepath_Join (filepath_Join dirPath attachmentsDirName) fileName in
          bindE (mapErr (\<lambda>e. classifyRecordPathError rid fullPath e ''attachment file is missing'')
                   (readRegularFileAtNoFollow fd fileName)) (\<lambda>b.
          if int (length b) \<noteq> ref_SizeBytes ref
          then throwE (PayloadCorruptionError rid fullPath (Errorf ''attachment size mismatch'' []))
          else if \<not> EqualFold (hex_Encode (sha256_Sum256 lib b)) (TrimSpace (ref_SHA256 ref))
          then throwE (PayloadCorruptionError rid fullPath (Errorf ''attachment sha256 mismatch'' []))
          else
            bindE (loadAttachments lib rid dirPath fd (Suc i) refs) (\<lambda>as.
            retE (\<lparr>Filename = ref_Filename ref, ContentType = ref_ContentType ref, Data = b\<rparr> # as))))"

definition messageFor :: "manifest \<Rightarrow> attachment list \<Rightarrow> message" where
  "messageFor mf as =
     \<lparr>EnvelopeFrom = TrimSpace (mf_EnvelopeFrom mf), HeaderFrom = TrimSpace (mf_HeaderFrom mf),
      ReplyTo = mf_ReplyTo mf, To = mf_To mf, Subject = mf_Subject mf, TextBody = mf_TextBody mf,
      HTMLBody = mf_HTMLBody mf, Attachments = as\<rparr>"

definition openAttachments :: "string \<Rightarrow> string \<Rightarrow> path \<Rightarrow> attachment_ref list \<Rightarrow> ('z fs_world_scheme, path) op" where
  "openAttachments rid dirPath dirFD refs =
     (if refs \<noteq> []
      then mapErr (\<lambda>e. classifyRecordPathError rid (filepath_Join dirPath attachmentsDirName) e
                     ''attachments directory is missing'')
             (openDirectoryAtNoFollow dirFD attachmentsDirName)
      else retE [])"

definition Load :: "libs \<Rightarrow> payload_store \<Rightarrow> string \<Rightarrow> ('z fs_world_scheme, message) op" where
  "Load lib ps rid0 =
     (let rid = TrimSpace rid0; dirPath = payloadDir ps rid; manifestPath = filepath_Join dirPath messageFileName in
      case validateCanonicalRecordID rid of
        Some e \<Rightarrow> throwE e
      | None \<Rightarrow>
          bindE (openRoot ps) (\<lambda>rootFD.
          bindE (openPayloads ps rootFD) (\<lambda>payloadsFD.
          bindE (mapErr (\<lambda>e. classifyRecordPathError rid dirPath e ''payload directory is missing'')
                   (openDirectoryAtNoFollow payloadsFD rid)) (\<lambda>dirFD.
          bindE (mapErr (\<lambda>e. classifyRecordPathError rid manifestPath e ''payload manifest is missing'')
                   (readRegularFileAtNoFollow dirFD messageFileName)) (\<lambda>b.
          case json_Unmarshal lib b of
            Inl e \<Rightarrow> throwE (PayloadCorruptionError rid manifestPath (Wrapf ''decode payload manifest: %w'' [] e))
          | Inr mf \<Rightarrow>
              bindE (openAttachments rid dirPath dirFD (mf_Attachments mf)) (\<lambda>attachmentsFD.
              bindE (loadAttachments lib rid dirPath attachmentsFD 0 (mf_Attachments mf)) (\<lambda>as.
              retE (messageFor mf as))))))))"

section \<open>Removing and quarantining\<close>

definition Remove :: "payload_store \<Rightarrow> string \<Rightarrow> ('z fs_world_scheme, unit) op" where
  "Remove ps rid0 =
     (let rid = TrimSpace rid0 in
      case validateCanonicalRecordID rid of
        Some e \<Rightarrow> throwE e
      | None \<Rightarrow>
          bindE (openRoot ps) (\<lambda>rootFD.
          bindE (openPayloads ps rootFD) (\<lambda>payloadsFD.
          bindE (removeEntryTreeAt payloadsFD (ps_payloadsRoot ps) rid) (\<lambda>_.
          syncFD payloadsFD (ps_payloadsRoot ps)))))"

definition copyAndRemoveOrphan :: "payload_store \<Rightarrow> path \<Rightarrow> string \<Rightarrow> path \<Rightarrow> string \<Rightarrow> ('z fs_world_scheme, unit) op" where
  "copyAndRemoveOrphan ps payloadsFD sourceName orphanFD targetName =
     bindE (copyDirectoryTreeAt payloadsFD (ps_payloadsRoot ps) sourceName orphanFD (ps_orphanRoot ps) targetName) (\<lambda>_.
     tryE (removeEntryTreeAt payloadsFD (ps_payloadsRoot ps) sourceName) (\<lambda>r.
       case r of
         Inl e \<Rightarrow> bindE (ignoreE (removeEntryTreeAt orphanFD (ps_orphanRoot ps) targetName)) (\<lambda>_.
                  bindE (ignoreE (syncFD orphanFD (ps_orphanRoot ps))) (\<lambda>_. throwE e))
       | Inr _ \<Rightarrow> retE ()))"

definition quarantineEntry :: "payload_store \<Rightarrow> path \<Rightarrow> path \<Rightarrow> string \<Rightarrow> ('z fs_world_scheme, string) op" where
  "quarantineEntry ps payloadsFD orphanFD name =
     (let p = filepath_Join (ps_payloadsRoot ps) name in
      bindE (mapErr (Wrapf ''select quarantine name for %s: %w'' [p]) (uniqueQuarantineNameAt orphanFD name)) (\<lambda>targetName.
      let wrap = Wrapf ''move orphan payload %s -> %s: %w'' [p, filepath_Join (ps_orphanRoot ps) targetName] in
      bindE (tryE (renameDirectoryAt payloadsFD name orphanFD targetName) (\<lambda>r.
               case r of
                 Inl e \<Rightarrow>
                   if \<not> isCrossDeviceError e then throwE (wrap e)
                   else mapErr wrap (copyAndRemoveOrphan ps payloadsFD name orphanFD targetName)
               | Inr _ \<Rightarrow> retE ())) (\<lambda>_.
      bindE (syncFD payloadsFD (ps_payloadsRoot ps)) (\<lambda>_.
      bindE (syncFD orphanFD (ps_orphanRoot ps)) (\<lambda>_.
      retE (filepath_Join (ps_orphanRoot ps) targetName))))))"

text \<open>The scan of \<open>payloads/\<close>; the names found before an error are dropped, as the caller drops them.\<close>

fun quarantineEntries ::
  "payload_store \<Rightarrow> string list \<Rightarrow> path \<Rightarrow> path \<Rightarrow> string list \<Rightarrow> ('z fs_world_scheme, string list) op" where
  "quarantineEntries ps validIDs payloadsFD orphanFD [] = retE []"
| "quarantineEntries ps validIDs payloadsFD orphanFD (name # rest) =
     (let p = filepath_Join (ps_payloadsRoot ps) name in
      case validateCanonicalRecordID name of
        Some e \<Rightarrow> throwE (Wrapf ''invalid payload entry %s: %w'' [p] e)
      | None \<Rightarrow>
          bindE (mapErr (Wrapf ''stat payload entry %s: %w'' [p]) (entryModeAt payloadsFD name)) (\<lambda>(mode, exists).
          if \<not> exists then throwE (Errorf ''payload entry disappeared during orphan scan: %s'' [p])
          else if mode \<noteq> S_IFDIR then throwE (unexpectedEntryError (ps_payloadsRoot ps) name)
          else if name \<in> set validIDs then quarantineEntries ps validIDs payloadsFD orphanFD rest
          else
            bindE (quarantineEntry ps payloadsFD orphanFD name) (\<lambda>q.
            bindE (quarantineEntries ps validIDs payloadsFD orphanFD rest) (\<lambda>qs.
            retE (q # qs)))))"

definition QuarantineOrphans :: "payload_store \<Rightarrow> string list \<Rightarrow> ('z fs_world_scheme, string list) op" where
  "QuarantineOrphans ps validIDs =
     bindE (openRoot ps) (\<lambda>rootFD.
     bindE (openPayloads ps rootFD) (\<lambda>payloadsFD.
     bindE (mapErr (Wrapf ''open orphan root %s: %w'' [ps_orphanRoot ps])
              (openDirectoryAtNoFollow rootFD payloadOrphansDirName)) (\<lambda>orphanFD.
     bindE (mapErr (Wrapf ''read payload root %s: %w'' [ps_payloadsRoot ps]) (readDirectoryEntriesFD payloadsFD)) (\<lambda>entries.
     quarantineEntries ps validIDs payloadsFD orphanFD entries))))"

end
