(* ===== verification/Payload_FS_Laws.thy ===== *)
theory Payload_FS_Laws
  imports Payload_FS
begin

text \<open>
  Laws of the file operations: how a lookup reads an updated tree, which part of the tree an
  operation can touch whatever its outcome (relation \<open>touch\<close>), what the tree is after an operation
  that succeeded, and that the depth bounds of the recursive walks are never the reason to stop.
\<close>

named_theorems tree_simps
named_theorems touch_intros

section \<open>Well-formed trees\<close>

text \<open>No directory lists a name twice.\<close>

fun wf_node :: "node \<Rightarrow> bool" where
  "wf_node (Dir es) \<longleftrightarrow> distinct (map fst es) \<and> list_all (\<lambda>e. wf_node (snd e)) es"
| "wf_node _ \<longleftrightarrow> True"

lemma map_of_map_key:
  "map_of (map (\<lambda>(m, c). (m, if m = n then g c else c)) es) k =
     map_option (\<lambda>c. if k = n then g c else c) (map_of es k)"
  by (induction es) auto

lemma map_of_filter_key: "map_of (filter (\<lambda>(m, x). m \<noteq> n) es) k = (if k = n then None else map_of es k)"
  by (induction es) auto

lemma map_fst_key: "map fst (map (\<lambda>(m, c). (m, if m = n then g c else c)) es) = map fst es"
  by (induction es) auto

lemma lookup_path_append [tree_simps]:
  "lookup_path t (p @ q) = (case lookup_path t p of None \<Rightarrow> None | Some c \<Rightarrow> lookup_path c q)"
  by (induction t p rule: lookup_path.induct) (auto split: option.splits)

lemma update_at_append: "update_at (p @ q) f t = update_at p (update_at q f) t"
  by (induction p f t arbitrary: q rule: update_at.induct) (auto simp: fun_eq_iff)

lemma update_at_update: "update_at p g (update_at p f t) = update_at p (\<lambda>d. g (f d)) t"
  by (induction p f t rule: update_at.induct) (auto simp: case_prod_beta)

lemma update_at_id: "update_at p (\<lambda>d. d) t = t"
  by (induction p "\<lambda>d :: node. d" t rule: update_at.induct) (auto simp: case_prod_beta intro: map_idI)

lemma lookup_update_same [tree_simps]: "lookup_path (update_at p f t) p = map_option f (lookup_path t p)"
  by (induction p f t rule: update_at.induct)
    (auto simp: map_of_map_key split: option.splits dest: map_of_SomeD)

lemma lookup_update_below [tree_simps]:
  "lookup_path (update_at p f t) (p @ q) = (case lookup_path t p of None \<Rightarrow> None | Some c \<Rightarrow> lookup_path (f c) q)"
  by (simp add: lookup_path_append lookup_update_same split: option.splits)

lemma lookup_update_above [tree_simps]:
  "lookup_path (update_at (p @ q) f t) p = map_option (update_at q f) (lookup_path t p)"
  by (simp add: update_at_append lookup_update_same)

lemma lookup_update_disjoint [tree_simps]:
  "\<not> prefix p q \<Longrightarrow> \<not> prefix q p \<Longrightarrow> lookup_path (update_at p f t) q = lookup_path t q"
proof (induction p f t arbitrary: q rule: update_at.induct)
  case (2 n p f es)
  then show ?case by (cases q) (auto simp: map_of_map_key split: option.splits dest: map_of_SomeD)
qed simp_all

lemma wf_lookup: "wf_node t \<Longrightarrow> lookup_path t p = Some d \<Longrightarrow> wf_node d"
  by (induction t p rule: lookup_path.induct)
    (auto split: option.splits simp: list_all_iff dest!: map_of_SomeD)

lemma update_at_cong:
  assumes "wf_node t" "\<And>d. lookup_path t p = Some d \<Longrightarrow> f d = g d"
  shows "update_at p f t = update_at p g t"
  using assms
proof (induction p f t rule: update_at.induct)
  case (2 n p f es)
  have "(if m = n then update_at p f c else c) = (if m = n then update_at p g c else c)"
    if "(m, c) \<in> set es" for m c
  proof (cases "m = n")
    case True
    then have "map_of es n = Some c" using that 2(2) by simp
    with 2 that True show ?thesis by (fastforce simp: list_all_iff)
  qed simp
  then show ?case by auto
qed auto

lemma update_at_noop:
  "wf_node t \<Longrightarrow> (\<And>d. lookup_path t p = Some d \<Longrightarrow> f d = d) \<Longrightarrow> update_at p f t = t"
  using update_at_cong [of t p f "\<lambda>d. d"] by (simp add: update_at_id)

lemma wf_update_at: "wf_node t \<Longrightarrow> (\<And>d. wf_node d \<Longrightarrow> wf_node (f d)) \<Longrightarrow> wf_node (update_at p f t)"
proof (induction p f t rule: update_at.induct)
  case (2 n p f es)
  then show ?case by (auto simp: map_fst_key list_all_iff simp del: map_map)
qed auto

lemma lookup_set_entry [tree_simps]:
  "lookup_path (set_entry n c (Dir es)) (m # q) = (if m = n then lookup_path c q else lookup_path (Dir es) (m # q))"
  by (auto simp: set_entry_def map_of_map_key map_of_eq_None_iff map_add_def split: option.splits)
    (force dest: map_of_SomeD)+

lemma lookup_del_entry [tree_simps]:
  "lookup_path (del_entry n (Dir es)) (m # q) = (if m = n then None else lookup_path (Dir es) (m # q))"
  by (simp add: del_entry_def map_of_filter_key)

lemma wf_set_entry: "wf_node c \<Longrightarrow> wf_node d \<Longrightarrow> wf_node (set_entry n c d)"
  by (cases d) (auto simp: set_entry_def list_all_iff map_fst_key simp del: map_map)

lemma wf_del_entry: "wf_node d \<Longrightarrow> wf_node (del_entry n d)"
  by (cases d) (auto simp: del_entry_def list_all_iff case_prod_beta distinct_map_filter)

lemma dir_atE: assumes "dir_at t p" obtains es where "lookup_path t p = Some (Dir es)"
  using assms by (auto simp: dir_at_def split: option.splits elim: is_Dir.elims)

lemma dir_at_iff: "dir_at t p \<longleftrightarrow> (\<exists>es. lookup_path t p = Some (Dir es))"
  by (auto elim: dir_atE) (simp add: dir_at_def)

lemma dir_at_parent: "lookup_path t (p @ [n]) = Some c \<Longrightarrow> dir_at t p"
  by (cases "lookup_path t p") (auto simp: tree_simps dir_at_def elim: lookup_path.elims split: option.splits)

section \<open>What an operation can touch\<close>

text \<open>The oracles, the clock and the rest of the world are as before; counters only grow.\<close>

definition env_step :: "'z fs_world_scheme \<Rightarrow> 'z fs_world_scheme \<Rightarrow> bool" where
  "env_step w w' \<longleftrightarrow>
     clock w' = clock w \<and> ticks w' = ticks w \<and> fault w' = fault w \<and> calls w \<le> calls w' \<and>
     entropy w' = entropy w \<and> draws w \<le> draws w' \<and> cwd w' = cwd w \<and> short_write w' = short_write w \<and>
     fs_world.more w' = fs_world.more w"

text \<open>A change of a directory that leaves the entries outside \<open>P\<close> as they are, in their order.\<close>

definition entry_change :: "(string \<Rightarrow> bool) \<Rightarrow> (node \<Rightarrow> node) \<Rightarrow> bool" where
  "entry_change P f \<longleftrightarrow>
     (\<forall>d. \<not> is_Dir d \<longrightarrow> f d = d) \<and>
     (\<forall>es. \<exists>es'. f (Dir es) = Dir es' \<and>
        filter (\<lambda>e. \<not> P (fst e)) es' = filter (\<lambda>e. \<not> P (fst e)) es)"

text \<open>\<open>touch fd P\<close>: nothing changed but entries of the directory \<open>fd\<close> whose name is in \<open>P\<close>.\<close>

definition touch :: "path \<Rightarrow> (string \<Rightarrow> bool) \<Rightarrow> 'z fs_world_scheme \<Rightarrow> 'z fs_world_scheme \<Rightarrow> bool" where
  "touch fd P w w' \<longleftrightarrow>
     env_step w w' \<and> (wf_node (fs w) \<longrightarrow> wf_node (fs w')) \<and>
     (\<exists>f. fs w' = update_at fd f (fs w) \<and> entry_change P f)"

abbreviation only :: "string \<Rightarrow> string \<Rightarrow> bool" where
  "only n \<equiv> \<lambda>m. m = n"

abbreviation quiet :: "'z fs_world_scheme \<Rightarrow> 'z fs_world_scheme \<Rightarrow> bool" where
  "quiet \<equiv> touch [] (\<lambda>_. False)"

lemma env_step_refl: "env_step w w"
  by (simp add: env_step_def)

lemma env_step_trans: "env_step u v \<Longrightarrow> env_step v w \<Longrightarrow> env_step u w"
  by (auto simp: env_step_def)

lemma entry_change_id: "entry_change P (\<lambda>d. d)"
  by (simp add: entry_change_def)

lemma entry_change_comp:
  assumes f: "entry_change P f" and g: "entry_change P g" shows "entry_change P (\<lambda>d. g (f d))"
  unfolding entry_change_def
proof (intro conjI allI impI)
  fix es
  from f obtain es' where f': "f (Dir es) = Dir es'"
    "filter (\<lambda>e. \<not> P (fst e)) es' = filter (\<lambda>e. \<not> P (fst e)) es"
    unfolding entry_change_def by blast
  from g obtain es2 where "g (Dir es') = Dir es2"
    "filter (\<lambda>e. \<not> P (fst e)) es2 = filter (\<lambda>e. \<not> P (fst e)) es'"
    unfolding entry_change_def by blast
  with f' show "\<exists>es'. g (f (Dir es)) = Dir es' \<and> filter (\<lambda>e. \<not> P (fst e)) es' = filter (\<lambda>e. \<not> P (fst e)) es"
    by auto
qed (use f g in \<open>auto simp: entry_change_def\<close>)

lemma entry_change_mono:
  assumes "entry_change P f" "\<And>n. P n \<Longrightarrow> Q n" shows "entry_change Q f"
proof -
  have *: "filter (\<lambda>e. \<not> Q (fst e)) xs = filter (\<lambda>e. \<not> Q (fst e)) (filter (\<lambda>e. \<not> P (fst e)) xs)" for xs
    using assms(2) by (auto intro: filter_cong)
  show ?thesis using assms(1) unfolding entry_change_def by (metis *)
qed

lemma entry_change_sub: "entry_change (only n) (update_at [n] f)"
proof -
  have "filter (\<lambda>e. fst e \<noteq> n) (map (\<lambda>(m, c). (m, if m = n then g c else c)) es) = filter (\<lambda>e. fst e \<noteq> n) es" for g es
    by (induction es) auto
  then show ?thesis by (auto simp: entry_change_def elim: is_Dir.elims)
qed

lemma entry_change_False: "entry_change (\<lambda>_. False) f \<Longrightarrow> f = (\<lambda>d. d)"
  by (auto simp: entry_change_def fun_eq_iff) (metis is_Dir.elims(2))

lemma entry_change_set:
  assumes "P n" shows "entry_change P (set_entry n c)"
proof -
  from assms have "filter (\<lambda>e. \<not> P (fst e)) (map (\<lambda>(m, x). (m, if m = n then c else x)) es) = filter (\<lambda>e. \<not> P (fst e)) es" for es
    by (induction es) auto
  with assms show ?thesis
    by (simp add: entry_change_def set_entry_def split: node.splits)
qed

lemma entry_change_del:
  assumes "P n" shows "entry_change P (del_entry n)"
proof -
  from assms have "filter (\<lambda>e. \<not> P (fst e)) (filter (\<lambda>(m, x). m \<noteq> n) es) = filter (\<lambda>e. \<not> P (fst e)) es"
    for es :: "(string \<times> node) list"
    by (induction es) auto
  then show ?thesis
    by (simp add: entry_change_def del_entry_def split: node.splits del: filter_filter)
qed

lemma touch_refl: "touch fd P w w"
  unfolding touch_def using env_step_refl entry_change_id update_at_id by metis

lemma touch_trans: "touch fd P u v \<Longrightarrow> touch fd P v w \<Longrightarrow> touch fd P u w"
  unfolding touch_def using env_step_trans entry_change_comp update_at_update by metis

lemma touch_mono: "touch fd P w w' \<Longrightarrow> (\<And>n. P n \<Longrightarrow> Q n) \<Longrightarrow> touch fd Q w w'"
  unfolding touch_def using entry_change_mono by blast

lemma touch_parent: "touch (fd @ [n]) P w w' \<Longrightarrow> touch fd (only n) w w'"
  unfolding touch_def by (metis update_at_append entry_change_sub)

lemma quiet_iff: "touch fd (\<lambda>_. False) w w' \<longleftrightarrow> env_step w w' \<and> fs w' = fs w"
  unfolding touch_def using entry_change_False entry_change_id update_at_id by metis

lemma quiet_touch: "quiet w w' \<Longrightarrow> touch fd P w w'"
  unfolding quiet_iff touch_def using entry_change_id update_at_id by metis

interpretation touch: op_preorder "touch fd P" for fd P
  by unfold_locales (fact touch_refl, rule touch_trans)

lemmas effect_in_quiet = effect_in_mono [of quiet, OF _ quiet_touch]

subsection \<open>What is read after a change\<close>

lemma map_of_filter_outside: "\<not> P n \<Longrightarrow> map_of (filter (\<lambda>e. \<not> P (fst e)) es) n = map_of es n"
  by (induction es) auto

lemma entry_change_lookup:
  assumes "entry_change P f" "\<not> P n" shows "lookup_path (f d) (n # q) = lookup_path d (n # q)"
proof (cases "is_Dir d")
  case True
  then obtain es where d: "d = Dir es" by (cases d) auto
  from assms(1) obtain es' where f: "f (Dir es) = Dir es'"
    "filter (\<lambda>e. \<not> P (fst e)) es' = filter (\<lambda>e. \<not> P (fst e)) es"
    unfolding entry_change_def by blast
  have "map_of es' n = map_of es n"
    using map_of_filter_outside [of P n es, OF assms(2)] map_of_filter_outside [of P n es', OF assms(2)] f(2) by simp
  with f d show ?thesis by simp
qed (use assms in \<open>simp add: entry_change_def\<close>)

lemma touch_lookup_other: "touch fd P w w' \<Longrightarrow> \<not> P n \<Longrightarrow> lookup_path (fs w') (fd @ n # q) = lookup_path (fs w) (fd @ n # q)"
  by (auto simp: touch_def lookup_update_same lookup_path_append entry_change_lookup split: option.splits)

lemma touch_lookup_apart: "touch fd P w w' \<Longrightarrow> \<not> prefix fd q \<Longrightarrow> \<not> prefix q fd \<Longrightarrow> lookup_path (fs w') q = lookup_path (fs w) q"
  by (auto simp: touch_def lookup_update_disjoint)

lemma touch_dir: "touch fd P w w' \<Longrightarrow> lookup_path (fs w) fd = Some (Dir es) \<Longrightarrow> \<exists>es'. lookup_path (fs w') fd = Some (Dir es')"
  by (auto simp: touch_def lookup_update_same entry_change_def) blast+

lemma dir_at_update:
  assumes f: "entry_change P f" and d: "dir_at t p" and out: "\<And>n r. p = fd @ n # r \<Longrightarrow> \<not> P n"
  shows "dir_at (update_at fd f t) p"
proof -
  obtain es where es: "lookup_path t p = Some (Dir es)" using d by (rule dir_atE)
  consider "p = fd" | n r where "p = fd @ n # r" | n r where "fd = p @ n # r" | "\<not> prefix fd p" "\<not> prefix p fd"
    by (metis append.right_neutral list.exhaust prefixE)
  then show ?thesis
  proof cases
    case 1
    then show ?thesis using f es unfolding dir_at_iff entry_change_def by (simp add: lookup_update_same) blast
  next
    case 2
    then have "lookup_path (update_at fd f t) p = lookup_path t p"
      using out f by (simp add: lookup_path_append lookup_update_same entry_change_lookup split: option.splits)
    then show ?thesis using es by (simp add: dir_at_iff)
  next
    case 3
    then show ?thesis using es by (simp add: dir_at_iff lookup_update_above)
  qed (use es in \<open>simp_all add: dir_at_iff lookup_update_disjoint\<close>)
qed

lemma touch_dir_at:
  "touch fd P w w' \<Longrightarrow> dir_at (fs w) p \<Longrightarrow> (\<And>n r. p = fd @ n # r \<Longrightarrow> \<not> P n) \<Longrightarrow> dir_at (fs w') p"
  unfolding touch_def using dir_at_update by metis

lemma touch_wf: "touch fd P w w' \<Longrightarrow> wf_node (fs w) \<Longrightarrow> wf_node (fs w')"
  by (simp add: touch_def)

lemma touch_env: "touch fd P w w' \<Longrightarrow> env_step w w'"
  by (simp add: touch_def)

section \<open>The system calls\<close>

lemma quiet_calls: "quiet w (w\<lparr>calls := Suc (calls w)\<rparr>)"
  by (simp add: quiet_iff env_step_def)

lemma touch_attemptE:
  assumes "effect_in (touch fd P) m" shows "effect_in (touch fd P) (attemptE m)"
proof (rule effect_inI)
  fix w :: "'a fs_world_scheme"
  have c: "touch fd P w (w\<lparr>calls := Suc (calls w)\<rparr>)" by (rule quiet_touch [OF quiet_calls])
  with assms have "touch fd P w (snd (m (w\<lparr>calls := Suc (calls w)\<rparr>)))"
    by (metis touch_trans effect_in_def)
  with c show "touch fd P w (snd (attemptE m w))"
    by (simp add: attemptE_def Let_def split: option.splits)
qed

lemma touch_update:
  "entry_change P f \<Longrightarrow> (\<And>d. wf_node d \<Longrightarrow> wf_node (f d)) \<Longrightarrow> touch fd P w (w\<lparr>fs := update_at fd f (fs w)\<rparr>)"
  by (auto simp: touch_def env_step_def wf_update_at)

lemma quiet_attemptE: "(\<And>w. snd (m w) = w) \<Longrightarrow> effect_in quiet (attemptE m)"
  by (rule touch_attemptE) (simp add: effect_in_def touch_refl)

lemma quiet_syscalls:
  "effect_in quiet (sys_open_dir fd n)" "effect_in quiet (sys_open_read fd n)"
  "effect_in quiet (sys_fstat fd)" "effect_in quiet (sys_fstatat fd n)"
  "effect_in quiet (sys_read_all fd)" "effect_in quiet (sys_readdir fd)" "effect_in quiet sys_inert"
  unfolding sys_open_dir_def sys_open_read_def sys_fstat_def sys_fstatat_def sys_read_all_def
    sys_readdir_def sys_inert_def
  by (rule quiet_attemptE, simp split: option.splits node.splits)+

lemma touch_mkdirat [touch_intros]: "P n \<Longrightarrow> effect_in (touch fd P) (sys_mkdirat fd n)"
  unfolding sys_mkdirat_def
  by (intro touch_attemptE effect_inI)
    (simp add: touch_refl touch_update entry_change_set wf_set_entry split: option.splits)

lemma touch_create_excl [touch_intros]: "P n \<Longrightarrow> effect_in (touch fd P) (sys_create_excl fd n)"
  unfolding sys_create_excl_def
  by (intro touch_attemptE effect_inI)
    (simp add: touch_refl touch_update entry_change_set wf_set_entry split: option.splits)

lemma touch_unlinkat [touch_intros]: "P n \<Longrightarrow> effect_in (touch fd P) (sys_unlinkat fd n)"
  unfolding sys_unlinkat_def
  by (intro touch_attemptE effect_inI)
    (simp add: touch_refl touch_update entry_change_del wf_del_entry split: option.splits node.splits)

lemma touch_rmdirat [touch_intros]: "P n \<Longrightarrow> effect_in (touch fd P) (sys_rmdirat fd n)"
  unfolding sys_rmdirat_def
  by (intro touch_attemptE effect_inI)
    (simp add: touch_refl touch_update entry_change_del wf_del_entry split: option.splits node.splits list.splits)

lemma wf_append_bytes: "wf_node d \<Longrightarrow> wf_node (append_bytes b d)"
  by (cases d) auto

lemma touch_write [touch_intros]: "P n \<Longrightarrow> effect_in (touch fd P) (sys_write (fd @ [n]) b)"
proof (rule effect_inI)
  fix w :: "'a fs_world_scheme" assume "P n"
  then have "entry_change P (update_at [n] (append_bytes c))" for c
    by (auto intro: entry_change_mono entry_change_sub)
  then show "touch fd P w (snd (sys_write (fd @ [n]) b w))"
    by (auto simp: sys_write_def Let_def touch_def env_step_def update_at_append wf_update_at
      wf_append_bytes split: option.splits)
qed

lemma wf_rename:
  assumes "wf_node t" "lookup_path t p = Some c"
  shows "wf_node (update_at q (set_entry m c) (update_at p' (del_entry n) t))"
  using assms by (intro wf_update_at wf_set_entry wf_del_entry) (auto intro: wf_lookup)

lemma touch_rename_here [touch_intros]:
  assumes "P n" "P m" shows "effect_in (touch fd P) (sys_renameat fd n fd m)"
  unfolding sys_renameat_def
proof (intro touch_attemptE effect_inI)
  fix w :: "'a fs_world_scheme"
  have "touch fd P w (w\<lparr>fs := update_at fd (set_entry m c) (update_at fd (del_entry n) (fs w))\<rparr>)"
    if "lookup_path (fs w) (fd @ [n]) = Some c" for c
    using entry_change_comp [OF entry_change_del [of P n] entry_change_set [of P m c]] assms that
    by (auto simp: touch_def env_step_def update_at_update
        intro: wf_rename [where q = fd and p' = fd, unfolded update_at_update])
  then show "touch fd P w (snd (case lookup_path (fs w) (fd @ [n]) of
      None \<Rightarrow> (Inl (Errno ENOENT), w)
    | Some c \<Rightarrow> if \<not> dir_at (fs w) fd then (Inl (Errno ENOENT), w)
        else (case rename_conflict c (lookup_path (fs w) (fd @ [m])) of
                None \<Rightarrow> (Inr (), w\<lparr>fs := update_at fd (set_entry m c) (update_at fd (del_entry n) (fs w))\<rparr>)
              | Some e \<Rightarrow> (Inl (Errno e), w))))"
    by (auto simp: touch_refl split: option.splits)
qed

section \<open>The composed operations\<close>

lemmas touch_syscalls [touch_intros] = quiet_syscalls [THEN effect_in_quiet]

lemma touch_newUUIDv4 [touch_intros]: "effect_in (touch fd P) newUUIDv4"
  unfolding newUUIDv4_def
  by (rule effect_inI, rule quiet_touch)
    (auto simp: bindE_def mapErr_def randE_def quiet_iff env_step_def split: sum.splits)

lemma touch_syncFD [touch_intros]: "effect_in (touch fd P) (syncFD d p)"
  unfolding syncFD_def by (intro touch.effect_intros touch_intros)

lemma touch_requireFileType [touch_intros]: "effect_in (touch fd P) (requireFileType d m)"
  unfolding requireFileType_def by (intro touch.effect_intros touch_intros)

lemma touch_openDirectoryAtNoFollow [touch_intros]: "effect_in (touch fd P) (openDirectoryAtNoFollow d n)"
  unfolding openDirectoryAtNoFollow_def by (intro touch.effect_intros touch_intros)

lemma touch_openDirectoryNoFollow [touch_intros]: "effect_in (touch fd P) (openDirectoryNoFollow p)"
  unfolding openDirectoryNoFollow_def
  by (intro touch.effect_intros touch_intros quiet_attemptE [THEN effect_in_quiet]) simp

lemma touch_readRegularFileAtNoFollow [touch_intros]: "effect_in (touch fd P) (readRegularFileAtNoFollow d n)"
  unfolding readRegularFileAtNoFollow_def by (intro touch.effect_intros touch_intros)

lemma touch_readDirectoryEntriesFD [touch_intros]: "effect_in (touch fd P) (readDirectoryEntriesFD d)"
  unfolding readDirectoryEntriesFD_def by (intro touch.effect_intros touch_intros)

lemma touch_entryModeAt [touch_intros]: "effect_in (touch fd P) (entryModeAt d n)"
  unfolding entryModeAt_def by (intro touch.effect_intros touch_intros)

lemma touch_requireEntryTypeAt [touch_intros]: "effect_in (touch fd P) (requireEntryTypeAt d n m)"
  unfolding requireEntryTypeAt_def by (intro touch.effect_intros touch_intros)

lemma touch_settleDirectory [touch_intros]: "effect_in (touch fd P) (settleDirectory d p n b)"
  unfolding settleDirectory_def Let_def by (intro touch.effect_intros touch_intros)

lemma touch_ensureDirectoryAt [touch_intros]: "P n \<Longrightarrow> effect_in (touch fd P) (ensureDirectoryAt fd p n)"
  unfolding ensureDirectoryAt_def by (intro touch.effect_intros touch_intros)

lemma touch_createDirectoryAt [touch_intros]: "P n \<Longrightarrow> effect_in (touch fd P) (createDirectoryAt fd p n)"
  unfolding createDirectoryAt_def by (intro touch.effect_intros touch_intros)

lemma touch_createRandomDirectoryAt:
  "(\<And>s. P (pre @ rid @ ''-'' @ s)) \<Longrightarrow> effect_in (touch fd P) (createRandomDirectoryAt k pre what fd p rid)"
  by (induction k) (auto simp: Let_def intro!: touch.effect_intros touch_intros)

lemma touch_uniqueTempName [touch_intros]: "effect_in (touch fd P) (uniqueTempName d pre)"
proof -
  have "effect_in (touch fd P) (uniqueTempName_n k d pre)" for k
    by (induction k) (auto intro!: touch.effect_intros touch_intros simp del: throwE_apply)
  then show ?thesis by (simp add: uniqueTempName_def)
qed

lemma touch_renameDirectoryAt [touch_intros]:
  "P n \<Longrightarrow> P m \<Longrightarrow> effect_in (touch fd P) (renameDirectoryAt fd n fd m)"
  unfolding renameDirectoryAt_def by (intro touch.effect_intros touch_intros)

subsection \<open>Results of successful calls\<close>

lemma attemptE_Inr: "attemptE m w = (Inr x, w') \<longleftrightarrow> fault w (calls w) = None \<and> m (w\<lparr>calls := Suc (calls w)\<rparr>) = (Inr x, w')"
  by (auto simp: attemptE_def Let_def split: option.splits)

lemma sys_create_excl_Inr:
  assumes "sys_create_excl fd n w = (Inr x, w')"
  shows "x = fd @ [n]" "lookup_path (fs w) (fd @ [n]) = None" "dir_at (fs w) fd"
    "fs w' = update_at fd (set_entry n (File [])) (fs w)"
  using assms by (auto simp: sys_create_excl_def attemptE_Inr split: option.splits if_splits)

lemma sys_mkdirat_Inr:
  assumes "sys_mkdirat fd n w = (Inr x, w')"
  shows "lookup_path (fs w) (fd @ [n]) = None" "dir_at (fs w) fd"
    "fs w' = update_at fd (set_entry n (Dir [])) (fs w)"
  using assms by (auto simp: sys_mkdirat_def attemptE_Inr split: option.splits if_splits)

lemma sys_mkdirat_spec:
  "sys_mkdirat fd n w = (Inr x, w') \<Longrightarrow>
     lookup_path (fs w) (fd @ [n]) = None \<and> dir_at (fs w) fd \<and>
     fs w' = update_at fd (set_entry n (Dir [])) (fs w)"
  by (simp add: sys_mkdirat_Inr)

lemma openDirectoryAtNoFollow_Inr:
  assumes "openDirectoryAtNoFollow fd n w = (Inr x, w')"
  shows "x = fd @ [n]" "dir_at (fs w) (fd @ [n])" "fs w' = fs w"
proof -
  show "x = fd @ [n]" "dir_at (fs w) (fd @ [n])" using assms
    by (auto simp: openDirectoryAtNoFollow_def bindE_Inr_iff sys_open_dir_def attemptE_Inr dir_at_iff
      split: option.splits node.splits)
  show "fs w' = fs w"
    using effect_inD [OF touch_openDirectoryAtNoFollow assms, of "[]" "\<lambda>_. False"] by (simp add: quiet_iff)
qed

lemma openDirectoryAtNoFollow_spec:
  "openDirectoryAtNoFollow fd n w = (Inr x, w') \<Longrightarrow> x = fd @ [n] \<and> dir_at (fs w) (fd @ [n]) \<and> fs w' = fs w"
  by (simp add: openDirectoryAtNoFollow_Inr)

lemma uniqueTempName_Inr: "uniqueTempName fd pre w = (Inr x, w') \<Longrightarrow> prefix pre x"
proof -
  have "uniqueTempName_n k fd pre w = (Inr x, w') \<Longrightarrow> prefix pre x" for k
    by (induction k arbitrary: w)
      (auto simp: bindE_Inr_iff tryE_case_iff split: if_splits)
  then show "uniqueTempName fd pre w = (Inr x, w') \<Longrightarrow> prefix pre x" by (simp add: uniqueTempName_def)
qed

lemma createRandomDirectoryAt_name:
  "createRandomDirectoryAt k pre what fd p rid w = (Inr (n, d), w') \<Longrightarrow> prefix (pre @ rid) n \<and> d = fd @ [n]"
proof (induction k arbitrary: w)
  case (Suc k)
  then show ?case
    by (auto simp: bindE_Inr_iff tryE_case_iff Let_def settleDirectory_def dest: openDirectoryAtNoFollow_Inr
      split: if_splits)
qed simp

subsection \<open>Writing, removing, copying\<close>

lemma touch_writeThroughTemp:
  assumes "P t" "P n" shows "effect_in (touch fd P) (writeThroughTemp fd p t n b)"
  unfolding writeThroughTemp_def Let_def using assms
  by (intro touch.effect_bindE touch.effect_in_deferE touch.effect_sum touch_intros touch.effect_retE
      touch.effect_bindE_res [where m = "mapErr _ (sys_create_excl fd t)"] touch.effect_mapErr)
    (auto dest!: sys_create_excl_Inr(1) intro: touch_write)

lemma touch_writeRegularFileAt:
  assumes "P n" "\<And>t. prefix ''.tmp-'' t \<Longrightarrow> P t"
  shows "effect_in (touch fd P) (writeRegularFileAt fd p n b)"
  unfolding writeRegularFileAt_def
  by (intro touch.effect_bindE_res [where m = "mapErr _ (uniqueTempName fd _)"] touch.effect_intros touch_intros
      touch_writeThroughTemp)
    (auto dest!: uniqueTempName_Inr intro: assms)

lemma effect_in_parent: "effect_in (touch (fd @ [n]) Q) m \<Longrightarrow> P n \<Longrightarrow> effect_in (touch fd P) m"
  by (erule effect_in_mono, drule touch_parent, erule touch_mono) simp

lemma touch_removeEntryTree_n:
  "effect_in (touch fd (only n)) (removeEntryTree_n k fd p n :: ('z fs_world_scheme, unit) op)"
proof (induction k arbitrary: fd p n)
  case (Suc k)
  have *: "effect_in (touch fd (only n)) (foreachE es (removeEntryTree_n k d q :: _ \<Rightarrow> ('z fs_world_scheme, unit) op))" if "d = fd @ [n]" for es d q
    unfolding that
    by (rule effect_in_parent [where Q = "\<lambda>_. True"], rule touch.effect_foreachE,
        rule effect_in_mono [OF Suc], erule touch_mono) simp_all
  show ?case
    unfolding removeEntryTree_n.simps Let_def
    by (intro touch.effect_prod touch.effect_bindE_res [where m = "mapErr _ (openDirectoryAtNoFollow _ _)"]
        touch.effect_intros touch_intros *)
      (auto dest!: openDirectoryAtNoFollow_Inr(1))
qed (simp add: touch.effect_throwE del: throwE_apply)

lemma effect_in_apply: "(\<And>k. effect_in R (m k)) \<Longrightarrow> effect_in R (\<lambda>w. m (f w) w)"
  by (simp add: effect_in_def)

lemma touch_removeEntryTreeAt [touch_intros]: "P n \<Longrightarrow> effect_in (touch fd P) (removeEntryTreeAt fd p n)"
  unfolding removeEntryTreeAt_def
  by (rule effect_in_apply, rule effect_in_mono [OF touch_removeEntryTree_n], erule touch_mono) simp

lemma touch_removeTreeContentsFD [touch_intros]: "effect_in (touch fd (\<lambda>_. True)) (removeTreeContentsFD fd p)"
  unfolding removeTreeContentsFD_def by (intro touch.effect_intros touch_intros) simp

abbreviation anywhere :: "string \<Rightarrow> bool" where
  "anywhere \<equiv> \<lambda>_. True"

lemma createDirectoryAt_fd: "createDirectoryAt fd p n w = (Inr d, w') \<Longrightarrow> d = fd @ [n]"
  by (auto simp: createDirectoryAt_def settleDirectory_def Let_def bindE_Inr_iff dest: openDirectoryAtNoFollow_Inr)

lemma touch_copyDirectoryEntries_n:
  "effect_in (touch tfd anywhere) (copyDirectoryEntries_n k sfd sp tfd tp :: ('z fs_world_scheme, unit) op)"
proof (induction k arbitrary: sfd sp tfd tp)
  case (Suc k)
  have *: "effect_in (touch tfd anywhere) (copyDirectoryEntries_n k s q d r :: ('z fs_world_scheme, unit) op)" if "d = tfd @ [n]" for n s q d r
    unfolding that by (rule effect_in_parent [OF Suc]) simp
  show ?case
    unfolding copyDirectoryEntries_n.simps copyEntry_def Let_def
    by (intro touch.effect_prod touch.effect_bindE_res [where m = "createDirectoryAt _ _ _"]
        touch.effect_intros touch_intros touch_writeRegularFileAt *)
      (auto dest: createDirectoryAt_fd)
qed (simp add: touch.effect_throwE del: throwE_apply)

lemma touch_copyDirectoryEntries [touch_intros]:
  "effect_in (touch tfd anywhere) (copyDirectoryEntries sfd sp tfd tp)"
  unfolding copyDirectoryEntries_def by (rule effect_in_apply, rule touch_copyDirectoryEntries_n)

lemma touch_copyDirectoryTreeAt [touch_intros]:
  assumes "P tn" shows "effect_in (touch tfd P) (copyDirectoryTreeAt sfd sp sn tfd tp tn)"
proof -
  have *: "effect_in (touch tfd P) (copyDirectoryEntries s q d r)" if "d = tfd @ [tn]" for s q d r
    unfolding that using assms by (rule effect_in_parent [OF touch_copyDirectoryEntries])
  show ?thesis
    unfolding copyDirectoryTreeAt_def Let_def
    by (intro touch.effect_bindE_res [where m = "createDirectoryAt _ _ _"] touch.effect_intros touch_intros *)
      (auto dest: createDirectoryAt_fd intro: assms)
qed

lemma touch_copyDirectoryContentsAt [touch_intros]:
  assumes "P tn" shows "effect_in (touch tfd P) (copyDirectoryContentsAt sfd sp sn tfd tp tn)"
proof -
  have *: "effect_in (touch tfd P) (copyDirectoryEntries s q d r)" if "d = tfd @ [tn]" for s q d r
    unfolding that using assms by (rule effect_in_parent [OF touch_copyDirectoryEntries])
  show ?thesis
    unfolding copyDirectoryContentsAt_def Let_def
    by (intro touch.effect_bindE_res [where m = "mapErr _ (openDirectoryAtNoFollow _ _)"] touch.effect_intros
        touch_intros *)
      (auto dest: openDirectoryAtNoFollow_Inr(1) intro: assms)
qed

lemma touch_walkComponents [touch_intros]: "effect_in (touch fd P) (walkComponents False p d q cs)"
  by (induction cs arbitrary: d q) (auto simp: Let_def simp del: throwE_apply retE_apply intro!: touch.effect_intros touch_intros)

lemma touch_openDirectoryPathNoFollow [touch_intros]: "effect_in (touch fd P) (openDirectoryPathNoFollow p)"
  unfolding openDirectoryPathNoFollow_def walkDirectoryPathNoFollow_def Let_def
  by (intro touch.effect_intros touch_intros)

lemma touch_uniqueQuarantineNameAt [touch_intros]: "effect_in (touch fd P) (uniqueQuarantineNameAt d n)"
proof -
  have "effect_in (touch fd P) (uniqueQuarantineName_n k i d n)" for k i
    by (induction k arbitrary: i)
      (auto simp del: throwE_apply retE_apply intro!: touch.effect_intros touch_intros)
  then show ?thesis unfolding uniqueQuarantineNameAt_def by (rule effect_in_apply)
qed

section \<open>The tree after a successful operation\<close>

lemma quiet_result:
  assumes "m w = (r, w')" "effect_in (touch [] (\<lambda>_. False)) m" shows "fs w' = fs w" "cwd w' = cwd w" "env_step w w'"
  using effect_inD [OF assms(2,1)] by (auto simp: quiet_iff env_step_def)

lemmas quiet_fs = quiet_result(1) [OF _ touch_syncFD] quiet_result(1) [OF _ touch_entryModeAt]
  quiet_result(1) [OF _ touch_openDirectoryAtNoFollow] quiet_result(1) [OF _ touch_settleDirectory]
  quiet_result(1) [OF _ touch_uniqueTempName] quiet_result(1) [OF _ touch_newUUIDv4]
  quiet_result(1) [OF _ touch_readRegularFileAtNoFollow] quiet_result(1) [OF _ touch_readDirectoryEntriesFD]
  quiet_result(1) [OF _ touch_requireEntryTypeAt] quiet_result(1) [OF _ quiet_syscalls(7)]

lemma sys_mkdirat_Inl: "sys_mkdirat fd n w = (Inl e, w') \<Longrightarrow> fs w' = fs w"
  by (auto simp: sys_mkdirat_def attemptE_def Let_def split: option.splits if_splits)

lemma map_key_idle: "t \<notin> fst ` set es \<Longrightarrow> map (\<lambda>(m, c). (m, if m = t then g c else c)) es = es"
  by (induction es) auto

lemma filter_key_idle: "t \<notin> fst ` set es \<Longrightarrow> filter (\<lambda>(m, x). m \<noteq> t) es = es"
  by (induction es) auto

lemma temp_entry_gone:
  "t \<notin> fst ` set es \<Longrightarrow> del_entry t (update_at [t] f (set_entry t c (Dir es))) = Dir es"
  by (simp add: del_entry_def set_entry_def map_key_idle filter_key_idle)

lemma fresh_entry: "lookup_path t p = Some (Dir es) \<Longrightarrow> lookup_path t (p @ [n]) = None \<longleftrightarrow> n \<notin> fst ` set es"
  by (simp add: lookup_path_append map_of_eq_None_iff [symmetric] split: option.splits)

lemma sys_write_Inr: "sys_write fd b w = (Inr x, w') \<Longrightarrow> fs w' = update_at fd (append_bytes b) (fs w)"
  by (auto simp: sys_write_def Let_def split: option.splits)

lemma sys_renameat_Inr:
  assumes "sys_renameat fd n fd' n' w = (Inr x, w')"
  obtains c where "lookup_path (fs w) (fd @ [n]) = Some c" "dir_at (fs w) fd'"
    "rename_conflict c (lookup_path (fs w) (fd' @ [n'])) = None"
    "fs w' = update_at fd' (set_entry n' c) (update_at fd (del_entry n) (fs w))"
  using assms by (auto simp: sys_renameat_def attemptE_Inr split: option.splits if_splits)

lemma sys_renameat_Inl: "sys_renameat fd n fd' n' w = (Inl e, w') \<Longrightarrow> fs w' = fs w"
  by (auto simp: sys_renameat_def attemptE_def Let_def split: option.splits if_splits)

lemma writeThroughTemp_Inr:
  assumes wf: "wf_node (fs w)" and run: "writeThroughTemp fd p t n b w = (Inr x, w')"
  shows "fs w' = update_at fd (set_entry n (File b)) (fs w)"
proof -
  from run obtain u1 u2 u3 d where
      c: "sys_create_excl fd t w = (Inr d, u1)" and wr: "sys_write d b u1 = (Inr (), u2)"
      and q: "fs u3 = fs u2" and rn: "sys_renameat fd t fd n u3 = (Inr (), w')"
    by (auto simp: writeThroughTemp_def Let_def deferE_iff bindE_Inr_iff dest!: quiet_fs)
  from c obtain es where es: "lookup_path (fs w) fd = Some (Dir es)" "t \<notin> fst ` set es"
    using sys_create_excl_Inr [OF c] by (auto elim!: dir_atE simp: fresh_entry)
  have u3: "fs u3 = update_at fd (\<lambda>d. update_at [t] (append_bytes b) (set_entry t (File []) d)) (fs w)"
    using sys_create_excl_Inr [OF c] sys_write_Inr [OF wr] q by (simp add: update_at_append update_at_update)
  have l: "lookup_path (fs u3) (fd @ [t]) = Some (File b)"
    unfolding u3 lookup_update_below using es
    by (simp add: lookup_path_append lookup_update_same [of "[t]", simplified] lookup_set_entry [where q = "[]", simplified])
  from rn show ?thesis
  proof (rule sys_renameat_Inr)
    fix c assume "lookup_path (fs u3) (fd @ [t]) = Some c"
      "fs w' = update_at fd (set_entry n c) (update_at fd (del_entry t) (fs u3))"
    with l show ?thesis
      using es by (auto simp: u3 update_at_update temp_entry_gone intro!: update_at_cong [OF wf])
  qed
qed

lemma writeRegularFileAt_Inr:
  "wf_node (fs w) \<Longrightarrow> writeRegularFileAt fd p n b w = (Inr x, w') \<Longrightarrow>
     fs w' = update_at fd (set_entry n (File b)) (fs w)"
  by (auto simp: writeRegularFileAt_def bindE_Inr_iff dest!: quiet_fs) (metis writeThroughTemp_Inr)

lemma createDirectoryAt_Inr:
  assumes "createDirectoryAt fd p n w = (Inr d, w')"
  shows "d = fd @ [n]" "lookup_path (fs w) (fd @ [n]) = None" "dir_at (fs w) fd"
    "fs w' = update_at fd (set_entry n (Dir [])) (fs w)"
  using createDirectoryAt_fd [OF assms] assms
  by (auto simp: createDirectoryAt_def bindE_Inr_iff dest!: quiet_fs sys_mkdirat_spec)

lemma createRandomDirectoryAt_Inr:
  assumes "createRandomDirectoryAt k pre what fd p rid w = (Inr (n, d), w')"
  shows "d = fd @ [n]" "prefix (pre @ rid) n" "lookup_path (fs w) (fd @ [n]) = None" "dir_at (fs w) fd"
    "fs w' = update_at fd (set_entry n (Dir [])) (fs w)"
proof -
  have "lookup_path (fs w) (fd @ [n]) = None \<and> dir_at (fs w) fd \<and>
      fs w' = update_at fd (set_entry n (Dir [])) (fs w)"
    using assms
  proof (induction k arbitrary: w)
    case (Suc k)
    from Suc.prems obtain s u where s: "newUUIDv4 w = (Inr s, u)" and
      "(\<exists>e v. sys_mkdirat fd (pre @ rid @ ''-'' @ s) u = (Inl e, v) \<and>
          createRandomDirectoryAt k pre what fd p rid v = (Inr (n, d), w')) \<or>
       (\<exists>v. sys_mkdirat fd (pre @ rid @ ''-'' @ s) u = (Inr (), v) \<and> fs w' = fs v \<and> n = pre @ rid @ ''-'' @ s)"
      by (auto simp: bindE_Inr_iff tryE_case_iff Let_def split: if_splits dest!: quiet_fs)
    with quiet_fs(6) [OF s] show ?case
      by (elim disjE exE conjE) (auto dest!: sys_mkdirat_Inl sys_mkdirat_spec Suc.IH)
  qed simp
  then show "lookup_path (fs w) (fd @ [n]) = None" "dir_at (fs w) fd"
    "fs w' = update_at fd (set_entry n (Dir [])) (fs w)" by auto
qed (use createRandomDirectoryAt_name [OF assms] in auto)

lemma sys_fstatat_Inr: "sys_fstatat fd n w = (Inr m, w') \<Longrightarrow> \<exists>c. lookup_path (fs w) (fd @ [n]) = Some c \<and> m = mode_of c"
  by (auto simp: sys_fstatat_def attemptE_Inr split: option.splits)

lemma mode_of_Dir [simp]: "mode_of c = S_IFDIR \<longleftrightarrow> is_Dir c" "S_IFDIR = mode_of c \<longleftrightarrow> is_Dir c"
  by (cases c; simp)+

lemma mode_of_File [simp]: "mode_of c = S_IFREG \<longleftrightarrow> (\<exists>b. c = File b)"
  by (cases c) auto

lemma entryModeAt_exists:
  "entryModeAt fd n w = (Inr (m, True), w') \<Longrightarrow> \<exists>c. lookup_path (fs w) (fd @ [n]) = Some c \<and> m = mode_of c"
  by (auto simp: entryModeAt_def tryE_case_iff split: if_splits dest: sys_fstatat_Inr)

lemma renameDirectoryAt_Inl: "renameDirectoryAt fd n fd' n' w = (Inl e, w') \<Longrightarrow> fs w' = fs w"
  by (auto simp: renameDirectoryAt_def bindE_Inl_iff dest!: quiet_fs sys_renameat_Inl)

lemma renameDirectoryAt_Inr:
  assumes "renameDirectoryAt fd n fd' n' w = (Inr x, w')"
  obtains es where "lookup_path (fs w) (fd @ [n]) = Some (Dir es)" "dir_at (fs w) fd'"
    "lookup_path (fs w) (fd' @ [n']) \<in> {None, Some (Dir [])}"
    "fs w' = update_at fd' (set_entry n' (Dir es)) (update_at fd (del_entry n) (fs w))"
proof -
  from assms obtain u where r: "requireEntryTypeAt fd n S_IFDIR w = (Inr (), u)"
    and s: "sys_renameat fd n fd' n' u = (Inr x, w')"
    by (auto simp: renameDirectoryAt_def bindE_Inr_iff)
  from r have d: "dir_at (fs w) (fd @ [n])"
    by (auto simp: requireEntryTypeAt_def bindE_Inr_iff dir_at_def split: if_splits dest!: sys_fstatat_Inr)
  from r have "fs u = fs w" by (rule quiet_fs)
  with s d show thesis
    by (elim sys_renameat_Inr dir_atE)
      (auto intro!: that simp: dir_at_iff elim: rename_conflict.elims split: option.splits)
qed

lemma readRegularFileAtNoFollow_Inr:
  assumes "readRegularFileAtNoFollow fd n w = (Inr b, w')"
  shows "lookup_path (fs w) (fd @ [n]) = Some (File b)"
proof -
  from assms obtain d u1 u2 where o: "sys_open_read fd n w = (Inr d, u1)"
    and r: "requireFileType d S_IFREG u1 = (Inr (), u2)" and rd: "sys_read_all d u2 = (Inr b, w')"
    by (auto simp: readRegularFileAtNoFollow_def bindE_Inr_iff)
  have "d = fd @ [n]" using o by (auto simp: sys_open_read_def attemptE_Inr split: option.splits node.splits)
  moreover have "fs u2 = fs w"
    using quiet_result(1) [OF r touch_requireFileType] quiet_result(1) [OF o quiet_syscalls(2)] by simp
  ultimately show ?thesis using rd by (auto simp: sys_read_all_def attemptE_Inr split: option.splits node.splits)
qed

lemma sys_readdir_Inr:
  "sys_readdir fd w = (Inr ns, w') \<Longrightarrow> \<exists>es. lookup_path (fs w) fd = Some (Dir es) \<and> ns = map fst es"
  by (auto simp: sys_readdir_def attemptE_Inr split: option.splits node.splits)

lemma readDirectoryEntriesFD_Inr:
  "readDirectoryEntriesFD fd w = (Inr ns, w') \<Longrightarrow> \<exists>es. lookup_path (fs w) fd = Some (Dir es) \<and> ns = map fst es"
  by (auto simp: readDirectoryEntriesFD_def bindE_Inr_iff dest!: quiet_fs sys_readdir_Inr)

section \<open>Copying a directory\<close>

text \<open>A copy into an empty directory that succeeds leaves the same entries there, in the same order.\<close>

lemma set_sub_entry:
  "n \<notin> fst ` set es \<Longrightarrow> update_at [n] (\<lambda>_. c) (set_entry n d (Dir es)) = set_entry n c (Dir es)"
  by (simp add: set_entry_def map_key_idle)

lemma set_fresh_entry: "n \<notin> fst ` set es \<Longrightarrow> set_entry n c (Dir es) = Dir (es @ [(n, c)])"
  by (simp add: set_entry_def)

definition apart :: "path \<Rightarrow> path \<Rightarrow> bool" where
  "apart p q \<longleftrightarrow> \<not> prefix p q \<and> \<not> prefix q p"

lemma apart_below: "apart p q \<Longrightarrow> apart (p @ p') (q @ q')"
  unfolding apart_def
  using prefix_same_cases [of p "q @ q'" q] prefix_same_cases [of q "p @ p'" p]
  by (auto dest: append_prefixD)

lemma lookup_apart [simp]: "apart p q \<Longrightarrow> lookup_path (update_at p f t) q = lookup_path t q"
  by (simp add: apart_def lookup_update_disjoint)

definition copies_into ::
  "(path \<Rightarrow> string \<Rightarrow> path \<Rightarrow> string \<Rightarrow> ('z fs_world_scheme, unit) op) \<Rightarrow> bool" where
  "copies_into m \<longleftrightarrow> (\<forall>s sp d dp w w' es.
     wf_node (fs w) \<longrightarrow> apart d s \<longrightarrow> lookup_path (fs w) s = Some (Dir es) \<longrightarrow> lookup_path (fs w) d = Some (Dir []) \<longrightarrow>
     m s sp d dp w = (Inr (), w') \<longrightarrow> fs w' = update_at d (\<lambda>_. Dir es) (fs w))"

lemma copyEntry_cases:
  assumes run: "copyEntry m s sp d dp n w = (Inr (), w')" and src: "lookup_path (fs w) (s @ [n]) = Some c"
  obtains (regular) b v where "c = File b" "fs v = fs w" "writeRegularFileAt d dp n b v = (Inr (), w')"
  | (subdir) es u v f g v' where "c = Dir es" "fs u = fs w" "createDirectoryAt d dp n u = (Inr f, v)"
      "openDirectoryAtNoFollow s n v = (Inr g, v')" "fs v' = fs v"
      "\<exists>q q' x. m g q f q' v' = (Inr (), x) \<and> fs w' = fs x"
proof -
  from run obtain md u where e: "entryModeAt s n w = (Inr (md, True), u)"
    by (auto simp: copyEntry_def Let_def bindE_Inr_iff split: if_splits)
  have u: "fs u = fs w" by (rule quiet_fs(2) [OF e])
  have md: "md = mode_of c" using entryModeAt_exists [OF e] src by simp
  show thesis
  proof (cases "md = S_IFDIR")
    case True
    then obtain es where c: "c = Dir es" using md by (cases c) auto
    from run e True obtain f v g v' x where
      f: "createDirectoryAt d dp n u = (Inr f, v)" and g: "openDirectoryAtNoFollow s n v = (Inr g, v')"
      and x: "m g (filepath_Join sp n) f (filepath_Join dp n) v' = (Inr (), x)"
      and y: "syncFD f (filepath_Join dp n) x = (Inr (), w')"
      by (auto simp: copyEntry_def Let_def bindE_Inr_iff deferE_iff)
    show thesis
      by (rule subdir [OF c u f g quiet_fs(3) [OF g]]) (use x quiet_fs(1) [OF y] in blast)
  next
    case False
    with run e obtain b v where r: "readRegularFileAtNoFollow s n u = (Inr b, v)"
      and wr: "writeRegularFileAt d dp n b v = (Inr (), w')"
      by (auto simp: copyEntry_def Let_def bindE_Inr_iff split: if_splits)
    have "c = File b" using readRegularFileAtNoFollow_Inr [OF r] src u by simp
    moreover have "fs v = fs w" using quiet_fs(7) [OF r] u by simp
    ultimately show thesis using wr by (rule regular)
  qed
qed

lemma copyEntry_Inr:
  assumes m: "copies_into m" and wf: "wf_node (fs w)" and ap: "apart d s"
    and src: "lookup_path (fs w) (s @ [n]) = Some c"
    and run: "copyEntry m s sp d dp n w = (Inr (), w')"
  shows "fs w' = update_at d (set_entry n c) (fs w)"
  using run src
proof (cases rule: copyEntry_cases)
  case (regular b v)
  then show ?thesis using writeRegularFileAt_Inr [of v d dp n b "()" w'] wf by simp
next
  case (subdir es u v f g v')
  have f: "f = d @ [n]" and v: "fs v = update_at d (set_entry n (Dir [])) (fs w)"
    and fresh: "lookup_path (fs w) (d @ [n]) = None" and "dir_at (fs w) d"
    using createDirectoryAt_Inr [OF subdir(3)] subdir(2) by auto
  then obtain ds where ds: "lookup_path (fs w) d = Some (Dir ds)" "n \<notin> fst ` set ds"
    by (auto elim!: dir_atE simp: fresh_entry)
  have g: "g = s @ [n]" by (rule openDirectoryAtNoFollow_Inr(1) [OF subdir(4)])
  have ap': "apart f g" unfolding f g using ap by (rule apart_below)
  have "wf_node (fs v')" unfolding subdir(5) v using wf by (simp add: wf_update_at wf_set_entry)
  moreover have "lookup_path (fs v') g = Some (Dir es)"
    using ap src subdir(1) apart_below [OF ap, of "[]" "[n]"] by (simp add: subdir(5) v g)
  moreover have "lookup_path (fs v') f = Some (Dir [])"
    using ds by (simp add: subdir(5) v f lookup_update_below lookup_set_entry [where q = "[]", simplified])
  ultimately have "fs w' = update_at f (\<lambda>_. Dir es) (fs v')"
    using m ap' subdir(6) unfolding copies_into_def by metis
  also have "\<dots> = update_at d (\<lambda>x. update_at [n] (\<lambda>_. Dir es) (set_entry n (Dir []) x)) (fs w)"
    by (simp add: subdir(5) v f update_at_append update_at_update)
  also have "\<dots> = update_at d (set_entry n c) (fs w)"
    using ds subdir(1) by (intro update_at_cong [OF wf]) (simp add: set_sub_entry)
  finally show ?thesis .
qed

lemma copy_loop:
  assumes m: "copies_into m" and wf: "wf_node t" and ap: "apart d s"
    and src: "lookup_path t s = Some (Dir (xs @ ys))" and tgt: "dir_at t d"
    and here: "fs w = update_at d (\<lambda>_. Dir xs) t"
    and run: "foreachE (map fst ys) (copyEntry m s sp d dp) w = (Inr (), w')"
  shows "fs w' = update_at d (\<lambda>_. Dir (xs @ ys)) t"
  using src here run
proof (induction ys arbitrary: xs w)
  case (Cons e ys)
  obtain n c where e: "e = (n, c)" by (cases e)
  from Cons.prems(3) obtain v where v: "copyEntry m s sp d dp n w = (Inr (), v)"
    "foreachE (map fst ys) (copyEntry m s sp d dp) v = (Inr (), w')"
    by (auto simp: e bindE_Inr_iff)
  have wfs: "wf_node (Dir (xs @ e # ys))" by (rule wf_lookup [OF wf Cons.prems(1)])
  then have n: "n \<notin> fst ` set xs" "map_of xs n = None" by (auto simp: e map_of_eq_None_iff)
  have "lookup_path (fs w) (s @ [n]) = Some c"
    using Cons.prems(1,2) ap n by (simp add: lookup_path_append e map_add_def)
  moreover have "wf_node (fs w)"
    unfolding Cons.prems(2) using wf wfs by (auto intro!: wf_update_at)
  ultimately have "fs v = update_at d (set_entry n c) (fs w)"
    using copyEntry_Inr [OF m _ ap _ v(1)] by blast
  also have "\<dots> = update_at d (\<lambda>_. Dir (xs @ [e])) t"
    unfolding Cons.prems(2) update_at_update set_fresh_entry [OF n(1)] e ..
  finally show ?case using Cons.IH [of "xs @ [e]" v] Cons.prems(1) v(2) by simp
qed simp

lemma copies_into_n: "copies_into (copyDirectoryEntries_n k :: _ \<Rightarrow> _ \<Rightarrow> _ \<Rightarrow> _ \<Rightarrow> ('z fs_world_scheme, unit) op)"
proof (induction k)
  case (Suc k)
  show ?case
    unfolding copies_into_def
  proof (intro allI impI)
    fix s sp d dp es and w w' :: "'z fs_world_scheme"
    assume wf: "wf_node (fs w)" and ap: "apart d s" and src: "lookup_path (fs w) s = Some (Dir es)"
      and tgt: "lookup_path (fs w) d = Some (Dir [])"
      and run: "copyDirectoryEntries_n (Suc k) s sp d dp w = (Inr (), w')"
    from run obtain ns u where ns: "readDirectoryEntriesFD s w = (Inr ns, u)"
      and loop: "foreachE ns (copyEntry (copyDirectoryEntries_n k) s sp d dp) u = (Inr (), w')"
      by (auto simp: bindE_Inr_iff)
    have "ns = map fst es" using readDirectoryEntriesFD_Inr [OF ns] src by simp
    moreover have "fs u = update_at d (\<lambda>_. Dir []) (fs w)"
      using quiet_fs(8) [OF ns] update_at_noop [OF wf, of d "\<lambda>_. Dir []"] tgt by simp
    ultimately show "fs w' = update_at d (\<lambda>_. Dir es) (fs w)"
      using copy_loop [OF Suc wf ap, of "[]" es u sp dp w'] src tgt loop by (simp add: dir_at_def)
  qed
qed (simp add: copies_into_def)

lemma copyDirectoryEntries_Inr:
  "copyDirectoryEntries s sp d dp w = (Inr (), w') \<Longrightarrow> wf_node (fs w) \<Longrightarrow> apart d s \<Longrightarrow>
     lookup_path (fs w) s = Some (Dir es) \<Longrightarrow> lookup_path (fs w) d = Some (Dir []) \<Longrightarrow>
     fs w' = update_at d (\<lambda>_. Dir es) (fs w)"
  using copies_into_n unfolding copies_into_def copyDirectoryEntries_def by blast

lemma copyDirectoryContentsAt_Inr:
  assumes run: "copyDirectoryContentsAt sfd sp sn tfd tp tn w = (Inr (), w')" and wf: "wf_node (fs w)"
    and ap: "apart (tfd @ [tn]) (sfd @ [sn])"
    and src: "lookup_path (fs w) (sfd @ [sn]) = Some (Dir es)" and tgt: "lookup_path (fs w) (tfd @ [tn]) = Some (Dir [])"
  shows "fs w' = update_at (tfd @ [tn]) (\<lambda>_. Dir es) (fs w)"
proof -
  from run obtain s d u v q r where s: "openDirectoryAtNoFollow sfd sn w = (Inr s, u)"
    and d: "openDirectoryAtNoFollow tfd tn u = (Inr d, v)" and c: "copyDirectoryEntries s q d r v = (Inr (), w')"
    by (fastforce simp: copyDirectoryContentsAt_def Let_def bindE_Inr_iff)
  have "s = sfd @ [sn]" "d = tfd @ [tn]" "fs v = fs w"
    using openDirectoryAtNoFollow_Inr [OF s] openDirectoryAtNoFollow_Inr [OF d] by auto
  with copyDirectoryEntries_Inr [OF c] assms show ?thesis by simp
qed

section \<open>Calls that must succeed\<close>

text \<open>Without faults a reading call returns the value the tree determines.\<close>

definition returns :: "('z fs_world_scheme, 'a) op \<Rightarrow> 'z fs_world_scheme \<Rightarrow> 'a \<Rightarrow> bool" where
  "returns m w x \<longleftrightarrow> (\<exists>w'. m w = (Inr x, w') \<and> quiet w w')"

lemma fault_free_env: "fault_free w \<Longrightarrow> env_step w w' \<Longrightarrow> fault_free w'"
  by (auto simp: fault_free_def env_step_def)

lemma returns_retE [simp]: "returns (retE x) w x"
  by (simp add: returns_def touch_refl)

lemma returns_bindE:
  assumes "returns m w x" "\<And>w'. fs w' = fs w \<Longrightarrow> env_step w w' \<Longrightarrow> returns (f x) w' y" shows "returns (bindE m f) w y"
proof -
  from assms(1) obtain u where u: "m w = (Inr x, u)" "quiet w u" by (auto simp: returns_def)
  then have "returns (f x) u y" using assms(2) by (simp add: quiet_iff)
  then obtain v where "f x u = (Inr y, v)" "quiet u v" by (auto simp: returns_def)
  with u show ?thesis by (auto simp: returns_def bindE_Inr_iff intro: touch_trans)
qed

lemma returns_bind_next:
  "returns m w x \<Longrightarrow> fault_free w \<Longrightarrow> (\<And>w'. fs w' = fs w \<Longrightarrow> fault_free w' \<Longrightarrow> returns (f x) w' y) \<Longrightarrow>
     returns (bindE m f) w y"
  by (erule returns_bindE) (simp add: fault_free_env)

lemma returns_mapErr: "returns m w x \<Longrightarrow> returns (mapErr g m) w x"
  by (simp add: returns_def)

lemma returns_attemptE:
  "fault_free w \<Longrightarrow> (\<And>w'. fs w' = fs w \<Longrightarrow> cwd w' = cwd w \<Longrightarrow> m w' = (Inr x, w')) \<Longrightarrow> returns (attemptE m) w x"
  using quiet_calls [of w] by (auto simp: returns_def attemptE_def fault_free_def Let_def)

lemma returns_requireDir: "fault_free w \<Longrightarrow> dir_at (fs w) fd \<Longrightarrow> returns (requireFileType fd S_IFDIR) w ()"
  unfolding requireFileType_def sys_fstat_def
  by (erule dir_atE, rule returns_bindE [where x = S_IFDIR]) (auto intro: returns_attemptE)

lemma returns_open_dir:
  assumes "fault_free w" "dir_at (fs w) (fd @ [n])"
  shows "returns (openDirectoryAtNoFollow fd n) w (fd @ [n])"
proof -
  from assms(2) obtain es where es: "lookup_path (fs w) (fd @ [n]) = Some (Dir es)" by (rule dir_atE)
  show ?thesis
    unfolding openDirectoryAtNoFollow_def requireFileType_def sys_open_dir_def sys_fstat_def
    using assms es
    by (intro returns_bindE returns_attemptE) (auto intro: fault_free_env)
qed

lemma returns_inert: "fault_free w \<Longrightarrow> returns sys_inert w ()"
  unfolding sys_inert_def by (rule returns_attemptE) auto

lemma returns_read_file:
  assumes "fault_free w" "lookup_path (fs w) (fd @ [n]) = Some (File b)"
  shows "returns (readRegularFileAtNoFollow fd n) w b"
  unfolding readRegularFileAtNoFollow_def requireFileType_def sys_open_read_def sys_fstat_def sys_read_all_def
  using assms by (intro returns_bindE returns_attemptE) (auto intro: fault_free_env)

end
