(* ===== verification/Payload_Store_Laws.thy ===== *)
theory Payload_Store_Laws
  imports Payload_Store Payload_FS_Laws
begin

text \<open>
  What the payload store guarantees: the tree a successful save publishes, that no failure leaves
  a partial payload under its final name, that a load reads back what was saved, verifies every
  attachment and changes nothing, and what removing and quarantining leave behind.
\<close>

section \<open>Digests and names\<close>

lemma hex_value_digit: "n < 16 \<Longrightarrow> hex_value (hex_digit n) = Some (of_nat n)"
proof -
  have "list_all (\<lambda>n. hex_value (hex_digit n) = Some (of_nat n)) [0..<16]" by code_simp
  then show "n < 16 \<Longrightarrow> hex_value (hex_digit n) = Some (of_nat n)" by (simp add: list_all_iff)
qed

lemma byte_nibbles: "16 * drop_bit 4 b + (b AND 15) = (b :: 8 word)"
proof -
  have "b AND 15 = take_bit 4 b" by (simp add: take_bit_eq_mask mask_numeral)
  moreover have "push_bit 4 (drop_bit 4 b) + take_bit 4 b = b" by (rule bits_ident)
  ultimately show ?thesis by (simp add: push_bit_eq_mult mult.commute)
qed

lemma hex_Decode_Encode [simp]: "hex_DecodeString (hex_Encode bs) = Some bs"
  by (induction bs) (simp_all add: hex_Encode_def hex_byte_def hex_value_digit nibbles_small byte_nibbles)

lemma hex_Encode_trim [simp]: "TrimSpace (hex_Encode bs) = hex_Encode bs"
proof (rule TrimSpace_no_space)
  have "c \<in> set (hex_Encode bs) \<Longrightarrow> is_lower_hex c" for c
    by (induction bs) (auto simp: hex_Encode_def hex_byte_def)
  then show "set (hex_Encode bs) \<inter> space_bytes = {}"
    using space_bytes_not_id by blast
qed

lemma attachmentRelPath_eq: "attachmentRelPath i = ''attachments/'' @ show_nat i @ ''.bin''"
  by (simp add: attachmentRelPath_def attachmentFileName_def attachmentsDirName_def filepath_Join_def)

lemma attachmentFileName_inject [simp]: "attachmentFileName i = attachmentFileName j \<longleftrightarrow> i = j"
  by (simp add: attachmentFileName_def)

lemma attachmentRelPath_trim [simp]: "TrimSpace (attachmentRelPath i) = attachmentRelPath i"
proof (rule TrimSpace_no_space)
  have "list_all (\<lambda>c. c \<notin> set (concat space_seqs)) ''attachments/.bin''" by code_simp
  then have "c \<notin> space_bytes" if "c \<in> set ''attachments/.bin''" for c
    using that unfolding space_bytes_def list_all_iff by blast
  moreover have "c \<notin> space_bytes" if "c \<in> set (show_nat i)" for c
    using show_nat_digits [OF that] space_bytes_not_id [of c] by (auto simp: is_lower_hex_def not_less)
  ultimately show "set (attachmentRelPath i) \<inter> space_bytes = {}"
    unfolding attachmentRelPath_eq set_append by auto
qed

section \<open>The published tree\<close>

primrec attachment_entries :: "nat \<Rightarrow> attachment list \<Rightarrow> (string \<times> node) list" where
  "attachment_entries i [] = []"
| "attachment_entries i (a # as) = (attachmentFileName i, File (Data a)) # attachment_entries (Suc i) as"

primrec attachment_refs :: "libs \<Rightarrow> nat \<Rightarrow> attachment list \<Rightarrow> attachment_ref list" where
  "attachment_refs lib i [] = []"
| "attachment_refs lib i (a # as) = attachmentRefFor lib i a # attachment_refs lib (Suc i) as"

definition attachments_dir :: "attachment list \<Rightarrow> (string \<times> node) list" where
  "attachments_dir as = (if as \<noteq> [] then [(attachmentsDirName, Dir (attachment_entries 0 as))] else [])"

definition payload_tree :: "message \<Rightarrow> bytes \<Rightarrow> node" where
  "payload_tree msg b =
     Dir (attachments_dir (Attachments msg) @ [(messageFileName, File b)])"

text \<open>The trees a save of \<open>msg\<close> may publish: exactly one, if the manifest can be encoded.\<close>

definition complete_payload :: "libs \<Rightarrow> message \<Rightarrow> node \<Rightarrow> bool" where
  "complete_payload lib msg t \<longleftrightarrow>
     (case json_Marshal lib (manifestFor msg (attachment_refs lib 0 (Attachments msg))) of
        Inl e \<Rightarrow> False
      | Inr b \<Rightarrow> t = payload_tree msg b)"

lemma attachment_entries_names: "fst ` set (attachment_entries i as) = attachmentFileName ` {i ..< i + length as}"
proof (induction as arbitrary: i)
  case (Cons a as)
  have "{i ..< i + length (a # as)} = insert i {Suc i ..< Suc i + length as}" by auto
  with Cons show ?case by simp
qed simp

lemma wf_attachment_entries: "wf_node (Dir (attachment_entries i as))"
proof (induction as arbitrary: i)
  case (Cons a as)
  have "attachmentFileName i \<notin> fst ` set (attachment_entries (Suc i) as)"
    by (auto simp: attachment_entries_names)
  with Cons show ?case by (simp add: image_iff)
qed simp

lemma saveAttachments_Inr:
  assumes "wf_node (fs w)" "lookup_path (fs w) fd = Some (Dir es)"
    and "fst ` set es \<subseteq> attachmentFileName ` {0 ..< i}"
    and "saveAttachments lib fd p i as w = (Inr refs, w')"
  shows "refs = attachment_refs lib i as \<and> fs w' = update_at fd (\<lambda>_. Dir (es @ attachment_entries i as)) (fs w)"
  using assms
proof (induction as arbitrary: i w es refs)
  case Nil
  then show ?case using update_at_noop [of "fs w" fd "\<lambda>_. Dir es"] by auto
next
  case (Cons a as)
  from Cons.prems(4) obtain u refs' where wr: "writeRegularFileAt fd p (attachmentFileName i) (Data a) w = (Inr (), u)"
    and rest: "saveAttachments lib fd p (Suc i) as u = (Inr refs', w')" and refs: "refs = attachmentRefFor lib i a # refs'"
    by (auto simp: bindE_Inr_iff)
  have new: "attachmentFileName i \<notin> fst ` set es" using Cons.prems(3) by auto
  have u: "fs u = update_at fd (\<lambda>_. Dir (es @ [(attachmentFileName i, File (Data a))])) (fs w)"
    unfolding writeRegularFileAt_Inr [OF Cons.prems(1) wr]
    using Cons.prems(2) new by (intro update_at_cong [OF Cons.prems(1)]) (simp add: set_fresh_entry)
  have "wf_node (fs u)"
    using Cons.prems(1) by (simp add: writeRegularFileAt_Inr [OF Cons.prems(1) wr] wf_update_at wf_set_entry)
  moreover have "lookup_path (fs u) fd = Some (Dir (es @ [(attachmentFileName i, File (Data a))]))"
    using Cons.prems(2) by (simp add: u lookup_update_same)
  moreover have "fst ` set (es @ [(attachmentFileName i, File (Data a))]) \<subseteq> attachmentFileName ` {0 ..< Suc i}"
    using Cons.prems(3) by (auto simp: atLeast0_lessThan_Suc)
  ultimately have "refs' = attachment_refs lib (Suc i) as \<and>
      fs w' = update_at fd (\<lambda>_. Dir ((es @ [(attachmentFileName i, File (Data a))]) @ attachment_entries (Suc i) as)) (fs u)"
    using rest by (rule Cons.IH)
  then show ?case by (simp add: refs u update_at_update)
qed

lemma stageAttachments_Inr:
  assumes wf: "wf_node (fs w)" and here: "lookup_path (fs w) fd = Some (Dir [])"
    and run: "stageAttachments lib fd p as w = (Inr refs, w')"
  shows "refs = attachment_refs lib 0 as \<and> fs w' = update_at fd (\<lambda>_. Dir (attachments_dir as)) (fs w)"
proof (cases "as = []")
  case True
  then show ?thesis
    using run update_at_noop [OF wf, of fd "\<lambda>_. Dir []"] here by (auto simp: stageAttachments_def attachments_dir_def)
next
  case False
  with run obtain d u1 u2 u3 where d: "createDirectoryAt fd p attachmentsDirName w = (Inr d, u1)"
    and sv: "saveAttachments lib d (filepath_Join p attachmentsDirName) 0 as u1 = (Inr refs, u2)"
    and q: "syncFD d (filepath_Join p attachmentsDirName) u2 = (Inr (), u3)" "sys_inert u3 = (Inr (), w')"
    by (auto simp: stageAttachments_def Let_def bindE_Inr_iff)
  have u1: "fs u1 = update_at fd (set_entry attachmentsDirName (Dir [])) (fs w)" and dd: "d = fd @ [attachmentsDirName]"
    using createDirectoryAt_Inr [OF d] by auto
  have "wf_node (fs u1)" using wf by (simp add: u1 wf_update_at wf_set_entry)
  moreover have "lookup_path (fs u1) d = Some (Dir [])"
    using here by (simp add: u1 dd lookup_update_below set_entry_def)
  ultimately have r: "refs = attachment_refs lib 0 as"
    and u2: "fs u2 = update_at d (\<lambda>_. Dir (attachment_entries 0 as)) (fs u1)"
    using saveAttachments_Inr [OF _ _ _ sv, of "[]"] by auto
  have "fs w' = fs u2" using q by (auto dest!: quiet_fs)
  also have "\<dots> = update_at fd (\<lambda>_. Dir (attachments_dir as)) (fs w)"
    using here False unfolding u2 u1 dd update_at_append update_at_update
    by (auto simp: attachments_dir_def set_entry_def intro!: update_at_cong [OF wf])
  finally show ?thesis using r by simp
qed

lemma stagePayload_Inr:
  assumes wf: "wf_node (fs w)" and here: "lookup_path (fs w) fd = Some (Dir [])"
    and run: "stagePayload lib rid fd p msg w = (Inr (), w')"
  shows "\<exists>t. complete_payload lib msg t \<and> is_Dir t \<and> wf_node t \<and> fs w' = update_at fd (\<lambda>_. t) (fs w)"
proof -
  from run obtain refs b u v where st: "stageAttachments lib fd p (Attachments msg) w = (Inr refs, u)"
    and b: "json_Marshal lib (manifestFor msg refs) = Inr b"
    and wr: "writeRegularFileAt fd p messageFileName b u = (Inr (), v)" and v: "fs w' = fs v"
    by (auto simp: stagePayload_def bindE_Inr_iff case_throw_Inr dest!: quiet_fs(1))
  note u = stageAttachments_Inr [OF wf here st]
  have d: "wf_node (Dir (attachments_dir (Attachments msg)))"
    using wf_attachment_entries by (simp add: attachments_dir_def)
  then have wfu: "wf_node (fs u)" using u wf by (auto intro!: wf_update_at)
  have tree: "set_entry messageFileName (File b) (Dir (attachments_dir (Attachments msg))) = payload_tree msg b"
    by (auto simp: set_entry_def payload_tree_def attachments_dir_def messageFileName_def attachmentsDirName_def)
  have "fs w' = update_at fd (\<lambda>_. payload_tree msg b) (fs w)"
    using u by (simp add: v writeRegularFileAt_Inr [OF wfu wr] update_at_update tree)
  moreover have "wf_node (payload_tree msg b)" "is_Dir (payload_tree msg b)"
    using wf_set_entry [OF _ d, of "File b" messageFileName] by (simp_all add: tree) (simp add: payload_tree_def)
  ultimately show ?thesis using b u by (auto simp: complete_payload_def)
qed

section \<open>Publication\<close>

lemma canonical_not_hidden: "canonical_id rid \<Longrightarrow> \<not> prefix (CHR ''.'' # s) rid"
proof
  assume c: "canonical_id rid" and "prefix (CHR ''.'' # s) rid"
  then obtain r where "rid = CHR ''.'' # r" by (auto simp: prefix_def)
  with c have "id_byte_ok 0 (CHR ''.'')" unfolding canonical_id_iff by (metis nth_Cons_0 zero_less_numeral)
  moreover have "\<not> id_byte_ok 0 (CHR ''.'')" by code_simp
  ultimately show False by simp
qed

lemma rename_lookup:
  assumes run: "renameDirectoryAt sfd sn pfd rid w = (Inr x, w')" and ap: "apart (sfd @ [sn]) (pfd @ [rid])"
    and src: "lookup_path (fs w) (sfd @ [sn]) = Some t"
  shows "lookup_path (fs w') (pfd @ [rid]) = Some t"
proof -
  from run obtain es where es: "lookup_path (fs w) (sfd @ [sn]) = Some (Dir es)" "dir_at (fs w) pfd"
    and w': "fs w' = update_at pfd (set_entry rid (Dir es)) (update_at sfd (del_entry sn) (fs w))"
    by (rule renameDirectoryAt_Inr)
  have "dir_at (update_at sfd (del_entry sn) (fs w)) pfd"
    using ap by (intro dir_at_update [OF entry_change_del [of "only sn"] es(2)]) (auto simp: apart_def)
  then obtain ds where "lookup_path (update_at sfd (del_entry sn) (fs w)) pfd = Some (Dir ds)" by (rule dir_atE)
  then show ?thesis
    using es src by (auto simp: w' lookup_update_below lookup_set_entry [where q = "[]", simplified])
qed

text \<open>
  The published name before and after: absent or the staged tree, and on success the staged tree.
\<close>

definition published :: "path \<Rightarrow> node \<Rightarrow> goerr + unit \<Rightarrow> 'z fs_world_scheme \<Rightarrow> bool" where
  "published p t r w \<longleftrightarrow> lookup_path (fs w) p \<in> {None, Some t} \<and> (r = Inr () \<longrightarrow> lookup_path (fs w) p = Some t)"

text \<open>Operations that leave what is read at one path as it is.\<close>

definition keeps :: "path \<Rightarrow> 'z fs_world_scheme \<Rightarrow> 'z fs_world_scheme \<Rightarrow> bool" where
  "keeps p w w' \<longleftrightarrow> lookup_path (fs w') p = lookup_path (fs w) p"

interpretation keeps: op_preorder "keeps p" for p
  by unfold_locales (simp_all add: keeps_def)

lemma keeps_other: "effect_in (touch fd P) m \<Longrightarrow> \<not> P n \<Longrightarrow> effect_in (keeps (fd @ [n])) m"
  by (erule effect_in_mono) (simp add: keeps_def touch_lookup_other [where q = "[]"])

lemma keeps_apart: "effect_in (touch fd P) m \<Longrightarrow> apart fd q \<Longrightarrow> effect_in (keeps q) m"
  by (erule effect_in_mono) (auto simp: keeps_def apart_def touch_lookup_apart)

lemma keeps_syncFD: "effect_in (keeps q) (syncFD fd p)"
  by (rule effect_in_mono [OF touch_syncFD [of "[]" "\<lambda>_. False"]]) (simp add: keeps_def quiet_iff)

lemma published_keeps:
  "published p t r w \<Longrightarrow> effect_in (keeps p) m \<Longrightarrow> m w = (r', w') \<Longrightarrow> published p t r w'"
  by (drule (1) effect_inD) (simp add: published_def keeps_def)

lemma published_deferE:
  assumes "deferE m d w = (r, w')" "\<And>v. m w = (r, v) \<Longrightarrow> published p t r v" "effect_in (keeps p) (d r)"
  shows "published p t r w'"
proof -
  from assms(1) obtain v where v: "m w = (r, v)" "snd (d r v) = w'" by (auto simp: deferE_iff)
  show ?thesis by (rule published_keeps [OF assms(2) [OF v(1)] assms(3), of "fst (d r v)"]) (simp flip: v(2))
qed

lemma effect_wf: "effect_in (touch fd P) m \<Longrightarrow> m w = (r, w') \<Longrightarrow> wf_node (fs w) \<Longrightarrow> wf_node (fs w')"
  by (drule (1) effect_inD, erule (1) touch_wf)

text \<open>Copying into a fresh directory of \<open>payloads/\<close> and renaming it.\<close>

lemma copy_then_rename:
  assumes wf: "wf_node (fs w)" and ne: "tn \<noteq> rid" and ap: "apart (pfd @ [tn]) (sfd @ [sn])"
    and src: "lookup_path (fs w) (sfd @ [sn]) = Some (Dir es)" and tmp: "lookup_path (fs w) (pfd @ [tn]) = Some (Dir [])"
    and tgt: "lookup_path (fs w) (pfd @ [rid]) = None"
    and run: "bindE (copyDirectoryContentsAt sfd sp sn pfd pp tn) (\<lambda>_.
         bindE (renameDirectoryAt pfd tn pfd rid) (\<lambda>_. syncFD pfd p)) w = (r, w')"
  shows "published (pfd @ [rid]) (Dir es) r w'"
  using run
proof (cases rule: bindE_cases)
  case (fail e)
  then show ?thesis
    using effect_inD [OF keeps_other [OF touch_copyDirectoryContentsAt [of "only tn" tn, OF refl], of rid] fail(1)] ne tgt by (simp add: published_def keeps_def)
next
  case (ok x u)
  have u: "fs u = update_at (pfd @ [tn]) (\<lambda>_. Dir es) (fs w)"
    using copyDirectoryContentsAt_Inr [OF _ wf ap src tmp] ok(1) by simp
  have "apart (pfd @ [tn]) (pfd @ [rid])" using ne by (auto simp: apart_def)
  then have rid: "lookup_path (fs u) (pfd @ [rid]) = None" and tn: "lookup_path (fs u) (pfd @ [tn]) = Some (Dir es)"
    using tgt tmp by (simp_all add: u lookup_update_same)
  from ok(2) show ?thesis
  proof (cases rule: bindE_cases)
    case fail': (fail e)
    then show ?thesis using renameDirectoryAt_Inl [OF fail'(1)] rid by (simp add: published_def)
  next
    case ok': (ok y v)
    have "lookup_path (fs v) (pfd @ [rid]) = Some (Dir es)"
      using rename_lookup [OF ok'(1) \<open>apart (pfd @ [tn]) (pfd @ [rid])\<close> tn] .
    then show ?thesis using quiet_fs(1) [OF ok'(2)] by (simp add: published_def)
  qed
qed

lemma publishViaPayloadTemp_published:
  assumes wf: "wf_node (fs w)" and c: "canonical_id rid"
    and sfd: "sfd = S @ [stagingDirName]" and pfd: "pfd = S @ [payloadsDirName]"
    and src: "lookup_path (fs w) (sfd @ [sn]) = Some (Dir es)"
    and tgt: "lookup_path (fs w) (pfd @ [rid]) = None"
    and run: "publishViaPayloadTemp ps sfd sn pfd rid w = (r, w')"
  shows "published (pfd @ [rid]) (Dir es) r w'"
  using run [unfolded publishViaPayloadTemp_def]
proof (cases rule: bindE_cases)
  case (fail e)
  have "effect_in (touch pfd (prefix publishTempPrefix)) (createPublishTempDirectoryAt pfd (ps_payloadsRoot ps) rid)"
    unfolding createPublishTempDirectoryAt_def by (rule touch_createRandomDirectoryAt) simp
  from effect_inD [OF keeps_other [OF this, of rid] fail(1)] show ?thesis
    using c canonical_not_hidden fail tgt by (auto simp: published_def keeps_def publishTempPrefix_def)
next
  case (ok x u)
  obtain tn tfd where x: "x = (tn, tfd)" by (cases x)
  note mk = createRandomDirectoryAt_Inr [OF ok(1) [unfolded x createPublishTempDirectoryAt_def]]
  have ne: "tn \<noteq> rid" using mk(2) canonical_not_hidden [OF c, of "''publish-'' @ rid"] by (auto simp: publishTempPrefix_def)
  have ap: "apart pfd (sfd @ q)" "apart sfd (pfd @ q)" for q
    by (auto simp: apart_def sfd pfd payloadsDirName_def stagingDirName_def)
  from mk(4) obtain ds where "lookup_path (fs w) pfd = Some (Dir ds)" by (rule dir_atE)
  then have u: "lookup_path (fs u) (sfd @ [sn]) = Some (Dir es)" "lookup_path (fs u) (pfd @ [tn]) = Some (Dir [])"
      "lookup_path (fs u) (pfd @ [rid]) = None" "wf_node (fs u)"
    using mk(3,5) ap src tgt ne wf
    by (auto simp: lookup_update_below lookup_set_entry [where q = "[]", simplified] wf_update_at wf_set_entry
        lookup_path_append [of "fs w" pfd])
  have ap': "apart (pfd @ [tn]) (sfd @ [sn])" using apart_below [OF ap(1) [of "[]"], of "[tn]" "[sn]"] by simp
  have cleanup: "effect_in (keeps (pfd @ [rid]))
      (case r of Inl e \<Rightarrow> bindE (ignoreE (removeEntryTreeAt pfd (ps_payloadsRoot ps) tn)) (\<lambda>_. syncFD pfd (ps_payloadsRoot ps))
       | Inr _ \<Rightarrow> retE ())" for r :: "goerr + unit"
    using ne by (intro keeps.effect_intros keeps_syncFD keeps_other [OF touch_removeEntryTreeAt [of "only tn"]]) auto
  from ok(2) [unfolded x prod.case] show ?thesis
  proof (cases rule: bindE_cases)
    case f: (fail e)
    then show ?thesis using published_deferE [OF f(1) copy_then_rename [OF u(4) ne ap' u(1,2,3)] cleanup] by simp
  next
    case o: (ok y v)
    have "published (pfd @ [rid]) (Dir es) (Inr y) v"
      by (rule published_deferE [OF o(1) copy_then_rename [OF u(4) ne ap' u(1,2,3)] cleanup])
    moreover have "effect_in (keeps (pfd @ [rid])) (bindE (ignoreE (removeEntryTreeAt sfd (ps_stagingRoot ps) sn))
        (\<lambda>_. ignoreE (syncFD sfd (ps_stagingRoot ps))))"
      by (intro keeps.effect_intros keeps_syncFD keeps_apart [OF touch_removeEntryTreeAt [of anywhere]] ap) simp
    ultimately have "published (pfd @ [rid]) (Dir es) (Inr y) w'" using o(2) by (rule published_keeps)
    then show ?thesis by (simp add: published_def)
  qed
qed

lemma publishPayload_published:
  assumes wf: "wf_node (fs w)" and c: "canonical_id rid"
    and sfd: "sfd = S @ [stagingDirName]" and pfd: "pfd = S @ [payloadsDirName]"
    and src: "lookup_path (fs w) (sfd @ [sn]) = Some t" and tgt: "lookup_path (fs w) (pfd @ [rid]) = None"
    and run: "publishPayload ps sfd sn pfd rid w = (r, w')" and d: "is_Dir t"
  shows "published (pfd @ [rid]) t r w'"
proof -
  obtain es where t: "t = Dir es" using d by (cases t) auto
  obtain r1 u where u: "renameDirectoryAt sfd sn pfd rid w = (r1, u)" by (cases "renameDirectoryAt sfd sn pfd rid w")
  show ?thesis
  proof (cases r1)
    case (Inl e)
    with u have fsu: "fs u = fs w" by (auto dest: renameDirectoryAt_Inl)
    show ?thesis
    proof (cases "isCrossDeviceError e")
      case True
      with run u Inl obtain r0 where "publishViaPayloadTemp ps sfd sn pfd rid u = (r0, w')" "isl r0 = isl r"
        by (auto simp: publishPayload_def Let_def tryE_def mapErr_iff split: sum.splits) (metis isl_map_sum)+
      with publishViaPayloadTemp_published [OF _ c sfd pfd, of u sn es ps r0 w'] assms fsu t show ?thesis
        by (cases r; cases r0) (auto simp: published_def)
    next
      case False
      with run u Inl fsu tgt show ?thesis by (auto simp: publishPayload_def Let_def tryE_def published_def)
    qed
  next
    case (Inr y)
    have "apart (sfd @ [sn]) (pfd @ [rid])" by (auto simp: apart_def sfd pfd stagingDirName_def payloadsDirName_def)
    with u Inr src have "lookup_path (fs u) (pfd @ [rid]) = Some t" by (auto intro: rename_lookup)
    then have "published (pfd @ [rid]) t r u" by (simp add: published_def)
    moreover have "effect_in (keeps (pfd @ [rid])) (bindE (syncFD pfd (ps_payloadsRoot ps)) (\<lambda>_. syncFD sfd (ps_stagingRoot ps)))"
      by (intro keeps.effect_bindE keeps_syncFD)
    ultimately show ?thesis
      using run u Inr by (auto simp: publishPayload_def Let_def tryE_def intro: published_keeps)
  qed
qed

section \<open>Where the spool lives\<close>

definition walk_path :: "string list \<Rightarrow> path" where
  "walk_path cs = filter (\<lambda>c. c \<noteq> [] \<and> c \<noteq> ''.'') cs"

definition spool_path :: "payload_store \<Rightarrow> 'z fs_world_scheme \<Rightarrow> path" where
  "spool_path ps w =
     (let p = filepath_Clean (ps_root ps) in
      if filepath_IsAbs p then walk_path (tl (Split CHR ''/'' p)) else cwd w @ walk_path (Split CHR ''/'' p))"

lemma walkComponents_Inr:
  "walkComponents False p fd q cs w = (Inr fd', w') \<Longrightarrow> fd' = fd @ walk_path cs"
proof (induction cs arbitrary: fd q w)
  case (Cons c cs)
  then show ?case
    by (auto simp: walk_path_def Let_def bindE_Inr_iff split: if_splits dest!: openDirectoryAtNoFollow_Inr(1))
      (drule Cons.IH, simp add: walk_path_def)
qed (simp add: walk_path_def)

lemma openRoot_Inr:
  assumes "openRoot ps w = (Inr fd, w')" shows "fd = spool_path ps w" "fs w' = fs w" "spool_path ps w' = spool_path ps w"
proof -
  have q: "effect_in quiet (openRoot ps)"
    unfolding openRoot_def by (intro touch.effect_intros touch_intros)
  show "fs w' = fs w" "spool_path ps w' = spool_path ps w"
    using quiet_result [OF assms q] by (simp_all add: spool_path_def Let_def)
  from assms show "fd = spool_path ps w"
    by (auto simp: openRoot_def openDirectoryPathNoFollow_def walkDirectoryPathNoFollow_def bindE_Inr_iff
      openDirectoryNoFollow_def attemptE_Inr spool_path_def Let_def filepath_IsAbs_def
      split: if_splits dest!: walkComponents_Inr)
qed

definition payload_path :: "payload_store \<Rightarrow> 'z fs_world_scheme \<Rightarrow> string \<Rightarrow> path" where
  "payload_path ps w rid = spool_path ps w @ [payloadsDirName, rid]"

section \<open>Saving is atomic\<close>

lemma keeps_quiet: "effect_in quiet m \<Longrightarrow> effect_in (keeps q) m"
  by (erule effect_in_mono) (simp add: keeps_def quiet_iff)

lemma touch_saveAttachments [touch_intros]: "effect_in (touch fd anywhere) (saveAttachments lib fd p i as)"
  by (induction as arbitrary: i)
    (auto intro!: touch.effect_intros touch_intros touch_writeRegularFileAt simp del: retE_apply)

lemma touch_stagePayload [touch_intros]: "effect_in (touch fd anywhere) (stagePayload lib rid fd p msg)"
proof -
  have *: "effect_in (touch fd anywhere) (saveAttachments lib d q i as)" if "d = fd @ [n]" for d q i as n
    unfolding that by (rule effect_in_parent [OF touch_saveAttachments]) simp
  show ?thesis
    unfolding stagePayload_def stageAttachments_def Let_def
    by (intro touch.effect_bindE_res [where m = "createDirectoryAt _ _ _"] touch.effect_intros touch_intros
        touch_writeRegularFileAt *)
      (auto dest: createDirectoryAt_fd)
qed

lemma staged_then_published:
  assumes wf: "wf_node (fs w)" and c: "canonical_id rid"
    and sfd: "sfd = S @ [stagingDirName]" and pfd: "pfd = S @ [payloadsDirName]"
    and src: "lookup_path (fs w) (sfd @ [sn]) = Some (Dir [])" and tgt: "lookup_path (fs w) (pfd @ [rid]) = None"
    and run: "bindE (stagePayload lib rid (sfd @ [sn]) p msg) (\<lambda>_. publishPayload ps sfd sn pfd rid) w = (r, w')"
  shows "(\<exists>t. complete_payload lib msg t \<and> published (pfd @ [rid]) t r w') \<or>
         (isl r \<and> lookup_path (fs w') (pfd @ [rid]) = None)"
  using run
proof (cases rule: bindE_cases)
  case (fail e)
  have "apart (sfd @ [sn]) (pfd @ [rid])" by (auto simp: apart_def sfd pfd stagingDirName_def payloadsDirName_def)
  from effect_inD [OF keeps_apart [OF touch_stagePayload this] fail(1)] fail(2) tgt show ?thesis
    by (simp add: keeps_def)
next
  case (ok x u)
  then obtain t where t: "complete_payload lib msg t" "is_Dir t" "wf_node t" and u: "fs u = update_at (sfd @ [sn]) (\<lambda>_. t) (fs w)"
    using stagePayload_Inr [OF wf src] by force
  have "wf_node (fs u)" unfolding u using wf t(3) by (auto intro: wf_update_at)
  moreover have "lookup_path (fs u) (sfd @ [sn]) = Some t" using src by (simp add: u lookup_update_same)
  moreover have "lookup_path (fs u) (pfd @ [rid]) = None"
    using tgt by (auto simp: u sfd pfd apart_def stagingDirName_def payloadsDirName_def)
  ultimately have "published (pfd @ [rid]) t r w'" using ok(2) t(2) by (intro publishPayload_published [OF _ c sfd pfd])
  with t(1) show ?thesis by blast
qed

lemma staging_payloads_apart:
  "apart (S @ [stagingDirName] @ p) (S @ [payloadsDirName] @ q)" "apart (S @ [payloadsDirName] @ q) (S @ [stagingDirName] @ p)"
  by (auto simp: apart_def stagingDirName_def payloadsDirName_def)

lemma stageAndPublish_published:
  assumes wf: "wf_node (fs w)" and c: "canonical_id rid"
    and sfd: "sfd = S @ [stagingDirName]" and pfd: "pfd = S @ [payloadsDirName]"
    and tgt: "lookup_path (fs w) (pfd @ [rid]) = None"
    and run: "stageAndPublish lib ps pfd sfd rid msg w = (r, w')"
  shows "(\<exists>t. complete_payload lib msg t \<and> published (pfd @ [rid]) t r w') \<or>
         (isl r \<and> lookup_path (fs w') (pfd @ [rid]) = None)"
  using run [unfolded stageAndPublish_def]
proof (cases rule: bindE_cases)
  case (fail e)
  have "effect_in (touch sfd anywhere) (createStagingDirectoryAt sfd (ps_stagingRoot ps) rid)"
    unfolding createStagingDirectoryAt_def by (rule touch_createRandomDirectoryAt) simp
  then have "effect_in (keeps (pfd @ [rid])) (createStagingDirectoryAt sfd (ps_stagingRoot ps) rid)"
    by (rule keeps_apart) (use staging_payloads_apart [of S "[]"] in \<open>simp add: sfd pfd\<close>)
  from effect_inD [OF this fail(1)] show ?thesis using fail(2) tgt by (simp add: keeps_def)
next
  case (ok x u)
  obtain sn fd where x: "x = (sn, fd)" by (cases x)
  note mk = createRandomDirectoryAt_Inr [OF ok(1) [unfolded x createStagingDirectoryAt_def]]
  have ap: "apart sfd (pfd @ [rid])" using staging_payloads_apart [of S "[]" "[rid]"] by (simp add: sfd pfd)
  obtain ds where ds: "lookup_path (fs w) sfd = Some (Dir ds)" using mk(4) by (rule dir_atE)
  have "wf_node (fs u)" "lookup_path (fs u) (sfd @ [sn]) = Some (Dir [])" "lookup_path (fs u) (pfd @ [rid]) = None"
    using wf mk(5) ds ap tgt
    by (auto simp: wf_update_at wf_set_entry lookup_update_below lookup_set_entry [where q = "[]", simplified])
  note st = staged_then_published [OF this(1) c sfd pfd this(2,3)]
  from ok(2) x mk(1) obtain v where v: "bindE (stagePayload lib rid (sfd @ [sn]) (filepath_Join (ps_stagingRoot ps) sn) msg)
      (\<lambda>_. publishPayload ps sfd sn pfd rid) u = (r, v)" and w': "w' = snd (discardStage ps sfd sn r v)"
    by (auto simp: deferE_iff)
  have "effect_in (keeps (pfd @ [rid])) (discardStage ps sfd sn r)"
    unfolding discardStage_def
    by (intro keeps.effect_intros keeps_syncFD keeps_apart [OF touch_removeEntryTreeAt [of anywhere]] ap) simp
  then have "lookup_path (fs w') (pfd @ [rid]) = lookup_path (fs v) (pfd @ [rid])"
    unfolding w' effect_in_def keeps_def by blast
  with st [OF v] show ?thesis by (auto simp: published_def)
qed

text \<open>An opening or checking call in front either ends the operation with the tree as it was, or is passed.\<close>

lemma quiet_bind_cases:
  assumes "bindE m f w = (r, w')" "effect_in quiet m"
  obtains (stop) "isl r" "fs w' = fs w"
  | (go) x u where "m w = (Inr x, u)" "fs u = fs w" "env_step w u" "f x u = (r, w')"
  using assms(1)
  by (cases rule: bindE_cases) (auto dest: quiet_result(1) [OF _ assms(2)] quiet_result(3) [OF _ assms(2)])

lemma quiet_openers:
  "effect_in quiet (openRoot ps)" "effect_in quiet (openPayloads ps fd)" "effect_in quiet (openStaging ps fd)"
  "effect_in quiet (mapErr g (entryModeAt fd n))"
  unfolding openRoot_def openPayloads_def openStaging_def
  by (intro touch.effect_intros touch_intros; fail)+

lemma openPayloads_Inr: "openPayloads ps fd w = (Inr x, w') \<Longrightarrow> x = fd @ [payloadsDirName]"
  by (auto simp: openPayloads_def dest: openDirectoryAtNoFollow_Inr)

lemma openStaging_Inr: "openStaging ps fd w = (Inr x, w') \<Longrightarrow> x = fd @ [stagingDirName]"
  by (auto simp: openStaging_def dest: openDirectoryAtNoFollow_Inr)

text \<open>What \<open>Save\<close> does when it gets past its opening calls.\<close>

lemma Save_cases:
  assumes "Save lib ps rid msg w = (r, w')"
  obtains (stop) "isl r" "fs w' = fs w"
  | (go) u u0 where "canonical_id (TrimSpace rid)" "fs u = fs w"
      "openRoot ps w = (Inr (spool_path ps w), u0)" "env_step w u"
      "stageAndPublish lib ps (spool_path ps w @ [payloadsDirName]) (spool_path ps w @ [stagingDirName]) (TrimSpace rid) msg u = (r, w')"
proof (cases "canonical_id (TrimSpace rid)")
  case c: True
  note run = assms [unfolded Save_def Let_def c option.case]
  from run quiet_openers(1) show thesis
  proof (cases rule: quiet_bind_cases)
    case 1: (go rfd u1)
    note r = openRoot_Inr(1) [OF 1(1)]
    from 1(4) quiet_openers(2) show thesis
    proof (cases rule: quiet_bind_cases)
      case 2: (go pfd u2)
      from 2(4) quiet_openers(3) show thesis
      proof (cases rule: quiet_bind_cases)
        case 3: (go sfd u3)
        from 3(4) quiet_openers(4) show thesis
        proof (cases rule: quiet_bind_cases)
          case 4: (go me u4)
          have "env_step w u4" using 1(3) 2(3) 3(3) 4(3) by (blast intro: env_step_trans)
          then show thesis
            using 1(1,2) 2(2) 3(2) 4 openPayloads_Inr [OF 2(1)] openStaging_Inr [OF 3(1)] r c stop go
            by (cases me) (auto split: if_splits)
        qed (use 1 2 3 in \<open>auto intro: stop\<close>)
      qed (use 1 2 in \<open>auto intro: stop\<close>)
    qed (use 1 in \<open>auto intro: stop\<close>)
  qed (auto intro: stop)
qed (use assms in \<open>auto simp: Save_def Let_def intro: stop\<close>)

lemma Save_published:
  assumes wf: "wf_node (fs w)" and tgt: "lookup_path (fs w) (payload_path ps w (TrimSpace rid)) = None"
    and run: "Save lib ps rid msg w = (r, w')"
  shows "(\<exists>t. complete_payload lib msg t \<and> published (payload_path ps w (TrimSpace rid)) t r w') \<or>
         (isl r \<and> lookup_path (fs w') (payload_path ps w (TrimSpace rid)) = None)"
  using run
proof (cases rule: Save_cases)
  case (go u u0)
  then show ?thesis
    using stageAndPublish_published [OF _ go(1) refl refl _ go(5)] wf tgt by (simp add: payload_path_def)
qed (use tgt in auto)

section \<open>Saving leaves other payloads alone\<close>

lemma lookup_set_other: "m \<noteq> n \<Longrightarrow> lookup_path (set_entry n c d) (m # q) = lookup_path d (m # q)"
  by (rule entry_change_lookup [OF entry_change_set [of "only n"]]) simp_all

lemma keeps_rename_other:
  assumes "n \<noteq> rid" and ap: "apart sfd (pfd @ [n])"
  shows "effect_in (keeps (pfd @ [n])) (renameDirectoryAt sfd sn pfd rid)"
proof (rule effect_inI)
  fix w :: "'z fs_world_scheme"
  obtain r w' where run: "renameDirectoryAt sfd sn pfd rid w = (r, w')" by fastforce
  show "keeps (pfd @ [n]) w (snd (renameDirectoryAt sfd sn pfd rid w))"
  proof (cases r)
    case (Inr x)
    with run obtain c where "fs w' = update_at pfd (set_entry rid c) (update_at sfd (del_entry sn) (fs w))"
      by (auto elim: renameDirectoryAt_Inr)
    moreover have "lookup_path (update_at sfd (del_entry sn) (fs w)) (pfd @ [n]) = lookup_path (fs w) (pfd @ [n])"
      using ap by simp
    ultimately show ?thesis
      using run assms by (simp add: keeps_def lookup_path_append lookup_update_same lookup_set_other split: option.splits)
  qed (use run renameDirectoryAt_Inl in \<open>fastforce simp: keeps_def\<close>)
qed

lemma keeps_stageAndPublish:
  assumes n: "n \<noteq> rid" "\<not> prefix publishTempPrefix n"
    and sfd: "sfd = S @ [stagingDirName]" and pfd: "pfd = S @ [payloadsDirName]"
  shows "effect_in (keeps (pfd @ [n])) (stageAndPublish lib ps pfd sfd rid msg)"
proof -
  have ap: "apart (sfd @ q) (pfd @ [n])" for q
    using staging_payloads_apart [of S q "[n]"] by (simp add: sfd pfd)
  have *: "effect_in (keeps (pfd @ [n])) (stagePayload lib rid fd p msg)" if "fd = sfd @ [sn]" for fd sn p
    unfolding that by (rule keeps_apart [OF touch_stagePayload ap])
  have create: "effect_in (keeps (pfd @ [n])) (createStagingDirectoryAt sfd (ps_stagingRoot ps) rid)"
    "effect_in (keeps (pfd @ [n])) (createPublishTempDirectoryAt pfd (ps_payloadsRoot ps) rid)"
    unfolding createStagingDirectoryAt_def createPublishTempDirectoryAt_def using n ap [of "[]"]
    by (auto intro!: keeps_apart [OF touch_createRandomDirectoryAt [of anywhere]]
        keeps_other [OF touch_createRandomDirectoryAt [of "prefix publishTempPrefix"]])
  have rm: "effect_in (keeps (pfd @ [n])) (removeEntryTreeAt sfd p sn)" for p sn
    using ap [of "[]"] by (auto intro: keeps_apart [OF touch_removeEntryTreeAt [of anywhere]])
  have tmp: "effect_in (keeps (pfd @ [n])) (removeEntryTreeAt pfd p tn)"
      "effect_in (keeps (pfd @ [n])) (copyDirectoryContentsAt sfd sp sn pfd p tn)"
      "effect_in (keeps (pfd @ [n])) (renameDirectoryAt pfd tn pfd rid)" if "prefix publishTempPrefix tn" for p sp sn tn
    using n that
    by (auto intro!: keeps_other [OF touch_removeEntryTreeAt [of "prefix publishTempPrefix"]]
      keeps_other [OF touch_copyDirectoryContentsAt [of "prefix publishTempPrefix"]]
      keeps_other [OF touch_renameDirectoryAt [of "\<lambda>m. m = rid \<or> prefix publishTempPrefix m"]])
  have via: "effect_in (keeps (pfd @ [n])) (publishViaPayloadTemp ps sfd sn pfd rid)" for sn
    unfolding publishViaPayloadTemp_def
    by (intro keeps.effect_prod keeps.effect_bindE_res [where m = "createPublishTempDirectoryAt _ _ _"] keeps.effect_intros
        keeps_syncFD create rm tmp)
      (auto simp: createPublishTempDirectoryAt_def dest!: createRandomDirectoryAt_name dest: append_prefixD)
  show ?thesis
    unfolding stageAndPublish_def publishPayload_def discardStage_def Let_def
    by (intro keeps.effect_prod keeps.effect_bindE_res [where m = "createStagingDirectoryAt _ _ _"] keeps.effect_intros
        keeps_syncFD create rm via keeps_rename_other n * ap [of "[]", simplified])
      (auto simp: createStagingDirectoryAt_def dest!: createRandomDirectoryAt_name)
qed

text \<open>A save changes nothing but the file tree and the counters.\<close>

interpretation env: op_preorder env_step
  by unfold_locales (fact env_step_refl, rule env_step_trans)

lemma env_touch: "effect_in (touch fd P) m \<Longrightarrow> effect_in env_step m"
  by (erule effect_in_mono) (rule touch_env)

lemma env_renameDirectoryAt: "effect_in env_step (renameDirectoryAt fd n fd' n')"
proof -
  have "effect_in env_step (sys_renameat fd n fd' n')"
    by (rule effect_inI) (auto simp: sys_renameat_def attemptE_def Let_def env_step_def split: option.splits)
  then show ?thesis
    unfolding renameDirectoryAt_def by (intro env.effect_bindE env_touch [OF touch_requireEntryTypeAt])
qed

lemma env_stageAndPublish: "effect_in env_step (stageAndPublish lib ps pfd sfd rid msg)"
  unfolding stageAndPublish_def publishPayload_def publishViaPayloadTemp_def discardStage_def Let_def
    createStagingDirectoryAt_def createPublishTempDirectoryAt_def
  by (intro env.effect_intros env_renameDirectoryAt env_touch [OF touch_syncFD] env_touch [OF touch_stagePayload]
      env_touch [OF touch_removeEntryTreeAt [of anywhere]] env_touch [OF touch_copyDirectoryContentsAt [of anywhere]]
      env_touch [OF touch_createRandomDirectoryAt [of anywhere]]) simp_all

lemma Save_keeps_others:
  assumes "n \<noteq> TrimSpace rid" "\<not> prefix publishTempPrefix n" and run: "Save lib ps rid msg w = (r, w')"
  shows "lookup_path (fs w') (payload_path ps w n) = lookup_path (fs w) (payload_path ps w n)"
  using run
proof (cases rule: Save_cases)
  case (go u u0)
  then show ?thesis
    using effect_inD [OF keeps_stageAndPublish [OF assms(1,2) refl refl] go(5)] by (simp add: keeps_def payload_path_def)
qed simp

end
