(* ===== verification/Payload_Roundtrip.thy ===== *)
theory Payload_Roundtrip
  imports Payload_Store_Laws
begin

text \<open>
  Loading payloads: what a successful load has verified, and that a load after a save returns the
  saved message with its two sender addresses trimmed.
\<close>

section \<open>Opening the spool again\<close>

lemma dir_at_prefix: "lookup_path t (p @ q) = Some c \<Longrightarrow> q \<noteq> [] \<Longrightarrow> dir_at t p"
proof -
  assume a: "lookup_path t (p @ q) = Some c" "q \<noteq> []"
  then obtain d where d: "lookup_path t p = Some d" "lookup_path d q = Some c"
    by (auto simp: lookup_path_append split: option.splits)
  with a(2) show ?thesis by (cases d; cases q) (auto simp: dir_at_def)
qed

lemma dir_at_append: "dir_at t (p @ q) \<Longrightarrow> dir_at t p"
  using dir_at_prefix [of t p q] by (cases "q = []") (auto elim: dir_atE)

lemma walkComponents_again:
  assumes "walkComponents False p fd q cs w = (Inr fd', w')" "fault_free v" "dir_at (fs v) fd'"
  shows "returns (walkComponents False p fd q cs) v fd'"
  using assms
proof (induction cs arbitrary: fd q w v)
  case (Cons c cs)
  show ?case
  proof (cases "c = [] \<or> c = ''.''")
    case False
    with Cons.prems(1) obtain u where rest: "walkComponents False p (fd @ [c]) (filepath_Join q c) cs u = (Inr fd', w')"
      and c: "c \<noteq> ''..''"
      by (auto simp: Let_def bindE_Inr_iff split: if_splits dest!: openDirectoryAtNoFollow_Inr(1))
    have "dir_at (fs v) (fd @ [c])"
    proof (cases "walk_path cs = []")
      case True
      then show ?thesis using walkComponents_Inr [OF rest] Cons.prems(3) by simp
    next
      case False
      obtain es where "lookup_path (fs v) fd' = Some (Dir es)" using Cons.prems(3) by (rule dir_atE)
      with walkComponents_Inr [OF rest] False show ?thesis
        using dir_at_prefix [of "fs v" "fd @ [c]" "walk_path cs"] by simp
    qed
    with False c Cons.prems(2,3) rest show ?thesis
      by (auto simp: Let_def intro!: returns_bindE returns_mapErr returns_open_dir returns_inert Cons.IH
          intro: fault_free_env)
  qed (use Cons in auto)
qed simp

lemma openRoot_again:
  assumes "openRoot ps w = (Inr fd, w')" "fault_free v" "dir_at (fs v) fd" "cwd v = cwd w"
  shows "returns (openRoot ps) v fd"
proof -
  define c where "c = filepath_Clean (ps_root ps)"
  define st where "st = (if filepath_IsAbs c then ''/'' else ''.'')"
  define cs where "cs = (if filepath_IsAbs c then tl (Split CHR ''/'' c) else Split CHR ''/'' c)"
  define fd0 where "fd0 = (if filepath_IsAbs c then [] else cwd w)"
  have st0: "filepath_IsAbs st = filepath_IsAbs c" by (simp add: st_def filepath_IsAbs_def)
  from assms(1) obtain u where c: "c \<noteq> []" and walk: "walkComponents False (ps_root ps) fd0 st cs u = (Inr fd, w')"
    by (auto simp: openRoot_def openDirectoryPathNoFollow_def walkDirectoryPathNoFollow_def Let_def bindE_Inr_iff
        openDirectoryNoFollow_def attemptE_Inr c_def [symmetric] st_def [symmetric] st0 fd0_def cs_def split: if_splits)
  have d0: "dir_at (fs v) fd0" using assms(3) walkComponents_Inr [OF walk] by (auto intro: dir_at_append)
  have "returns (attemptE (\<lambda>w. (Inr (if filepath_IsAbs st then [] else cwd w), w))) v fd0"
    using assms(2,4) by (intro returns_attemptE) (auto simp: st0 fd0_def)
  then have "returns (openDirectoryNoFollow st) v fd0"
    unfolding openDirectoryNoFollow_def
    by (rule returns_bindE) (use assms(2) d0 in \<open>auto intro!: returns_bindE returns_requireDir intro: fault_free_env\<close>)
  moreover have "returns (walkComponents False (ps_root ps) fd0 st cs) v' fd" if "fs v' = fs v" "env_step v v'" for v'
    using walkComponents_again [OF walk fault_free_env [OF assms(2) that(2)]] that(1) assms(3) by simp
  ultimately have "returns (openDirectoryPathNoFollow (ps_root ps)) v (fd, c)"
    using c unfolding openDirectoryPathNoFollow_def walkDirectoryPathNoFollow_def Let_def c_def [symmetric] st_def [symmetric]
    by (auto intro!: returns_bindE returns_mapErr returns_retE simp: cs_def)
  then show ?thesis unfolding openRoot_def by (auto intro: returns_bindE returns_mapErr)
qed

section \<open>What a successful load has read\<close>

text \<open>One attachment against its reference: the file, its length and its digest.\<close>

definition attachment_verified :: "libs \<Rightarrow> node \<Rightarrow> path \<Rightarrow> nat \<Rightarrow> attachment_ref \<Rightarrow> attachment \<Rightarrow> bool" where
  "attachment_verified lib t fd i ref a \<longleftrightarrow>
     lookup_path t (fd @ [attachmentFileName i]) = Some (File (Data a)) \<and>
     TrimSpace (ref_Path ref) = attachmentRelPath i \<and>
     int (length (Data a)) = ref_SizeBytes ref \<and>
     EqualFold (hex_Encode (sha256_Sum256 lib (Data a))) (TrimSpace (ref_SHA256 ref)) \<and>
     Filename a = ref_Filename ref \<and> ContentType a = ref_ContentType ref"

lemma validateAttachmentRef_Inr:
  "validateAttachmentRef i ref = Inr n \<Longrightarrow> n = attachmentFileName i \<and> TrimSpace (ref_Path ref) = attachmentRelPath i"
  by (auto simp: validateAttachmentRef_def split: if_splits option.splits)

lemma loadAttachments_Inr:
  "loadAttachments lib rid p fd i refs w = (Inr as, w') \<Longrightarrow>
     fs w' = fs w \<and> length as = length refs \<and>
     (\<forall>k < length refs. attachment_verified lib (fs w) fd (i + k) (refs ! k) (as ! k))"
proof (induction refs arbitrary: i w as)
  case (Cons ref refs)
  from Cons.prems obtain b u as' where v: "validateAttachmentRef i ref = Inr (attachmentFileName i)"
      and p: "TrimSpace (ref_Path ref) = attachmentRelPath i"
      and rd: "readRegularFileAtNoFollow fd (attachmentFileName i) w = (Inr b, u)"
      and ok: "int (length b) = ref_SizeBytes ref" "EqualFold (hex_Encode (sha256_Sum256 lib b)) (TrimSpace (ref_SHA256 ref))"
      and rest: "loadAttachments lib rid p fd (Suc i) refs u = (Inr as', w')"
      and as: "as = \<lparr>Filename = ref_Filename ref, ContentType = ref_ContentType ref, Data = b\<rparr> # as'"
    by (auto simp: case_throw_Inr Let_def bindE_Inr_iff split: if_splits dest: validateAttachmentRef_Inr)
  have u: "fs u = fs w" by (rule quiet_fs(7) [OF rd])
  show ?case
    using Cons.IH [OF rest] u ok p readRegularFileAtNoFollow_Inr [OF rd]
    by (auto simp: as attachment_verified_def nth_Cons split: nat.splits)
qed simp

lemma Load_Inr:
  assumes "Load lib ps rid w = (Inr m, w')"
  shows "\<exists>b mf. canonical_id (TrimSpace rid) \<and>
     lookup_path (fs w) (payload_path ps w (TrimSpace rid) @ [messageFileName]) = Some (File b) \<and>
     json_Unmarshal lib b = Inr mf \<and> m = messageFor mf (Attachments m) \<and>
     length (Attachments m) = length (mf_Attachments mf) \<and>
     (\<forall>k < length (mf_Attachments mf). attachment_verified lib (fs w)
        (payload_path ps w (TrimSpace rid) @ [attachmentsDirName]) k (mf_Attachments mf ! k) (Attachments m ! k))"
proof -
  let ?rid = "TrimSpace rid"
  from assms obtain rfd u1 pfd u2 dfd u3 b u4 mf afd u5 as where
    c: "canonical_id ?rid" and 1: "openRoot ps w = (Inr rfd, u1)" and 2: "openPayloads ps rfd u1 = (Inr pfd, u2)"
    and 3: "openDirectoryAtNoFollow pfd ?rid u2 = (Inr dfd, u3)"
    and 4: "readRegularFileAtNoFollow dfd messageFileName u3 = (Inr b, u4)"
    and mf: "json_Unmarshal lib b = Inr mf"
    and 5: "openAttachments ?rid (payloadDir ps ?rid) dfd (mf_Attachments mf) u4 = (Inr afd, u5)"
    and 6: "loadAttachments lib ?rid (payloadDir ps ?rid) afd 0 (mf_Attachments mf) u5 = (Inr as, w')"
    and m: "m = messageFor mf as"
    by (auto simp: Load_def Let_def option_throw_Inr bindE_Inr_iff case_throw_Inr)
  have r: "rfd = spool_path ps w" "fs u1 = fs w" using openRoot_Inr [OF 1] by auto
  have p: "pfd = rfd @ [payloadsDirName]" by (rule openPayloads_Inr [OF 2])
  have f2: "fs u2 = fs u1" by (rule quiet_result(1) [OF 2 quiet_openers(2)])
  have d: "dfd = pfd @ [?rid]" "fs u3 = fs u2" using openDirectoryAtNoFollow_Inr [OF 3] by auto
  have f4: "fs u4 = fs u3" by (rule quiet_fs(7) [OF 4])
  have a: "fs u5 = fs u4 \<and> (mf_Attachments mf \<noteq> [] \<longrightarrow> afd = dfd @ [attachmentsDirName])"
    using 5 by (auto simp: openAttachments_def split: if_splits dest!: openDirectoryAtNoFollow_spec)
  note mb = readRegularFileAtNoFollow_Inr [OF 4]
  have "length as = length (mf_Attachments mf) \<and> (\<forall>k < length (mf_Attachments mf).
      attachment_verified lib (fs w) (payload_path ps w ?rid @ [attachmentsDirName]) k (mf_Attachments mf ! k) (as ! k))"
    using 6 a r f2 d f4 p by (cases "mf_Attachments mf = []") (auto simp: payload_path_def dest!: loadAttachments_Inr)
  moreover have "Attachments m = as" by (simp add: m messageFor_def)
  ultimately show ?thesis using c mb mf m r f2 d p by (auto simp: payload_path_def)
qed

lemma quiet_Load: "effect_in quiet (Load lib ps rid)"
proof -
  have "effect_in quiet (loadAttachments lib rid p fd i refs)" for rid p fd i refs
    by (induction refs arbitrary: i)
      (auto simp: Let_def simp del: retE_apply throwE_apply intro!: touch.effect_intros touch_intros)
  then show ?thesis
    unfolding Load_def Let_def openRoot_def openPayloads_def openAttachments_def by (intro touch.effect_intros touch_intros)
qed

section \<open>Loading what was saved\<close>

definition normalized :: "message \<Rightarrow> message" where
  "normalized msg = msg\<lparr>EnvelopeFrom := TrimSpace (EnvelopeFrom msg), HeaderFrom := TrimSpace (HeaderFrom msg)\<rparr>"

lemma validate_own_ref:
  "length (sha256_Sum256 lib (Data a)) = 32 \<Longrightarrow> validateAttachmentRef i (attachmentRefFor lib i a) = Inr (attachmentFileName i)"
  by (simp add: validateAttachmentRef_def attachmentRefFor_def)

lemma returns_loadAttachments:
  assumes "fault_free v" "\<And>d. length (sha256_Sum256 lib d) = 32"
    "\<And>k. k < length as \<Longrightarrow> lookup_path (fs v) (fd @ [attachmentFileName (i + k)]) = Some (File (Data (as ! k)))"
  shows "returns (loadAttachments lib rid p fd i (attachment_refs lib i as)) v as"
  using assms
proof (induction as arbitrary: i v)
  case (Cons a as)
  have "lookup_path (fs v) (fd @ [attachmentFileName i]) = Some (File (Data a))" using Cons.prems(3) [of 0] by simp
  then have rd: "returns (readRegularFileAtNoFollow fd (attachmentFileName i)) v (Data a)"
    using Cons.prems(1) by (rule returns_read_file [rotated])
  have rest: "returns (loadAttachments lib rid p fd (Suc i) (attachment_refs lib (Suc i) as)) v' as"
    if "fs v' = fs v" "env_step v v'" for v'
    using Cons.prems(3) [of "Suc k" for k] that
    by (intro Cons.IH fault_free_env [OF Cons.prems(1)] Cons.prems(2)) auto
  have [simp]: "\<lparr>Filename = Filename a, ContentType = ContentType a, Data = Data a\<rparr> = a" by (cases a) simp
  show ?case
    unfolding attachment_refs.simps loadAttachments.simps validate_own_ref [OF Cons.prems(2)] sum.case Let_def
    by (rule returns_bindE [OF returns_mapErr [OF rd]])
      (auto simp: attachmentRefFor_def EqualFold_def intro!: returns_bindE rest returns_retE)
qed (simp add: returns_retE)

lemma lookup_attachment:
  "k < length as \<Longrightarrow> map_of (attachment_entries i as) (attachmentFileName (i + k)) = Some (File (Data (as ! k)))"
proof (induction as arbitrary: i k)
  case (Cons a as)
  then show ?case using Cons.IH [of "k - 1" "Suc i"] by (cases k) auto
qed simp

lemma payload_tree_entries:
  "lookup_path (payload_tree msg b) [messageFileName] = Some (File b)"
  "Attachments msg \<noteq> [] \<Longrightarrow> lookup_path (payload_tree msg b) [attachmentsDirName] = Some (Dir (attachment_entries 0 (Attachments msg)))"
  "k < length (Attachments msg) \<Longrightarrow>
     lookup_path (payload_tree msg b) [attachmentsDirName, attachmentFileName k] = Some (File (Data (Attachments msg ! k)))"
  using lookup_attachment [of k "Attachments msg" 0]
  by (auto simp: payload_tree_def attachments_dir_def messageFileName_def attachmentsDirName_def)

lemma returns_Load:
  assumes ff: "fault_free v" and c: "canonical_id rid" and root: "returns (openRoot ps) v S"
    and t: "lookup_path (fs v) (S @ [payloadsDirName, rid]) = Some t" and full: "complete_payload lib msg t"
    and sha: "\<And>d. length (sha256_Sum256 lib d) = 32"
    and json: "\<And>b. json_Marshal lib (manifestFor msg (attachment_refs lib 0 (Attachments msg))) = Inr b \<Longrightarrow>
      json_Unmarshal lib b = Inr (manifestFor msg (attachment_refs lib 0 (Attachments msg)))"
  shows "returns (Load lib ps rid) v (normalized msg)"
proof -
  let ?mf = "manifestFor msg (attachment_refs lib 0 (Attachments msg))"
  from full obtain b where b: "json_Marshal lib ?mf = Inr b" and tt: "t = payload_tree msg b"
    by (auto simp: complete_payload_def split: sum.splits)
  define P where "P = S @ [payloadsDirName]"
  define D where "D = P @ [rid]"
  have D: "lookup_path (fs v) D = Some t" using t by (simp add: D_def P_def)
  have dirs: "dir_at (fs v) P" "dir_at (fs v) D"
    using dir_at_prefix [of "fs v" P "[rid]"] D tt by (auto simp: D_def dir_at_def payload_tree_def)
  have mfile: "lookup_path (fs v) (D @ [messageFileName]) = Some (File b)"
    using payload_tree_entries(1) by (simp add: lookup_path_append D tt)
  have refs: "mf_Attachments ?mf = attachment_refs lib 0 (Attachments msg)" by (simp add: manifestFor_def)
  have nil: "attachment_refs lib 0 as = [] \<longleftrightarrow> as = []" for as by (cases as) auto
  have at: "returns (openAttachments rid (payloadDir ps rid) D (mf_Attachments ?mf)) v'
      (if Attachments msg = [] then [] else D @ [attachmentsDirName])"
    if "fs v' = fs v" "fault_free v'" for v' :: "'a fs_world_scheme"
    using that payload_tree_entries(2) [of msg b]
    by (auto simp: openAttachments_def refs nil dir_at_def lookup_path_append D tt
        intro!: returns_mapErr returns_open_dir)
  have load: "returns (loadAttachments lib rid (payloadDir ps rid) (if Attachments msg = [] then [] else D @ [attachmentsDirName])
      0 (mf_Attachments ?mf)) v' (Attachments msg)" if "fs v' = fs v" "fault_free v'" for v' :: "'a fs_world_scheme"
  proof (cases "Attachments msg = []")
    case False
    with that show ?thesis unfolding refs
      by (auto simp: lookup_path_append D tt payload_tree_entries(3) intro!: returns_loadAttachments sha)
  qed (simp add: manifestFor_def returns_retE)
  have msg: "messageFor ?mf (Attachments msg) = normalized msg"
    by (cases msg) (simp add: messageFor_def manifestFor_def normalized_def TrimSpace_idem)
  have opens: "returns (openPayloads ps S) v' P" "returns (mapErr g (openDirectoryAtNoFollow P rid)) v' D"
    "returns (mapErr g (readRegularFileAtNoFollow D messageFileName)) v' b"
    if "fs v' = fs v" "fault_free v'" for v' :: "'a fs_world_scheme" and g
    using that dirs mfile returns_open_dir [of v' S payloadsDirName] returns_open_dir [of v' P rid]
    by (auto simp: openPayloads_def P_def [symmetric] D_def [symmetric] intro!: returns_mapErr returns_read_file)
  show ?thesis
    unfolding Load_def Let_def canonical_id_trim [OF c] c option.case
    by (rule returns_bind_next [OF root ff], (rule returns_bind_next, rule opens, simp, assumption, assumption)+)
      (auto simp: json [OF b] msg intro!: returns_bind_next at load returns_retE)
qed

lemma Save_then_Load:
  assumes wf: "wf_node (fs w)" and tgt: "lookup_path (fs w) (payload_path ps w (TrimSpace rid)) = None"
    and run: "Save lib ps rid msg w = (Inr (), w')" and ff: "fault_free w'"
    and sha: "\<And>d. length (sha256_Sum256 lib d) = 32"
    and json: "\<And>b. json_Marshal lib (manifestFor msg (attachment_refs lib 0 (Attachments msg))) = Inr b \<Longrightarrow>
      json_Unmarshal lib b = Inr (manifestFor msg (attachment_refs lib 0 (Attachments msg)))"
  shows "fst (Load lib ps rid w') = Inr (normalized msg)"
proof -
  from Save_published [OF wf tgt run] obtain t where t: "complete_payload lib msg t"
    "lookup_path (fs w') (payload_path ps w (TrimSpace rid)) = Some t"
    by (auto simp: published_def)
  from run obtain u u0 where c: "canonical_id (TrimSpace rid)" and root: "openRoot ps w = (Inr (spool_path ps w), u0)"
    and u: "env_step w u" and st: "stageAndPublish lib ps (spool_path ps w @ [payloadsDirName])
      (spool_path ps w @ [stagingDirName]) (TrimSpace rid) msg u = (Inr (), w')"
    by (cases rule: Save_cases) auto
  have "cwd w' = cwd w" using u effect_inD [OF env_stageAndPublish st] by (simp add: env_step_def)
  moreover have "dir_at (fs w') (spool_path ps w)"
    using dir_at_prefix [of "fs w'" "spool_path ps w"] t(2) by (simp add: payload_path_def)
  ultimately have "returns (openRoot ps) w' (spool_path ps w)" by (intro openRoot_again [OF root ff])
  then have "returns (Load lib ps (TrimSpace rid)) w' (normalized msg)"
    using t sha json by (intro returns_Load [OF ff c]) (auto simp: payload_path_def)
  then show ?thesis by (auto simp: returns_def Load_def TrimSpace_idem)
qed

section \<open>An example spool\<close>

text \<open>An empty spool under \<open>/s\<close>, a message with one attachment, and a codec that knows its manifest.\<close>

definition example_world :: "fs_world" where
  "example_world =
     \<lparr>clock = (\<lambda>_. 0), ticks = 0, fault = (\<lambda>_. None), calls = 0, entropy = (\<lambda>n. Inr (replicate 16 (of_nat n))), draws = 0,
      fs = Dir [(''s'', Dir [(''payloads'', Dir []), (''payload-orphans'', Dir []), (''staging'', Dir [])])],
      cwd = [], short_write = (\<lambda>_. 0)\<rparr>"

definition example_store :: payload_store where
  "example_store =
     \<lparr>ps_root = ''/s'', ps_payloadsRoot = ''/s/payloads'', ps_orphanRoot = ''/s/payload-orphans'', ps_stagingRoot = ''/s/staging''\<rparr>"

definition example_message :: message where
  "example_message =
     \<lparr>EnvelopeFrom = '' a@x.org'', HeaderFrom = ''a@x.org'', ReplyTo = [], To = [''b@y.org''], Subject = ''hi'',
      TextBody = ''text'', HTMLBody = [], Attachments = [\<lparr>Filename = ''f'', ContentType = ''t'', Data = ''data''\<rparr>]\<rparr>"

definition example_libs :: libs where
  "example_libs =
     (let ref = \<lparr>ref_Filename = ''f'', ref_ContentType = ''t'', ref_Path = ''attachments/0.bin'', ref_SizeBytes = 4,
                 ref_SHA256 = hex_Encode (replicate 32 0)\<rparr>
      in \<lparr>sha256_Sum256 = (\<lambda>_. replicate 32 0), json_Marshal = (\<lambda>_. Inr ''m''),
          json_Unmarshal = (\<lambda>_. Inr (manifestFor example_message [ref]))\<rparr>)"

definition example_id :: string where
  "example_id = ''00000000-0000-4000-8000-000000000000''"

definition example_saved :: "fs_world" where
  "example_saved = snd (Save example_libs example_store example_id example_message example_world)"

lemma example_saved_ok: "Save example_libs example_store example_id example_message example_world = (Inr (), example_saved)"
proof -
  have "fst (Save example_libs example_store example_id example_message example_world) = Inr ()" by code_simp
  then show ?thesis by (simp add: example_saved_def prod_eq_iff)
qed

lemma example_start:
  "wf_node (fs example_world)" "lookup_path (fs example_world) (payload_path example_store example_world (TrimSpace example_id)) = None"
  by code_simp+

lemma example_saved_fault_free: "fault_free example_saved"
proof -
  have "fault example_saved = fault example_world"
  proof (cases rule: Save_cases [OF example_saved_ok])
    case (2 u u0)
    then show ?thesis using effect_inD [OF env_stageAndPublish 2(5)] by (simp add: env_step_def)
  qed simp
  then show ?thesis by (simp add: fault_free_def example_world_def)
qed

section \<open>Properties\<close>

text \<open>C11: saving a payload is atomic. Whatever system calls fail, and wherever, the final name under
  \<open>payloads/\<close> afterwards is absent or holds the complete payload (all attachments and the manifest), and
  it holds the complete payload when the save reports success.\<close>
theorem Save_atomic:
  assumes "wf_node (fs w)" "lookup_path (fs w) (payload_path ps w (TrimSpace rid)) = None"
    and "Save lib ps rid msg w = (r, w')"
  shows "case lookup_path (fs w') (payload_path ps w (TrimSpace rid)) of
           None \<Rightarrow> r \<noteq> Inr () | Some t \<Rightarrow> complete_payload lib msg t"
  using Save_published [OF assms] by (auto simp: published_def split: option.splits)

theorem Save_atomic_witness:
  "case lookup_path (fs example_saved) (payload_path example_store example_world (TrimSpace example_id)) of
     None \<Rightarrow> Inr () \<noteq> (Inr () :: goerr + unit) | Some t \<Rightarrow> complete_payload example_libs example_message t"
  by (rule Save_atomic [OF example_start example_saved_ok])

text \<open>C25: saving a payload leaves every other payload as it was, whatever fails: the entries of
  \<open>payloads/\<close> other than the saved one and the temporary publication directories do not change.\<close>
theorem Save_frame:
  assumes "n \<noteq> TrimSpace rid" "\<not> prefix publishTempPrefix n" "Save lib ps rid msg w = (r, w')"
  shows "lookup_path (fs w') (payload_path ps w n) = lookup_path (fs w) (payload_path ps w n)"
  using assms by (rule Save_keeps_others)

theorem Save_frame_witness:
  "lookup_path (fs example_saved) (payload_path example_store example_world ''other'') =
   lookup_path (fs example_world) (payload_path example_store example_world ''other'')"
proof (rule Save_frame [OF _ _ example_saved_ok])
  show "''other'' \<noteq> TrimSpace example_id" "\<not> prefix publishTempPrefix ''other''" by code_simp+
qed

text \<open>C12: a load after a successful save returns the saved message, with the two sender addresses
  trimmed. The digest has 32 bytes and the JSON codec reads back the manifest it wrote.\<close>
theorem Save_Load_roundtrip:
  assumes "wf_node (fs w)" "lookup_path (fs w) (payload_path ps w (TrimSpace rid)) = None"
    and "Save lib ps rid msg w = (Inr (), w')" "fault_free w'"
    and "\<And>d. length (sha256_Sum256 lib d) = 32"
    and "\<And>b. json_Marshal lib (manifestFor msg (attachment_refs lib 0 (Attachments msg))) = Inr b \<Longrightarrow>
      json_Unmarshal lib b = Inr (manifestFor msg (attachment_refs lib 0 (Attachments msg)))"
  shows "fst (Load lib ps rid w') = Inr (normalized msg)"
  using assms by (rule Save_then_Load)

theorem Save_Load_roundtrip_witness:
  "fst (Load example_libs example_store example_id example_saved) = Inr (normalized example_message)"
proof (rule Save_Load_roundtrip [OF example_start example_saved_ok example_saved_fault_free])
  show "length (sha256_Sum256 example_libs d) = 32" for d by (simp add: example_libs_def)
  have "manifestFor example_message (attachment_refs example_libs 0 (Attachments example_message)) =
      manifestFor example_message [\<lparr>ref_Filename = ''f'', ref_ContentType = ''t'', ref_Path = ''attachments/0.bin'',
        ref_SizeBytes = 4, ref_SHA256 = hex_Encode (replicate 32 0)\<rparr>]"
    by code_simp
  then show "json_Unmarshal example_libs b =
      Inr (manifestFor example_message (attachment_refs example_libs 0 (Attachments example_message)))" for b
    by (simp add: example_libs_def)
qed



end
