(* ===== verification/Record_Store.thy ===== *)
theory Record_Store
  imports Payload_FS "HOL-Library.Product_Lexorder" "HOL-Library.List_Lexorder" "HOL-Library.Char_ord"
begin

text \<open>
  internal/spool/sqlite_record_store.go: the record metadata in SQLite. The table is a list of rows
  with the columns of schema.go, its constraints are the predicate \<open>row_check\<close>. A statement either
  fails, as the fault oracle or a constraint says, with the table as it was, or has its effect. A
  transaction works on a copy of the table (\<open>tx\<close>) that \<open>COMMIT\<close> makes the table. The pool has one
  connection, so transactions do not overlap; a connection given back to the pool has no open
  transaction.
\<close>

section \<open>The table\<close>

record row =
  r_id :: string
  r_state :: string
  r_attempt :: int
  r_next_attempt_at_ms :: int
  r_operation_id :: "string option"
  r_operation_location :: "string option"
  r_provider_message_id :: "string option"
  r_first_submitted_at_ms :: "int option"
  r_last_error_message :: "string option"
  r_last_error_provider :: "string option"
  r_last_error_temporary :: "int option"
  r_last_error_timestamp_ms :: "int option"
  r_created_at_ms :: int
  r_updated_at_ms :: int

text \<open>An entry of \<open>sqlite_master\<close>, with the column names \<open>PRAGMA table_info\<close> reports for it.\<close>

record master_entry =
  me_type :: string
  me_name :: string
  me_sql :: "string option"
  me_columns :: "string list"

record database =
  records :: "row list"
  sqlite_master :: "master_entry list"
  user_version :: int

record spool_world = fs_world +
  db :: database
  tx :: database

text \<open>SQLite's \<open>trim\<close> removes spaces.\<close>

definition sql_trim :: "string \<Rightarrow> string" where
  "sql_trim s = rev (dropWhile (\<lambda>c. c = CHR '' '') (rev (dropWhile (\<lambda>c. c = CHR '' '') s)))"

definition positive_or_null :: "int option \<Rightarrow> bool" where
  "positive_or_null v = (case v of None \<Rightarrow> True | Some i \<Rightarrow> i > 0)"

definition row_check :: "row \<Rightarrow> bool" where
  "row_check r \<longleftrightarrow>
     length (r_id r) > 0 \<and> r_id r = sql_trim (r_id r) \<and>
     r_state r \<in> set [''queued'', ''working'', ''submitted'', ''succeeded'', ''dead-letter''] \<and>
     r_attempt r \<ge> 0 \<and>
     r_next_attempt_at_ms r > 0 \<and>
     positive_or_null (r_first_submitted_at_ms r) \<and>
     (case r_last_error_temporary r of None \<Rightarrow> True | Some t \<Rightarrow> t = 0 \<or> t = 1) \<and>
     positive_or_null (r_last_error_timestamp_ms r) \<and>
     r_created_at_ms r > 0 \<and>
     r_updated_at_ms r > 0 \<and> r_updated_at_ms r \<ge> r_created_at_ms r \<and>
     (r_last_error_message r = None \<and> r_last_error_provider r = None \<and> r_last_error_temporary r = None \<and>
        r_last_error_timestamp_ms r = None
      \<or> r_last_error_timestamp_ms r \<noteq> None)"

definition sql_insert :: "row \<Rightarrow> row list \<Rightarrow> goerr + row list" where
  "sql_insert r rows =
     (if \<not> row_check r then Inl (Opaque ''CHECK constraint failed: records'')
      else if r_id r \<in> r_id ` set rows then Inl (Opaque ''UNIQUE constraint failed: records.id'')
      else Inr (rows @ [r]))"

text \<open>\<open>UPDATE ... WHERE id = ? AND state = ?\<close>: the new table and the number of rows changed.\<close>

definition sql_update :: "string \<Rightarrow> string \<Rightarrow> (row \<Rightarrow> row) \<Rightarrow> row list \<Rightarrow> goerr + (row list \<times> nat)" where
  "sql_update rid st f rows =
     (let hit = (\<lambda>r. r_id r = rid \<and> r_state r = st) in
      if list_all (\<lambda>r. hit r \<longrightarrow> row_check (f r)) rows
      then Inr (map (\<lambda>r. if hit r then f r else r) rows, length (filter hit rows))
      else Inl (Opaque ''CHECK constraint failed: records''))"

definition ready_key :: "row \<Rightarrow> int \<times> int \<times> string" where
  "ready_key r = (r_next_attempt_at_ms r, r_created_at_ms r, r_id r)"

text \<open>\<open>WHERE state = ? AND next_attempt_at_ms <= ? ORDER BY ... LIMIT 1\<close>.\<close>

definition sql_select_ready :: "string \<Rightarrow> int \<Rightarrow> row list \<Rightarrow> row list" where
  "sql_select_ready st now rows =
     take 1 (sort_key ready_key (filter (\<lambda>r. r_state r = st \<and> r_next_attempt_at_ms r \<le> now) rows))"

definition sql_select_state :: "string \<Rightarrow> row list \<Rightarrow> row list" where
  "sql_select_state st rows =
     sort_key (\<lambda>r. (r_created_at_ms r, r_id r)) (filter (\<lambda>r. r_state r = st) rows)"

section \<open>Conversions\<close>

definition timeToMillis :: "gotime \<Rightarrow> int" where
  "timeToMillis ts = (if IsZero ts then 0 else UnixMilli ts)"

definition millisToTime :: "int \<Rightarrow> gotime" where
  "millisToTime v = v * millisecond"

definition nullIfEmpty :: "string \<Rightarrow> string option" where
  "nullIfEmpty value = (if TrimSpace value = [] then None else Some (TrimSpace value))"

definition nullIfZeroTime :: "gotime \<Rightarrow> int option" where
  "nullIfZeroTime ts = (if IsZero ts then None else Some (UnixMilli ts))"

definition lastErrorMessage :: "last_error option \<Rightarrow> string option" where
  "lastErrorMessage le = (case le of None \<Rightarrow> None | Some e \<Rightarrow> nullIfEmpty (le_Message e))"

definition lastErrorProvider :: "last_error option \<Rightarrow> string option" where
  "lastErrorProvider le = (case le of None \<Rightarrow> None | Some e \<Rightarrow> nullIfEmpty (le_Provider e))"

definition lastErrorTemporary :: "last_error option \<Rightarrow> int option" where
  "lastErrorTemporary le = (case le of None \<Rightarrow> None | Some e \<Rightarrow> Some (if le_Temporary e then 1 else 0))"

definition lastErrorTimestamp :: "last_error option \<Rightarrow> int option" where
  "lastErrorTimestamp le =
     (case le of None \<Rightarrow> None | Some e \<Rightarrow> if IsZero (le_Timestamp e) then None else Some (UnixMilli (le_Timestamp e)))"

record record_metadata =
  m_ID :: string
  m_State :: state
  m_Attempt :: int
  m_NextAttemptAt :: gotime
  m_OperationID :: string
  m_OperationLocation :: string
  m_ProviderMessageID :: string
  m_FirstSubmittedAt :: gotime
  m_LastError :: "last_error option"
  m_CreatedAt :: gotime
  m_UpdatedAt :: gotime

record recovery_snapshot =
  snap_requeued :: "record_metadata list"
  snap_submitted :: "record_metadata list"
  snap_validIDs :: "string list"

definition toRecord :: "record_metadata \<Rightarrow> spool_record" where
  "toRecord m =
     \<lparr>ID = m_ID m, Message = empty_message, State = m_State m, Attempt = m_Attempt m,
      NextAttemptAt = m_NextAttemptAt m, OperationID = m_OperationID m,
      OperationLocation = m_OperationLocation m, ProviderMessageID = m_ProviderMessageID m,
      FirstSubmittedAt = m_FirstSubmittedAt m, LastError = normalizeLastError (m_LastError m) zero_time,
      CreatedAt = m_CreatedAt m, UpdatedAt = m_UpdatedAt m\<rparr>"

text \<open>The column values of \<open>INSERT\<close> and of the full \<open>UPDATE\<close>.\<close>

definition row_of :: "spool_record \<Rightarrow> row" where
  "row_of rec =
     \<lparr>r_id = ID rec, r_state = state_text (State rec), r_attempt = Attempt rec,
      r_next_attempt_at_ms = timeToMillis (NextAttemptAt rec),
      r_operation_id = nullIfEmpty (OperationID rec), r_operation_location = nullIfEmpty (OperationLocation rec),
      r_provider_message_id = nullIfEmpty (ProviderMessageID rec),
      r_first_submitted_at_ms = nullIfZeroTime (FirstSubmittedAt rec),
      r_last_error_message = lastErrorMessage (LastError rec), r_last_error_provider = lastErrorProvider (LastError rec),
      r_last_error_temporary = lastErrorTemporary (LastError rec),
      r_last_error_timestamp_ms = lastErrorTimestamp (LastError rec),
      r_created_at_ms = timeToMillis (CreatedAt rec), r_updated_at_ms = timeToMillis (UpdatedAt rec)\<rparr>"

text \<open>A nullable text column read into a \<open>sql.NullString\<close>.\<close>

definition null_text :: "string option \<Rightarrow> string" where
  "null_text v = (case v of None \<Rightarrow> [] | Some s \<Rightarrow> s)"

definition scanLastError :: "row \<Rightarrow> goerr + last_error option" where
  "scanLastError r =
     (if r_last_error_message r \<noteq> None \<or> r_last_error_provider r \<noteq> None \<or>
         r_last_error_temporary r \<noteq> None \<or> r_last_error_timestamp_ms r \<noteq> None
      then
        if (case r_last_error_temporary r of None \<Rightarrow> False | Some t \<Rightarrow> t \<noteq> 0 \<and> t \<noteq> 1)
        then Inl (Errorf ''spool record %q has invalid last_error_temporary %d'' [r_id r, (case r_last_error_temporary r of None \<Rightarrow> [] | Some v \<Rightarrow> show_int v)])
        else (case r_last_error_timestamp_ms r of
                None \<Rightarrow> Inl (Errorf ''spool record %q has incomplete last error timestamp state'' [r_id r])
              | Some ts \<Rightarrow>
                  if ts \<le> 0 then Inl (Errorf ''spool record %q has incomplete last error timestamp state'' [r_id r])
                  else Inr (Some \<lparr>le_Message = TrimSpace (null_text (r_last_error_message r)),
                                  le_Provider = TrimSpace (null_text (r_last_error_provider r)),
                                  le_Temporary = (case r_last_error_temporary r of None \<Rightarrow> False | Some t \<Rightarrow> t \<noteq> 0),
                                  le_Timestamp = millisToTime ts\<rparr>))
      else Inr None)"

definition scanMetadata :: "row \<Rightarrow> goerr + record_metadata" where
  "scanMetadata r =
     map_sum (wrapStoreError ''validate spool metadata'') id
      (case validateCanonicalRecordID (r_id r) of
         Some e \<Rightarrow> Inl e
       | None \<Rightarrow>
           if \<not> isValidState (State_of (r_state r))
           then Inl (Errorf ''spool record %q has invalid state %q'' [r_id r, r_state r])
           else if r_attempt r < 0 then Inl (Errorf ''spool record %q has negative attempt %d'' [r_id r, show_int (r_attempt r)])
           else if r_next_attempt_at_ms r \<le> 0 then Inl (Errorf ''spool record %q has invalid next_attempt_at_ms %d'' [r_id r, show_int (r_next_attempt_at_ms r)])
           else if r_created_at_ms r \<le> 0 then Inl (Errorf ''spool record %q has invalid created_at_ms %d'' [r_id r, show_int (r_created_at_ms r)])
           else if r_updated_at_ms r \<le> 0 then Inl (Errorf ''spool record %q has invalid updated_at_ms %d'' [r_id r, show_int (r_updated_at_ms r)])
           else if (case r_first_submitted_at_ms r of None \<Rightarrow> False | Some v \<Rightarrow> v \<le> 0)
           then Inl (Errorf ''spool record %q has invalid first_submitted_at_ms %d'' [r_id r, (case r_first_submitted_at_ms r of None \<Rightarrow> [] | Some v \<Rightarrow> show_int v)])
           else if millisToTime (r_updated_at_ms r) < millisToTime (r_created_at_ms r)
           then Inl (Errorf ''spool record %q has updated_at before created_at'' [r_id r])
           else (case scanLastError r of
                   Inl e \<Rightarrow> Inl e
                 | Inr le \<Rightarrow>
                     Inr \<lparr>m_ID = r_id r, m_State = State_of (r_state r), m_Attempt = r_attempt r,
                          m_NextAttemptAt = millisToTime (r_next_attempt_at_ms r),
                          m_OperationID = TrimSpace (null_text (r_operation_id r)),
                          m_OperationLocation = TrimSpace (null_text (r_operation_location r)),
                          m_ProviderMessageID = TrimSpace (null_text (r_provider_message_id r)),
                          m_FirstSubmittedAt = (case r_first_submitted_at_ms r of
                                                  None \<Rightarrow> zero_time | Some v \<Rightarrow> millisToTime v),
                          m_LastError = le,
                          m_CreatedAt = millisToTime (r_created_at_ms r),
                          m_UpdatedAt = millisToTime (r_updated_at_ms r)\<rparr>))"

section \<open>Transactions\<close>

type_synonym ('z, 'a) db_op = "('z spool_world_scheme, 'a) op"

text \<open>A call into the database that can fail and touches no row: taking or giving back a connection.\<close>

definition sql_inert :: "('z, unit) db_op" where
  "sql_inert = attemptE (retE ())"

definition beginImmediate :: "('z, unit) db_op" where
  "beginImmediate =
     bindE (mapErr (wrapStoreError ''acquire sqlite connection'') sql_inert) (\<lambda>_.
     mapErr (wrapStoreError ''begin immediate sqlite transaction'')
       (attemptE (\<lambda>w. (Inr (), w\<lparr>tx := db w\<rparr>))))"

definition commitImmediate :: "('z, unit) db_op" where
  "commitImmediate =
     bindE (mapErr (wrapStoreError ''commit sqlite transaction'') (attemptE (\<lambda>w. (Inr (), w\<lparr>db := tx w\<rparr>)))) (\<lambda>_.
     mapErr (wrapStoreError ''close sqlite connection'') sql_inert)"

definition finishImmediate :: "bool \<Rightarrow> ('z, unit) db_op" where
  "finishImmediate committed =
     bindE (if committed then retE () else ignoreE (attemptE (\<lambda>w. (Inr (), w\<lparr>tx := db w\<rparr>)))) (\<lambda>_.
     ignoreE sql_inert)"

text \<open>The frame of the writing operations: begin, body, and the deferred end.\<close>

definition transaction :: "('a \<Rightarrow> bool) \<Rightarrow> ('z, 'a) db_op \<Rightarrow> ('z, 'a) db_op" where
  "transaction committed body =
     bindE beginImmediate (\<lambda>_.
     deferE body (\<lambda>r. finishImmediate (case r of Inl e \<Rightarrow> False | Inr x \<Rightarrow> committed x)))"

text \<open>\<open>ExecContext\<close> of an insert or an update inside the transaction.\<close>

definition exec_insert :: "row \<Rightarrow> ('z, unit) db_op" where
  "exec_insert r = attemptE (\<lambda>w.
     case sql_insert r (records (tx w)) of
       Inl e \<Rightarrow> (Inl e, w)
     | Inr rows \<Rightarrow> (Inr (), w\<lparr>tx := (tx w)\<lparr>records := rows\<rparr>\<rparr>))"

definition exec_update :: "string \<Rightarrow> string \<Rightarrow> (row \<Rightarrow> row) \<Rightarrow> ('z, nat) db_op" where
  "exec_update rid st f = attemptE (\<lambda>w.
     case sql_update rid st f (records (tx w)) of
       Inl e \<Rightarrow> (Inl e, w)
     | Inr (rows, n) \<Rightarrow> (Inr n, w\<lparr>tx := (tx w)\<lparr>records := rows\<rparr>\<rparr>))"

section \<open>Queries\<close>

text \<open>A result set fetched in one go; iterating over it can fail.\<close>

definition query_rows :: "('z spool_world_scheme \<Rightarrow> row list) \<Rightarrow> string \<Rightarrow> string \<Rightarrow> ('z, row list) db_op" where
  "query_rows sel whatQuery whatIterate =
     bindE (mapErr (wrapStoreError whatQuery) (attemptE (\<lambda>w. (Inr (sel w), w)))) (\<lambda>rows.
     bindE (mapErr (wrapStoreError whatIterate) sql_inert) (\<lambda>_. retE rows))"

definition scanRow :: "row \<Rightarrow> ('z, record_metadata) db_op" where
  "scanRow r =
     bindE (mapErr (wrapStoreError ''scan spool metadata'') sql_inert) (\<lambda>_.
     case scanMetadata r of Inl e \<Rightarrow> throwE e | Inr m \<Rightarrow> retE m)"

definition queryOneMetadata :: "('z spool_world_scheme \<Rightarrow> row list) \<Rightarrow> ('z, record_metadata option) db_op" where
  "queryOneMetadata sel =
     bindE (query_rows sel ''query spool metadata'' ''iterate spool metadata'') (\<lambda>rows.
     case rows of
       [] \<Rightarrow> retE None
     | r # _ \<Rightarrow> bindE (scanRow r) (\<lambda>m. retE (Some m)))"

fun scanRows :: "row list \<Rightarrow> ('z, record_metadata list) db_op" where
  "scanRows [] = retE []"
| "scanRows (r # rs) = bindE (scanRow r) (\<lambda>m. bindE (scanRows rs) (\<lambda>ms. retE (m # ms)))"

definition queryAllMetadata :: "('z spool_world_scheme \<Rightarrow> row list) \<Rightarrow> ('z, record_metadata list) db_op" where
  "queryAllMetadata sel = bindE (query_rows sel ''query spool metadata'' ''iterate spool metadata'') scanRows"

fun scanIDs :: "row list \<Rightarrow> ('z, string list) db_op" where
  "scanIDs [] = retE []"
| "scanIDs (r # rs) =
     bindE (mapErr (wrapStoreError ''scan spool id'') sql_inert) (\<lambda>_.
     case validateCanonicalRecordID (r_id r) of
       Some e \<Rightarrow> throwE (wrapStoreError ''validate spool ids'' e)
     | None \<Rightarrow> bindE (scanIDs rs) (\<lambda>ids. retE (r_id r # ids)))"

definition queryAllIDs :: "('z spool_world_scheme \<Rightarrow> row list) \<Rightarrow> ('z, string list) db_op" where
  "queryAllIDs sel = bindE (query_rows sel ''query spool ids'' ''iterate spool ids'') scanIDs"

section \<open>Operations\<close>

definition insertRecord :: "spool_record \<Rightarrow> ('z, unit) db_op" where
  "insertRecord rec =
     (case validateCanonicalRecordID (ID rec) of
        Some e \<Rightarrow> throwE e
      | None \<Rightarrow>
          transaction (\<lambda>_. True)
            (bindE (mapErr (wrapStoreError (Sprintf ''insert record %q'' [ID rec])) (exec_insert (row_of rec))) (\<lambda>_.
             commitImmediate)))"

definition claimReadyMetadata :: "gotime \<Rightarrow> ('z, record_metadata option) db_op" where
  "claimReadyMetadata now =
     transaction (\<lambda>r. r \<noteq> None)
       (bindE (queryOneMetadata (\<lambda>w. sql_select_ready (state_text StateQueued) (timeToMillis now) (records (tx w)))) (\<lambda>found.
        case found of
          None \<Rightarrow> retE None
        | Some meta0 \<Rightarrow>
            bindE nowE (\<lambda>t.
            let meta = meta0\<lparr>m_State := StateWorking, m_UpdatedAt := t\<rparr> in
            bindE (mapErr (wrapStoreError (Sprintf ''claim record %q'' [m_ID meta]))
                     (exec_update (m_ID meta) (state_text StateQueued)
                        (\<lambda>r. r\<lparr>r_state := state_text (m_State meta), r_updated_at_ms := timeToMillis (m_UpdatedAt meta)\<rparr>))) (\<lambda>n.
            bindE (mapErr (wrapStoreError (Sprintf ''read claim result for %q'' [m_ID meta])) sql_inert) (\<lambda>_.
            if n \<noteq> 1 then throwE (Errorf ''spool record %q was not claimable'' [m_ID meta])
            else bindE commitImmediate (\<lambda>_. retE (Some meta)))))))"

definition nextSubmittedReady :: "gotime \<Rightarrow> ('z, spool_record option) db_op" where
  "nextSubmittedReady now =
     bindE (queryOneMetadata (\<lambda>w. sql_select_ready (state_text StateSubmitted) (timeToMillis now) (records (db w)))) (\<lambda>found.
     retE (map_option toRecord found))"

definition updateRecord :: "state \<Rightarrow> spool_record \<Rightarrow> ('z, unit) db_op" where
  "updateRecord currentState updated =
     (case validateCanonicalRecordID (ID updated) of
        Some e \<Rightarrow> throwE e
      | None \<Rightarrow>
          if \<not> isValidState currentState \<or> \<not> isValidState (State updated)
          then throwE (Errorf ''invalid state transition %q -> %q'' [state_text currentState, state_text (State updated)])
          else
            transaction (\<lambda>_. True)
              (bindE (mapErr (wrapStoreError (Sprintf ''update record %q'' [ID updated]))
                        (exec_update (ID updated) (state_text currentState) (\<lambda>r. (row_of updated)\<lparr>r_id := r_id r\<rparr>))) (\<lambda>n.
               bindE (mapErr (wrapStoreError (Sprintf ''read update result for %q'' [ID updated])) sql_inert) (\<lambda>_.
               if n \<noteq> 1
               then throwE (Errorf ''spool record %q not found in state %q'' [ID updated, state_text currentState])
               else commitImmediate))))"

definition markSubmitted :: "spool_record \<Rightarrow> submission_result \<Rightarrow> gotime \<Rightarrow> ('z, spool_record) db_op" where
  "markSubmitted rec result nextAttemptAt =
     (if State rec \<noteq> StateWorking
      then throwE (Errorf ''mark submitted requires %q state, got %q'' [state_text StateWorking, state_text (State rec)])
      else
        bindE nowE (\<lambda>t.
        let updated = rec\<lparr>State := StateSubmitted, Attempt := Attempt rec + 1,
                          OperationID := TrimSpace (res_OperationID result),
                          OperationLocation := TrimSpace (res_OperationLocation result),
                          ProviderMessageID := TrimSpace (res_ProviderMessageID result),
                          NextAttemptAt := nextAttemptAt, LastError := None, UpdatedAt := t,
                          FirstSubmittedAt := (if IsZero (FirstSubmittedAt rec) then t else FirstSubmittedAt rec)\<rparr>
        in bindE (updateRecord (State rec) updated) (\<lambda>_. retE updated)))"

text \<open>Both failure transitions clear the provider operation of a record that was being submitted.\<close>

definition clear_operation :: "spool_record \<Rightarrow> spool_record" where
  "clear_operation rec =
     rec\<lparr>OperationID := [], OperationLocation := [], ProviderMessageID := [], FirstSubmittedAt := zero_time\<rparr>"

definition markRetry :: "spool_record \<Rightarrow> gotime \<Rightarrow> last_error option \<Rightarrow> ('z, spool_record) db_op" where
  "markRetry rec nextAttemptAt lastErr =
     bindE nowE (\<lambda>t1. bindE nowE (\<lambda>t2.
     let base = rec\<lparr>NextAttemptAt := nextAttemptAt, LastError := normalizeLastError lastErr t1, UpdatedAt := t2\<rparr> in
     case State rec of
       StateWorking \<Rightarrow>
         let updated = clear_operation (base\<lparr>State := StateQueued, Attempt := Attempt rec + 1\<rparr>) in
         bindE (updateRecord (State rec) updated) (\<lambda>_. retE updated)
     | StateSubmitted \<Rightarrow>
         let updated = base\<lparr>State := StateSubmitted\<rparr> in
         bindE (updateRecord (State rec) updated) (\<lambda>_. retE updated)
     | _ \<Rightarrow> throwE (Errorf ''mark retry requires %q or %q state, got %q''
              [state_text StateWorking, state_text StateSubmitted, state_text (State rec)])))"

definition markSucceeded :: "spool_record \<Rightarrow> ('z, spool_record) db_op" where
  "markSucceeded rec =
     bindE nowE (\<lambda>t.
     let base = rec\<lparr>State := StateSucceeded, LastError := None, UpdatedAt := t\<rparr> in
     case State rec of
       StateWorking \<Rightarrow>
         let updated = base\<lparr>Attempt := Attempt rec + 1\<rparr> in
         bindE (updateRecord (State rec) updated) (\<lambda>_. retE updated)
     | StateSubmitted \<Rightarrow> bindE (updateRecord (State rec) base) (\<lambda>_. retE base)
     | _ \<Rightarrow> throwE (Errorf ''mark succeeded requires %q or %q state, got %q''
              [state_text StateWorking, state_text StateSubmitted, state_text (State rec)]))"

definition markDeadLetter :: "spool_record \<Rightarrow> last_error option \<Rightarrow> ('z, spool_record) db_op" where
  "markDeadLetter rec lastErr =
     bindE nowE (\<lambda>t1. bindE nowE (\<lambda>t2.
     let base = rec\<lparr>State := StateDeadLetter, LastError := normalizeLastError lastErr t1, UpdatedAt := t2\<rparr> in
     case State rec of
       StateWorking \<Rightarrow>
         let updated = clear_operation (base\<lparr>Attempt := Attempt rec + 1\<rparr>) in
         bindE (updateRecord (State rec) updated) (\<lambda>_. retE updated)
     | StateSubmitted \<Rightarrow> bindE (updateRecord (State rec) base) (\<lambda>_. retE base)
     | _ \<Rightarrow> throwE (Errorf ''mark dead-letter requires %q or %q state, got %q''
              [state_text StateWorking, state_text StateSubmitted, state_text (State rec)])))"

definition requeueClaimedRecord :: "record_metadata \<Rightarrow> ('z, unit) db_op" where
  "requeueClaimedRecord meta =
     bindE nowE (\<lambda>t.
     mapErr (wrapStoreError (Sprintf ''requeue claimed record %q'' [m_ID meta]))
       (updateRecord (m_State meta) ((toRecord meta)\<lparr>State := StateQueued, UpdatedAt := t\<rparr>)))"

definition spoolProviderName :: string where
  "spoolProviderName = ''spool''"

definition deadLetterCorruptRecord :: "record_metadata \<Rightarrow> goerr \<Rightarrow> ('z, spool_record) db_op" where
  "deadLetterCorruptRecord meta cause =
     bindE nowE (\<lambda>t.
     let le = \<lparr>le_Message = err_text cause, le_Provider = spoolProviderName, le_Temporary = False, le_Timestamp = t\<rparr>;
         base = meta\<lparr>m_State := StateDeadLetter, m_LastError := Some le, m_UpdatedAt := t\<rparr>;
         updated = (if m_State meta \<noteq> StateSubmitted
                    then base\<lparr>m_OperationID := [], m_OperationLocation := [], m_ProviderMessageID := [],
                              m_FirstSubmittedAt := zero_time\<rparr>
                    else base);
         rec = toRecord updated
     in bindE (updateRecord (m_State meta) rec) (\<lambda>_. retE rec))"

text \<open>The requeuing loop of the recovery.\<close>

fun requeueWorking :: "gotime \<Rightarrow> record_metadata list \<Rightarrow> ('z, record_metadata list) db_op" where
  "requeueWorking now [] = retE []"
| "requeueWorking now (meta # ms) =
     bindE nowE (\<lambda>t.
     let m = meta\<lparr>m_State := StateQueued, m_NextAttemptAt := now, m_OperationID := [], m_OperationLocation := [],
                  m_ProviderMessageID := [], m_FirstSubmittedAt := zero_time, m_UpdatedAt := t\<rparr> in
     bindE (mapErr (wrapStoreError (Sprintf ''requeue stale working record %q'' [m_ID m]))
              (exec_update (m_ID m) (state_text StateWorking)
                 (\<lambda>r. r\<lparr>r_state := state_text (m_State m), r_next_attempt_at_ms := timeToMillis (m_NextAttemptAt m),
                       r_operation_id := None, r_operation_location := None, r_provider_message_id := None,
                       r_first_submitted_at_ms := None, r_updated_at_ms := timeToMillis (m_UpdatedAt m)\<rparr>))) (\<lambda>_.
     bindE (requeueWorking now ms) (\<lambda>rest. retE (m # rest))))"

definition recoverMetadata :: "gotime \<Rightarrow> ('z, recovery_snapshot) db_op" where
  "recoverMetadata now =
     transaction (\<lambda>_. True)
       (bindE (queryAllMetadata (\<lambda>w. sql_select_state (state_text StateWorking) (records (tx w)))) (\<lambda>working.
        bindE (queryAllMetadata (\<lambda>w. sql_select_state (state_text StateSubmitted) (records (tx w)))) (\<lambda>submitted.
        bindE (queryAllIDs (\<lambda>w. records (tx w))) (\<lambda>validIDs.
        bindE (requeueWorking now working) (\<lambda>requeued.
        bindE commitImmediate (\<lambda>_.
        retE \<lparr>snap_requeued = requeued, snap_submitted = submitted, snap_validIDs = validIDs\<rparr>))))))"

text \<open>\<open>SELECT state, COUNT(*) ... GROUP BY state\<close>, in the order of the first row of each group.\<close>

definition sql_state_counts :: "row list \<Rightarrow> (string \<times> int) list" where
  "sql_state_counts rows =
     map (\<lambda>st. (st, int (length (filter (\<lambda>r. r_state r = st) rows)))) (remdups (map r_state rows))"

fun scanCounts :: "(string \<times> int) list \<Rightarrow> ('z, (string \<times> int) list) db_op" where
  "scanCounts [] = retE []"
| "scanCounts ((st, n) # rest) =
     bindE (mapErr (wrapStoreError ''scan spool state counts'') sql_inert) (\<lambda>_.
     if \<not> isValidState (State_of st)
     then throwE (wrapStoreError ''validate spool state counts'' (Errorf ''invalid spool state %q in counts query'' [st]))
     else bindE (scanCounts rest) (\<lambda>cs. retE ((st, n) # cs)))"

definition stateCounts :: "('z, (string \<times> int) list) db_op" where
  "stateCounts =
     bindE (mapErr (wrapStoreError ''query spool state counts'') (attemptE (\<lambda>w. (Inr (sql_state_counts (records (db w))), w)))) (\<lambda>cs.
     bindE (mapErr (wrapStoreError ''iterate spool state counts'') sql_inert) (\<lambda>_. scanCounts cs))"

end
