(* ===== verification/Spool_Store.thy ===== *)
theory Spool_Store
  imports Record_Store Payload_Store
begin

text \<open>
  internal/spool/spool_store.go: the durable spool, record metadata in SQLite and payloads on disk.
  Checking a context is a call that can fail; \<open>now().UTC()\<close> is a reading of the clock.
\<close>

section \<open>Operations\<close>

definition ctxErr :: "('z, unit) db_op" where
  "ctxErr = attemptE (retE ())"

definition newRecordFor :: "string \<Rightarrow> message \<Rightarrow> gotime \<Rightarrow> spool_record" where
  "newRecordFor rid msg now =
     \<lparr>ID = rid, Message = msg, State = StateQueued, Attempt = 0, NextAttemptAt = now, OperationID = [],
      OperationLocation = [], ProviderMessageID = [], FirstSubmittedAt = zero_time, LastError = None,
      CreatedAt = now, UpdatedAt = now\<rparr>"

definition Enqueue :: "libs \<Rightarrow> payload_store \<Rightarrow> message \<Rightarrow> ('z, spool_record) db_op" where
  "Enqueue lib ps msg =
     bindE ctxErr (\<lambda>_.
     bindE nowE (\<lambda>now.
     bindE (mapErr (wrapStoreError ''generate record id'') newUUIDv4) (\<lambda>rid.
     bindE (mapErr (wrapStoreError (Sprintf ''save payload %q'' [rid])) (Save lib ps rid msg)) (\<lambda>_.
     let rec = newRecordFor rid msg now in
     tryE (insertRecord rec) (\<lambda>r.
       case r of
         Inl e \<Rightarrow> bindE (ignoreE (Remove ps rid)) (\<lambda>_. throwE e)
       | Inr _ \<Rightarrow> retE rec)))))"

definition classifyPayloadLoadError :: "string \<Rightarrow> goerr \<Rightarrow> goerr" where
  "classifyPayloadLoadError recordID e =
     (case AsPayloadCorruptionError e of
        Some _ \<Rightarrow> newRecordCorruptionError recordID e
      | None \<Rightarrow> wrapStoreError (Sprintf ''load payload %q'' [recordID]) e)"

text \<open>
  The claiming loop. The bound is the number of queued records plus one: an iteration that does not
  return has dead-lettered a queued record.
\<close>

definition claim_bound_error :: goerr where
  "claim_bound_error = Errorf ''more claims than queued records'' []"

fun claimReady_n :: "nat \<Rightarrow> libs \<Rightarrow> payload_store \<Rightarrow> gotime \<Rightarrow> ('z, spool_record option) db_op" where
  "claimReady_n 0 lib ps now = throwE claim_bound_error"
| "claimReady_n (Suc k) lib ps now =
     bindE (claimReadyMetadata now) (\<lambda>found.
     case found of
       None \<Rightarrow> retE None
     | Some meta \<Rightarrow>
         tryE (Load lib ps (m_ID meta)) (\<lambda>r.
           case r of
             Inr msg \<Rightarrow> retE (Some ((toRecord meta)\<lparr>Message := msg\<rparr>))
           | Inl e \<Rightarrow>
               let classified = classifyPayloadLoadError (m_ID meta) e in
               (case AsRecordCorruptionError classified of
                  Some corrupt \<Rightarrow>
                    bindE (deadLetterCorruptRecord meta corrupt) (\<lambda>_. claimReady_n k lib ps now)
                | None \<Rightarrow>
                    bindE (requeueClaimedRecord meta) (\<lambda>_. throwE classified))))"

definition queued_count :: "row list \<Rightarrow> nat" where
  "queued_count rows = length (filter (\<lambda>r. r_state r = state_text StateQueued) rows)"

definition ClaimReady :: "libs \<Rightarrow> payload_store \<Rightarrow> gotime \<Rightarrow> ('z, spool_record option) db_op" where
  "ClaimReady lib ps now =
     bindE ctxErr (\<lambda>_ w. claimReady_n (Suc (queued_count (records (db w)))) lib ps now w)"

definition NextSubmittedReady :: "gotime \<Rightarrow> ('z, spool_record option) db_op" where
  "NextSubmittedReady now = nextSubmittedReady now"

definition MarkSubmitted :: "spool_record \<Rightarrow> submission_result \<Rightarrow> gotime \<Rightarrow> ('z, spool_record) db_op" where
  "MarkSubmitted rec result nextAttemptAt = markSubmitted rec result nextAttemptAt"

definition MarkRetry :: "spool_record \<Rightarrow> gotime \<Rightarrow> last_error option \<Rightarrow> ('z, spool_record) db_op" where
  "MarkRetry rec nextAttemptAt lastErr = markRetry rec nextAttemptAt lastErr"

definition MarkSucceeded :: "spool_record \<Rightarrow> ('z, spool_record) db_op" where
  "MarkSucceeded rec = markSucceeded rec"

definition MarkDeadLetter :: "spool_record \<Rightarrow> last_error option \<Rightarrow> ('z, spool_record) db_op" where
  "MarkDeadLetter rec lastErr = markDeadLetter rec lastErr"

definition StateCounts :: "('z, (string \<times> int) list) db_op" where
  "StateCounts = stateCounts"

section \<open>Recovery\<close>

text \<open>
  One of the two payload checks: the records whose payload loads, and those dead-lettered because
  their payload is corrupt.
\<close>

fun checkPayloads ::
  "libs \<Rightarrow> payload_store \<Rightarrow> string \<Rightarrow> record_metadata list \<Rightarrow> ('z, spool_record list \<times> spool_record list) db_op" where
  "checkPayloads lib ps what [] = retE ([], [])"
| "checkPayloads lib ps what (meta # ms) =
     tryE (Load lib ps (m_ID meta)) (\<lambda>r.
       case r of
         Inr msg \<Rightarrow>
           bindE (checkPayloads lib ps what ms) (\<lambda>(good, dead).
           retE ((toRecord meta)\<lparr>Message := msg\<rparr> # good, dead))
       | Inl e \<Rightarrow>
           let classified = classifyPayloadLoadError (m_ID meta) e in
           (case AsRecordCorruptionError classified of
              Some corrupt \<Rightarrow>
                bindE (deadLetterCorruptRecord meta corrupt) (\<lambda>d.
                bindE (checkPayloads lib ps what ms) (\<lambda>(good, dead).
                retE (good, d # dead)))
            | None \<Rightarrow>
                throwE (wrapStoreError (Sprintf (''load '' @ what @ '' payload %q during recovery'') [m_ID meta]) classified)))"

definition Recover :: "libs \<Rightarrow> payload_store \<Rightarrow> gotime \<Rightarrow> ('z, recovery_result) db_op" where
  "Recover lib ps now =
     bindE ctxErr (\<lambda>_.
     bindE (recoverMetadata now) (\<lambda>snapshot.
     bindE (checkPayloads lib ps ''requeued'' (snap_requeued snapshot)) (\<lambda>(requeued, dead1).
     bindE (checkPayloads lib ps ''submitted'' (snap_submitted snapshot)) (\<lambda>(submitted, dead2).
     bindE (mapErr (wrapStoreError ''quarantine orphan payloads'') (QuarantineOrphans ps (snap_validIDs snapshot))) (\<lambda>orphans.
     retE \<lparr>Requeued = requeued, Submitted = submitted, DeadLettered = dead1 @ dead2, OrphanedPayloads = orphans\<rparr>)))))"

end
