(* ===== verification/Record_Store_Laws.thy ===== *)
theory Record_Store_Laws
  imports Record_Store
begin

text \<open>
  Laws of the record store. Every writing operation either leaves the table as it was or has the
  whole effect of its transaction, also when it reports an error after the commit (the \<open>_cases\<close>
  lemmas). From this follow the invariant of the table and the lifecycle of its rows, for every
  sequence of failures.
\<close>

section \<open>Database calls\<close>

text \<open>A database call leaves files, oracles and the schema alone.\<close>

definition db_step :: "'z spool_world_scheme \<Rightarrow> 'z spool_world_scheme \<Rightarrow> bool" where
  "db_step w w' \<longleftrightarrow>
     fs w' = fs w \<and> cwd w' = cwd w \<and> short_write w' = short_write w \<and> clock w' = clock w \<and> fault w' = fault w \<and>
     entropy w' = entropy w \<and> draws w' = draws w \<and> ticks w \<le> ticks w' \<and> calls w \<le> calls w' \<and>
     spool_world.more w' = spool_world.more w"

text \<open>A call that reads only.\<close>

definition db_quiet :: "'z spool_world_scheme \<Rightarrow> 'z spool_world_scheme \<Rightarrow> bool" where
  "db_quiet w w' \<longleftrightarrow> db_step w w' \<and> db w' = db w \<and> tx w' = tx w"

interpretation db_step: op_preorder db_step
  by unfold_locales (auto simp: db_step_def)

interpretation db_quiet: op_preorder db_quiet
  by unfold_locales (auto simp: db_quiet_def db_step_def)

named_theorems db_quiet_intros

lemma db_quiet_attemptE: "(\<And>w. snd (m w) = w) \<Longrightarrow> effect_in db_quiet (attemptE m)"
  by (auto simp: effect_in_def attemptE_def Let_def db_quiet_def db_step_def split: option.splits)

lemma db_quiet_inert [db_quiet_intros]: "effect_in db_quiet sql_inert"
  unfolding sql_inert_def by (rule db_quiet_attemptE) simp

lemma db_quiet_nowE [db_quiet_intros]: "effect_in db_quiet nowE"
  by (auto simp: effect_in_def nowE_def db_quiet_def db_step_def)

lemma db_quiet_query_rows [db_quiet_intros]: "effect_in db_quiet (query_rows sel a b)"
  unfolding query_rows_def by (intro db_quiet.effect_intros db_quiet_intros db_quiet_attemptE) simp

lemma db_quiet_scanRow [db_quiet_intros]: "effect_in db_quiet (scanRow r)"
  unfolding scanRow_def by (intro db_quiet.effect_intros db_quiet_intros)

lemma effect_list: "effect_in R m \<Longrightarrow> (\<And>x xs. effect_in R (f x xs)) \<Longrightarrow> effect_in R (case l of [] \<Rightarrow> m | x # xs \<Rightarrow> f x xs)"
  by (cases l) auto

lemma db_quiet_queryOneMetadata [db_quiet_intros]: "effect_in db_quiet (queryOneMetadata sel)"
  unfolding queryOneMetadata_def by (intro db_quiet.effect_intros effect_list db_quiet_intros)

lemma db_quiet_scanRows [db_quiet_intros]: "effect_in db_quiet (scanRows rs)"
  by (induction rs) (auto simp del: retE_apply intro!: db_quiet.effect_intros db_quiet_intros)

lemma db_quiet_queryAllMetadata [db_quiet_intros]: "effect_in db_quiet (queryAllMetadata sel)"
  unfolding queryAllMetadata_def by (intro db_quiet.effect_intros db_quiet_intros)

lemma db_quiet_scanIDs: "effect_in db_quiet (scanIDs rs)"
  by (induction rs) (auto simp del: retE_apply throwE_apply intro!: db_quiet.effect_intros db_quiet_intros)

lemma db_quiet_queryAllIDs [db_quiet_intros]: "effect_in db_quiet (queryAllIDs sel)"
  unfolding queryAllIDs_def by (intro db_quiet.effect_intros db_quiet_intros db_quiet_scanIDs)

lemma db_quiet_result: "m w = (r, w') \<Longrightarrow> effect_in db_quiet m \<Longrightarrow> db w' = db w \<and> tx w' = tx w \<and> db_step w w'"
  by (drule (1) effect_inD [rotated]) (simp add: db_quiet_def)

section \<open>Transactions\<close>

lemma beginImmediate_result:
  "beginImmediate w = (r, w') \<Longrightarrow> db w' = db w \<and> (r = Inr () \<longrightarrow> tx w' = db w)"
  by (auto simp: beginImmediate_def bindE_def mapErr_def sql_inert_def attemptE_def Let_def
      split: option.splits prod.splits sum.splits)

lemma commitImmediate_result:
  "commitImmediate w = (r, w') \<Longrightarrow> (db w' = db w \<and> isl r) \<or> db w' = tx w"
  by (auto simp: commitImmediate_def bindE_def mapErr_def sql_inert_def attemptE_def Let_def
      split: option.splits prod.splits sum.splits)

lemma finishImmediate_db: "finishImmediate c w = (r, w') \<Longrightarrow> db w' = db w"
  by (auto simp: finishImmediate_def bindE_def ignoreE_def sql_inert_def attemptE_def Let_def
      split: option.splits prod.splits sum.splits if_splits)

lemma transaction_cases:
  assumes "transaction c body w = (r, w')"
  obtains (no_begin) "db w' = db w" "isl r"
  | (body) u v where "db u = db w" "tx u = db w" "body u = (r, v)" "db w' = db v"
  using assms unfolding transaction_def
proof (cases rule: bindE_cases)
  case (fail e)
  then show thesis using beginImmediate_result [OF fail(1)] no_begin by simp
next
  case (ok x u)
  from ok(2) obtain v where v: "body u = (r, v)"
    and w': "snd (finishImmediate (case r of Inl e \<Rightarrow> False | Inr x \<Rightarrow> c x) v) = w'"
    by (auto simp: deferE_iff)
  have "db w' = db v" using finishImmediate_db [OF surjective_pairing] w' by metis
  with v show thesis using beginImmediate_result [OF ok(1)] by (intro body) simp_all
qed

lemma exec_update_result:
  "exec_update rid st f w = (r, w') \<Longrightarrow> db w' = db w \<and>
     (isl r \<and> tx w' = tx w \<or>
      (\<exists>rows n. r = Inr n \<and> sql_update rid st f (records (tx w)) = Inr (rows, n) \<and> tx w' = (tx w)\<lparr>records := rows\<rparr>))"
  by (auto simp: exec_update_def attemptE_def Let_def split: option.splits sum.splits prod.splits)

lemma exec_insert_result:
  "exec_insert x w = (r, w') \<Longrightarrow> db w' = db w \<and>
     (isl r \<and> tx w' = tx w \<or>
      (\<exists>rows. r = Inr () \<and> sql_insert x (records (tx w)) = Inr rows \<and> tx w' = (tx w)\<lparr>records := rows\<rparr>))"
  by (auto simp: exec_insert_def attemptE_def Let_def split: option.splits sum.splits)

section \<open>The effect of each operation\<close>

lemma insertRecord_effect:
  assumes "insertRecord rec w = (r, w')"
  shows "db w' = db w \<and> isl r \<or>
     (\<exists>rows. canonical_id (ID rec) \<and> sql_insert (row_of rec) (records (db w)) = Inr rows \<and> db w' = (db w)\<lparr>records := rows\<rparr>)"
proof (cases "canonical_id (ID rec)")
  case c: True
  from assms [unfolded insertRecord_def c option.case] show ?thesis
  proof (cases rule: transaction_cases)
    case (body u v)
    from body(3) show ?thesis
    proof (cases rule: bindE_cases)
      case (fail e)
      then show ?thesis using body by (auto simp: mapErr_Inl_iff dest!: exec_insert_result)
    next
      case (ok x y)
      then obtain rows where "sql_insert (row_of rec) (records (tx u)) = Inr rows" "tx y = (tx u)\<lparr>records := rows\<rparr>" "db y = db u"
        using exec_insert_result [of "row_of rec" u "Inr x" y] by auto
      with commitImmediate_result [OF ok(2)] body c show ?thesis by auto
    qed
  qed auto
qed (use assms in \<open>auto simp: insertRecord_def\<close>)

definition full_update :: "spool_record \<Rightarrow> row \<Rightarrow> row" where
  "full_update upd r = (row_of upd)\<lparr>r_id := r_id r\<rparr>"

lemma commit_then_ret:
  "bindE commitImmediate (\<lambda>_. retE a) w = (r, w') \<Longrightarrow> (db w' = db w \<and> isl r) \<or> (db w' = tx w \<and> (isl r \<or> r = Inr a))"
  by (erule bindE_cases) (auto dest!: commitImmediate_result)

lemma update_tail_ret:
  assumes "bindE (mapErr g (exec_update rid st f)) (\<lambda>n. bindE (mapErr h sql_inert) (\<lambda>_.
      if n \<noteq> 1 then throwE e else bindE commitImmediate (\<lambda>_. retE a))) u = (r, v)" and "tx u = db u"
  shows "db v = db u \<and> isl r \<or>
     (\<exists>rows. sql_update rid st f (records (db u)) = Inr (rows, 1) \<and> db v = (db u)\<lparr>records := rows\<rparr> \<and> (isl r \<or> r = Inr a))"
  using assms(1)
proof (cases rule: bindE_cases)
  case (fail e)
  then show ?thesis by (auto simp: mapErr_Inl_iff dest!: exec_update_result)
next
  case (ok n y)
  then obtain rows where y: "sql_update rid st f (records (tx u)) = Inr (rows, n)"
    "tx y = (tx u)\<lparr>records := rows\<rparr>" "db y = db u"
    using exec_update_result [of rid st f u "Inr n" y] by auto
  from ok(2) show ?thesis
  proof (cases rule: bindE_cases)
    case f: (fail e)
    then show ?thesis using y by (auto simp: mapErr_Inl_iff dest!: db_quiet_result [OF _ db_quiet_inert])
  next
    case o: (ok x z)
    then have "db z = db y" "tx z = tx y" by (auto dest!: db_quiet_result [OF _ db_quiet_inert])
    with o(2) y assms(2) show ?thesis by (cases "n = 1") (auto dest!: commit_then_ret)
  qed
qed

lemma bindE_nowE: "bindE nowE f w = f (clock w (ticks w)) (w\<lparr>ticks := Suc (ticks w)\<rparr>)"
  by (simp add: bindE_def nowE_def)

lemma bindE_ret_unit: "bindE m (\<lambda>_. retE ()) = m"
  by (auto simp: bindE_def fun_eq_iff split: prod.splits sum.splits)

lemmas update_tail = update_tail_ret [where a = "()", unfolded bindE_ret_unit]

lemma updateRecord_effect:
  assumes "updateRecord st upd w = (r, w')"
  shows "db w' = db w \<and> isl r \<or>
     (\<exists>rows. canonical_id (ID upd) \<and> isValidState st \<and> isValidState (State upd) \<and>
        sql_update (ID upd) (state_text st) (full_update upd) (records (db w)) = Inr (rows, 1) \<and>
        db w' = (db w)\<lparr>records := rows\<rparr>)"
proof (cases "canonical_id (ID upd) \<and> isValidState st \<and> isValidState (State upd)")
  case c: True
  have "updateRecord st upd = transaction (\<lambda>_. True)
      (bindE (mapErr (wrapStoreError (Sprintf ''update record %q'' [ID upd]))
                (exec_update (ID upd) (state_text st) (full_update upd))) (\<lambda>n.
       bindE (mapErr (wrapStoreError (Sprintf ''read update result for %q'' [ID upd])) sql_inert) (\<lambda>_.
       if n \<noteq> 1 then throwE (Errorf ''spool record %q not found in state %q'' [ID upd, state_text st])
       else commitImmediate)))"
    using c by (simp add: updateRecord_def full_update_def [abs_def])
  from assms [unfolded this] show ?thesis
  proof (cases rule: transaction_cases)
    case (body u v)
    then show ?thesis using update_tail [OF body(3)] c by auto
  qed simp
qed (use assms in \<open>auto simp: updateRecord_def split: option.splits if_splits\<close>)

text \<open>The column changes of a claim and of a recovery.\<close>

definition claim_update :: "gotime \<Rightarrow> row \<Rightarrow> row" where
  "claim_update t r = r\<lparr>r_state := state_text StateWorking, r_updated_at_ms := timeToMillis t\<rparr>"

definition requeue_update :: "gotime \<Rightarrow> gotime \<Rightarrow> row \<Rightarrow> row" where
  "requeue_update now t r =
     r\<lparr>r_state := state_text StateQueued, r_next_attempt_at_ms := timeToMillis now,
       r_operation_id := None, r_operation_location := None, r_provider_message_id := None,
       r_first_submitted_at_ms := None, r_updated_at_ms := timeToMillis t\<rparr>"

lemma update_columns [simp]:
  "r_id (claim_update t r) = r_id r" "r_state (claim_update t r) = state_text StateWorking"
  "r_id (requeue_update now t r) = r_id r" "r_state (requeue_update now t r) = state_text StateQueued"
  "r_id (full_update upd r) = r_id r" "r_state (full_update upd r) = state_text (State upd)"
  by (simp_all add: claim_update_def requeue_update_def full_update_def row_of_def)

lemma query_rows_Inr: "query_rows sel a b w = (Inr rows, w') \<Longrightarrow> \<exists>c. rows = sel (w\<lparr>calls := c\<rparr>)"
  by (auto simp: query_rows_def bindE_Inr_iff attemptE_def Let_def split: option.splits)

lemma scanRow_Inr: "scanRow r w = (Inr m, w') \<Longrightarrow> scanMetadata r = Inr m"
  by (auto simp: scanRow_def bindE_Inr_iff case_throw_Inr)

lemma queryOneMetadata_Inr:
  assumes "queryOneMetadata sel w = (Inr found, w')" "\<And>c. sel (w\<lparr>calls := c\<rparr>) = rows"
  shows "case rows of [] \<Rightarrow> found = None | r # _ \<Rightarrow> \<exists>m. found = Some m \<and> scanMetadata r = Inr m"
proof -
  obtain x u where x: "query_rows sel ''query spool metadata'' ''iterate spool metadata'' w = (Inr x, u)"
    and k: "(case x of [] \<Rightarrow> retE None | r # _ \<Rightarrow> bindE (scanRow r) (\<lambda>m. retE (Some m))) u = (Inr found, w')"
    using assms(1) by (auto simp: queryOneMetadata_def bindE_Inr_iff)
  have "x = rows" using query_rows_Inr [OF x] assms(2) by simp
  with k show ?thesis by (cases rows) (auto simp: bindE_Inr_iff dest!: scanRow_Inr)
qed

lemma scanMetadata_ID: "scanMetadata r = Inr m \<Longrightarrow> m_ID m = r_id r \<and> m_State m = State_of (r_state r) \<and> canonical_id (r_id r)"
  by (cases "scanLastError r") (auto simp: scanMetadata_def split: option.splits if_splits)

lemma scanRows_Inr:
  "scanRows rs w = (Inr ms, w') \<Longrightarrow> map m_ID ms = map r_id rs \<and> map m_State ms = map (\<lambda>r. State_of (r_state r)) rs"
  by (induction rs arbitrary: w ms) (auto simp: bindE_Inr_iff dest!: scanRow_Inr scanMetadata_ID)

lemma queryAllMetadata_Inr:
  assumes "queryAllMetadata sel w = (Inr ms, w')" "\<And>c. sel (w\<lparr>calls := c\<rparr>) = rows"
  shows "map m_ID ms = map r_id rows" "map m_State ms = map (\<lambda>r. State_of (r_state r)) rows"
  using assms by (auto simp: queryAllMetadata_def bindE_Inr_iff dest!: query_rows_Inr scanRows_Inr)

lemma claim_effect:
  assumes "claimReadyMetadata now w = (r, w')"
  shows "(db w' = db w \<and> (\<forall>m. r \<noteq> Inr (Some m)) \<and>
      (r = Inr None \<longrightarrow> sql_select_ready (state_text StateQueued) (timeToMillis now) (records (db w)) = [])) \<or>
     (\<exists>x m t rows. sql_select_ready (state_text StateQueued) (timeToMillis now) (records (db w)) = [x] \<and>
        scanMetadata x = Inr m \<and> sql_update (r_id x) (state_text StateQueued) (claim_update t) (records (db w)) = Inr (rows, 1) \<and>
        db w' = (db w)\<lparr>records := rows\<rparr> \<and> (isl r \<or> r = Inr (Some (m\<lparr>m_State := StateWorking, m_UpdatedAt := t\<rparr>))))"
  using assms [unfolded claimReadyMetadata_def]
proof (cases rule: transaction_cases)
  case (body u v)
  let ?sel = "sql_select_ready (state_text StateQueued) (timeToMillis now) (records (db w))"
  from body(3) show ?thesis
  proof (cases rule: bindE_cases)
    case (fail e)
    then show ?thesis using body db_quiet_result [OF fail(1) db_quiet_queryOneMetadata] by auto
  next
    case (ok found y)
    have y: "db y = db w" "tx y = db w"
      using db_quiet_result [OF ok(1) db_quiet_queryOneMetadata] body by auto
    have q: "case ?sel of [] \<Rightarrow> found = None | r # _ \<Rightarrow> \<exists>m. found = Some m \<and> scanMetadata r = Inr m"
      using queryOneMetadata_Inr [OF ok(1)] body by simp
    show ?thesis
    proof (cases found)
      case None
      then show ?thesis using ok(2) y body q by (auto split: list.splits)
    next
      case (Some m)
      with q obtain x where x: "?sel = [x]" "scanMetadata x = Inr m"
        by (cases "sort_key ready_key (filter (\<lambda>r. r_state r = state_text StateQueued \<and> r_next_attempt_at_ms r \<le> timeToMillis now) (records (db w)))")
          (auto simp: sql_select_ready_def)
      define t where "t = clock y (ticks y)"
      define z where "z = y\<lparr>ticks := Suc (ticks y)\<rparr>"
      have z: "tx z = db z" "db z = db w" using y by (simp_all add: z_def)
      have id: "m_ID m = r_id x" using scanMetadata_ID [OF x(2)] by simp
      have "bindE (mapErr (wrapStoreError (Sprintf ''claim record %q'' [r_id x]))
                     (exec_update (r_id x) (state_text StateQueued) (claim_update t))) (\<lambda>n.
            bindE (mapErr (wrapStoreError (Sprintf ''read claim result for %q'' [r_id x])) sql_inert) (\<lambda>_.
            if n \<noteq> 1 then throwE (Errorf ''spool record %q was not claimable'' [r_id x])
            else bindE commitImmediate (\<lambda>_. retE (Some (m\<lparr>m_State := StateWorking, m_UpdatedAt := t\<rparr>))))) z = (r, v)"
        using ok(2) by (simp add: Some Let_def bindE_nowE id t_def z_def claim_update_def [abs_def] cong: if_cong)
      from update_tail_ret [OF this z(1)] show ?thesis using x z(2) body(4) by fastforce
    qed
  qed
qed auto

text \<open>The table after requeueing the rows with the given ids, each with its own update time.\<close>

definition requeue_rows :: "gotime \<Rightarrow> (string \<Rightarrow> gotime) \<Rightarrow> string set \<Rightarrow> row list \<Rightarrow> row list" where
  "requeue_rows now T ids =
     map (\<lambda>r. if r_state r = state_text StateWorking \<and> r_id r \<in> ids then requeue_update now (T (r_id r)) r else r)"

lemma sql_update_Inr:
  "sql_update i st f rows = Inr (rows', n) \<Longrightarrow> rows' = map (\<lambda>r. if r_id r = i \<and> r_state r = st then f r else r) rows"
  by (simp add: sql_update_def Let_def split: if_splits)

lemma sql_update_check:
  "sql_update i st f rows = Inr (rows', n) \<Longrightarrow> list_all row_check rows \<Longrightarrow> list_all row_check rows'"
  by (auto simp: sql_update_def Let_def list_all_iff split: if_splits)

lemma requeue_rows_Nil [simp]: "requeue_rows now T {} rows = rows"
  by (simp add: requeue_rows_def)

lemma requeue_rows_insert:
  "requeue_rows now T ids (map (\<lambda>r. if r_id r = i \<and> r_state r = state_text StateWorking then requeue_update now t r else r) rows)
   = requeue_rows now (T(i := t)) (insert i ids) rows"
  unfolding requeue_rows_def map_map by (rule map_cong) auto

lemma requeueWorking_effect:
  "requeueWorking now ms w = (r, w') \<Longrightarrow> db w' = db w \<and>
     (\<forall>out. r = Inr out \<longrightarrow>
        (\<exists>T. tx w' = (tx w)\<lparr>records := requeue_rows now T (m_ID ` set ms) (records (tx w))\<rparr>) \<and>
        (list_all row_check (records (tx w)) \<longrightarrow> list_all row_check (records (tx w'))) \<and>
        list_all2 (\<lambda>m m'. m_ID m' = m_ID m \<and> m_State m' = StateQueued \<and> m_NextAttemptAt m' = now) ms out)"
proof (induction ms arbitrary: w w' r)
  case (Cons m ms)
  define t where "t = clock w (ticks w)"
  define m' where "m' = m\<lparr>m_State := StateQueued, m_NextAttemptAt := now, m_OperationID := [], m_OperationLocation := [],
     m_ProviderMessageID := [], m_FirstSubmittedAt := zero_time, m_UpdatedAt := t\<rparr>"
  let ?u = "w\<lparr>ticks := Suc (ticks w)\<rparr>"
  have "bindE (mapErr (wrapStoreError (Sprintf ''requeue stale working record %q'' [m_ID m]))
       (exec_update (m_ID m) (state_text StateWorking) (requeue_update now t)))
       (\<lambda>_. bindE (requeueWorking now ms) (\<lambda>rest. retE (m' # rest))) ?u = (r, w')"
    using Cons.prems by (simp add: bindE_nowE Let_def t_def m'_def requeue_update_def [abs_def])
  then show ?case
  proof (cases rule: bindE_cases)
    case (fail e)
    then show ?thesis by (auto simp: mapErr_Inl_iff dest!: exec_update_result)
  next
    case (ok n y)
    then obtain rows where y: "sql_update (m_ID m) (state_text StateWorking) (requeue_update now t) (records (tx w)) = Inr (rows, n)"
      "tx y = (tx w)\<lparr>records := rows\<rparr>" "db y = db w"
      using exec_update_result [of "m_ID m" "state_text StateWorking" "requeue_update now t" ?u "Inr n" y] by auto
    have rows: "requeue_rows now T ids rows = requeue_rows now (T(m_ID m := t)) (insert (m_ID m) ids) (records (tx w))" for T ids
      by (simp only: sql_update_Inr [OF y(1)] requeue_rows_insert)
    have check: "list_all row_check (records (tx w)) \<longrightarrow> list_all row_check rows"
      using sql_update_check [OF y(1)] by simp
    from ok(2) show ?thesis
    proof (cases rule: bindE_cases)
      case f: (fail e)
      then show ?thesis using y Cons.IH [OF f(1)] by simp
    next
      case o: (ok rest z)
      obtain T where "tx z = (tx y)\<lparr>records := requeue_rows now T (m_ID ` set ms) (records (tx y))\<rparr>" "db z = db y"
        "list_all2 (\<lambda>m m'. m_ID m' = m_ID m \<and> m_State m' = StateQueued \<and> m_NextAttemptAt m' = now) ms rest"
        "list_all row_check (records (tx y)) \<longrightarrow> list_all row_check (records (tx z))"
        using Cons.IH [OF o(1)] by auto
      note z = this
      have "tx z = (tx w)\<lparr>records := requeue_rows now (T(m_ID m := t)) (m_ID ` set (m # ms)) (records (tx w))\<rparr>"
        by (simp add: z(1) y(2) rows)
      moreover have "list_all2 (\<lambda>m m'. m_ID m' = m_ID m \<and> m_State m' = StateQueued \<and> m_NextAttemptAt m' = now) (m # ms) (m' # rest)"
        using z(3) by (simp add: m'_def)
      moreover have "r = Inr (m' # rest)" "w' = z" using o(2) by simp_all
      moreover have "list_all row_check (records (tx y)) \<longleftrightarrow> list_all row_check rows" by (simp add: y(2))
      ultimately show ?thesis using z(2,4) y(3) check by auto
    qed
  qed
qed auto

lemma scanIDs_Inr: "scanIDs rs w = (Inr ids, w') \<Longrightarrow> ids = map r_id rs"
  by (induction rs arbitrary: w ids) (auto simp: bindE_Inr_iff option_throw_Inr)

lemma queryAllIDs_Inr:
  assumes "queryAllIDs sel w = (Inr ids, w')" "\<And>c. sel (w\<lparr>calls := c\<rparr>) = rows"
  shows "ids = map r_id rows"
  using assms by (auto simp: queryAllIDs_def bindE_Inr_iff dest!: query_rows_Inr scanIDs_Inr)

lemma requeue_rows_all:
  "ids = r_id ` set (sql_select_state (state_text StateWorking) rows) \<Longrightarrow> requeue_rows now T ids rows = requeue_rows now T UNIV rows"
  by (auto simp: requeue_rows_def sql_select_state_def)

lemma requeued_ids:
  "list_all2 (\<lambda>m m'. m_ID m' = m_ID m \<and> m_State m' = StateQueued \<and> m_NextAttemptAt m' = now) ms out \<Longrightarrow>
   map m_ID out = map m_ID ms \<and> (\<forall>m \<in> set out. m_State m = StateQueued \<and> m_NextAttemptAt m = now)"
  by (induction rule: list_all2_induct) auto

lemma requeue_tail:
  assumes "bindE (requeueWorking now ms) (\<lambda>requeued. bindE commitImmediate (\<lambda>_. retE (f requeued))) u = (r, v)"
    and "tx u = db u" "map m_ID ms = map r_id (sql_select_state (state_text StateWorking) (records (db u)))"
  shows "db v = db u \<and> isl r \<or>
     (\<exists>T out. db v = (db u)\<lparr>records := requeue_rows now T UNIV (records (db u))\<rparr> \<and>
        (list_all row_check (records (db u)) \<longrightarrow> list_all row_check (records (db v))) \<and>
        (\<forall>s. r = Inr s \<longrightarrow> s = f out) \<and>
        list_all2 (\<lambda>m m'. m_ID m' = m_ID m \<and> m_State m' = StateQueued \<and> m_NextAttemptAt m' = now) ms out)"
  using assms(1)
proof (cases rule: bindE_cases)
  case (fail e)
  then show ?thesis using requeueWorking_effect [OF fail(1)] by simp
next
  case (ok out y)
  then obtain T where y: "tx y = (tx u)\<lparr>records := requeue_rows now T (m_ID ` set ms) (records (tx u))\<rparr>" "db y = db u"
    "list_all row_check (records (tx u)) \<longrightarrow> list_all row_check (records (tx y))"
    "list_all2 (\<lambda>m m'. m_ID m' = m_ID m \<and> m_State m' = StateQueued \<and> m_NextAttemptAt m' = now) ms out"
    using requeueWorking_effect [OF ok(1)] by auto
  have "m_ID ` set ms = r_id ` set (sql_select_state (state_text StateWorking) (records (db u)))"
    using assms(3) by (metis set_map)
  then have "tx y = (db u)\<lparr>records := requeue_rows now T UNIV (records (db u))\<rparr>"
    using y(1) assms(2) by (simp add: requeue_rows_all)
  moreover have "(db v = db y \<and> isl r) \<or> (db v = tx y \<and> (isl r \<or> r = Inr (f out)))"
    by (rule commit_then_ret [OF ok(2)])
  ultimately show ?thesis using y(2-4) assms(2) by auto
qed

lemma select_states:
  "map f ms = map (\<lambda>r. State_of (r_state r)) (sql_select_state st rows) \<Longrightarrow> \<forall>m \<in> set ms. f m = State_of st"
  by (drule arg_cong [of _ _ set]) (auto simp: sql_select_state_def)

lemmas State_of_column [simp] = isValidState_simps(1-5) [THEN State_of_text, unfolded state_text.simps]

lemma recover_effect:
  assumes "recoverMetadata now w = (r, w')"
  shows "db w' = db w \<and> isl r \<or>
     (\<exists>T. db w' = (db w)\<lparr>records := requeue_rows now T UNIV (records (db w))\<rparr> \<and>
        (list_all row_check (records (db w)) \<longrightarrow> list_all row_check (records (db w'))) \<and>
        (\<forall>s. r = Inr s \<longrightarrow> snap_validIDs s = map r_id (records (db w)) \<and>
           (\<forall>m \<in> set (snap_requeued s). m_State m = StateQueued \<and> m_NextAttemptAt m = now) \<and>
           (\<forall>m \<in> set (snap_submitted s). m_State m = StateSubmitted) \<and>
           map m_ID (snap_requeued s) = map r_id (sql_select_state (state_text StateWorking) (records (db w))) \<and>
           map m_ID (snap_submitted s) = map r_id (sql_select_state (state_text StateSubmitted) (records (db w)))))"
  using assms [unfolded recoverMetadata_def]
proof (cases rule: transaction_cases)
  case (body u v)
  note q = db_quiet_result [OF _ db_quiet_queryAllMetadata]
  from body(3) show ?thesis
  proof (cases rule: bindE_cases)
    case (fail e)
    then show ?thesis using body q [OF fail(1)] by simp
  next
    case (ok ms y)
    have y: "db y = db w" "tx y = db w" using body q [OF ok(1)] by simp_all
    have ms: "map m_ID ms = map r_id (sql_select_state (state_text StateWorking) (records (db w)))"
      using queryAllMetadata_Inr(1) [OF ok(1)] body by simp
    from ok(2) show ?thesis
    proof (cases rule: bindE_cases)
      case f: (fail e)
      then show ?thesis using body y q [OF f(1)] by simp
    next
      case s: (ok ss z)
      have z: "db z = db w" "tx z = db w" using y q [OF s(1)] by simp_all
      have ss: "map m_ID ss = map r_id (sql_select_state (state_text StateSubmitted) (records (db w)))"
        using queryAllMetadata_Inr(1) [OF s(1)] y by simp
      have st: "\<forall>m \<in> set ss. m_State m = StateSubmitted"
        using queryAllMetadata_Inr(2) [OF s(1), of "sql_select_state (state_text StateSubmitted) (records (db w))"] y
        by (simp add: select_states)
      from s(2) show ?thesis
      proof (cases rule: bindE_cases)
        case f: (fail e)
        then show ?thesis using body z db_quiet_result [OF f(1) db_quiet_queryAllIDs] by simp
      next
        case i: (ok ids x)
        have x: "db x = db w" "tx x = db w" using z db_quiet_result [OF i(1) db_quiet_queryAllIDs] by simp_all
        have ids: "ids = map r_id (records (db w))" using queryAllIDs_Inr [OF i(1)] z by simp
        have "tx x = db x" "map m_ID ms = map r_id (sql_select_state (state_text StateWorking) (records (db x)))"
          using x ms by simp_all
        from requeue_tail [OF i(2) this] show ?thesis
        proof (elim disjE exE conjE)
          fix T out
          assume a: "list_all2 (\<lambda>m m'. m_ID m' = m_ID m \<and> m_State m' = StateQueued \<and> m_NextAttemptAt m' = now) ms out"
            "db v = (db x)\<lparr>records := requeue_rows now T UNIV (records (db x))\<rparr>"
            "list_all row_check (records (db x)) \<longrightarrow> list_all row_check (records (db v))"
            "\<forall>s. r = Inr s \<longrightarrow> s = \<lparr>snap_requeued = out, snap_submitted = ss, snap_validIDs = ids\<rparr>"
          show ?thesis
            by (rule disjI2, rule exI [of _ T], cases r) (use a(2-) requeued_ids [OF a(1)] x(1) body(4) ss st ids ms in simp_all)
        qed (use x body in simp)
      qed
    qed
  qed
qed auto

section \<open>The lifecycle of a record\<close>

inductive lifecycle :: "state \<Rightarrow> state \<Rightarrow> bool" where
  claim: "lifecycle StateQueued StateWorking"
| release: "lifecycle StateWorking StateQueued"
| submit: "lifecycle StateWorking StateSubmitted"
| poll: "lifecycle StateSubmitted StateSubmitted"
| succeed: "st = StateWorking \<or> st = StateSubmitted \<Longrightarrow> lifecycle st StateSucceeded"
| give_up: "st = StateQueued \<or> st = StateWorking \<or> st = StateSubmitted \<Longrightarrow> lifecycle st StateDeadLetter"

inductive_simps lifecycle_from [simp]:
  "lifecycle StateQueued st" "lifecycle StateWorking st" "lifecycle StateSubmitted st"
  "lifecycle StateSucceeded st" "lifecycle StateDeadLetter st"

definition terminal :: "state \<Rightarrow> bool" where
  "terminal st \<longleftrightarrow> st = StateSucceeded \<or> st = StateDeadLetter"

definition row_state :: "row \<Rightarrow> state" where
  "row_state r = State_of (r_state r)"

definition row_evolves :: "row \<Rightarrow> row \<Rightarrow> bool" where
  "row_evolves r r' \<longleftrightarrow>
     r_id r' = r_id r \<and> lifecycle\<^sup>*\<^sup>* (row_state r) (row_state r') \<and> (terminal (row_state r) \<longrightarrow> r' = r)"

definition rows_evolve :: "row list \<Rightarrow> row list \<Rightarrow> bool" where
  "rows_evolve rows rows' \<longleftrightarrow>
     (\<exists>old new. rows' = old @ new \<and> list_all2 row_evolves rows old \<and>
        list_all (\<lambda>r. lifecycle\<^sup>*\<^sup>* StateQueued (row_state r)) new)"

text \<open>The invariant of the table: what the schema's constraints keep, and canonical record ids.\<close>

definition db_ok :: "database \<Rightarrow> bool" where
  "db_ok d \<longleftrightarrow>
     distinct (map r_id (records d)) \<and> list_all row_check (records d) \<and> list_all canonical_id (map r_id (records d))"

definition db_evolves :: "database \<Rightarrow> database \<Rightarrow> bool" where
  "db_evolves d d' \<longleftrightarrow> rows_evolve (records d) (records d') \<and> d' = d\<lparr>records := records d'\<rparr> \<and> (db_ok d \<longrightarrow> db_ok d')"

lemma terminal_stays: "lifecycle\<^sup>*\<^sup>* st st' \<Longrightarrow> terminal st \<Longrightarrow> st' = st"
  by (induction rule: rtranclp_induct) (auto simp: terminal_def)

lemma row_evolves_refl: "row_evolves r r"
  by (simp add: row_evolves_def)

lemma row_evolves_trans: "row_evolves a b \<Longrightarrow> row_evolves b c \<Longrightarrow> row_evolves a c"
  unfolding row_evolves_def by (metis rtranclp_trans)

lemma rows_evolveI:
  "rows' = old @ new \<Longrightarrow> list_all2 row_evolves rows old \<Longrightarrow> list_all (\<lambda>r. lifecycle\<^sup>*\<^sup>* StateQueued (row_state r)) new \<Longrightarrow>
   rows_evolve rows rows'"
  by (auto simp: rows_evolve_def)

lemma rows_evolve_trans:
  assumes "rows_evolve a b" "rows_evolve b c" shows "rows_evolve a c"
proof -
  from assms(1) obtain x y where b: "b = x @ y" "list_all2 row_evolves a x"
    "list_all (\<lambda>r. lifecycle\<^sup>*\<^sup>* StateQueued (row_state r)) y" by (auto simp: rows_evolve_def)
  with assms(2) obtain x' y' z where c: "c = x' @ y' @ z" "list_all2 row_evolves x x'" "list_all2 row_evolves y y'"
    "list_all (\<lambda>r. lifecycle\<^sup>*\<^sup>* StateQueued (row_state r)) z"
    by (auto simp: rows_evolve_def list_all2_append1)
  have "list_all2 row_evolves a x'"
    by (rule list_all2_trans [OF row_evolves_trans b(2) c(2)])
  moreover have "list_all (\<lambda>r. lifecycle\<^sup>*\<^sup>* StateQueued (row_state r)) y'"
    using c(3) b(3) by (induction rule: list_all2_induct) (auto simp: row_evolves_def)
  ultimately show ?thesis using c(1,4) by (intro rows_evolveI [of _ x' "y' @ z"]) auto
qed

lemma db_evolves_refl: "db_evolves d d"
  by (auto simp: db_evolves_def list_all2_refl row_evolves_refl intro: rows_evolveI [of _ "records d" "[]"])

lemma db_evolves_trans: "db_evolves a b \<Longrightarrow> db_evolves b c \<Longrightarrow> db_evolves a c"
  unfolding db_evolves_def by (metis rows_evolve_trans database.update_convs(1) database.surjective)

lemma rows_evolve_map:
  assumes "\<And>r. r \<in> set rows \<Longrightarrow> row_evolves r (f r)" shows "rows_evolve rows (map f rows)"
  using assms by (intro rows_evolveI [of _ "map f rows" "[]"]) (auto simp: list_all2_map2 list_all2_same)

lemma db_evolves_update:
  assumes "sql_update i st f (records d) = Inr (rows, n)" "\<And>r. r_id (f r) = r_id r"
    "\<And>r. r_state r = st \<Longrightarrow> lifecycle (State_of st) (row_state (f r))"
  shows "db_evolves d (d\<lparr>records := rows\<rparr>)"
proof -
  have rows: "rows = map (\<lambda>r. if r_id r = i \<and> r_state r = st then f r else r) (records d)"
    by (rule sql_update_Inr [OF assms(1)])
  have "row_evolves r (f r)" if "r_state r = st" for r
    using assms(2) assms(3) [OF that] that
    by (auto simp: row_evolves_def terminal_def row_state_def)
  then have "rows_evolve (records d) rows" unfolding rows by (intro rows_evolve_map) (simp add: row_evolves_refl)
  moreover have "map r_id rows = map r_id (records d)" unfolding rows by (simp add: assms(2))
  ultimately show ?thesis using sql_update_check [OF assms(1)] by (simp add: db_evolves_def db_ok_def)
qed

lemma db_evolves_insert:
  assumes "sql_insert r (records d) = Inr rows" "canonical_id (r_id r)" "r_state r = state_text StateQueued"
  shows "db_evolves d (d\<lparr>records := rows\<rparr>)"
proof -
  have "rows = records d @ [r]" "row_check r" "r_id r \<notin> r_id ` set (records d)"
    using assms(1) by (auto simp: sql_insert_def split: if_splits)
  moreover have "rows_evolve (records d) (records d @ [r])"
    using assms(3) by (intro rows_evolveI [of _ "records d" "[r]"]) (auto simp: list_all2_refl row_evolves_refl row_state_def)
  ultimately show ?thesis using assms(2) by (auto simp: db_evolves_def db_ok_def)
qed

lemma db_evolves_requeue:
  assumes "list_all row_check (records d) \<longrightarrow> list_all row_check (requeue_rows now T ids (records d))"
  shows "db_evolves d (d\<lparr>records := requeue_rows now T ids (records d)\<rparr>)"
proof -
  have "map r_id (requeue_rows now T ids rows) = map r_id rows" for rows by (simp add: requeue_rows_def)
  moreover have "row_evolves r (requeue_update now t r)" if "r_state r = ''working''" for r t
    using that by (auto simp: row_evolves_def terminal_def row_state_def)
  then have "rows_evolve rows (requeue_rows now T ids rows)" for rows
    unfolding requeue_rows_def by (intro rows_evolve_map) (simp add: row_evolves_refl)
  ultimately show ?thesis using assms by (simp add: db_evolves_def db_ok_def)
qed

section \<open>Every operation follows the lifecycle\<close>

definition spool_step :: "'z spool_world_scheme \<Rightarrow> 'z spool_world_scheme \<Rightarrow> bool" where
  "spool_step w w' \<longleftrightarrow> db_evolves (db w) (db w')"

interpretation spool_step: op_preorder spool_step
  by unfold_locales (auto simp: spool_step_def intro: db_evolves_refl db_evolves_trans)

named_theorems step_intros

lemma step_quiet: "effect_in db_quiet m \<Longrightarrow> effect_in spool_step m"
  by (erule effect_in_mono) (simp add: db_quiet_def spool_step_def db_evolves_refl)

lemmas step_nowE [step_intros] = db_quiet_nowE [THEN step_quiet]

lemma step_by_result:
  "(\<And>w r w'. m w = (r, w') \<Longrightarrow> db_evolves (db w) (db w')) \<Longrightarrow> effect_in spool_step m"
  by (auto simp: effect_in_def spool_step_def) (metis prod.collapse)

lemma step_insertRecord: "State rec = StateQueued \<Longrightarrow> effect_in spool_step (insertRecord rec)"
  by (rule step_by_result, drule insertRecord_effect)
    (auto simp: db_evolves_refl row_of_def intro!: db_evolves_insert [of "row_of rec"])

lemma step_updateRecord:
  assumes "lifecycle st (State upd)" shows "effect_in spool_step (updateRecord st upd)"
proof (rule step_by_result)
  fix w :: "'a spool_world_scheme" and r w'
  assume "updateRecord st upd w = (r, w')"
  from updateRecord_effect [OF this] show "db_evolves (db w) (db w')"
  proof (elim disjE exE conjE)
    fix rows
    assume a: "isValidState st" "isValidState (State upd)"
      "sql_update (ID upd) (state_text st) (full_update upd) (records (db w)) = Inr (rows, 1)" "db w' = (db w)\<lparr>records := rows\<rparr>"
    then show ?thesis using db_evolves_update [OF a(3)] assms by (simp add: row_state_def)
  qed (simp add: db_evolves_refl)
qed

lemma db_evolves_claim:
  "sql_update i (state_text StateQueued) (claim_update t) (records d) = Inr (rows, n) \<Longrightarrow> db_evolves d (d\<lparr>records := rows\<rparr>)"
  by (erule db_evolves_update) (simp_all add: row_state_def)

lemma step_claim [step_intros]: "effect_in spool_step (claimReadyMetadata now)"
  by (rule step_by_result, drule claim_effect, elim disjE exE conjE)
    (simp_all only: db_evolves_refl db_evolves_claim)

lemma step_recoverMetadata [step_intros]: "effect_in spool_step (recoverMetadata now)"
proof (rule step_by_result)
  fix w :: "'a spool_world_scheme" and r w'
  assume "recoverMetadata now w = (r, w')"
  from recover_effect [OF this] show "db_evolves (db w) (db w')"
  proof (elim disjE exE conjE)
    fix T
    assume a: "db w' = (db w)\<lparr>records := requeue_rows now T UNIV (records (db w))\<rparr>"
      "list_all row_check (records (db w)) \<longrightarrow> list_all row_check (records (db w'))"
    then show ?thesis using db_evolves_requeue by simp
  qed (simp add: db_evolves_refl)
qed

lemma step_markSubmitted [step_intros]: "effect_in spool_step (markSubmitted rec res t)"
  unfolding markSubmitted_def Let_def by (intro spool_step.effect_intros step_intros step_updateRecord) simp

lemma step_markRetry [step_intros]: "effect_in spool_step (markRetry rec t le)"
  unfolding markRetry_def Let_def
  by (cases "State rec"; simp only: state.case; intro spool_step.effect_intros step_intros step_updateRecord;
      simp add: clear_operation_def)

lemma step_markSucceeded [step_intros]: "effect_in spool_step (markSucceeded rec)"
  unfolding markSucceeded_def Let_def
  by (cases "State rec"; simp only: state.case; intro spool_step.effect_intros step_intros step_updateRecord; simp)

lemma step_markDeadLetter [step_intros]: "effect_in spool_step (markDeadLetter rec le)"
  unfolding markDeadLetter_def Let_def
  by (cases "State rec"; simp only: state.case; intro spool_step.effect_intros step_intros step_updateRecord;
      simp add: clear_operation_def)

lemma step_requeueClaimedRecord: "m_State meta = StateWorking \<Longrightarrow> effect_in spool_step (requeueClaimedRecord meta)"
  unfolding requeueClaimedRecord_def by (intro spool_step.effect_intros step_intros step_updateRecord) simp

lemma step_deadLetterCorruptRecord:
  "m_State meta \<in> {StateQueued, StateWorking, StateSubmitted} \<Longrightarrow> effect_in spool_step (deadLetterCorruptRecord meta e)"
  unfolding deadLetterCorruptRecord_def Let_def
  by (intro spool_step.effect_intros step_intros step_updateRecord) (auto simp: toRecord_def)

end
