(* ===== verification/Spool_Store_Laws.thy ===== *)
theory Spool_Store_Laws
  imports Spool_Store Record_Store_Laws Payload_Roundtrip
begin

text \<open>
  Laws of the durable spool. The payload operations leave the database alone and the record
  operations follow the lifecycle, so every operation does; the claiming loop ends; an accepted
  message has its row and its complete payload; after a recovery no row is left in \<open>working\<close>.
\<close>

section \<open>Payload operations and the database\<close>

lemma env_db: "env_step w w' \<Longrightarrow> db w' = db w"
proof -
  assume "env_step w w'"
  then have "fs_world.more w' = fs_world.more w" by (simp add: env_step_def)
  then show ?thesis by (cases w; cases w') simp
qed

lemma step_env: "effect_in env_step m \<Longrightarrow> effect_in spool_step m"
  by (erule effect_in_mono) (simp add: spool_step_def env_db db_evolves_refl)

lemmas step_touch = env_touch [THEN step_env]

lemma env_Save: "effect_in env_step (Save lib ps rid msg)"
  unfolding Save_def Let_def
  by (intro env.effect_intros env_stageAndPublish quiet_openers [THEN env_touch] env_touch [OF touch_entryModeAt])

lemma env_Load: "effect_in env_step (Load lib ps rid)"
  by (rule env_touch [OF quiet_Load])

lemma env_Remove: "effect_in env_step (Remove ps rid)"
  unfolding Remove_def Let_def
  by (intro env.effect_intros quiet_openers [THEN env_touch] env_touch [OF touch_removeEntryTreeAt [of anywhere]]
      env_touch [OF touch_syncFD]) simp

lemma env_quarantineEntry: "effect_in env_step (quarantineEntry ps pfd ofd n)"
  unfolding quarantineEntry_def copyAndRemoveOrphan_def Let_def
  by (intro env.effect_intros env_renameDirectoryAt env_touch [OF touch_uniqueQuarantineNameAt]
      env_touch [OF touch_removeEntryTreeAt [of anywhere]] env_touch [OF touch_copyDirectoryTreeAt [of anywhere]]
      env_touch [OF touch_syncFD]) simp_all

lemma env_quarantineEntries: "effect_in env_step (quarantineEntries ps ids pfd ofd ns)"
  by (induction ns)
    (auto simp: Let_def simp del: retE_apply intro!: env.effect_intros env_quarantineEntry env_touch [OF touch_entryModeAt])

lemma env_QuarantineOrphans: "effect_in env_step (QuarantineOrphans ps ids)"
  unfolding QuarantineOrphans_def
  by (intro env.effect_intros quiet_openers [THEN env_touch] env_quarantineEntries
      env_touch [OF touch_openDirectoryAtNoFollow] env_touch [OF touch_readDirectoryEntriesFD])

lemmas step_payload = env_Save [THEN step_env] env_Load [THEN step_env] env_Remove [THEN step_env]
  env_QuarantineOrphans [THEN step_env]

section \<open>Every operation follows the lifecycle\<close>

lemma db_quiet_ctxErr [db_quiet_intros]: "effect_in db_quiet ctxErr"
  unfolding ctxErr_def by (rule db_quiet_attemptE) simp

lemmas step_ctxErr [step_intros] = db_quiet_ctxErr [THEN step_quiet]

lemma env_newUUIDv4: "effect_in env_step newUUIDv4"
  by (rule env_touch [OF touch_newUUIDv4])

lemma step_Enqueue: "effect_in spool_step (Enqueue lib ps msg)"
  unfolding Enqueue_def Let_def
  by (intro spool_step.effect_intros step_intros step_payload env_newUUIDv4 [THEN step_env] step_insertRecord)
    (simp add: newRecordFor_def)

lemma claim_meta_state:
  "claimReadyMetadata now w = (Inr (Some m), w') \<Longrightarrow> m_State m = StateWorking"
  by (drule claim_effect) auto

lemma step_claimReady_n: "effect_in spool_step (claimReady_n k lib ps now)"
proof (induction k)
  case (Suc k)
  show ?case unfolding claimReady_n.simps Let_def
    by (intro spool_step.effect_bindE_res [where m = "claimReadyMetadata _"] spool_step.effect_intros step_intros step_payload
        Suc step_deadLetterCorruptRecord step_requeueClaimedRecord)
      (simp_all add: claim_meta_state)
qed (simp only: claimReady_n.simps spool_step.effect_throwE)

lemma step_ClaimReady: "effect_in spool_step (ClaimReady lib ps now)"
  unfolding ClaimReady_def
  by (rule spool_step.effect_bindE [OF step_ctxErr]) (rule effect_in_apply [OF step_claimReady_n])

lemma step_checkPayloads:
  "(\<And>m. m \<in> set ms \<Longrightarrow> m_State m \<in> {StateQueued, StateSubmitted}) \<Longrightarrow> effect_in spool_step (checkPayloads lib ps what ms)"
proof (induction ms)
  case (Cons m ms)
  have "m_State m' \<in> {StateQueued, StateSubmitted}" if "m' \<in> set ms" for m' using Cons.prems that by simp
  note ih = Cons.IH [OF this]
  have "m_State m \<in> {StateQueued, StateWorking, StateSubmitted}" using Cons.prems [of m] by auto
  then show ?case unfolding checkPayloads.simps Let_def
    by (intro spool_step.effect_intros step_intros step_payload step_deadLetterCorruptRecord ih)
qed (simp only: checkPayloads.simps spool_step.effect_retE)

lemma recover_meta_states:
  "recoverMetadata now w = (Inr s, w') \<Longrightarrow>
     (\<forall>m \<in> set (snap_requeued s). m_State m = StateQueued) \<and> (\<forall>m \<in> set (snap_submitted s). m_State m = StateSubmitted)"
  by (drule recover_effect) auto

lemma step_Recover: "effect_in spool_step (Recover lib ps now)"
  unfolding Recover_def
  by (intro spool_step.effect_bindE_res [where m = "recoverMetadata _"] spool_step.effect_intros step_intros step_payload
      step_checkPayloads) (auto dest: recover_meta_states)

section \<open>The claiming loop ends\<close>

lemma queued_count_update:
  assumes "sql_update i st f rows = Inr (rows', n)" "\<And>r. r_state (f r) \<noteq> state_text StateQueued"
  shows "queued_count rows' + (if st = state_text StateQueued then n else 0) = queued_count rows"
proof -
  have "queued_count (map (\<lambda>r. if r_id r = i \<and> r_state r = st then f r else r) xs) +
      (if st = state_text StateQueued then length (filter (\<lambda>r. r_id r = i \<and> r_state r = st) xs) else 0) = queued_count xs" for xs
    using assms(2) by (induction xs) (auto simp: queued_count_def)
  then show ?thesis using assms(1) by (auto simp: sql_update_def Let_def split: if_splits)
qed

lemma claim_Some:
  assumes "claimReadyMetadata now w = (Inr (Some m), w')"
  obtains x m0 t rows where "sql_select_ready (state_text StateQueued) (timeToMillis now) (records (db w)) = [x]"
    "scanMetadata x = Inr m0" "m = m0\<lparr>m_State := StateWorking, m_UpdatedAt := t\<rparr>"
    "sql_update (r_id x) (state_text StateQueued) (claim_update t) (records (db w)) = Inr (rows, 1)"
    "db w' = (db w)\<lparr>records := rows\<rparr>"
  using claim_effect [OF assms] by (elim disjE exE conjE) (simp, simp, rule that, simp_all)

lemma queued_count_claim:
  assumes "claimReadyMetadata now w = (Inr (Some m), w')"
  shows "Suc (queued_count (records (db w'))) = queued_count (records (db w))"
  using assms
proof (rule claim_Some)
  fix x t rows
  assume a: "sql_update (r_id x) (state_text StateQueued) (claim_update t) (records (db w)) = Inr (rows, 1)"
    "db w' = (db w)\<lparr>records := rows\<rparr>"
  then show ?thesis using queued_count_update [OF a(1)] by simp
qed

lemma deadLetterCorruptRecord_effect:
  assumes "deadLetterCorruptRecord meta e w = (r, w')"
  shows "db w' = db w \<and> isl r \<or>
     (\<exists>upd rows. ID upd = m_ID meta \<and> State upd = StateDeadLetter \<and>
        sql_update (m_ID meta) (state_text (m_State meta)) (full_update upd) (records (db w)) = Inr (rows, 1) \<and>
        db w' = (db w)\<lparr>records := rows\<rparr> \<and> (\<forall>rec. r = Inr rec \<longrightarrow> rec = upd))"
proof -
  obtain upd where u: "ID upd = m_ID meta" "State upd = StateDeadLetter"
    and run: "bindE (updateRecord (m_State meta) upd) (\<lambda>_. retE upd) (w\<lparr>ticks := Suc (ticks w)\<rparr>) = (r, w')"
    using assms unfolding deadLetterCorruptRecord_def Let_def bindE_nowE
    by (rule_tac that [rotated 2], assumption) (simp_all add: toRecord_def)
  from run show ?thesis
  proof (cases rule: bindE_cases)
    case (fail err)
    from updateRecord_effect [OF fail(1)] u fail show ?thesis by auto
  next
    case (ok x y)
    from updateRecord_effect [OF ok(1)] u ok show ?thesis by auto
  qed
qed

lemma queued_count_dead:
  assumes "deadLetterCorruptRecord meta e w = (Inr x, w')" "m_State meta = StateWorking"
  shows "queued_count (records (db w')) = queued_count (records (db w))"
  using deadLetterCorruptRecord_effect [OF assms(1)]
proof (elim disjE exE conjE)
  fix upd rows
  assume a: "sql_update (m_ID meta) (state_text (m_State meta)) (full_update upd) (records (db w)) = Inr (rows, 1)"
    "db w' = (db w)\<lparr>records := rows\<rparr>" "State upd = StateDeadLetter"
  then show ?thesis using queued_count_update [OF a(1)] assms(2) by simp
qed simp

lemma Load_db: "Load lib ps rid w = (r, w') \<Longrightarrow> db w' = db w"
  using effect_inD [OF env_Load] env_db by blast

text \<open>Any bound above the number of queued records gives the same claim.\<close>

lemma claimReady_bound:
  "queued_count (records (db w)) < k \<Longrightarrow> queued_count (records (db w)) < k' \<Longrightarrow>
     claimReady_n k lib ps now w = claimReady_n k' lib ps now w"
proof (induction k arbitrary: k' w)
  case (Suc k)
  then obtain j where k': "k' = Suc j" by (cases k') auto
  have step: "claimReady_n k lib ps now v = claimReady_n j lib ps now v"
    if "claimReadyMetadata now w = (Inr (Some meta), u)" "Load lib ps (m_ID meta) u = (r, u')"
      "deadLetterCorruptRecord meta e u' = (Inr x, v)" for meta u r u' e x v
  proof -
    have "Suc (queued_count (records (db v))) = queued_count (records (db w))"
      using queued_count_claim [OF that(1)] Load_db [OF that(2)] queued_count_dead [OF that(3) claim_meta_state [OF that(1)]] by simp
    then show ?thesis using Suc.IH [of v j] Suc.prems k' by simp
  qed
  show ?case
    unfolding k' claimReady_n.simps by (auto simp: bindE_def tryE_def Let_def step split: prod.splits sum.splits option.splits)
qed simp

section \<open>Database calls leave the files alone\<close>

lemma db_step_quiet: "effect_in db_quiet m \<Longrightarrow> effect_in db_step m"
  by (erule effect_in_mono) (simp add: db_quiet_def)

lemma db_step_exec: "effect_in db_step (exec_insert x)" "effect_in db_step (exec_update i st f)"
  by (auto simp: effect_in_def exec_insert_def exec_update_def attemptE_def Let_def db_step_def split: option.splits sum.splits)

lemma db_step_attemptE:
  assumes "\<And>w :: 'b spool_world_scheme. db_step w (snd (m w))" shows "effect_in db_step (attemptE m)"
proof (rule effect_inI)
  fix w :: "'b spool_world_scheme"
  have "db_step w (w\<lparr>calls := Suc (calls w)\<rparr>)" by (simp add: db_step_def)
  from db_step.R_trans [OF this assms] this show "db_step w (snd (attemptE m w))"
    by (simp add: attemptE_def Let_def split: option.splits)
qed

lemmas db_step_inert = db_quiet_inert [THEN db_step_quiet]

lemma db_step_commit: "effect_in db_step commitImmediate"
  unfolding commitImmediate_def
  by (intro db_step.effect_intros db_step_inert db_step_attemptE) (simp add: db_step_def)

lemma db_step_transaction: "effect_in db_step m \<Longrightarrow> effect_in db_step (transaction c m)"
  unfolding transaction_def beginImmediate_def finishImmediate_def
  by (intro db_step.effect_intros db_step_inert db_step_attemptE) (simp_all add: db_step_def)

lemma db_step_insertRecord: "effect_in db_step (insertRecord rec)"
  unfolding insertRecord_def
  by (intro db_step.effect_intros db_step_transaction db_step_exec db_step_commit)

section \<open>Accepting a message\<close>

lemma insertRecord_Inr:
  assumes "insertRecord rec w = (Inr x, w')"
  shows "canonical_id (ID rec)" "records (db w') = records (db w) @ [row_of rec]" "fs w' = fs w"
proof -
  show "canonical_id (ID rec)" "records (db w') = records (db w) @ [row_of rec]"
    using insertRecord_effect [OF assms] by (auto simp: sql_insert_def split: if_splits)
  show "fs w' = fs w" using effect_inD [OF db_step_insertRecord assms] by (simp add: db_step_def)
qed

lemma Enqueue_Inr:
  assumes "Enqueue lib ps msg w = (Inr rec, w')"
  obtains u v now rid where "fs u = fs w" "cwd u = cwd w" "db u = db w" "rec = newRecordFor rid msg now"
    "Save lib ps rid msg u = (Inr (), v)" "insertRecord rec v = (Inr (), w')"
proof -
  obtain u1 u2 u3 v now rid where 1: "ctxErr w = (Inr (), u1)" "nowE u1 = (Inr now, u2)"
    "newUUIDv4 u2 = (Inr rid, u3)" "Save lib ps rid msg u3 = (Inr (), v)"
    "rec = newRecordFor rid msg now" "insertRecord (newRecordFor rid msg now) v = (Inr (), w')"
    using assms by (auto simp: Enqueue_def Let_def bindE_Inr_iff tryE_case_iff)
  have "db_step w u1" "db_step u1 u2" "db u1 = db w" "db u2 = db u1"
    using db_quiet_result [OF 1(1) db_quiet_ctxErr] db_quiet_result [OF 1(2) db_quiet_nowE] by auto
  moreover have "fs u3 = fs u2" "env_step u2 u3" using quiet_result [OF 1(3) touch_newUUIDv4] by auto
  ultimately show thesis using that [of u3 rid now v] 1 env_db [of u2 u3] by (simp add: db_step_def env_step_def)
qed

lemma Enqueue_accepted:
  assumes "wf_node (fs w)" "Enqueue lib ps msg w = (Inr rec, w')" "lookup_path (fs w) (payload_path ps w (ID rec)) = None"
  shows "records (db w') = records (db w) @ [row_of rec]"
    "\<exists>t. lookup_path (fs w') (payload_path ps w (ID rec)) = Some t \<and> complete_payload lib msg t"
proof -
  obtain u v now rid where e: "fs u = fs w" "cwd u = cwd w" "db u = db w" "rec = newRecordFor rid msg now"
    "Save lib ps rid msg u = (Inr (), v)" "insertRecord rec v = (Inr (), w')"
    using Enqueue_Inr [OF assms(2)] .
  have id: "ID rec = rid" "TrimSpace rid = rid"
    using insertRecord_Inr(1) [OF e(6)] by (simp_all add: e(4) newRecordFor_def canonical_id_trim)
  have p: "payload_path ps u n = payload_path ps w n" for n using e(2) by (simp add: payload_path_def spool_path_def Let_def)
  have "db v = db w" using effect_inD [OF env_Save e(5)] e(3) env_db by metis
  then show "records (db w') = records (db w) @ [row_of rec]" using insertRecord_Inr(2) [OF e(6)] by simp
  show "\<exists>t. lookup_path (fs w') (payload_path ps w (ID rec)) = Some t \<and> complete_payload lib msg t"
    using Save_published [OF _ _ e(5)] assms(1,3) e(1) p id insertRecord_Inr(3) [OF e(6)] by (auto simp: published_def)
qed

section \<open>Claiming\<close>

text \<open>The row a claim returns: due, in state \<open>queued\<close>, and first in the order of the query.\<close>

lemma select_ready_first:
  assumes "sql_select_ready st now rows = [x]"
  shows "x \<in> set rows" "r_state x = st" "r_next_attempt_at_ms x \<le> now"
    "\<And>y. y \<in> set rows \<Longrightarrow> r_state y = st \<Longrightarrow> r_next_attempt_at_ms y \<le> now \<Longrightarrow> ready_key x \<le> ready_key y"
proof -
  let ?due = "filter (\<lambda>r. r_state r = st \<and> r_next_attempt_at_ms r \<le> now) rows"
  obtain zs where zs: "sort_key ready_key ?due = x # zs"
    using assms by (cases "sort_key ready_key ?due") (auto simp: sql_select_ready_def)
  have set: "set (x # zs) = set ?due" unfolding zs [symmetric] by (rule set_sort)
  then have due: "x \<in> set ?due" by (metis list.set_intros(1))
  then show "x \<in> set rows" "r_state x = st" "r_next_attempt_at_ms x \<le> now" by auto
  fix y assume "y \<in> set rows" "r_state y = st" "r_next_attempt_at_ms y \<le> now"
  then have "y \<in> set (x # zs)" unfolding set by simp
  moreover have "sorted (map ready_key (x # zs))" unfolding zs [symmetric] by (rule sorted_sort_key)
  ultimately show "ready_key x \<le> ready_key y" by auto
qed

lemma select_ready_none:
  "sql_select_ready st now rows = [] \<longleftrightarrow> (\<forall>r \<in> set rows. \<not> (r_state r = st \<and> r_next_attempt_at_ms r \<le> now))"
proof -
  have "sort_key k xs = [] \<longleftrightarrow> xs = []" for k :: "row \<Rightarrow> int \<times> int \<times> string" and xs
    by (metis length_0_conv length_sort)
  then show ?thesis by (auto simp: sql_select_ready_def filter_empty_conv)
qed

definition due :: "int \<Rightarrow> row \<Rightarrow> bool" where
  "due now r \<longleftrightarrow> r_state r = state_text StateQueued \<and> r_next_attempt_at_ms r \<le> now"

lemma update_keeps_due:
  "sql_update i st f rows = Inr (rows', n) \<Longrightarrow> (\<And>r. r_state (f r) \<noteq> state_text StateQueued) \<Longrightarrow>
     r \<in> set rows' \<Longrightarrow> due now r \<Longrightarrow> r \<in> set rows"
  by (auto simp: due_def dest!: sql_update_Inr split: if_splits)

text \<open>What a claim that returns has done, from the table \<open>rows\<close> to the table \<open>rows'\<close>.\<close>

definition claimed :: "int \<Rightarrow> row list \<Rightarrow> row list \<Rightarrow> spool_record option \<Rightarrow> bool" where
  "claimed now rows rows' res \<longleftrightarrow>
     (case res of
        None \<Rightarrow> \<forall>r \<in> set rows'. \<not> due now r
      | Some rec \<Rightarrow> State rec = StateWorking \<and>
          (\<exists>r' \<in> set rows'. r_id r' = ID rec \<and> r_state r' = state_text StateWorking) \<and>
          (\<exists>r \<in> set rows. r_id r = ID rec \<and> due now r \<and> (\<forall>y \<in> set rows'. due now y \<longrightarrow> ready_key r \<le> ready_key y)))"

lemma claimed_none:
  "claimReadyMetadata now w = (Inr None, w') \<Longrightarrow> claimed (timeToMillis now) (records (db w)) (records (db w')) None"
  by (drule claim_effect) (auto simp: claimed_def due_def select_ready_none)

lemma claimed_one:
  assumes "claimReadyMetadata now w = (Inr (Some m), w')"
  shows "claimed (timeToMillis now) (records (db w)) (records (db w')) (Some ((toRecord m)\<lparr>Message := msg\<rparr>))"
  using assms
proof (rule claim_Some)
  fix x m0 t rows
  assume a: "sql_select_ready (state_text StateQueued) (timeToMillis now) (records (db w)) = [x]" "scanMetadata x = Inr m0"
    "m = m0\<lparr>m_State := StateWorking, m_UpdatedAt := t\<rparr>"
    "sql_update (r_id x) (state_text StateQueued) (claim_update t) (records (db w)) = Inr (rows, 1)"
    "db w' = (db w)\<lparr>records := rows\<rparr>"
  note x = select_ready_first [OF a(1)]
  have "claim_update t x \<in> set rows" using sql_update_Inr [OF a(4)] x(1,2) by force
  then have "\<exists>r' \<in> set rows. r_id r' = r_id x \<and> r_state r' = state_text StateWorking"
    by (intro bexI [of _ "claim_update t x"]) simp_all
  moreover have "ready_key x \<le> ready_key y" if "y \<in> set rows" "due (timeToMillis now) y" for y
    using update_keeps_due [OF a(4) _ that] that x(4) by (simp add: due_def)
  moreover have "due (timeToMillis now) x" "m_ID m0 = r_id x" using x(2,3) scanMetadata_ID [OF a(2)] by (simp_all add: due_def)
  ultimately show ?thesis using x(1) by (auto simp: claimed_def a(3,5) toRecord_def)
qed

lemma claimed_later:
  assumes "claimReadyMetadata now w = (Inr (Some m), u)" "db u' = db u" "deadLetterCorruptRecord m e u' = (Inr d, v)"
    and "claimed (timeToMillis now) (records (db v)) rows' res"
  shows "claimed (timeToMillis now) (records (db w)) rows' res"
proof -
  have "r \<in> set (records (db u))" if "r \<in> set (records (db v))" "due (timeToMillis now) r" for r
    using deadLetterCorruptRecord_effect [OF assms(3)]
  proof (elim disjE exE conjE)
    fix upd rows
    assume a: "sql_update (m_ID m) (state_text (m_State m)) (full_update upd) (records (db u')) = Inr (rows, 1)"
      "db v = (db u')\<lparr>records := rows\<rparr>" "State upd = StateDeadLetter"
    then show ?thesis using update_keeps_due [OF a(1)] that assms(2) by simp
  qed simp
  moreover have "r \<in> set (records (db w))" if "r \<in> set (records (db u))" "due (timeToMillis now) r" for r
    using assms(1)
  proof (rule claim_Some)
    fix x t rows
    assume a: "sql_update (r_id x) (state_text StateQueued) (claim_update t) (records (db w)) = Inr (rows, 1)"
      "db u = (db w)\<lparr>records := rows\<rparr>"
    then show ?thesis using update_keeps_due [OF a(1)] that by simp
  qed
  ultimately show ?thesis using assms(4) by (fastforce simp: claimed_def split: option.splits)
qed

lemma claimReady_n_Inr:
  "claimReady_n k lib ps now w = (Inr res, w') \<Longrightarrow> claimed (timeToMillis now) (records (db w)) (records (db w')) res"
proof (induction k arbitrary: w)
  case (Suc k)
  from Suc.prems [unfolded claimReady_n.simps bindE_Inr_iff] obtain found u
    where u: "claimReadyMetadata now w = (Inr found, u)"
    and k: "(case found of None \<Rightarrow> retE None | Some meta \<Rightarrow> tryE (Load lib ps (m_ID meta)) (\<lambda>r. case r of
        Inr msg \<Rightarrow> retE (Some ((toRecord meta)\<lparr>Message := msg\<rparr>))
      | Inl e \<Rightarrow> let classified = classifyPayloadLoadError (m_ID meta) e in
          (case AsRecordCorruptionError classified of
             Some corrupt \<Rightarrow> bindE (deadLetterCorruptRecord meta corrupt) (\<lambda>_. claimReady_n k lib ps now)
           | None \<Rightarrow> bindE (requeueClaimedRecord meta) (\<lambda>_. throwE classified)))) u = (Inr res, w')"
    by blast
  show ?case
  proof (cases found)
    case None
    then show ?thesis using k u claimed_none by auto
  next
    case (Some m)
    from k [unfolded Some option.case tryE_case_iff] show ?thesis
    proof (elim disjE exE conjE)
      fix msg u'
      assume "Load lib ps (m_ID m) u = (Inr msg, u')" "retE (Some ((toRecord m)\<lparr>Message := msg\<rparr>)) u' = (Inr res, w')"
      then show ?thesis using claimed_one [OF u [unfolded Some]] Load_db by fastforce
    next
      fix e u'
      assume l: "Load lib ps (m_ID m) u = (Inl e, u')"
        and "(let classified = classifyPayloadLoadError (m_ID m) e in
          (case AsRecordCorruptionError classified of
             Some corrupt \<Rightarrow> bindE (deadLetterCorruptRecord m corrupt) (\<lambda>_. claimReady_n k lib ps now)
           | None \<Rightarrow> bindE (requeueClaimedRecord m) (\<lambda>_. throwE classified))) u' = (Inr res, w')"
      then obtain c d v where "deadLetterCorruptRecord m c u' = (Inr d, v)" "claimReady_n k lib ps now v = (Inr res, w')"
        by (auto simp: Let_def bindE_Inr_iff split: option.splits)
      then show ?thesis using claimed_later [OF u [unfolded Some] Load_db [OF l]] Suc.IH by blast
    qed
  qed
qed simp

lemma ClaimReady_Inr:
  assumes "ClaimReady lib ps now w = (Inr res, w')"
  shows "claimed (timeToMillis now) (records (db w)) (records (db w')) res"
proof -
  obtain x u where "ctxErr w = (Inr x, u)"
    and c: "claimReady_n (Suc (queued_count (records (db u)))) lib ps now u = (Inr res, w')"
    using assms unfolding ClaimReady_def bindE_Inr_iff by blast
  then have "db u = db w" using db_quiet_result [OF _ db_quiet_ctxErr] by blast
  then show ?thesis using claimReady_n_Inr [OF c] by simp
qed

section \<open>Recovery\<close>

definition no_working :: "row list \<Rightarrow> bool" where
  "no_working rows \<longleftrightarrow> list_all (\<lambda>r. r_state r \<noteq> state_text StateWorking) rows"

definition calm :: "'z spool_world_scheme \<Rightarrow> 'z spool_world_scheme \<Rightarrow> bool" where
  "calm w w' \<longleftrightarrow> (no_working (records (db w)) \<longrightarrow> no_working (records (db w')))"

interpretation calm: op_preorder calm
  by unfold_locales (auto simp: calm_def)

lemma calm_env: "effect_in env_step m \<Longrightarrow> effect_in calm m"
  by (erule effect_in_mono) (simp add: calm_def env_db)

lemma calm_deadLetterCorruptRecord: "effect_in calm (deadLetterCorruptRecord meta e)"
proof (rule effect_inI)
  fix w :: "'a spool_world_scheme"
  obtain r w' where run: "deadLetterCorruptRecord meta e w = (r, w')" by fastforce
  from deadLetterCorruptRecord_effect [OF run] show "calm w (snd (deadLetterCorruptRecord meta e w))"
    unfolding run calm_def no_working_def list_all_iff
    by (elim disjE exE conjE) (auto dest!: sql_update_Inr)
qed

lemma calm_checkPayloads: "effect_in calm (checkPayloads lib ps what ms)"
proof (induction ms)
  case (Cons m ms)
  show ?case unfolding checkPayloads.simps Let_def
    by (intro calm.effect_intros calm_deadLetterCorruptRecord calm_env [OF env_Load] Cons)
qed (simp only: checkPayloads.simps calm.effect_retE)

lemma no_working_requeue: "no_working (requeue_rows now T UNIV rows)"
  by (auto simp: no_working_def requeue_rows_def list_all_iff)

lemma Recover_no_working:
  assumes "Recover lib ps now w = (Inr res, w')" shows "no_working (records (db w'))"
proof -
  obtain x u s v where "ctxErr w = (Inr x, u)" and s: "recoverMetadata now u = (Inr s, v)"
    and rest: "bindE (checkPayloads lib ps ''requeued'' (snap_requeued s)) (\<lambda>(requeued, dead1).
     bindE (checkPayloads lib ps ''submitted'' (snap_submitted s)) (\<lambda>(submitted, dead2).
     bindE (mapErr (wrapStoreError ''quarantine orphan payloads'') (QuarantineOrphans ps (snap_validIDs s))) (\<lambda>orphans.
     retE \<lparr>Requeued = requeued, Submitted = submitted, DeadLettered = dead1 @ dead2, OrphanedPayloads = orphans\<rparr>))) v = (Inr res, w')"
    using assms unfolding Recover_def bindE_Inr_iff [of ctxErr] bindE_Inr_iff [of "recoverMetadata now"] by blast
  have "no_working (records (db v))" using recover_effect [OF s] by (auto simp: no_working_requeue)
  moreover have "calm v w'"
    using rest by (rule effect_inD [rotated]) (intro calm.effect_intros calm_checkPayloads calm_env [OF env_QuarantineOrphans])
  ultimately show ?thesis by (simp add: calm_def)
qed

section \<open>Sequences of operations\<close>

text \<open>The calls the relay makes, in any order and with any arguments, each followed by whatever it left.\<close>

datatype spool_call =
    CallEnqueue message
  | CallClaimReady gotime
  | CallNextSubmittedReady gotime
  | CallMarkSubmitted spool_record submission_result gotime
  | CallMarkRetry spool_record gotime "last_error option"
  | CallMarkSucceeded spool_record
  | CallMarkDeadLetter spool_record "last_error option"
  | CallStateCounts
  | CallRecover gotime

fun run_call :: "libs \<Rightarrow> payload_store \<Rightarrow> spool_call \<Rightarrow> 'z spool_world_scheme \<Rightarrow> 'z spool_world_scheme" where
  "run_call lib ps (CallEnqueue msg) w = snd (Enqueue lib ps msg w)"
| "run_call lib ps (CallClaimReady now) w = snd (ClaimReady lib ps now w)"
| "run_call lib ps (CallNextSubmittedReady now) w = snd (NextSubmittedReady now w)"
| "run_call lib ps (CallMarkSubmitted rec res t) w = snd (MarkSubmitted rec res t w)"
| "run_call lib ps (CallMarkRetry rec t le) w = snd (MarkRetry rec t le w)"
| "run_call lib ps (CallMarkSucceeded rec) w = snd (MarkSucceeded rec w)"
| "run_call lib ps (CallMarkDeadLetter rec le) w = snd (MarkDeadLetter rec le w)"
| "run_call lib ps CallStateCounts w = snd (StateCounts w)"
| "run_call lib ps (CallRecover now) w = snd (Recover lib ps now w)"

definition run_calls :: "libs \<Rightarrow> payload_store \<Rightarrow> spool_call list \<Rightarrow> 'z spool_world_scheme \<Rightarrow> 'z spool_world_scheme" where
  "run_calls lib ps = fold (run_call lib ps)"

lemma db_quiet_scanCounts: "effect_in db_quiet (scanCounts cs)"
  by (induction cs rule: scanCounts.induct)
    (auto simp del: retE_apply throwE_apply intro!: db_quiet.effect_intros db_quiet_intros)

lemma step_stateCounts: "effect_in spool_step StateCounts"
  unfolding StateCounts_def stateCounts_def
  by (rule step_quiet) (intro db_quiet.effect_intros db_quiet_intros db_quiet_scanCounts db_quiet_attemptE, simp)

lemma step_nextSubmittedReady: "effect_in spool_step (NextSubmittedReady now)"
  unfolding NextSubmittedReady_def nextSubmittedReady_def
  by (rule step_quiet) (intro db_quiet.effect_intros db_quiet_intros)

lemma step_call: "spool_step w (run_call lib ps c w)"
  by (cases c)
    (simp_all add: effect_in_def [THEN iffD1, rule_format] step_Enqueue step_ClaimReady step_Recover step_stateCounts step_nextSubmittedReady
      MarkSubmitted_def MarkRetry_def MarkSucceeded_def MarkDeadLetter_def
      step_markSubmitted step_markRetry step_markSucceeded step_markDeadLetter)

lemma step_calls: "spool_step w (run_calls lib ps cs w)"
  unfolding run_calls_def
proof (induction cs arbitrary: w)
  case (Cons c cs)
  show ?case using spool_step.R_trans [OF step_call Cons.IH] by simp
qed (simp add: spool_step.R_refl)

end
