(* ===== verification/Record_Roundtrip.thy ===== *)
theory Record_Roundtrip
  imports Record_Store_Laws
begin

text \<open>
  The columns of a row and the record they stand for: what the schema's constraints let in is
  accepted by \<open>scanMetadata\<close>, and a record read back is the record written, with its times cut to
  milliseconds and its texts trimmed.
\<close>

lemma valid_state_column: "row_check r \<Longrightarrow> isValidState (State_of (r_state r))"
  by (auto simp: row_check_def)

lemma millisToTime_le: "millisToTime a < millisToTime b \<longleftrightarrow> a < b"
  by (simp add: millisToTime_def millisecond_def)

lemma scanLastError_checked: "row_check r \<Longrightarrow> \<exists>le. scanLastError r = Inr le"
  by (auto simp: row_check_def scanLastError_def positive_or_null_def split: option.splits if_splits)

lemma scanMetadata_checked:
  assumes "row_check r" "canonical_id (r_id r)" shows "\<exists>m. scanMetadata r = Inr m"
proof -
  obtain le where "scanLastError r = Inr le" using scanLastError_checked [OF assms(1)] ..
  moreover have "\<not> (case r_first_submitted_at_ms r of None \<Rightarrow> False | Some v \<Rightarrow> v \<le> 0)"
    using assms(1) by (auto simp: row_check_def positive_or_null_def split: option.splits)
  moreover have "0 \<le> r_attempt r" "0 < r_next_attempt_at_ms r" "0 < r_created_at_ms r" "0 < r_updated_at_ms r"
    "r_created_at_ms r \<le> r_updated_at_ms r"
    using assms(1) by (simp_all add: row_check_def)
  ultimately show ?thesis
    using assms valid_state_column by (simp add: scanMetadata_def millisToTime_le)
qed

definition whole_millis :: "gotime \<Rightarrow> gotime" where
  "whole_millis t = (if IsZero t then t else t - t mod millisecond)"

definition stored_error :: "last_error \<Rightarrow> last_error" where
  "stored_error e = e\<lparr>le_Message := TrimSpace (le_Message e), le_Provider := TrimSpace (le_Provider e),
     le_Timestamp := whole_millis (le_Timestamp e)\<rparr>"

definition stored_metadata :: "spool_record \<Rightarrow> record_metadata" where
  "stored_metadata rec =
     \<lparr>m_ID = ID rec, m_State = State rec, m_Attempt = Attempt rec, m_NextAttemptAt = whole_millis (NextAttemptAt rec),
      m_OperationID = TrimSpace (OperationID rec), m_OperationLocation = TrimSpace (OperationLocation rec),
      m_ProviderMessageID = TrimSpace (ProviderMessageID rec), m_FirstSubmittedAt = whole_millis (FirstSubmittedAt rec),
      m_LastError = map_option stored_error (LastError rec),
      m_CreatedAt = whole_millis (CreatedAt rec), m_UpdatedAt = whole_millis (UpdatedAt rec)\<rparr>"

lemma null_text_nullIfEmpty [simp]: "null_text (nullIfEmpty s) = TrimSpace s"
  by (simp add: null_text_def nullIfEmpty_def)

lemma millis_back: "\<not> IsZero t \<Longrightarrow> millisToTime (UnixMilli t) = whole_millis t"
  by (simp add: millisToTime_def UnixMilli_def whole_millis_def minus_mod_eq_div_mult)

lemma millis_back_stored: "timeToMillis t > 0 \<Longrightarrow> millisToTime (timeToMillis t) = whole_millis t"
  by (cases "IsZero t") (simp_all add: timeToMillis_def millis_back)

lemma first_submitted_back:
  "(case nullIfZeroTime t of None \<Rightarrow> zero_time | Some v \<Rightarrow> millisToTime v) = whole_millis t"
  by (auto simp: nullIfZeroTime_def millis_back) (simp add: whole_millis_def IsZero_def)

lemma scanLastError_row_of:
  assumes "row_check (row_of rec)" shows "scanLastError (row_of rec) = Inr (map_option stored_error (LastError rec))"
proof (cases "LastError rec")
  case None
  then show ?thesis
    by (simp add: scanLastError_def row_of_def lastErrorMessage_def lastErrorProvider_def lastErrorTemporary_def lastErrorTimestamp_def)
next
  case (Some e)
  then have "\<not> IsZero (le_Timestamp e)" "UnixMilli (le_Timestamp e) > 0"
    using assms by (auto simp: row_check_def row_of_def lastErrorTemporary_def lastErrorTimestamp_def positive_or_null_def
        split: if_splits)
  with Some show ?thesis
    by (simp add: scanLastError_def row_of_def lastErrorMessage_def lastErrorProvider_def lastErrorTemporary_def
        lastErrorTimestamp_def millis_back stored_error_def)
qed

lemma scanMetadata_row_of:
  assumes "row_check (row_of rec)" "canonical_id (ID rec)" "isValidState (State rec)"
  shows "scanMetadata (row_of rec) = Inr (stored_metadata rec)"
proof -
  have c: "canonical_id (r_id (row_of rec))" using assms(2) by (simp add: row_of_def)
  obtain m where m: "scanMetadata (row_of rec) = Inr m" using scanMetadata_checked [OF assms(1) c] ..
  have t: "timeToMillis (NextAttemptAt rec) > 0" "timeToMillis (CreatedAt rec) > 0" "timeToMillis (UpdatedAt rec) > 0"
    using assms(1) by (simp_all add: row_check_def row_of_def)
  from m first_submitted_back [of "FirstSubmittedAt rec"] have "m = stored_metadata rec"
    unfolding scanMetadata_def scanLastError_row_of [OF assms(1)]
    by (auto simp: stored_metadata_def split: option.splits if_splits)
      (simp_all add: row_of_def assms(3) t millis_back_stored first_submitted_back)
  then show ?thesis using m by simp
qed

end
