(* ===== verification/Spool_Properties.thy ===== *)
theory Spool_Properties
  imports Spool_Store_Laws Record_Roundtrip
begin

text \<open>The properties of the durable spool, with an example spool their witnesses run on.\<close>

section \<open>An example spool\<close>

definition example_spool :: spool_world where
  "example_spool =
     \<lparr>clock = (\<lambda>n. (int n + 1) * 1000000000), ticks = 0, fault = (\<lambda>_. None), calls = 0,
      entropy = (\<lambda>n. Inr (replicate 16 (of_nat n))), draws = 0,
      fs = Dir [(''s'', Dir [(''payloads'', Dir []), (''payload-orphans'', Dir []), (''staging'', Dir [])])],
      cwd = [], short_write = (\<lambda>_. 0),
      db = \<lparr>records = [], sqlite_master = [], user_version = 1\<rparr>, tx = \<lparr>records = [], sqlite_master = [], user_version = 1\<rparr>\<rparr>"

text \<open>The spool after accepting the example message, after claiming it, and the records returned.\<close>

definition enqueued :: "(goerr + spool_record) \<times> spool_world" where
  "enqueued = Enqueue example_libs example_store example_message example_spool"

definition claim_once :: "(goerr + spool_record option) \<times> spool_world" where
  "claim_once = ClaimReady example_libs example_store 5000000000 (snd enqueued)"

definition recovered :: "(goerr + recovery_result) \<times> spool_world" where
  "recovered = Recover example_libs example_store 9000000000 (snd claim_once)"

definition enqueued_record :: spool_record where
  "enqueued_record = newRecordFor example_id example_message 1000000000"

lemma enqueued_ok: "fst enqueued = Inr enqueued_record"
  by code_simp

lemma claim_once_ok: "map_sum id (map_option ID) (fst claim_once) = Inr (Some example_id)"
  by code_simp

lemma recovered_ok: "map_sum id (\<lambda>r. map ID (Requeued r)) (fst recovered) = Inr [example_id]"
  by code_simp

lemma enqueued_run: "Enqueue example_libs example_store example_message example_spool = (Inr enqueued_record, snd enqueued)"
  using enqueued_ok by (simp add: enqueued_def prod_eq_iff)

lemma example_spool_fresh:
  "wf_node (fs example_spool)" "lookup_path (fs example_spool) (payload_path example_store example_spool (ID enqueued_record)) = None"
  by code_simp+

section \<open>Properties\<close>

text \<open>C2: every record follows the lifecycle. Whatever calls are made on the spool, in whatever order and with
  whatever arguments, and whatever fails on the way: no row disappears or changes its id, a row's state moves
  only along the transitions queued to working, working back to queued, working to submitted, submitted to
  submitted, and from an unfinished state to succeeded or dead-letter as the relation \<open>lifecycle\<close> says, a row
  in a final state is never changed again, and a new row has come from \<open>queued\<close>.\<close>
theorem spool_lifecycle: "rows_evolve (records (db w)) (records (db (run_calls lib ps cs w)))"
  using step_calls [of w lib ps cs] by (simp add: spool_step_def db_evolves_def)



text \<open>C5: accepting a message is durable. When \<open>Enqueue\<close> reports success its record is the last row of the
  table, queued, at attempt 0 and due at once, and its payload is complete under \<open>payloads/\<close>; the record id,
  drawn at random, named no payload before.\<close>
theorem Enqueue_durable:
  assumes "wf_node (fs w)" "Enqueue lib ps msg w = (Inr rec, w')" "lookup_path (fs w) (payload_path ps w (ID rec)) = None"
  shows "records (db w') = records (db w) @ [row_of rec] \<and> State rec = StateQueued \<and> Attempt rec = 0 \<and>
     NextAttemptAt rec = CreatedAt rec \<and> Message rec = msg \<and>
     (\<exists>t. lookup_path (fs w') (payload_path ps w (ID rec)) = Some t \<and> complete_payload lib msg t)"
  by (rule Enqueue_Inr [OF assms(2)]) (use Enqueue_accepted [OF assms] in \<open>simp add: newRecordFor_def\<close>)

theorem Enqueue_durable_witness:
  "records (db (snd enqueued)) = records (db example_spool) @ [row_of enqueued_record] \<and>
   (\<exists>t. lookup_path (fs (snd enqueued)) (payload_path example_store example_spool (ID enqueued_record)) = Some t \<and>
      complete_payload example_libs example_message t)"
  using Enqueue_durable [OF example_spool_fresh(1) enqueued_run example_spool_fresh(2)] by simp

text \<open>C22: a claim returns the right record. When \<open>ClaimReady\<close> returns a record, its row was queued and due, no
  row that is still queued and due comes before it in the order (next attempt, creation, id), and the row is now
  in state \<open>working\<close>, as the record says; when it returns none, no row is queued and due.\<close>
theorem ClaimReady_first:
  assumes "ClaimReady lib ps now w = (Inr res, w')"
  shows "claimed (timeToMillis now) (records (db w)) (records (db w')) res"
  using assms by (rule ClaimReady_Inr)

theorem ClaimReady_first_witness:
  "\<exists>rec. fst claim_once = Inr (Some rec) \<and> ID rec = example_id \<and>
     claimed (timeToMillis 5000000000) (records (db (snd enqueued))) (records (db (snd claim_once))) (Some rec)"
proof -
  obtain rec where r: "fst claim_once = Inr (Some rec)" "ID rec = example_id"
    using claim_once_ok by (cases "fst claim_once") auto
  then have "ClaimReady example_libs example_store 5000000000 (snd enqueued) = (Inr (Some rec), snd claim_once)"
    by (simp add: claim_once_def prod_eq_iff)
  from ClaimReady_first [OF this] r show ?thesis by blast
qed

text \<open>C29: the claiming loop ends. Every iteration that goes on has dead-lettered a queued record, so any bound
  on the iterations above the number of queued records gives the same result.\<close>
theorem claimReady_terminates:
  assumes "queued_count (records (db w)) < k"
  shows "claimReady_n k lib ps now w = claimReady_n (Suc (queued_count (records (db w)))) lib ps now w"
  using assms by (intro claimReady_bound) simp_all

theorem claimReady_terminates_witness:
  "claimReady_n 7 example_libs example_store 5000000000 (snd enqueued) =
   claimReady_n (Suc (queued_count (records (db (snd enqueued))))) example_libs example_store 5000000000 (snd enqueued)"
proof (rule claimReady_terminates)
  show "queued_count (records (db (snd enqueued))) < 7" by code_simp
qed

text \<open>C7: after a successful recovery no record is left in state \<open>working\<close>.\<close>
theorem Recover_releases:
  assumes "Recover lib ps now w = (Inr res, w')"
  shows "list_all (\<lambda>r. r_state r \<noteq> state_text StateWorking) (records (db w'))"
  using Recover_no_working [OF assms] by (simp add: no_working_def)

theorem Recover_releases_witness:
  "list_ex (\<lambda>r. r_state r = state_text StateWorking) (records (db (snd claim_once))) \<and>
   list_all (\<lambda>r. r_state r \<noteq> state_text StateWorking) (records (db (snd recovered)))"
proof
  show "list_ex (\<lambda>r. r_state r = state_text StateWorking) (records (db (snd claim_once)))" by code_simp
  obtain res where "fst recovered = Inr res" using recovered_ok by (cases "fst recovered") auto
  then have "Recover example_libs example_store 9000000000 (snd claim_once) = (Inr res, snd recovered)"
    by (simp add: recovered_def prod_eq_iff)
  from Recover_releases [OF this] show "list_all (\<lambda>r. r_state r \<noteq> state_text StateWorking) (records (db (snd recovered)))" .
qed

text \<open>C27: a stored record reads back as it was written: the metadata scanned from the columns of a record are
  those of the record, with its times cut to whole milliseconds and its texts trimmed.\<close>
theorem record_roundtrip:
  assumes "row_check (row_of rec)" "canonical_id (ID rec)" "isValidState (State rec)"
  shows "scanMetadata (row_of rec) = Inr (stored_metadata rec)"
  using assms by (rule scanMetadata_row_of)

theorem record_roundtrip_witness: "scanMetadata (row_of enqueued_record) = Inr (stored_metadata enqueued_record)"
  by (rule record_roundtrip) code_simp+



end
