(* ===== verification/Observability.thy ===== *)
theory Observability
  imports Spool_Store
begin

text \<open>
  Package internal/observability: the metrics (metrics.go) and the HTTP surface (http.go).

  The Prometheus registry is a library: a counter is its value, a counter vector maps its label
  values to theirs, the gauge vector is the list of its label values that were set. A nil
  \<open>*Metrics\<close> is \<open>None\<close>. The text of the exposition format is a parameter of the handler.
\<close>

section \<open>State\<close>

record metrics =
  sessionsDenied :: nat
  authFailures :: nat
  enqueued_total :: nat
  enqueueFailures :: nat
  spoolRecords :: "string \<rightharpoonup> int"
  deliverySubmits :: "string \<times> string \<Rightarrow> nat"
  deliveryPolls :: "string \<times> string \<Rightarrow> nat"
  deliveryRetries :: "string \<Rightarrow> nat"

record relay_world = spool_world +
  metrics :: "metrics option"

type_synonym ('z, 'a) relay_op = "('z relay_world_scheme, 'a) op"

definition NewMetrics :: metrics where
  "NewMetrics =
     \<lparr>sessionsDenied = 0, authFailures = 0, enqueued_total = 0, enqueueFailures = 0, spoolRecords = Map.empty,
      deliverySubmits = (\<lambda>_. 0), deliveryPolls = (\<lambda>_. 0), deliveryRetries = (\<lambda>_. 0)\<rparr>"

section \<open>Labels\<close>

definition outcomes :: "string list" where
  "outcomes = [''running'', ''succeeded'', ''failed'', ''canceled'', ''temporary_error'', ''permanent_error'']"

definition spoolStates :: "string list" where
  "spoolStates = [''queued'', ''working'', ''submitted'', ''succeeded'', ''dead-letter'']"

definition normalizeProvider :: "string \<Rightarrow> string" where
  "normalizeProvider provider = (if provider = [] then ''unknown'' else provider)"

definition normalizeOutcome :: "string \<Rightarrow> string" where
  "normalizeOutcome outcome = (if outcome \<in> set outcomes then outcome else ''permanent_error'')"

definition normalizeRetryStage :: "string \<Rightarrow> string" where
  "normalizeRetryStage stage = (if stage = ''submit'' \<or> stage = ''poll'' then stage else ''submit'')"

section \<open>Counters\<close>

text \<open>The methods of \<open>*Metrics\<close> return at once on a nil receiver.\<close>

definition with_metrics :: "(metrics \<Rightarrow> metrics) \<Rightarrow> ('z, unit) relay_op" where
  "with_metrics f w = (Inr (), w\<lparr>metrics := map_option f (metrics w)\<rparr>)"

definition IncSessionsDenied :: "('z, unit) relay_op" where
  "IncSessionsDenied = with_metrics (\<lambda>m. m\<lparr>sessionsDenied := sessionsDenied m + 1\<rparr>)"

definition IncAuthFailures :: "('z, unit) relay_op" where
  "IncAuthFailures = with_metrics (\<lambda>m. m\<lparr>authFailures := authFailures m + 1\<rparr>)"

definition IncEnqueued :: "('z, unit) relay_op" where
  "IncEnqueued = with_metrics (\<lambda>m. m\<lparr>enqueued_total := enqueued_total m + 1\<rparr>)"

definition IncEnqueueFailures :: "('z, unit) relay_op" where
  "IncEnqueueFailures = with_metrics (\<lambda>m. m\<lparr>enqueueFailures := enqueueFailures m + 1\<rparr>)"

definition inc_label :: "'k \<Rightarrow> ('k \<Rightarrow> nat) \<Rightarrow> 'k \<Rightarrow> nat" where
  "inc_label k c = c(k := c k + 1)"

definition ObserveSubmission :: "string \<Rightarrow> string \<Rightarrow> ('z, unit) relay_op" where
  "ObserveSubmission provider outcome = with_metrics (\<lambda>m.
     m\<lparr>deliverySubmits := inc_label (normalizeProvider provider, normalizeOutcome outcome) (deliverySubmits m)\<rparr>)"

definition ObservePoll :: "string \<Rightarrow> string \<Rightarrow> ('z, unit) relay_op" where
  "ObservePoll provider outcome = with_metrics (\<lambda>m.
     m\<lparr>deliveryPolls := inc_label (normalizeProvider provider, normalizeOutcome outcome) (deliveryPolls m)\<rparr>)"

definition IncRetry :: "string \<Rightarrow> ('z, unit) relay_op" where
  "IncRetry stage = with_metrics (\<lambda>m. m\<lparr>deliveryRetries := inc_label (normalizeRetryStage stage) (deliveryRetries m)\<rparr>)"

text \<open>The gauges: all known states are reset, then the counts are set. An error leaves them as they were.\<close>

definition set_gauges :: "(string \<times> int) list \<Rightarrow> (string \<rightharpoonup> int) \<Rightarrow> (string \<rightharpoonup> int)" where
  "set_gauges counts g =
     foldl (\<lambda>g (st, n). g(st \<mapsto> n)) (foldl (\<lambda>g st. g(st \<mapsto> 0)) g spoolStates) counts"

definition refreshSpoolStateCounts :: "('z, (string \<times> int) list) relay_op option \<Rightarrow> ('z, unit) relay_op" where
  "refreshSpoolStateCounts counts_fn w =
     (case metrics w of
        None \<Rightarrow> (Inr (), w)
      | Some _ \<Rightarrow>
          (case counts_fn of
             None \<Rightarrow> (Inr (), w)
           | Some f \<Rightarrow>
               tryE f (\<lambda>r.
                 case r of
                   Inl e \<Rightarrow> retE ()
                 | Inr counts \<Rightarrow> with_metrics (\<lambda>m. m\<lparr>spoolRecords := set_gauges counts (spoolRecords m)\<rparr>)) w))"

section \<open>HTTP surface\<close>

record http_reply =
  reply_status :: int
  reply_type :: string
  reply_body :: string

text \<open>
  The routes of the mux; a path without a route is a 404. \<open>expose\<close> is the exposition of the registry
  by promhttp, whose content type it chooses.
\<close>

definition observability_handler ::
  "(metrics \<Rightarrow> http_reply) \<Rightarrow> (unit \<Rightarrow> bool) option \<Rightarrow> ('z, (string \<times> int) list) relay_op option \<Rightarrow> string \<Rightarrow>
   ('z, http_reply) relay_op" where
  "observability_handler expose readyFn counts_fn path =
     (if path = ''/healthz'' then retE \<lparr>reply_status = 200, reply_type = ''text/plain; charset=utf-8'', reply_body = ''ok'' @ [CHR 0x0A]\<rparr>
      else if path = ''/readyz'' then
        (if (case readyFn of None \<Rightarrow> False | Some f \<Rightarrow> \<not> f ())
         then retE \<lparr>reply_status = 503, reply_type = ''text/plain; charset=utf-8'', reply_body = ''not ready'' @ [CHR 0x0A]\<rparr>
         else retE \<lparr>reply_status = 200, reply_type = ''text/plain; charset=utf-8'', reply_body = ''ready'' @ [CHR 0x0A]\<rparr>)
      else if path = ''/metrics'' then
        bindE (refreshSpoolStateCounts counts_fn) (\<lambda>_ w.
          (Inr (case metrics w of
                  None \<Rightarrow> \<lparr>reply_status = 200, reply_type = ''text/plain; version=0.0.4'', reply_body = []\<rparr>
                | Some m \<Rightarrow> expose m), w))
      else retE \<lparr>reply_status = 404, reply_type = ''text/plain; charset=utf-8'', reply_body = ''404 page not found'' @ [CHR 0x0A]\<rparr>)"

section \<open>Laws\<close>

text \<open>The label values of the counters that are counted stay in their fixed sets.\<close>

definition labels_ok :: "metrics \<Rightarrow> bool" where
  "labels_ok m \<longleftrightarrow>
     (\<forall>p out. deliverySubmits m (p, out) \<noteq> 0 \<longrightarrow> p \<noteq> [] \<and> out \<in> set outcomes) \<and>
     (\<forall>p out. deliveryPolls m (p, out) \<noteq> 0 \<longrightarrow> p \<noteq> [] \<and> out \<in> set outcomes) \<and>
     (\<forall>s. deliveryRetries m s \<noteq> 0 \<longrightarrow> s = ''submit'' \<or> s = ''poll'')"

definition labels_step :: "'z relay_world_scheme \<Rightarrow> 'z relay_world_scheme \<Rightarrow> bool" where
  "labels_step w w' \<longleftrightarrow> (\<forall>m. metrics w = Some m \<longrightarrow> labels_ok m \<longrightarrow> (\<exists>m'. metrics w' = Some m' \<and> labels_ok m')) \<and>
     (metrics w = None \<longrightarrow> metrics w' = None)"

interpretation labels: op_preorder labels_step
proof
  show "labels_step w w" for w by (auto simp: labels_step_def)
  show "labels_step u w" if "labels_step u v" "labels_step v w" for u v w
    using that unfolding labels_step_def by blast
qed

lemma normalizeOutcome_in: "normalizeOutcome s \<in> set outcomes"
  by (simp add: normalizeOutcome_def outcomes_def)

lemma normalizeProvider_nonempty: "normalizeProvider s \<noteq> []"
  by (simp add: normalizeProvider_def)

lemma normalizeRetryStage_in: "normalizeRetryStage s = ''submit'' \<or> normalizeRetryStage s = ''poll''"
  by (simp add: normalizeRetryStage_def)

lemma labels_with_metrics: "(\<And>m. labels_ok m \<Longrightarrow> labels_ok (f m)) \<Longrightarrow> effect_in labels_step (with_metrics f)"
  by (auto simp: effect_in_def with_metrics_def labels_step_def)

lemma labels_counters:
  "effect_in labels_step IncSessionsDenied" "effect_in labels_step IncAuthFailures"
  "effect_in labels_step IncEnqueued" "effect_in labels_step IncEnqueueFailures"
  "effect_in labels_step (ObserveSubmission p out)" "effect_in labels_step (ObservePoll p out)"
  "effect_in labels_step (IncRetry s)"
  unfolding IncSessionsDenied_def IncAuthFailures_def IncEnqueued_def IncEnqueueFailures_def ObserveSubmission_def
    ObservePoll_def IncRetry_def
  by (rule labels_with_metrics,
      use normalizeRetryStage_in [of s] in \<open>auto simp: labels_ok_def inc_label_def normalizeOutcome_in normalizeProvider_nonempty split: if_splits\<close>; fail)+

text \<open>After a refresh every known state has its count, and 0 when it has no record.\<close>

lemma foldl_gauges: "foldl (\<lambda>g (st, n). g(st \<mapsto> n)) g counts = g ++ map_of (rev counts)"
  by (induction counts arbitrary: g) (auto simp: map_add_def fun_eq_iff split: option.splits)

lemma set_gauges_state:
  "st \<in> set spoolStates \<Longrightarrow> set_gauges counts g st = Some (case map_of (rev counts) st of None \<Rightarrow> 0 | Some n \<Rightarrow> n)"
  by (auto simp: set_gauges_def foldl_gauges spoolStates_def map_add_def split: option.splits)

end
