(* ===== verification/Delivery_Worker.thy ===== *)
theory Delivery_Worker
  imports Observability
begin

text \<open>
  internal/spool/worker.go: the background delivery loop. The store and the provider are the
  interfaces \<open>Store\<close> and \<open>email.Provider\<close>, records of operations on the same world. A context is
  a call that can fail; the timeouts of the calls are outcomes of those calls.
\<close>

section \<open>Durations as text\<close>

definition pad_zeros :: "nat \<Rightarrow> string \<Rightarrow> string" where
  "pad_zeros n s = replicate (n - length s) (CHR ''0'') @ s"

text \<open>\<open>fmtFrac\<close>: the fraction \<open>v / 10 ^ prec\<close> without trailing zeros, with its point.\<close>

definition fmtFrac :: "nat \<Rightarrow> nat \<Rightarrow> string" where
  "fmtFrac v prec =
     (let digits = rev (dropWhile (\<lambda>c. c = CHR ''0'') (rev (pad_zeros prec (show_nat (v mod 10 ^ prec)))))
      in if digits = [] then [] else CHR ''.'' # digits)"

definition Duration_String :: "duration \<Rightarrow> string" where
  "Duration_String d =
     (let u = nat \<bar>d\<bar>; sign = (if d < 0 then ''-'' else []);
          unit = (\<lambda>v prec suffix. sign @ show_nat (v div 10 ^ prec) @ fmtFrac v prec @ suffix)
      in if u = 0 then ''0s''
         else if u < 1000 then unit u 0 ''ns''
         else if u < 1000000 then unit u 3 ([CHR 0xC2, CHR 0xB5] @ ''s'')
         else if u < 1000000000 then unit u 6 ''ms''
         else
           let s = u div 1000000000; m = s div 60; h = m div 60
           in sign @ (if h > 0 then show_nat h @ ''h'' else []) @
              (if m > 0 then show_nat (m mod 60) @ ''m'' else []) @
              show_nat (s mod 60) @ fmtFrac u 9 @ ''s'')"

section \<open>Interfaces and configuration\<close>

record 's store_api =
  api_Enqueue :: "message \<Rightarrow> ('s, spool_record) op"
  api_ClaimReady :: "gotime \<Rightarrow> ('s, spool_record option) op"
  api_NextSubmittedReady :: "gotime \<Rightarrow> ('s, spool_record option) op"
  api_MarkSubmitted :: "spool_record \<Rightarrow> submission_result \<Rightarrow> gotime \<Rightarrow> ('s, spool_record) op"
  api_MarkRetry :: "spool_record \<Rightarrow> gotime \<Rightarrow> last_error option \<Rightarrow> ('s, spool_record) op"
  api_MarkSucceeded :: "spool_record \<Rightarrow> ('s, spool_record) op"
  api_MarkDeadLetter :: "spool_record \<Rightarrow> last_error option \<Rightarrow> ('s, spool_record) op"
  api_Recover :: "gotime \<Rightarrow> ('s, recovery_result) op"

record 's provider_api =
  Submit :: "message \<Rightarrow> string \<Rightarrow> ('s, submission_result) op"
  Poll :: "string \<Rightarrow> ('s, submission_status) op"

record worker_config =
  SubmitTimeout :: duration
  FinalizeTimeout :: duration
  PollInterval :: duration
  RetryAttempts :: int
  RetryBaseDelay :: duration
  SubmittedTimeout :: duration
  wc_ProviderName :: string

definition DefaultPollInterval :: duration where
  "DefaultPollInterval = 1 * second"

definition DefaultFinalizeTimeout :: duration where
  "DefaultFinalizeTimeout = 5 * second"

definition DefaultSubmittedTimeout :: duration where
  "DefaultSubmittedTimeout = 24 * 3600 * second"

record 's worker =
  wk_store :: "'s store_api"
  wk_provider :: "'s provider_api"
  wk_cfg :: worker_config

definition NewWorker :: "'s store_api option \<Rightarrow> 's provider_api option \<Rightarrow> worker_config \<Rightarrow> goerr + 's worker" where
  "NewWorker store provider cfg =
     (case store of
        None \<Rightarrow> Inl (Errorf ''spool worker store cannot be nil'' [])
      | Some st \<Rightarrow>
     (case provider of
        None \<Rightarrow> Inl (Errorf ''spool worker provider cannot be nil'' [])
      | Some pr \<Rightarrow>
          if SubmitTimeout cfg \<le> 0 then Inl (Errorf ''spool worker submit timeout must be > 0'' [])
          else if FinalizeTimeout cfg \<le> 0 then Inl (Errorf ''spool worker finalize timeout must be > 0'' [])
          else if PollInterval cfg \<le> 0 then Inl (Errorf ''spool worker poll interval must be > 0'' [])
          else if RetryAttempts cfg < 1 then Inl (Errorf ''spool worker retry attempts must be >= 1'' [])
          else if RetryBaseDelay cfg \<le> 0 then Inl (Errorf ''spool worker retry base delay must be > 0'' [])
          else if SubmittedTimeout cfg \<le> 0 then Inl (Errorf ''spool worker submitted timeout must be > 0'' [])
          else Inr \<lparr>wk_store = st, wk_provider = pr, wk_cfg = cfg\<rparr>))"

definition Worker_Recover :: "'s worker \<Rightarrow> gotime \<Rightarrow> ('s, recovery_result) op" where
  "Worker_Recover wk now = api_Recover (wk_store wk) now"

section \<open>Retry policy and error classification\<close>

definition submitRetryAllowed :: "worker_config \<Rightarrow> spool_record \<Rightarrow> bool" where
  "submitRetryAllowed cfg rec \<longleftrightarrow> Attempt rec < RetryAttempts cfg"

definition submitRetryDelay :: "worker_config \<Rightarrow> int \<Rightarrow> duration" where
  "submitRetryDelay cfg currentAttempt =
     (let shift = (if currentAttempt < 0 then 0 else if currentAttempt > 30 then 30 else currentAttempt)
      in wrap64 (RetryBaseDelay cfg * 2 ^ nat shift))"

definition submissionOutcomeFromError :: "goerr \<Rightarrow> string" where
  "submissionOutcomeFromError e =
     (case AsDeliveryError e of
        Some d \<Rightarrow> if Temporary d then ''temporary_error'' else ''permanent_error''
      | None \<Rightarrow>
          if errors_Is e ContextCanceled \<or> errors_Is e ContextDeadlineExceeded then ''temporary_error''
          else ''permanent_error'')"

definition pollOutcomeFromError :: "goerr \<Rightarrow> string" where
  "pollOutcomeFromError e = submissionOutcomeFromError e"

definition lastErrorFromProviderError :: "goerr \<Rightarrow> gotime \<Rightarrow> last_error" where
  "lastErrorFromProviderError e now =
     (case AsDeliveryError e of
        Some d \<Rightarrow> \<lparr>le_Message = err_text d, le_Provider = ProviderName d, le_Temporary = Temporary d, le_Timestamp = now\<rparr>
      | None \<Rightarrow>
          if errors_Is e ContextDeadlineExceeded \<or> errors_Is e ContextCanceled
          then \<lparr>le_Message = err_text e, le_Provider = spoolProviderName, le_Temporary = True, le_Timestamp = now\<rparr>
          else \<lparr>le_Message = err_text e, le_Provider = spoolProviderName, le_Temporary = False, le_Timestamp = now\<rparr>)"

definition spool_error :: "string \<Rightarrow> gotime \<Rightarrow> last_error" where
  "spool_error msg now = \<lparr>le_Message = msg, le_Provider = spoolProviderName, le_Temporary = False, le_Timestamp = now\<rparr>"

definition lastErrorFromSubmissionFailure :: "submission_failure option \<Rightarrow> gotime \<Rightarrow> string \<Rightarrow> last_error" where
  "lastErrorFromSubmissionFailure failure now fallback =
     (case failure of
        None \<Rightarrow> \<lparr>le_Message = fallback, le_Provider = spoolProviderName, le_Temporary = False, le_Timestamp = now\<rparr>
      | Some f \<Rightarrow>
          \<lparr>le_Message = (if fail_Message f = [] then fallback else fail_Message f), le_Provider = spoolProviderName,
           le_Temporary = fail_Temporary f, le_Timestamp = now\<rparr>)"

fun submissionFailureMessage :: "submission_state \<Rightarrow> string" where
  "submissionFailureMessage SubmissionStateCanceled = ''provider canceled submitted operation''"
| "submissionFailureMessage _ = ''provider failed submitted operation''"

section \<open>One step of each kind\<close>

definition finalizeRecord :: "string \<Rightarrow> string \<Rightarrow> ('s, 'a) op \<Rightarrow> ('s, unit) op" where
  "finalizeRecord action recordID fn =
     mapErr (Wrapf ''%s for record %q: %w'' [action, recordID]) (bindE fn (\<lambda>_. retE ()))"

text \<open>The \<open>return true, err\<close> after a finalization.\<close>

definition worked :: "('s, unit) op \<Rightarrow> ('s, bool) op" where
  "worked m = bindE m (\<lambda>_. retE True)"

text \<open>The time of the next poll of an operation the provider reported running.\<close>

definition nextPollAt :: "worker_config \<Rightarrow> gotime \<Rightarrow> duration \<Rightarrow> gotime" where
  "nextPollAt cfg now retryAfter = (if retryAfter > 0 then now + retryAfter else now + PollInterval cfg)"

text \<open>After a failed submission: the record is retried while its attempts allow it, else given up.\<close>

definition finishFailedSubmit ::
  "'z relay_world_scheme worker \<Rightarrow> spool_record \<Rightarrow> gotime \<Rightarrow> last_error \<Rightarrow> string \<Rightarrow> string \<Rightarrow> ('z, bool) relay_op" where
  "finishFailedSubmit wk rec now lastErr retryAction deadAction =
     (if le_Temporary lastErr \<and> submitRetryAllowed (wk_cfg wk) rec then
        bindE (IncRetry ''submit'') (\<lambda>_.
        worked (finalizeRecord retryAction (ID rec)
          (api_MarkRetry (wk_store wk) rec (now + submitRetryDelay (wk_cfg wk) (Attempt rec)) (Some lastErr))))
      else
        worked (finalizeRecord deadAction (ID rec) (api_MarkDeadLetter (wk_store wk) rec (Some lastErr))))"

definition finishSubmit :: "'z relay_world_scheme worker \<Rightarrow> spool_record \<Rightarrow> gotime \<Rightarrow> submission_result \<Rightarrow> ('z, bool) relay_op" where
  "finishSubmit wk rec now result =
     (let observe = ObserveSubmission (wc_ProviderName (wk_cfg wk)); store = wk_store wk in
      case res_State result of
        SubmissionStateSucceeded \<Rightarrow>
          bindE (observe ''succeeded'') (\<lambda>_.
          worked (finalizeRecord ''mark queued record succeeded'' (ID rec)
            (api_MarkSucceeded store (rec\<lparr>ProviderMessageID := res_ProviderMessageID result\<rparr>))))
      | SubmissionStateRunning \<Rightarrow>
          bindE (observe ''running'') (\<lambda>_.
          if res_OperationID result = [] then
            worked (finalizeRecord ''dead-letter queued record without operation id'' (ID rec)
              (api_MarkDeadLetter store rec (Some (spool_error ''provider submit accepted without operation id'' now))))
          else
            worked (finalizeRecord ''mark queued record submitted'' (ID rec)
              (api_MarkSubmitted store rec result (nextPollAt (wk_cfg wk) now (res_RetryAfter result)))))
      | SubmissionStateOther s \<Rightarrow>
          bindE (observe ''permanent_error'') (\<lambda>_.
          worked (finalizeRecord ''dead-letter queued record after unsupported submit state'' (ID rec)
            (api_MarkDeadLetter store rec
              (Some (spool_error (Sprintf ''provider returned unsupported submission state %q'' [s]) now)))))
      | st \<Rightarrow>
          bindE (observe (submission_state_text st)) (\<lambda>_.
          finishFailedSubmit wk rec now (lastErrorFromSubmissionFailure (res_Failure result) now (submissionFailureMessage st))
            ''retry queued record after terminal submit state'' ''dead-letter queued record after terminal submit state''))"

definition processQueuedOnce :: "'z relay_world_scheme worker \<Rightarrow> gotime \<Rightarrow> ('z, bool) relay_op" where
  "processQueuedOnce wk now =
     bindE (api_ClaimReady (wk_store wk) now) (\<lambda>found.
     case found of
       None \<Rightarrow> retE False
     | Some rec \<Rightarrow>
         tryE (Submit (wk_provider wk) (Message rec) (ID rec)) (\<lambda>r.
           case r of
             Inl e \<Rightarrow>
               bindE (ObserveSubmission (wc_ProviderName (wk_cfg wk)) (submissionOutcomeFromError e)) (\<lambda>_.
               finishFailedSubmit wk rec now (lastErrorFromProviderError e now)
                 ''retry queued record'' ''dead-letter queued record after submit error'')
           | Inr result \<Rightarrow> finishSubmit wk rec now result))"

definition finishPoll :: "'z relay_world_scheme worker \<Rightarrow> spool_record \<Rightarrow> gotime \<Rightarrow> submission_status \<Rightarrow> ('z, bool) relay_op" where
  "finishPoll wk rec0 now status =
     (let observe = ObservePoll (wc_ProviderName (wk_cfg wk)); store = wk_store wk;
          rec = (if st_ProviderMessageID status \<noteq> [] then rec0\<lparr>ProviderMessageID := st_ProviderMessageID status\<rparr> else rec0) in
      case st_State status of
        SubmissionStateRunning \<Rightarrow>
          bindE (observe ''running'') (\<lambda>_.
          bindE (IncRetry ''poll'') (\<lambda>_.
          worked (finalizeRecord ''reschedule submitted record after running poll status'' (ID rec)
            (api_MarkRetry store rec (nextPollAt (wk_cfg wk) now (st_RetryAfter status)) None))))
      | SubmissionStateSucceeded \<Rightarrow>
          bindE (observe ''succeeded'') (\<lambda>_.
          worked (finalizeRecord ''mark submitted record succeeded'' (ID rec) (api_MarkSucceeded store rec)))
      | SubmissionStateOther s \<Rightarrow>
          bindE (observe ''permanent_error'') (\<lambda>_.
          worked (finalizeRecord ''dead-letter submitted record after unsupported poll state'' (ID rec)
            (api_MarkDeadLetter store rec (Some (spool_error (Sprintf ''provider returned unsupported poll state %q'' [s]) now)))))
      | st \<Rightarrow>
          bindE (observe (submission_state_text st)) (\<lambda>_.
          worked (finalizeRecord ''dead-letter submitted record after terminal poll state'' (ID rec)
            (api_MarkDeadLetter store rec
              (Some (lastErrorFromSubmissionFailure (st_Failure status) now (submissionFailureMessage st)))))))"

definition finishFailedPoll :: "'z relay_world_scheme worker \<Rightarrow> spool_record \<Rightarrow> gotime \<Rightarrow> goerr \<Rightarrow> ('z, bool) relay_op" where
  "finishFailedPoll wk rec now e =
     (let store = wk_store wk; cfg = wk_cfg wk; lastErr = lastErrorFromProviderError e now in
      bindE (ObservePoll (wc_ProviderName cfg) (pollOutcomeFromError e)) (\<lambda>_.
      if le_Temporary lastErr then
        bindE (IncRetry ''poll'') (\<lambda>_.
        worked (finalizeRecord ''reschedule submitted record after poll error'' (ID rec)
          (api_MarkRetry store rec (now + PollInterval cfg) (Some lastErr))))
      else
        worked (finalizeRecord ''dead-letter submitted record after poll error'' (ID rec)
          (api_MarkDeadLetter store rec (Some lastErr)))))"

definition processSubmittedOnce :: "'z relay_world_scheme worker \<Rightarrow> gotime \<Rightarrow> ('z, bool) relay_op" where
  "processSubmittedOnce wk now =
     (let store = wk_store wk; cfg = wk_cfg wk in
      bindE (api_NextSubmittedReady store now) (\<lambda>found.
      case found of
        None \<Rightarrow> retE False
      | Some rec \<Rightarrow>
          if \<not> IsZero (FirstSubmittedAt rec) \<and> \<not> FirstSubmittedAt rec + SubmittedTimeout cfg > now then
            worked (finalizeRecord ''dead-letter submitted record after timeout'' (ID rec)
              (api_MarkDeadLetter store rec
                (Some (spool_error (Sprintf ''submitted operation exceeded %s timeout'' [Duration_String (SubmittedTimeout cfg)]) now))))
          else
            tryE (Poll (wk_provider wk) (OperationID rec)) (\<lambda>r.
              case r of
                Inl e \<Rightarrow> finishFailedPoll wk rec now e
              | Inr status \<Rightarrow> finishPoll wk rec now status)))"

section \<open>The loop\<close>

definition sleepWithContext :: "duration \<Rightarrow> ('z, unit) relay_op" where
  "sleepWithContext d = (if d \<le> 0 then retE () else ctxErr)"

text \<open>
  One round of the loop: \<open>None\<close> to go on, the result of \<open>Start\<close> to stop. A canceled context ends
  the loop without an error, wherever it shows.
\<close>

definition stop_with :: "goerr \<Rightarrow> goerr option" where
  "stop_with e = (if errors_Is e ContextCanceled then None else Some e)"

definition Start_round :: "'z relay_world_scheme worker \<Rightarrow> ('z, unit) relay_op" where
  "Start_round wk =
     bindE ctxErr (\<lambda>_.
     bindE nowE (\<lambda>now.
     bindE (processSubmittedOnce wk now) (\<lambda>submittedWorked.
     bindE (processQueuedOnce wk now) (\<lambda>queuedWorked.
     if submittedWorked \<or> queuedWorked then retE ()
     else sleepWithContext (PollInterval (wk_cfg wk))))))"

text \<open>
  \<open>Start\<close> for at most the given number of rounds: the outcome is \<open>None\<close> while the loop is still
  running, and the error \<open>Start\<close> returns, if any, once it has stopped.
\<close>

fun Start_n :: "nat \<Rightarrow> 'z relay_world_scheme worker \<Rightarrow> 'z relay_world_scheme \<Rightarrow> goerr option option \<times> 'z relay_world_scheme" where
  "Start_n 0 wk w = (None, w)"
| "Start_n (Suc k) wk w =
     (case Start_round wk w of
        (Inl e, w') \<Rightarrow> (Some (stop_with e), w')
      | (Inr _, w') \<Rightarrow> Start_n k wk w')"

end
