(* ===== verification/Delivery_Worker_Laws.thy ===== *)
theory Delivery_Worker_Laws
  imports Delivery_Worker Spool_Store_Laws
begin

text \<open>
  Laws of the delivery loop. What the loop relies on is a contract of the store (locale
  \<open>delivery_store\<close>): each record has a phase, its state and its attempt, and each operation says how
  phases change. The durable spool satisfies it. From the contract alone follow the disposition of
  every record the loop handles and the bound on its submissions.
\<close>

section \<open>The contract\<close>

type_synonym phases = "string \<rightharpoonup> state \<times> int"

text \<open>A claim can also give up or release queued records; their attempts stay.\<close>

definition claim_moves :: "(state \<times> int) option \<Rightarrow> (state \<times> int) option \<Rightarrow> bool" where
  "claim_moves p p' \<longleftrightarrow> p' = p \<or>
     (\<exists>a. p = Some (StateQueued, a) \<and> (p' = Some (StateWorking, a) \<or> p' = Some (StateDeadLetter, a)))"

text \<open>The outcome of a marking operation: nothing and an error, or the new phase.\<close>

definition marks :: "phases \<Rightarrow> phases \<Rightarrow> goerr + 'a \<Rightarrow> string \<Rightarrow> state \<times> int \<Rightarrow> bool" where
  "marks p p' r i x \<longleftrightarrow> (p' = p \<and> isl r) \<or> p' = p(i \<mapsto> x)"

text \<open>Leaving \<open>working\<close> counts an attempt, leaving \<open>submitted\<close> does not.\<close>

definition next_attempt :: "spool_record \<Rightarrow> int" where
  "next_attempt rec = (if State rec = StateWorking then Attempt rec + 1 else Attempt rec)"

locale delivery_store =
  fixes st :: "'z relay_world_scheme store_api"
    and sound :: "'z relay_world_scheme \<Rightarrow> bool"
    and phase :: "'z relay_world_scheme \<Rightarrow> phases"
  assumes unrelated: "sound (w\<lparr>metrics := m\<rparr>) = sound w" "phase (w\<lparr>metrics := m\<rparr>) = phase w"
      "sound (w\<lparr>calls := c\<rparr>) = sound w" "phase (w\<lparr>calls := c\<rparr>) = phase w"
      "sound (w\<lparr>ticks := c\<rparr>) = sound w" "phase (w\<lparr>ticks := c\<rparr>) = phase w"
    and claim: "sound w \<Longrightarrow> api_ClaimReady st now w = (r, w') \<Longrightarrow> sound w' \<and> (\<forall>i. claim_moves (phase w i) (phase w' i)) \<and>
      (\<forall>rec. r = Inr (Some rec) \<longrightarrow> phase w (ID rec) = Some (StateQueued, Attempt rec) \<and>
         phase w' (ID rec) = Some (StateWorking, Attempt rec))"
    and claim_state: "api_ClaimReady st now w = (Inr (Some rec), w') \<Longrightarrow> State rec = StateWorking"
    and next_state: "api_NextSubmittedReady st now w = (Inr (Some rec), w') \<Longrightarrow> State rec = StateSubmitted"
    and next_submitted: "sound w \<Longrightarrow> api_NextSubmittedReady st now w = (r, w') \<Longrightarrow> sound w' \<and> phase w' = phase w \<and>
      (\<forall>rec. r = Inr (Some rec) \<longrightarrow> phase w (ID rec) = Some (StateSubmitted, Attempt rec))"
    and mark_submitted: "sound w \<Longrightarrow> api_MarkSubmitted st rec res t w = (x, w') \<Longrightarrow>
      sound w' \<and> marks (phase w) (phase w') x (ID rec) (StateSubmitted, next_attempt rec)"
    and mark_retry: "sound w \<Longrightarrow> api_MarkRetry st rec t le w = (x, w') \<Longrightarrow>
      sound w' \<and> marks (phase w) (phase w') x (ID rec)
        (if State rec = StateWorking then StateQueued else StateSubmitted, next_attempt rec)"
    and mark_succeeded: "sound w \<Longrightarrow> api_MarkSucceeded st rec w = (x, w') \<Longrightarrow>
      sound w' \<and> marks (phase w) (phase w') x (ID rec) (StateSucceeded, next_attempt rec)"
    and mark_dead: "sound w \<Longrightarrow> api_MarkDeadLetter st rec le w = (x, w') \<Longrightarrow>
      sound w' \<and> marks (phase w) (phase w') x (ID rec) (StateDeadLetter, next_attempt rec)"

section \<open>The bound on submissions\<close>

text \<open>
  A record that is still to be submitted has used at most the allowed retries. The relation says
  that a call keeps the store's invariant and this bound.
\<close>

definition attempts_ok :: "worker_config \<Rightarrow> phases \<Rightarrow> bool" where
  "attempts_ok cfg p \<longleftrightarrow> (\<forall>i s a. p i = Some (s, a) \<longrightarrow> s = StateQueued \<or> s = StateWorking \<longrightarrow> a \<le> RetryAttempts cfg)"

definition bound_step :: "worker_config \<Rightarrow> ('s \<Rightarrow> bool) \<Rightarrow> ('s \<Rightarrow> phases) \<Rightarrow> 's \<Rightarrow> 's \<Rightarrow> bool" where
  "bound_step cfg sound phase w w' \<longleftrightarrow> (sound w \<and> attempts_ok cfg (phase w) \<longrightarrow> sound w' \<and> attempts_ok cfg (phase w'))"

interpretation bound: op_preorder "bound_step cfg sound phase" for cfg sound phase
  by unfold_locales (auto simp: bound_step_def)

lemma attempts_ok_claim: "attempts_ok cfg p \<Longrightarrow> (\<And>i. claim_moves (p i) (p' i)) \<Longrightarrow> attempts_ok cfg p'"
  unfolding attempts_ok_def claim_moves_def by (metis option.inject prod.inject)

lemma attempts_ok_marks:
  "attempts_ok cfg p \<Longrightarrow> marks p p' r i (s, a) \<Longrightarrow> (s = StateQueued \<or> s = StateWorking \<Longrightarrow> a \<le> RetryAttempts cfg) \<Longrightarrow>
     attempts_ok cfg p'"
  by (auto simp: attempts_ok_def marks_def split: if_splits)

section \<open>The disposition of a record\<close>

text \<open>What the outcome of a submission or of a poll calls for.\<close>

definition retryable :: "goerr \<Rightarrow> bool" where
  "retryable e \<longleftrightarrow>
     (case AsDeliveryError e of
        Some d \<Rightarrow> Temporary d
      | None \<Rightarrow> errors_Is e ContextDeadlineExceeded \<or> errors_Is e ContextCanceled)"

definition retry_or_dead :: "worker_config \<Rightarrow> spool_record \<Rightarrow> bool \<Rightarrow> state" where
  "retry_or_dead cfg rec temporary =
     (if temporary \<and> Attempt rec < RetryAttempts cfg then StateQueued else StateDeadLetter)"

definition submit_disposition :: "worker_config \<Rightarrow> spool_record \<Rightarrow> goerr + submission_result \<Rightarrow> state" where
  "submit_disposition cfg rec r =
     (case r of
        Inl e \<Rightarrow> retry_or_dead cfg rec (retryable e)
      | Inr res \<Rightarrow>
          (case res_State res of
             SubmissionStateSucceeded \<Rightarrow> StateSucceeded
           | SubmissionStateRunning \<Rightarrow> if res_OperationID res = [] then StateDeadLetter else StateSubmitted
           | SubmissionStateOther s \<Rightarrow> StateDeadLetter
           | _ \<Rightarrow> retry_or_dead cfg rec (case res_Failure res of None \<Rightarrow> False | Some f \<Rightarrow> fail_Temporary f)))"

definition poll_disposition :: "goerr + submission_status \<Rightarrow> state" where
  "poll_disposition r =
     (case r of
        Inl e \<Rightarrow> if retryable e then StateSubmitted else StateDeadLetter
      | Inr s \<Rightarrow>
          (case st_State s of
             SubmissionStateSucceeded \<Rightarrow> StateSucceeded
           | SubmissionStateRunning \<Rightarrow> StateSubmitted
           | _ \<Rightarrow> StateDeadLetter))"

definition timed_out :: "worker_config \<Rightarrow> spool_record \<Rightarrow> gotime \<Rightarrow> bool" where
  "timed_out cfg rec now \<longleftrightarrow> \<not> IsZero (FirstSubmittedAt rec) \<and> FirstSubmittedAt rec + SubmittedTimeout cfg \<le> now"

lemma worked_Inr [simp]: "worked (finalizeRecord a i m) w = (Inr b, w') \<longleftrightarrow> b \<and> (\<exists>x. m w = (Inr x, w'))"
  by (auto simp: worked_def finalizeRecord_def bindE_Inr_iff)

lemma bindE_metrics [simp]:
  "bindE (ObserveSubmission p out) f w = f () (snd (ObserveSubmission p out w))"
  "bindE (ObservePoll p out) f w = f () (snd (ObservePoll p out w))"
  "bindE (IncRetry s) f w = f () (snd (IncRetry s w))"
  by (simp_all add: bindE_def ObserveSubmission_def ObservePoll_def IncRetry_def with_metrics_def)

lemma lastError_temporary [simp]:
  "le_Temporary (lastErrorFromProviderError e now) = retryable e"
  "le_Temporary (lastErrorFromSubmissionFailure fl now s) = (case fl of None \<Rightarrow> False | Some f \<Rightarrow> fail_Temporary f)"
  by (auto simp: lastErrorFromProviderError_def lastErrorFromSubmissionFailure_def retryable_def split: option.splits)

text \<open>A provider works outside the spool.\<close>

locale delivery = delivery_store "wk_store wk" sound phase
  for wk :: "'z relay_world_scheme worker" and sound phase +
  assumes submit_outside: "sound w \<Longrightarrow> Submit (wk_provider wk) msg i w = (s, w') \<Longrightarrow> sound w' \<and> phase w' = phase w"
    and poll_outside: "sound w \<Longrightarrow> Poll (wk_provider wk) i w = (p, w') \<Longrightarrow> sound w' \<and> phase w' = phase w"
begin

lemma step_unrelated:
  assumes "\<And>w. sound (snd (m w)) = sound w \<and> phase (snd (m w)) = phase w" shows "effect_in (bound_step cfg sound phase) m"
  using assms by (simp add: effect_in_def bound_step_def)

lemma step_metrics:
  "effect_in (bound_step cfg sound phase) (ObserveSubmission a b)" "effect_in (bound_step cfg sound phase) (ObservePoll a b)"
  "effect_in (bound_step cfg sound phase) (IncRetry c)"
  by (rule step_unrelated, simp add: ObserveSubmission_def ObservePoll_def IncRetry_def with_metrics_def unrelated)+

lemma step_ctx: "effect_in (bound_step cfg sound phase) ctxErr" "effect_in (bound_step cfg sound phase) nowE"
  by (rule step_unrelated, simp add: ctxErr_def attemptE_def nowE_def Let_def unrelated split: option.splits)+

lemma step_same:
  assumes "\<And>w r w'. sound w \<Longrightarrow> m w = (r, w') \<Longrightarrow> sound w' \<and> phase w' = phase w" shows "effect_in (bound_step cfg sound phase) m"
proof (rule effect_inI)
  fix w
  obtain r w' where run: "m w = (r, w')" by fastforce
  show "bound_step cfg sound phase w (snd (m w))" unfolding run bound_step_def using assms [OF _ run] by simp
qed

lemma step_provider:
  "effect_in (bound_step cfg sound phase) (Submit (wk_provider wk) msg i)"
  "effect_in (bound_step cfg sound phase) (Poll (wk_provider wk) i)"
  by (rule step_same [OF submit_outside], assumption+, rule step_same [OF poll_outside], assumption+)

lemma bound_claim: "effect_in (bound_step cfg sound phase) (api_ClaimReady (wk_store wk) now)"
proof (rule effect_inI)
  fix w
  obtain r w' where run: "api_ClaimReady (wk_store wk) now w = (r, w')" by fastforce
  show "bound_step cfg sound phase w (snd (api_ClaimReady (wk_store wk) now w))"
    unfolding run bound_step_def using claim [OF _ run] attempts_ok_claim by auto
qed

lemma step_next: "effect_in (bound_step cfg sound phase) (api_NextSubmittedReady (wk_store wk) now)"
  by (rule step_same) (use next_submitted in blast)

lemma step_mark:
  assumes "\<And>w r w'. sound w \<Longrightarrow> m w = (r, w') \<Longrightarrow> sound w' \<and> marks (phase w) (phase w') r i (s, a)"
    and "s = StateQueued \<or> s = StateWorking \<Longrightarrow> a \<le> RetryAttempts cfg"
  shows "effect_in (bound_step cfg sound phase) m"
proof (rule effect_inI)
  fix w
  obtain r w' where run: "m w = (r, w')" by fastforce
  show "bound_step cfg sound phase w (snd (m w))"
    unfolding run bound_step_def snd_conv
  proof (intro impI, elim conjE)
    assume "sound w" "attempts_ok cfg (phase w)"
    with assms(1) [OF _ run] attempts_ok_marks [OF _ _ assms(2)] show "sound w' \<and> attempts_ok cfg (phase w')" by blast
  qed
qed

lemma step_finals:
  "effect_in (bound_step cfg sound phase) (api_MarkSubmitted (wk_store wk) rec res t)"
  "effect_in (bound_step cfg sound phase) (api_MarkSucceeded (wk_store wk) rec)"
  "effect_in (bound_step cfg sound phase) (api_MarkDeadLetter (wk_store wk) rec le)"
  by (rule step_mark [OF mark_submitted], assumption+, simp,
      rule step_mark [OF mark_succeeded], assumption+, simp,
      rule step_mark [OF mark_dead], assumption+, simp)

lemma step_retry:
  "(State rec = StateWorking \<Longrightarrow> Attempt rec < RetryAttempts cfg) \<Longrightarrow>
     effect_in (bound_step cfg sound phase) (api_MarkRetry (wk_store wk) rec t le)"
  by (rule step_mark [OF mark_retry], assumption+) (auto simp: next_attempt_def split: if_splits)

lemma step_finish: "effect_in (bound_step cfg sound phase) m \<Longrightarrow> effect_in (bound_step cfg sound phase) (worked (finalizeRecord a i m))"
  unfolding worked_def finalizeRecord_def by (intro bound.effect_intros)

lemmas step_rules = step_metrics step_ctx step_provider bound_claim step_next step_finals step_finish bound.effect_intros

abbreviation bound_ok where "bound_ok \<equiv> effect_in (bound_step (wk_cfg wk) sound phase)"

lemma step_finishFailedSubmit: "bound_ok (finishFailedSubmit wk rec now le a b)"
  unfolding finishFailedSubmit_def by (intro step_rules step_retry) (simp add: submitRetryAllowed_def)

lemma step_finishSubmit: "bound_ok (finishSubmit wk rec now res)"
  unfolding finishSubmit_def Let_def
  by (cases "res_State res"; simp only: submission_state.case; intro step_rules step_finishFailedSubmit)

lemma step_processQueuedOnce: "bound_ok (processQueuedOnce wk now)"
  unfolding processQueuedOnce_def by (intro step_rules step_finishFailedSubmit step_finishSubmit)

lemma step_finishPoll: "State rec = StateSubmitted \<Longrightarrow> bound_ok (finishPoll wk rec now res)"
  unfolding finishPoll_def Let_def
  by (cases "st_State res"; simp only: submission_state.case; intro step_rules step_retry; simp split: if_splits)

lemma step_finishFailedPoll: "State rec = StateSubmitted \<Longrightarrow> bound_ok (finishFailedPoll wk rec now e)"
  unfolding finishFailedPoll_def Let_def by (intro step_rules step_retry) simp

lemma step_processSubmittedOnce: "bound_ok (processSubmittedOnce wk now)"
  unfolding processSubmittedOnce_def Let_def
  by (intro bound.effect_bindE_res [where m = "api_NextSubmittedReady _ _"] step_rules step_finishFailedPoll step_finishPoll)
    (auto dest: next_state)

lemma step_Start_round: "bound_ok (Start_round wk)"
  unfolding Start_round_def sleepWithContext_def by (intro step_rules step_processQueuedOnce step_processSubmittedOnce)

lemma step_Start: "bound_step (wk_cfg wk) sound phase w (snd (Start_n k wk w))"
proof (induction k arbitrary: w)
  case (Suc k)
  obtain r w' where run: "Start_round wk w = (r, w')" by fastforce
  from effect_inD [OF step_Start_round run] bound.R_trans [OF _ Suc] run show ?case by (cases r) simp_all
qed (simp add: bound.R_refl)

lemma metrics_unrelated [simp]:
  "phase (snd (ObserveSubmission p out w)) = phase w" "sound (snd (ObserveSubmission p out w)) = sound w"
  "phase (snd (ObservePoll p out w)) = phase w" "sound (snd (ObservePoll p out w)) = sound w"
  "phase (snd (IncRetry s w)) = phase w" "sound (snd (IncRetry s w)) = sound w"
  by (simp_all add: ObserveSubmission_def ObservePoll_def IncRetry_def with_metrics_def unrelated)

lemma marks_Inr:
  "sound w \<Longrightarrow> api_MarkRetry (wk_store wk) rec t le w = (Inr x, w') \<Longrightarrow> phase w' = (phase w)(ID rec \<mapsto>
     (if State rec = StateWorking then StateQueued else StateSubmitted, next_attempt rec))"
  "sound w \<Longrightarrow> api_MarkDeadLetter (wk_store wk) rec le w = (Inr x, w') \<Longrightarrow> phase w' = (phase w)(ID rec \<mapsto> (StateDeadLetter, next_attempt rec))"
  "sound w \<Longrightarrow> api_MarkSucceeded (wk_store wk) rec w = (Inr x, w') \<Longrightarrow> phase w' = (phase w)(ID rec \<mapsto> (StateSucceeded, next_attempt rec))"
  "sound w \<Longrightarrow> api_MarkSubmitted (wk_store wk) rec res t w = (Inr x, w') \<Longrightarrow> phase w' = (phase w)(ID rec \<mapsto> (StateSubmitted, next_attempt rec))"
  by (drule (1) mark_retry, simp add: marks_def) (drule (1) mark_dead mark_succeeded mark_submitted, simp add: marks_def)+

lemma finishFailedSubmit_Inr:
  assumes "finishFailedSubmit wk rec now le a b w = (Inr x, w')" "sound w" "State rec = StateWorking"
  shows "x \<and> phase w' = (phase w)(ID rec \<mapsto> (retry_or_dead (wk_cfg wk) rec (le_Temporary le), Attempt rec + 1))"
proof (cases "le_Temporary le \<and> Attempt rec < RetryAttempts (wk_cfg wk)")
  case True
  then obtain y where y: "x" "api_MarkRetry (wk_store wk) rec (now + submitRetryDelay (wk_cfg wk) (Attempt rec)) (Some le)
      (snd (IncRetry ''submit'' w)) = (Inr y, w')"
    using assms(1) by (auto simp: finishFailedSubmit_def submitRetryAllowed_def)
  then show ?thesis using marks_Inr(1) [OF _ y(2)] assms(2,3) True by (simp add: retry_or_dead_def next_attempt_def)
next
  case False
  then obtain y where y: "x" "api_MarkDeadLetter (wk_store wk) rec (Some le) w = (Inr y, w')"
    using assms(1) by (auto simp: finishFailedSubmit_def submitRetryAllowed_def)
  then show ?thesis using marks_Inr(2) [OF _ y(2)] assms(2,3) False by (auto simp: retry_or_dead_def next_attempt_def)
qed

lemma finishSubmit_Inr:
  assumes "finishSubmit wk rec now res w = (Inr x, w')" "sound w" "State rec = StateWorking"
  shows "x \<and> phase w' = (phase w)(ID rec \<mapsto> (submit_disposition (wk_cfg wk) rec (Inr res), Attempt rec + 1))"
  using assms(1)
  by (cases "res_State res")
    (auto simp: finishSubmit_def submit_disposition_def Let_def next_attempt_def assms(2,3) split: if_splits
      dest: marks_Inr(2,3,4) [rotated] finishFailedSubmit_Inr [OF _ _ assms(3)])

lemma processQueued_Inr:
  assumes "processQueuedOnce wk now w = (Inr x, w')" "sound w"
  shows "if x then \<exists>rec u r v. api_ClaimReady (wk_store wk) now w = (Inr (Some rec), u) \<and>
      Submit (wk_provider wk) (Message rec) (ID rec) u = (r, v) \<and>
      phase w' = (phase u)(ID rec \<mapsto> (submit_disposition (wk_cfg wk) rec r, Attempt rec + 1))
    else api_ClaimReady (wk_store wk) now w = (Inr None, w')"
proof -
  obtain found u where c: "api_ClaimReady (wk_store wk) now w = (Inr found, u)"
    using assms(1) by (auto simp: processQueuedOnce_def bindE_Inr_iff)
  show ?thesis
  proof (cases found)
    case None
    then show ?thesis using assms(1) c by (auto simp: processQueuedOnce_def bindE_def)
  next
    case (Some rec)
    obtain r v where s: "Submit (wk_provider wk) (Message rec) (ID rec) u = (r, v)" by fastforce
    have rec: "State rec = StateWorking" using claim_state c Some by simp
    have v: "sound v" "phase v = phase u" using claim [OF assms(2) c] submit_outside [OF _ s] by auto
    have "x \<and> phase w' = (phase u)(ID rec \<mapsto> (submit_disposition (wk_cfg wk) rec r, Attempt rec + 1))"
    proof (cases r)
      case (Inl e)
      then have "finishFailedSubmit wk rec now (lastErrorFromProviderError e now) ''retry queued record''
          ''dead-letter queued record after submit error''
          (snd (ObserveSubmission (wc_ProviderName (wk_cfg wk)) (submissionOutcomeFromError e) v)) = (Inr x, w')"
        using assms(1) c Some s by (simp add: processQueuedOnce_def bindE_def [of "api_ClaimReady _ _"] tryE_def)
      from finishFailedSubmit_Inr [OF this _ rec] v Inl show ?thesis by (simp add: submit_disposition_def)
    next
      case (Inr res)
      then have "finishSubmit wk rec now res v = (Inr x, w')"
        using assms(1) c Some s by (simp add: processQueuedOnce_def bindE_def [of "api_ClaimReady _ _"] tryE_def)
      from finishSubmit_Inr [OF this v(1) rec] v(2) Inr show ?thesis by simp
    qed
    then show ?thesis using c Some s by auto
  qed
qed

lemma finishPoll_Inr:
  assumes "finishPoll wk rec now s w = (Inr x, w')" "sound w" "State rec = StateSubmitted"
  shows "x \<and> phase w' = (phase w)(ID rec \<mapsto> (poll_disposition (Inr s), Attempt rec))"
  using assms(1)
  by (cases "st_State s")
    (auto simp: finishPoll_def poll_disposition_def Let_def next_attempt_def assms(2,3) split: if_splits
      dest: marks_Inr(1,2,3) [rotated])

lemma finishFailedPoll_Inr:
  assumes "finishFailedPoll wk rec now e w = (Inr x, w')" "sound w" "State rec = StateSubmitted"
  shows "x \<and> phase w' = (phase w)(ID rec \<mapsto> (poll_disposition (Inl e), Attempt rec))"
  using assms(1)
  by (auto simp: finishFailedPoll_def poll_disposition_def Let_def next_attempt_def assms(2,3) split: if_splits
      dest: marks_Inr(1,2) [rotated])

lemma processSubmitted_Inr:
  assumes "processSubmittedOnce wk now w = (Inr x, w')" "sound w"
  shows "if x then \<exists>rec u. api_NextSubmittedReady (wk_store wk) now w = (Inr (Some rec), u) \<and>
      (if timed_out (wk_cfg wk) rec now then phase w' = (phase w)(ID rec \<mapsto> (StateDeadLetter, Attempt rec))
       else \<exists>r v. Poll (wk_provider wk) (OperationID rec) u = (r, v) \<and>
         phase w' = (phase w)(ID rec \<mapsto> (poll_disposition r, Attempt rec)))
    else api_NextSubmittedReady (wk_store wk) now w = (Inr None, w')"
proof -
  obtain found u where c: "api_NextSubmittedReady (wk_store wk) now w = (Inr found, u)"
    using assms(1) by (auto simp: processSubmittedOnce_def Let_def bindE_Inr_iff)
  note run = assms(1) [unfolded processSubmittedOnce_def Let_def]
  show ?thesis
  proof (cases found)
    case None
    then show ?thesis using run c by (auto simp: bindE_def)
  next
    case (Some rec)
    have rec: "State rec = StateSubmitted" "next_attempt rec = Attempt rec"
      using next_state c Some by (simp_all add: next_attempt_def)
    have u: "sound u" "phase u = phase w" using next_submitted [OF assms(2) c] by auto
    show ?thesis
    proof (cases "timed_out (wk_cfg wk) rec now")
      case True
      then obtain y where "x" "api_MarkDeadLetter (wk_store wk) rec
          (Some (spool_error (Sprintf ''submitted operation exceeded %s timeout'' [Duration_String (SubmittedTimeout (wk_cfg wk))]) now)) u
          = (Inr y, w')"
        using run c Some by (auto simp: bindE_def timed_out_def)
      then show ?thesis using marks_Inr(2) [OF u(1)] u(2) rec c Some True by fastforce
    next
      case False
      obtain r v where p: "Poll (wk_provider wk) (OperationID rec) u = (r, v)" by fastforce
      have v: "sound v" "phase v = phase w" using poll_outside [OF u(1) p] u(2) by auto
      have fin: "(case r of Inl e \<Rightarrow> finishFailedPoll wk rec now e | Inr s \<Rightarrow> finishPoll wk rec now s) v = (Inr x, w')"
        using run c Some False p
        by (auto simp: bindE_def [of "api_NextSubmittedReady _ _"] tryE_def timed_out_def not_le split: if_splits)
      have "x \<and> phase w' = (phase w)(ID rec \<mapsto> (poll_disposition r, Attempt rec))"
      proof (cases r)
        case (Inl e)
        with fin have "finishFailedPoll wk rec now e v = (Inr x, w')" by simp
        from finishFailedPoll_Inr [OF this v(1) rec(1)] show ?thesis unfolding v(2) Inl .
      next
        case (Inr s)
        with fin have "finishPoll wk rec now s v = (Inr x, w')" by simp
        from finishPoll_Inr [OF this v(1) rec(1)] show ?thesis unfolding v(2) Inr .
      qed
      then show ?thesis using c Some False p by auto
    qed
  qed
qed

end

end
