(* ===== verification/Spool_Delivery.thy ===== *)
theory Spool_Delivery
  imports Delivery_Worker_Laws
begin

text \<open>The durable spool satisfies the contract of the delivery loop.\<close>

definition spool_api :: "libs \<Rightarrow> payload_store \<Rightarrow> 'z relay_world_scheme store_api" where
  "spool_api lib ps =
     \<lparr>api_Enqueue = Enqueue lib ps, api_ClaimReady = ClaimReady lib ps, api_NextSubmittedReady = NextSubmittedReady,
      api_MarkSubmitted = MarkSubmitted, api_MarkRetry = MarkRetry, api_MarkSucceeded = MarkSucceeded,
      api_MarkDeadLetter = MarkDeadLetter, api_Recover = Recover lib ps\<rparr>"

definition phase_of :: "row list \<Rightarrow> phases" where
  "phase_of rows = map_of (map (\<lambda>r. (r_id r, row_state r, r_attempt r)) rows)"

definition spool_phase :: "'z spool_world_scheme \<Rightarrow> phases" where
  "spool_phase w = phase_of (records (db w))"

definition spool_sound :: "'z spool_world_scheme \<Rightarrow> bool" where
  "spool_sound w \<longleftrightarrow> db_ok (db w)"

section \<open>Phases of an updated table\<close>

lemma phase_of_row: "distinct (map r_id rows) \<Longrightarrow> r \<in> set rows \<Longrightarrow> phase_of rows (r_id r) = Some (row_state r, r_attempt r)"
  by (induction rows) (auto simp: phase_of_def image_iff)

lemma phase_of_map_other:
  "(\<And>r. r_id (f r) = r_id r) \<Longrightarrow> j \<noteq> i \<Longrightarrow>
     phase_of (map (\<lambda>r. if r_id r = i \<and> r_state r = st then f r else r) rows) j = phase_of rows j"
  by (induction rows) (auto simp: phase_of_def)

lemma update_hit:
  assumes "sql_update i st f rows = Inr (rows', 1)"
  obtains x where "x \<in> set rows" "r_id x = i" "r_state x = st" "f x \<in> set rows'"
proof -
  have "length (filter (\<lambda>r. r_id r = i \<and> r_state r = st) rows) = 1"
    using assms by (simp add: sql_update_def Let_def split: if_splits)
  then obtain x where "x \<in> set (filter (\<lambda>r. r_id r = i \<and> r_state r = st) rows)"
    by (cases "filter (\<lambda>r. r_id r = i \<and> r_state r = st) rows") auto
  then have "x \<in> set rows" "r_id x = i" "r_state x = st" by auto
  moreover from this have "f x \<in> set rows'" using sql_update_Inr [OF assms] by force
  ultimately show thesis using that by blast
qed

lemma phase_of_update:
  assumes "sql_update i st f rows = Inr (rows', 1)" "distinct (map r_id rows)" "\<And>r. r_id (f r) = r_id r"
  obtains x where "x \<in> set rows" "r_id x = i" "r_state x = st"
    "phase_of rows' = (phase_of rows)(i \<mapsto> (row_state (f x), r_attempt (f x)))"
proof -
  obtain x where x: "x \<in> set rows" "r_id x = i" "r_state x = st" "f x \<in> set rows'"
    using update_hit [OF assms(1)] .
  have rows': "rows' = map (\<lambda>r. if r_id r = i \<and> r_state r = st then f r else r) rows" by (rule sql_update_Inr [OF assms(1)])
  have "map r_id rows' = map r_id rows" unfolding rows' by (simp add: assms(3))
  then have "phase_of rows' i = Some (row_state (f x), r_attempt (f x))"
    using phase_of_row [OF _ x(4)] assms(2,3) x(2) by simp
  moreover have "phase_of rows' j = phase_of rows j" if "j \<noteq> i" for j
    unfolding rows' by (rule phase_of_map_other [OF assms(3) that])
  ultimately have "phase_of rows' = (phase_of rows)(i \<mapsto> (row_state (f x), r_attempt (f x)))" by (auto simp: fun_eq_iff)
  with x that show thesis by blast
qed

lemma full_update_phase: "isValidState (State upd) \<Longrightarrow> row_state (full_update upd r) = State upd \<and> r_attempt (full_update upd r) = Attempt upd"
  by (simp add: row_state_def full_update_def row_of_def)

lemma updateRecord_marks:
  assumes "updateRecord st upd w = (r, w')" "db_ok (db w)"
  shows "marks (spool_phase w) (spool_phase w') r (ID upd) (State upd, Attempt upd)"
  using updateRecord_effect [OF assms(1)]
proof (elim disjE exE conjE)
  fix rows
  assume a: "isValidState (State upd)" "db w' = (db w)\<lparr>records := rows\<rparr>"
    "sql_update (ID upd) (state_text st) (full_update upd) (records (db w)) = Inr (rows, 1)"
  have "distinct (map r_id (records (db w)))" using assms(2) by (simp add: db_ok_def)
  from phase_of_update [OF a(3) this] obtain x where
    "phase_of rows = (phase_of (records (db w)))(ID upd \<mapsto> (row_state (full_update upd x), r_attempt (full_update upd x)))"
    by auto
  then show ?thesis using a(1,2) by (simp add: marks_def spool_phase_def full_update_phase)
qed (simp add: marks_def spool_phase_def)

section \<open>The marking operations\<close>

lemma step_sound: "effect_in spool_step m \<Longrightarrow> m w = (r, w') \<Longrightarrow> spool_sound w \<Longrightarrow> spool_sound w'"
  by (drule (1) effect_inD) (simp add: spool_step_def db_evolves_def spool_sound_def)

lemma phase_ticks [simp]: "spool_phase (w\<lparr>ticks := n\<rparr>) = spool_phase w"
  by (simp add: spool_phase_def)

text \<open>An update whose result is the updated record.\<close>

lemma update_then_ret:
  assumes "bindE (updateRecord st upd) (\<lambda>_. retE upd) w = (r, w')" "spool_sound w"
  shows "marks (spool_phase w) (spool_phase w') r (ID upd) (State upd, Attempt upd)"
  using assms(1)
proof (cases rule: bindE_cases)
  case (fail e)
  then show ?thesis using updateRecord_marks [OF fail(1)] assms(2) by (auto simp: marks_def spool_sound_def)
next
  case (ok x u)
  then show ?thesis using updateRecord_marks [OF ok(1)] assms(2) by (auto simp: marks_def spool_sound_def)
qed

lemma marks_throw: "throwE e (w\<lparr>ticks := n\<rparr>) = (r, w') \<Longrightarrow> marks (spool_phase w) (spool_phase w') r i x"
  by (auto simp: marks_def)

lemma update_then_ret_ticks:
  assumes "bindE (updateRecord st upd) (\<lambda>_. retE upd) (w\<lparr>ticks := n\<rparr>) = (r, w')" "spool_sound w"
  shows "marks (spool_phase w) (spool_phase w') r (ID upd) (State upd, Attempt upd)"
  using update_then_ret [OF assms(1)] assms(2) by (simp add: spool_sound_def)

lemma markSubmitted_marks:
  assumes "markSubmitted rec res t w = (r, w')" "spool_sound w"
  shows "marks (spool_phase w) (spool_phase w') r (ID rec) (StateSubmitted, next_attempt rec)"
proof (cases "State rec = StateWorking")
  case True
  then show ?thesis using assms(1) update_then_ret_ticks [OF _ assms(2)]
    by (fastforce simp: markSubmitted_def bindE_nowE Let_def next_attempt_def)
qed (use assms in \<open>auto simp: markSubmitted_def marks_def\<close>)

lemma markRetry_marks:
  assumes "markRetry rec t le w = (r, w')" "spool_sound w"
  shows "marks (spool_phase w) (spool_phase w') r (ID rec)
    (if State rec = StateWorking then StateQueued else StateSubmitted, next_attempt rec)"
  using assms(1)
  by (cases "State rec")
    (auto simp: markRetry_def bindE_nowE Let_def next_attempt_def clear_operation_def
      dest!: update_then_ret_ticks [OF _ assms(2)] intro: marks_throw)

lemma markSucceeded_marks:
  assumes "markSucceeded rec w = (r, w')" "spool_sound w"
  shows "marks (spool_phase w) (spool_phase w') r (ID rec) (StateSucceeded, next_attempt rec)"
  using assms(1)
  by (cases "State rec")
    (auto simp: markSucceeded_def bindE_nowE Let_def next_attempt_def
      dest!: update_then_ret_ticks [OF _ assms(2)] intro: marks_throw)

lemma markDeadLetter_marks:
  assumes "markDeadLetter rec le w = (r, w')" "spool_sound w"
  shows "marks (spool_phase w) (spool_phase w') r (ID rec) (StateDeadLetter, next_attempt rec)"
  using assms(1)
  by (cases "State rec")
    (auto simp: markDeadLetter_def bindE_nowE Let_def next_attempt_def clear_operation_def
      dest!: update_then_ret_ticks [OF _ assms(2)] intro: marks_throw)

section \<open>Claiming\<close>

lemma scanMetadata_attempt: "scanMetadata r = Inr m \<Longrightarrow> m_Attempt m = r_attempt r"
  by (cases "scanLastError r") (auto simp: scanMetadata_def split: option.splits if_splits)

lemma claim_rows_phase:
  assumes "sql_select_ready (state_text StateQueued) now (records (db w)) = [x]"
    "sql_update (r_id x) (state_text StateQueued) (claim_update t) (records (db w)) = Inr (rows, 1)" "spool_sound w"
    "db w' = (db w)\<lparr>records := rows\<rparr>"
  shows "spool_phase w (r_id x) = Some (StateQueued, r_attempt x)"
    "spool_phase w' = (spool_phase w)(r_id x \<mapsto> (StateWorking, r_attempt x))"
proof -
  note x = select_ready_first [OF assms(1)]
  have d: "distinct (map r_id (records (db w)))" using assms(3) by (simp add: spool_sound_def db_ok_def)
  show p: "spool_phase w (r_id x) = Some (StateQueued, r_attempt x)"
    using phase_of_row [OF d x(1)] x(2) by (simp add: spool_phase_def row_state_def)
  obtain y where y: "y \<in> set (records (db w))" "r_id y = r_id x"
    "phase_of rows = (phase_of (records (db w)))(r_id x \<mapsto> (row_state (claim_update t y), r_attempt (claim_update t y)))"
    using phase_of_update [OF assms(2) d] by auto
  have "r_attempt y = r_attempt x" using phase_of_row [OF d y(1)] p y(2) by (simp add: spool_phase_def)
  then show "spool_phase w' = (spool_phase w)(r_id x \<mapsto> (StateWorking, r_attempt x))"
    using y(3) assms(4) by (simp add: spool_phase_def row_state_def claim_update_def)
qed

lemma claim_phase:
  assumes "claimReadyMetadata now w = (r, w')" "spool_sound w"
  shows "(spool_phase w' = spool_phase w \<and> (\<forall>m. r \<noteq> Inr (Some m))) \<or>
     (\<exists>i a. spool_phase w i = Some (StateQueued, a) \<and> spool_phase w' = (spool_phase w)(i \<mapsto> (StateWorking, a)) \<and>
        r \<noteq> Inr None \<and> (\<forall>m. r = Inr (Some m) \<longrightarrow> m_ID m = i \<and> m_Attempt m = a))"
  using claim_effect [OF assms(1)]
proof
  assume "\<exists>x m t rows. sql_select_ready (state_text StateQueued) (timeToMillis now) (records (db w)) = [x] \<and>
      scanMetadata x = Inr m \<and> sql_update (r_id x) (state_text StateQueued) (claim_update t) (records (db w)) = Inr (rows, 1) \<and>
      db w' = (db w)\<lparr>records := rows\<rparr> \<and> (isl r \<or> r = Inr (Some (m\<lparr>m_State := StateWorking, m_UpdatedAt := t\<rparr>)))"
  then obtain x m t rows where a: "sql_select_ready (state_text StateQueued) (timeToMillis now) (records (db w)) = [x]" "scanMetadata x = Inr m"
    "sql_update (r_id x) (state_text StateQueued) (claim_update t) (records (db w)) = Inr (rows, 1)"
    "db w' = (db w)\<lparr>records := rows\<rparr>" "isl r \<or> r = Inr (Some (m\<lparr>m_State := StateWorking, m_UpdatedAt := t\<rparr>))"
    by (elim exE conjE)
  have "r \<noteq> Inr None" using a(5) by auto
  moreover have "\<forall>m'. r = Inr (Some m') \<longrightarrow> m_ID m' = r_id x \<and> m_Attempt m' = r_attempt x"
    using a(5) scanMetadata_ID [OF a(2)] scanMetadata_attempt [OF a(2)] by auto
  ultimately show ?thesis using claim_rows_phase [OF a(1,3) assms(2) a(4)] by (intro disjI2 exI conjI)
qed (simp add: spool_phase_def)

lemma deadLetter_marks:
  assumes "deadLetterCorruptRecord m e w = (r, w')" "spool_sound w"
  shows "marks (spool_phase w) (spool_phase w') r (m_ID m) (StateDeadLetter, m_Attempt m)"
  using assms(1) unfolding deadLetterCorruptRecord_def Let_def bindE_nowE
  by (drule_tac update_then_ret_ticks [OF _ assms(2)]) (simp add: toRecord_def split: if_splits)

lemma requeueClaimed_marks:
  assumes "requeueClaimedRecord m w = (r, w')" "spool_sound w"
  shows "marks (spool_phase w) (spool_phase w') r (m_ID m) (StateQueued, m_Attempt m)"
proof -
  let ?u = "w\<lparr>ticks := Suc (ticks w)\<rparr>" and ?upd = "(toRecord m)\<lparr>State := StateQueued, UpdatedAt := clock w (ticks w)\<rparr>"
  obtain s where "updateRecord (m_State m) ?upd ?u = (s, w')" "isl r = isl s"
    using assms(1) by (cases "updateRecord (m_State m) ?upd ?u")
      (auto simp: requeueClaimedRecord_def bindE_nowE mapErr_def split: sum.splits)
  then show ?thesis using updateRecord_marks [of "m_State m" ?upd ?u s w'] assms(2)
    by (simp add: spool_sound_def marks_def toRecord_def)
qed

text \<open>What a claim does to the phases, whatever it returns.\<close>

definition claim_result :: "phases \<Rightarrow> phases \<Rightarrow> goerr + spool_record option \<Rightarrow> bool" where
  "claim_result p p' r \<longleftrightarrow> (\<forall>i. claim_moves (p i) (p' i)) \<and>
     (\<forall>rec. r = Inr (Some rec) \<longrightarrow> p (ID rec) = Some (StateQueued, Attempt rec) \<and> p' (ID rec) = Some (StateWorking, Attempt rec))"

lemma claim_result_id: "\<forall>rec. r \<noteq> Inr (Some rec) \<Longrightarrow> claim_result p p r"
  by (simp add: claim_result_def claim_moves_def)

lemma claim_result_set:
  "p i = Some (StateQueued, a) \<Longrightarrow> st = StateWorking \<or> st = StateDeadLetter \<or> st = StateQueued \<Longrightarrow> isl r \<Longrightarrow>
     claim_result p (p(i \<mapsto> (st, a))) r"
  by (auto simp: claim_result_def claim_moves_def)

lemma claim_result_after:
  assumes "p i = Some (StateQueued, a)" "claim_result (p(i \<mapsto> (StateDeadLetter, a))) p' r" shows "claim_result p p' r"
proof -
  have "claim_moves (p j) (p' j)" for j
    using assms unfolding claim_result_def claim_moves_def
    by (cases "j = i") (auto dest!: spec [of _ j])
  moreover have "p (ID rec) = Some (StateQueued, Attempt rec)" if "r = Inr (Some rec)" for rec
    using assms(2) that by (auto simp: claim_result_def split: if_splits)
  ultimately show ?thesis using assms(2) by (auto simp: claim_result_def)
qed

lemma Load_phase: "Load lib ps i w = (r, w') \<Longrightarrow> spool_phase w' = spool_phase w \<and> (spool_sound w' = spool_sound w)"
  by (drule Load_db) (simp add: spool_phase_def spool_sound_def)

text \<open>One iteration on a claimed record, given what the remaining iterations do.\<close>

lemma claim_iteration:
  assumes "tryE (Load lib ps (m_ID meta)) (\<lambda>r. case r of
        Inr msg \<Rightarrow> retE (Some ((toRecord meta)\<lparr>Message := msg\<rparr>))
      | Inl e \<Rightarrow> let classified = classifyPayloadLoadError (m_ID meta) e in
          (case AsRecordCorruptionError classified of
             Some corrupt \<Rightarrow> bindE (deadLetterCorruptRecord meta corrupt) (\<lambda>_. rest)
           | None \<Rightarrow> bindE (requeueClaimedRecord meta) (\<lambda>_. throwE classified))) u = (r, w')"
    and p: "p (m_ID meta) = Some (StateQueued, m_Attempt meta)" "spool_phase u = p(m_ID meta \<mapsto> (StateWorking, m_Attempt meta))"
    and "spool_sound u" "m_State meta = StateWorking"
    and rest: "\<And>v r w'. rest v = (r, w') \<Longrightarrow> spool_sound v \<Longrightarrow> claim_result (spool_phase v) (spool_phase w') r"
  shows "claim_result p (spool_phase w') r"
proof -
  let ?i = "m_ID meta" and ?a = "m_Attempt meta"
  obtain l u' where l: "Load lib ps ?i u = (l, u')" by fastforce
  note u' = Load_phase [OF l] and run = assms(1) [unfolded tryE_def l prod.case]
  have sound: "spool_sound u'" using u' assms(4) by simp
  show ?thesis
  proof (cases l)
    case (Inr msg)
    then show ?thesis using run p u' by (auto simp: claim_result_def claim_moves_def toRecord_def)
  next
    case (Inl e)
    show ?thesis
    proof (cases "AsRecordCorruptionError (classifyPayloadLoadError ?i e)")
      case None
      obtain s v where s: "requeueClaimedRecord meta u' = (s, v)" by fastforce
      have "w' = v" "isl r" using run Inl None s by (auto simp: Let_def bindE_def split: sum.splits)
      then show ?thesis using requeueClaimed_marks [OF s sound] p u'
          claim_result_set [of p ?i ?a StateWorking r] claim_result_set [of p ?i ?a StateQueued r]
        by (auto simp: marks_def)
    next
      case (Some c)
      obtain s v where s: "deadLetterCorruptRecord meta c u' = (s, v)" by fastforce
      have v: "marks (spool_phase u') (spool_phase v) s ?i (StateDeadLetter, ?a)" by (rule deadLetter_marks [OF s sound])
      have "spool_sound v"
        using step_sound [OF step_deadLetterCorruptRecord s sound] assms(5) by simp
      show ?thesis
      proof (cases s)
        case err: (Inl e')
        have "w' = v" "isl r" using run Inl Some s err by (auto simp: Let_def bindE_def)
        then show ?thesis using v p u'
            claim_result_set [of p ?i ?a StateWorking r] claim_result_set [of p ?i ?a StateDeadLetter r]
          by (auto simp: marks_def)
      next
        case (Inr d)
        then have "spool_phase v = p(?i \<mapsto> (StateDeadLetter, ?a))" using v p u' by (auto simp: marks_def)
        moreover have "rest v = (r, w')" using run Inl Some s Inr by (simp add: Let_def bindE_def)
        ultimately have "claim_result (p(?i \<mapsto> (StateDeadLetter, ?a))) (spool_phase w') r"
          using rest [of v r w'] \<open>spool_sound v\<close> by simp
        with p(1) show ?thesis by (rule claim_result_after)
      qed
    qed
  qed
qed

lemma claimReady_n_result:
  "claimReady_n k lib ps now w = (r, w') \<Longrightarrow> spool_sound w \<Longrightarrow> claim_result (spool_phase w) (spool_phase w') r"
proof (induction k arbitrary: w r w')
  case 0
  then show ?case by (auto intro: claim_result_id)
next
  case (Suc k)
  obtain c u where c: "claimReadyMetadata now w = (c, u)" by fastforce
  note ph = claim_phase [OF c Suc.prems(2)]
  show ?case
  proof (cases "\<exists>m. c = Inr (Some m)")
    case True
    then obtain m where m: "c = Inr (Some m)" ..
    have u: "spool_sound u" by (rule step_sound [OF step_claim c Suc.prems(2)])
    have "m_State m = StateWorking" using claim_meta_state c m by simp
    note w = this
    have p: "spool_phase w (m_ID m) = Some (StateQueued, m_Attempt m)"
      "spool_phase u = (spool_phase w)(m_ID m \<mapsto> (StateWorking, m_Attempt m))" using ph m by auto
    from Suc.prems(1) have "tryE (Load lib ps (m_ID m)) (\<lambda>r. case r of
        Inr msg \<Rightarrow> retE (Some ((toRecord m)\<lparr>Message := msg\<rparr>))
      | Inl e \<Rightarrow> let classified = classifyPayloadLoadError (m_ID m) e in
          (case AsRecordCorruptionError classified of
             Some corrupt \<Rightarrow> bindE (deadLetterCorruptRecord m corrupt) (\<lambda>_. claimReady_n k lib ps now)
           | None \<Rightarrow> bindE (requeueClaimedRecord m) (\<lambda>_. throwE classified))) u = (r, w')"
      by (simp add: bindE_def [of "claimReadyMetadata now"] c m)
    from claim_iteration [OF this p u w Suc.IH] show ?thesis .
  next
    case False
    then have "w' = u" "\<forall>rec. r \<noteq> Inr (Some rec)" using Suc.prems(1) c by (auto simp: bindE_def split: sum.splits option.splits)
    moreover have "isl r" if "c \<noteq> Inr None" using Suc.prems(1) c False that by (auto simp: bindE_def split: sum.splits option.splits)
    ultimately show ?thesis using ph
    proof (elim disjE exE conjE)
      fix i a
      assume a: "spool_phase w i = Some (StateQueued, a)" "spool_phase u = (spool_phase w)(i \<mapsto> (StateWorking, a))" "c \<noteq> Inr None"
      show ?thesis unfolding \<open>w' = u\<close> a(2)
        using a(1) \<open>c \<noteq> Inr None \<Longrightarrow> isl r\<close> [OF a(3)] by (intro claim_result_set) simp_all
    qed (simp add: claim_result_id)
  qed
qed

lemma ClaimReady_result:
  assumes "ClaimReady lib ps now w = (r, w')" "spool_sound w"
  shows "claim_result (spool_phase w) (spool_phase w') r"
  using assms(1) [unfolded ClaimReady_def]
proof (cases rule: bindE_cases)
  case (fail e)
  then show ?thesis
    using db_quiet_result [OF fail(1) db_quiet_ctxErr] by (auto simp: spool_phase_def intro: claim_result_id)
next
  case (ok x u)
  then have "db u = db w" using db_quiet_result [OF ok(1) db_quiet_ctxErr] by simp
  then show ?thesis using claimReady_n_result [OF ok(2)] assms(2) by (simp add: spool_phase_def spool_sound_def)
qed

lemma ClaimReady_state:
  assumes "ClaimReady lib ps now w = (Inr (Some rec), w')" shows "State rec = StateWorking"
  using ClaimReady_Inr [OF assms] by (simp add: claimed_def)

lemma select_ready_single: "sql_select_ready st now rows = x # xs \<Longrightarrow> xs = []"
  unfolding sql_select_ready_def
  by (cases "sort_key ready_key (filter (\<lambda>r. r_state r = st \<and> r_next_attempt_at_ms r \<le> now) rows)") auto

lemma NextSubmittedReady_result:
  assumes "NextSubmittedReady now w = (Inr (Some rec), w')"
  obtains x where "x \<in> set (records (db w))" "r_id x = ID rec" "row_state x = StateSubmitted" "r_attempt x = Attempt rec"
    "State rec = StateSubmitted"
proof -
  obtain m where m: "queryOneMetadata (\<lambda>w. sql_select_ready (state_text StateSubmitted) (timeToMillis now) (records (db w))) w = (Inr (Some m), w')"
    "rec = toRecord m"
    using assms by (auto simp: NextSubmittedReady_def nextSubmittedReady_def bindE_Inr_iff)
  let ?sel = "sql_select_ready (state_text StateSubmitted) (timeToMillis now) (records (db w))"
  have "case ?sel of [] \<Rightarrow> Some m = None | r # _ \<Rightarrow> \<exists>m'. Some m = Some m' \<and> scanMetadata r = Inr m'"
    by (rule queryOneMetadata_Inr [OF m(1)]) simp
  then obtain x xs where x: "?sel = x # xs" "scanMetadata x = Inr m" by (auto split: list.splits)
  then have "?sel = [x]" by (simp add: select_ready_single)
  note f = select_ready_first [OF this]
  show thesis
    by (rule that [OF f(1)]) (use m(2) f(2) scanMetadata_ID [OF x(2)] scanMetadata_attempt [OF x(2)] in \<open>simp_all add: toRecord_def row_state_def\<close>)
qed

lemma NextSubmittedReady_quiet: "NextSubmittedReady now w = (r, w') \<Longrightarrow> db w' = db w"
  unfolding NextSubmittedReady_def nextSubmittedReady_def
  by (drule db_quiet_result) (intro db_quiet.effect_intros db_quiet_intros, simp)

section \<open>The contract holds\<close>

lemma law_claim:
  "spool_sound w \<Longrightarrow> ClaimReady lib ps now w = (r, w') \<Longrightarrow>
     spool_sound w' \<and> (\<forall>i. claim_moves (spool_phase w i) (spool_phase w' i)) \<and>
     (\<forall>rec. r = Inr (Some rec) \<longrightarrow> spool_phase w (ID rec) = Some (StateQueued, Attempt rec) \<and>
        spool_phase w' (ID rec) = Some (StateWorking, Attempt rec))"
  by (rule conjI, erule step_sound [OF step_ClaimReady, rotated], assumption)
    (drule (1) ClaimReady_result, simp add: claim_result_def)

lemma law_next_state: "NextSubmittedReady now w = (Inr (Some rec), w') \<Longrightarrow> State rec = StateSubmitted"
  by (erule NextSubmittedReady_result)

lemma law_next:
  assumes "spool_sound w" "NextSubmittedReady now w = (r, w')"
  shows "spool_sound w' \<and> spool_phase w' = spool_phase w \<and>
     (\<forall>rec. r = Inr (Some rec) \<longrightarrow> spool_phase w (ID rec) = Some (StateSubmitted, Attempt rec))"
proof -
  have "spool_phase w (ID rec) = Some (StateSubmitted, Attempt rec)" if r: "r = Inr (Some rec)" for rec
    using assms(2) [unfolded r]
  proof (rule NextSubmittedReady_result)
    fix x
    assume "x \<in> set (records (db w))" "r_id x = ID rec" "row_state x = StateSubmitted" "r_attempt x = Attempt rec"
    then show ?thesis using phase_of_row [of "records (db w)" x] assms(1) by (simp add: spool_phase_def spool_sound_def db_ok_def)
  qed
  then show ?thesis using NextSubmittedReady_quiet [OF assms(2)] assms(1) by (simp add: spool_phase_def spool_sound_def)
qed

lemma law_marks:
  "spool_sound w \<Longrightarrow> MarkSubmitted rec res t w = (r, w') \<Longrightarrow>
     spool_sound w' \<and> marks (spool_phase w) (spool_phase w') r (ID rec) (StateSubmitted, next_attempt rec)"
  "spool_sound w \<Longrightarrow> MarkRetry rec t le w = (r, w') \<Longrightarrow>
     spool_sound w' \<and> marks (spool_phase w) (spool_phase w') r (ID rec)
       (if State rec = StateWorking then StateQueued else StateSubmitted, next_attempt rec)"
  "spool_sound w \<Longrightarrow> MarkSucceeded rec w = (r, w') \<Longrightarrow>
     spool_sound w' \<and> marks (spool_phase w) (spool_phase w') r (ID rec) (StateSucceeded, next_attempt rec)"
  "spool_sound w \<Longrightarrow> MarkDeadLetter rec le w = (r, w') \<Longrightarrow>
     spool_sound w' \<and> marks (spool_phase w) (spool_phase w') r (ID rec) (StateDeadLetter, next_attempt rec)"
  unfolding MarkSubmitted_def MarkRetry_def MarkSucceeded_def MarkDeadLetter_def
  by (rule conjI, erule step_sound [OF step_markSubmitted, rotated], assumption, erule (1) markSubmitted_marks,
      rule conjI, erule step_sound [OF step_markRetry, rotated], assumption, erule (1) markRetry_marks,
      rule conjI, erule step_sound [OF step_markSucceeded, rotated], assumption, erule (1) markSucceeded_marks,
      rule conjI, erule step_sound [OF step_markDeadLetter, rotated], assumption, erule (1) markDeadLetter_marks)

interpretation spool: delivery_store "spool_api lib ps" spool_sound spool_phase for lib ps
proof (unfold_locales, unfold spool_api_def store_api.select_convs)
qed (fact law_claim ClaimReady_state law_next_state law_next law_marks | simp add: spool_sound_def spool_phase_def)+

section \<open>A relay with an empty spool\<close>

definition empty_relay :: relay_world where
  "empty_relay =
     \<lparr>clock = (\<lambda>n. (int n + 1) * 1000000000), ticks = 0, fault = (\<lambda>_. None), calls = 0,
      entropy = (\<lambda>n. Inr (replicate 16 (of_nat n))), draws = 0,
      fs = Dir [(''s'', Dir [(''payloads'', Dir []), (''payload-orphans'', Dir []), (''staging'', Dir [])])],
      cwd = [], short_write = (\<lambda>_. 0),
      db = \<lparr>records = [], sqlite_master = [], user_version = 1\<rparr>, tx = \<lparr>records = [], sqlite_master = [], user_version = 1\<rparr>,
      metrics = Some NewMetrics\<rparr>"

end
