(* ===== verification/Noop_Provider.thy ===== *)
theory Noop_Provider
  imports Spool_Delivery
begin

text \<open>internal/providers/noop: a provider that accepts every message at once, and its use in the loop.\<close>

definition noop_Submit :: "message \<Rightarrow> string \<Rightarrow> ('s, submission_result) op" where
  "noop_Submit msg operationID =
     retE \<lparr>res_OperationID = TrimSpace operationID, res_OperationLocation = [], res_RetryAfter = 0,
           res_State = SubmissionStateSucceeded, res_ProviderMessageID = [], res_Failure = None\<rparr>"

definition noop_Poll :: "string \<Rightarrow> ('s, submission_status) op" where
  "noop_Poll operationID =
     retE \<lparr>st_OperationID = TrimSpace operationID, st_RetryAfter = 0, st_State = SubmissionStateSucceeded,
           st_ProviderMessageID = [], st_Failure = None\<rparr>"

definition noop_NewProvider :: "'s provider_api" where
  "noop_NewProvider = \<lparr>Submit = noop_Submit, Poll = noop_Poll\<rparr>"

interpretation noop: delivery "\<lparr>wk_store = spool_api lib ps, wk_provider = noop_NewProvider, wk_cfg = cfg\<rparr>" spool_sound spool_phase
  for lib ps cfg
proof (intro delivery.intro delivery_axioms.intro)
  show "delivery_store (wk_store \<lparr>wk_store = spool_api lib ps, wk_provider = noop_NewProvider, wk_cfg = cfg\<rparr>) spool_sound spool_phase"
    using spool.delivery_store_axioms by simp
qed (simp_all add: noop_NewProvider_def noop_Submit_def noop_Poll_def)

text \<open>Any provider that leaves the database alone can be used with the spool.\<close>

definition leaves_database :: "'z spool_world_scheme provider_api \<Rightarrow> bool" where
  "leaves_database pr \<longleftrightarrow>
     (\<forall>msg i w. db (snd (Submit pr msg i w)) = db w) \<and> (\<forall>i w. db (snd (Poll pr i w)) = db w)"

lemma noop_leaves_database: "leaves_database noop_NewProvider"
  by (simp add: leaves_database_def noop_NewProvider_def noop_Submit_def noop_Poll_def)

lemma NewWorker_fields:
  "NewWorker (Some st) (Some pr) cfg = Inr wk \<Longrightarrow> wk_store wk = st \<and> wk_provider wk = pr \<and> wk_cfg wk = cfg"
  by (auto simp: NewWorker_def split: if_splits)

lemma spool_delivery:
  assumes "NewWorker (Some (spool_api lib ps)) (Some pr) cfg = Inr wk" "leaves_database pr"
  shows "delivery wk spool_sound spool_phase"
proof (intro delivery.intro delivery_axioms.intro)
  note wk = NewWorker_fields [OF assms(1)]
  show "delivery_store (wk_store wk) spool_sound spool_phase" using wk spool.delivery_store_axioms by simp
  show "spool_sound w' \<and> spool_phase w' = spool_phase w" if "spool_sound w" "Submit (wk_provider wk) msg i w = (r, w')" for w msg i r w'
    using assms(2) that wk by (metis leaves_database_def snd_conv spool_sound_def spool_phase_def)
  show "spool_sound w' \<and> spool_phase w' = spool_phase w" if "spool_sound w" "Poll (wk_provider wk) i w = (r, w')" for w i r w'
    using assms(2) that wk by (metis leaves_database_def snd_conv spool_sound_def spool_phase_def)
qed

end
