(* ===== verification/Worker_Properties.thy ===== *)
theory Worker_Properties
  imports Noop_Provider Spool_Properties
begin

text \<open>The properties of the delivery loop over the durable spool, with an example relay.\<close>

section \<open>An example relay\<close>

definition example_config :: worker_config where
  "example_config =
     \<lparr>SubmitTimeout = 30 * second, FinalizeTimeout = DefaultFinalizeTimeout, PollInterval = DefaultPollInterval,
      RetryAttempts = 3, RetryBaseDelay = second, SubmittedTimeout = DefaultSubmittedTimeout, wc_ProviderName = ''noop''\<rparr>"

definition example_worker :: "relay_world worker" where
  "example_worker = \<lparr>wk_store = spool_api example_libs example_store, wk_provider = noop_NewProvider, wk_cfg = example_config\<rparr>"

text \<open>A relay whose spool holds the example message.\<close>

definition example_relay :: relay_world where
  "example_relay =
     snd (Enqueue example_libs example_store example_message empty_relay)"

lemma example_worker_new:
  "NewWorker (Some (spool_api example_libs example_store)) (Some noop_NewProvider) example_config = Inr example_worker"
  by (simp add: NewWorker_def example_config_def example_worker_def second_def DefaultFinalizeTimeout_def
      DefaultPollInterval_def DefaultSubmittedTimeout_def)

lemma example_relay_ok: "db_ok (db example_relay)"
  by code_simp

definition queued_round :: "(goerr + bool) \<times> relay_world" where
  "queued_round = processQueuedOnce example_worker 9000000000 example_relay"

lemma queued_round_ok: "fst queued_round = Inr True"
  by code_simp

text \<open>A provider that accepts a message as a running operation, which has succeeded when it is polled.\<close>

definition async_provider :: "relay_world provider_api" where
  "async_provider =
     \<lparr>Submit = (\<lambda>msg i. retE \<lparr>res_OperationID = i, res_OperationLocation = [], res_RetryAfter = 0,
        res_State = SubmissionStateRunning, res_ProviderMessageID = [], res_Failure = None\<rparr>),
      Poll = noop_Poll\<rparr>"

definition async_worker :: "relay_world worker" where
  "async_worker = \<lparr>wk_store = spool_api example_libs example_store, wk_provider = async_provider, wk_cfg = example_config\<rparr>"

definition async_round :: "(goerr + bool) \<times> relay_world" where
  "async_round = processQueuedOnce async_worker 9000000000 example_relay"

definition polled_round :: "(goerr + bool) \<times> relay_world" where
  "polled_round = processSubmittedOnce async_worker 20000000000 (snd async_round)"

lemma async_worker_new:
  "NewWorker (Some (spool_api example_libs example_store)) (Some async_provider) example_config = Inr async_worker"
  by (simp add: NewWorker_def example_config_def async_worker_def second_def DefaultFinalizeTimeout_def
      DefaultPollInterval_def DefaultSubmittedTimeout_def)

lemma async_leaves_database: "leaves_database async_provider"
  by (simp add: leaves_database_def async_provider_def noop_Poll_def)

lemma async_rounds_ok: "db_ok (db (snd async_round))" "fst polled_round = Inr True"
  by code_simp+

section \<open>The bound on submissions\<close>

definition attempts_bounded :: "worker_config \<Rightarrow> row list \<Rightarrow> bool" where
  "attempts_bounded cfg rows \<longleftrightarrow>
     list_all (\<lambda>r. row_state r = StateQueued \<or> row_state r = StateWorking \<longrightarrow> r_attempt r \<le> RetryAttempts cfg) rows"

lemma attempts_ok_phase_of:
  assumes "distinct (map r_id rows)" shows "attempts_ok cfg (phase_of rows) \<longleftrightarrow> attempts_bounded cfg rows"
proof
  show "attempts_bounded cfg rows" if "attempts_ok cfg (phase_of rows)"
    using that phase_of_row [OF assms] by (auto simp: attempts_ok_def attempts_bounded_def list_all_iff)
  show "attempts_ok cfg (phase_of rows)" if "attempts_bounded cfg rows"
    using that by (auto simp: attempts_ok_def attempts_bounded_def list_all_iff phase_of_def dest!: map_of_SomeD)
qed

lemma Start_bounded:
  assumes "NewWorker (Some (spool_api lib ps)) (Some pr) cfg = Inr wk"
    and "leaves_database pr" "db_ok (db w)" "attempts_bounded cfg (records (db w))"
  shows "db_ok (db (snd (Start_n k wk w))) \<and> attempts_bounded cfg (records (db (snd (Start_n k wk w))))"
proof -
  note d = spool_delivery [OF assms(1,2)] and wk = NewWorker_fields [OF assms(1)]
  have "distinct (map r_id (records (db w)))" using assms(3) by (simp add: db_ok_def)
  moreover have "distinct (map r_id (records (db (snd (Start_n k wk w)))))" if "db_ok (db (snd (Start_n k wk w)))"
    using that by (simp add: db_ok_def)
  ultimately show ?thesis
    using delivery.step_Start [OF d, where w = w and k = k] assms(3,4)
    by (auto simp: bound_step_def wk spool_sound_def spool_phase_def attempts_ok_phase_of)
qed

section \<open>Properties\<close>



text \<open>C16: a claimed record is handed to the provider once and gets the disposition its outcome calls for: delivered
  is \<open>succeeded\<close>, accepted with an operation id is \<open>submitted\<close>, a temporary failure within the allowed attempts is
  back in \<open>queued\<close>, anything else is \<open>dead-letter\<close>. The attempt is counted and no other record changes.\<close>
theorem queued_disposition:
  assumes "NewWorker (Some (spool_api lib ps)) (Some pr) cfg = Inr wk"
    and "leaves_database pr" "db_ok (db w)" "processQueuedOnce wk now w = (Inr True, w')"
  shows "\<exists>rec u r v. ClaimReady lib ps now w = (Inr (Some rec), u) \<and> Submit pr (Message rec) (ID rec) u = (r, v) \<and>
    phase_of (records (db w')) = (phase_of (records (db u)))(ID rec \<mapsto> (submit_disposition cfg rec r, Attempt rec + 1))"
proof -
  note d = spool_delivery [OF assms(1,2)] and wk = NewWorker_fields [OF assms(1)]
  from delivery.processQueued_Inr [OF d assms(4)] assms(3) show ?thesis
    by (simp add: wk spool_sound_def spool_phase_def spool_api_def)
qed

theorem queued_disposition_witness:
  "\<exists>rec u. ClaimReady example_libs example_store 9000000000 example_relay = (Inr (Some rec), u) \<and>
    (\<exists>st. phase_of (records (db (snd queued_round))) = (phase_of (records (db u)))(ID rec \<mapsto> (st, Attempt rec + 1)))"
proof -
  have "processQueuedOnce example_worker 9000000000 example_relay = (Inr True, snd queued_round)"
    using queued_round_ok by (simp add: queued_round_def prod_eq_iff)
  from queued_disposition [OF example_worker_new noop_leaves_database example_relay_ok this] show ?thesis by blast
qed

text \<open>C17: a submitted record whose operation has run longer than \<open>SubmittedTimeout\<close> is given up without asking the
  provider; any other due submitted record is polled once and becomes \<open>succeeded\<close>, stays \<open>submitted\<close> (running, or a
  temporary failure of the poll) or becomes \<open>dead-letter\<close>. Polling counts no attempt and changes no other record.\<close>
theorem submitted_disposition:
  assumes "NewWorker (Some (spool_api lib ps)) (Some pr) cfg = Inr wk"
    and "leaves_database pr" "db_ok (db w)" "processSubmittedOnce wk now w = (Inr True, w')"
  shows "\<exists>rec u. NextSubmittedReady now w = (Inr (Some rec), u) \<and>
    (if timed_out cfg rec now then phase_of (records (db w')) = (phase_of (records (db w)))(ID rec \<mapsto> (StateDeadLetter, Attempt rec))
     else \<exists>r v. Poll pr (OperationID rec) u = (r, v) \<and>
       phase_of (records (db w')) = (phase_of (records (db w)))(ID rec \<mapsto> (poll_disposition r, Attempt rec)))"
proof -
  note d = spool_delivery [OF assms(1,2)] and wk = NewWorker_fields [OF assms(1)]
  from delivery.processSubmitted_Inr [OF d assms(4)] assms(3) show ?thesis
    by (simp add: wk spool_sound_def spool_phase_def spool_api_def split del: if_split cong: if_cong)
qed

theorem submitted_disposition_witness:
  "\<exists>rec u. NextSubmittedReady 20000000000 (snd async_round) = (Inr (Some rec), u) \<and>
    (\<exists>st. phase_of (records (db (snd polled_round))) = (phase_of (records (db (snd async_round))))(ID rec \<mapsto> (st, Attempt rec)))"
proof -
  have "processSubmittedOnce async_worker 20000000000 (snd async_round) = (Inr True, snd polled_round)"
    using async_rounds_ok(2) by (simp add: polled_round_def prod_eq_iff)
  from submitted_disposition [OF async_worker_new async_leaves_database async_rounds_ok(1) this] show ?thesis
    by (meson if_splits)
qed



text \<open>C35: the delay before a retry doubles with every attempt up to 30, as long as the largest delay fits in 64 bits.\<close>
theorem submitRetryDelay_doubles:
  assumes "0 < RetryBaseDelay cfg" "RetryBaseDelay cfg < 2 ^ 33" "0 \<le> a"
  shows "submitRetryDelay cfg a = RetryBaseDelay cfg * 2 ^ min (nat a) 30 \<and> 0 < submitRetryDelay cfg a"
proof -
  have "(2::int) ^ min (nat a) 30 \<le> 2 ^ 30" by (intro power_increasing) simp_all
  then have "RetryBaseDelay cfg * 2 ^ min (nat a) 30 \<le> RetryBaseDelay cfg * 2 ^ 30" using assms(1) by (intro mult_left_mono) auto
  also have "\<dots> < 2 ^ 63" using assms(2) by simp
  finally have "wrap64 (RetryBaseDelay cfg * 2 ^ min (nat a) 30) = RetryBaseDelay cfg * 2 ^ min (nat a) 30"
    using assms(1) by (intro wrap64_id) (simp_all add: order.trans [OF _ mult_nonneg_nonneg])
  moreover have "nat (if a < 0 then 0 else if a > 30 then 30 else a) = min (nat a) 30" using assms(3) by auto
  ultimately show ?thesis using assms(1) by (simp add: submitRetryDelay_def Let_def)
qed

theorem submitRetryDelay_doubles_witness: "submitRetryDelay example_config 5 = second * 2 ^ min (nat 5) 30"
  using submitRetryDelay_doubles [of example_config 5] by (simp add: example_config_def second_def)

end
