(* ===== verification/Sender_Policy.thy ===== *)
theory Sender_Policy
  imports Email_Model
begin

text \<open>
  internal/email/sender_policy.go: the sender policy. Parsing an address (net/mail), compiling a
  regular expression (regexp) and the Unicode case mapping are parameters: \<open>mail_ParseAddress\<close>
  returns the address without its display name, \<open>regexp_Compile\<close> the error of a malformed
  expression and \<open>regexp_MatchString\<close> the matches of a compiled one, and \<open>uc_ToLower\<close> and \<open>uc_EqualFold\<close> stand for \<open>strings.ToLower\<close> and \<open>strings.EqualFold\<close> on text
  that is not all ASCII.
\<close>

record policy_libs =
  mail_ParseAddress :: "string \<Rightarrow> string option"
  regexp_Compile :: "string \<Rightarrow> goerr option"
  regexp_MatchString :: "string \<Rightarrow> string \<Rightarrow> bool"
  uc_ToLower :: "string \<Rightarrow> string"
  uc_EqualFold :: "string \<Rightarrow> string \<Rightarrow> bool"

definition is_ascii :: "string \<Rightarrow> bool" where
  "is_ascii s \<longleftrightarrow> list_all (\<lambda>c. c < CHR 0x80) s"

definition to_lower :: "policy_libs \<Rightarrow> string \<Rightarrow> string" where
  "to_lower lib s = (if is_ascii s then ToLower s else uc_ToLower lib s)"

definition equal_fold :: "policy_libs \<Rightarrow> string \<Rightarrow> string \<Rightarrow> bool" where
  "equal_fold lib s t \<longleftrightarrow> (if is_ascii s \<and> is_ascii t then EqualFold s t else uc_EqualFold lib s t)"

section \<open>Domains\<close>

definition HasSuffix :: "string \<Rightarrow> string \<Rightarrow> bool" where
  "HasSuffix s suf \<longleftrightarrow> suffix suf s"

definition label_byte :: "char \<Rightarrow> bool" where
  "label_byte c \<longleftrightarrow> (CHR ''a'' \<le> c \<and> c \<le> CHR ''z'') \<or> (CHR ''0'' \<le> c \<and> c \<le> CHR ''9'') \<or> c = CHR ''-''"

text \<open>The first character at or after an offending byte, for the error text.\<close>

definition first_rune :: "string \<Rightarrow> string" where
  "first_rune s =
     (case s of
        [] \<Rightarrow> []
      | c # _ \<Rightarrow> take (if c < CHR 0xC0 then 1 else if c < CHR 0xE0 then 2 else if c < CHR 0xF0 then 3 else 4) s)"

definition validateDomainLabel :: "string \<Rightarrow> goerr option" where
  "validateDomainLabel label =
     (if label = [] then Some (Errorf ''domain label cannot be empty'' [])
      else if prefix ''-'' label \<or> HasSuffix label ''-''
      then Some (Errorf (''domain label %q cannot start or end with '' @ [CHR 0x27] @ ''-'' @ [CHR 0x27]) [label])
      else
        (case dropWhile label_byte label of
           [] \<Rightarrow> None
         | rest \<Rightarrow> Some (Errorf ''domain label %q contains unsupported character %s'' [label, [CHR 0x27] @ first_rune rest @ [CHR 0x27]])))"

fun validateDomainLabels :: "string list \<Rightarrow> goerr option" where
  "validateDomainLabels [] = None"
| "validateDomainLabels (l # ls) = (case validateDomainLabel l of Some e \<Rightarrow> Some e | None \<Rightarrow> validateDomainLabels ls)"

definition normalizeExactDomain :: "policy_libs \<Rightarrow> string \<Rightarrow> goerr + string" where
  "normalizeExactDomain lib domain0 =
     (let domain = to_lower lib (TrimSpace domain0) in
      if domain = [] then Inl (Errorf ''domain cannot be empty'' [])
      else if Contains domain ''*'' then Inl (Errorf ''exact domain cannot contain wildcard'' [])
      else if Contains domain '':'' then Inl (Errorf ''exact domain cannot contain matcher prefix syntax'' [])
      else
        let labels = Split (CHR ''.'') domain in
        if length labels < 2 then Inl (Errorf ''domain must contain at least one dot'' [])
        else (case validateDomainLabels labels of Some e \<Rightarrow> Inl e | None \<Rightarrow> Inr domain))"

definition compileSingleLabelGlob :: "policy_libs \<Rightarrow> string \<Rightarrow> goerr + string" where
  "compileSingleLabelGlob lib pattern0 =
     (let pattern = to_lower lib (TrimSpace pattern0) in
      if pattern = [] then Inl (Errorf ''glob pattern cannot be empty'' [])
      else if \<not> prefix ''*.'' pattern then Inl (Errorf ''glob pattern must start with *.'' [])
      else if count_list pattern (CHR ''*'') \<noteq> 1 then Inl (Errorf ''glob pattern may contain only one wildcard'' [])
      else
        let suffix = drop 2 pattern in
        if suffix = [] then Inl (Errorf ''glob pattern suffix cannot be empty'' [])
        else (case normalizeExactDomain lib suffix of Inl e \<Rightarrow> Inl e | Inr _ \<Rightarrow> Inr suffix))"

section \<open>Matchers\<close>

datatype senderDomainMatcher =
    exactDomainMatcher string
  | regexDomainMatcher string
  | singleLabelGlobMatcher string

fun Match :: "policy_libs \<Rightarrow> senderDomainMatcher \<Rightarrow> string \<Rightarrow> bool" where
  "Match lib (exactDomainMatcher d) domain = equal_fold lib domain d"
| "Match lib (regexDomainMatcher p) domain = regexp_MatchString lib p domain"
| "Match lib (singleLabelGlobMatcher suf) domain0 =
     (let domain = to_lower lib (TrimSpace domain0) in
      if domain = [] \<or> equal_fold lib domain suf then False
      else
        let parts = Split (CHR ''.'') domain; suffixParts = Split (CHR ''.'') suf in
        if length parts \<noteq> length suffixParts + 1 then False
        else Join (tl parts) ''.'' = suf)"

definition compileSenderDomainMatcher :: "policy_libs \<Rightarrow> string \<Rightarrow> goerr + senderDomainMatcher option" where
  "compileSenderDomainMatcher lib raw0 =
     (let raw = TrimSpace raw0 in
      if raw = [] then Inr None
      else if prefix ''re:'' (to_lower lib raw) then
        let expr = TrimSpace (drop 3 raw) in
        if expr = [] then Inl (Errorf ''sender allowed domain regex cannot be empty'' [])
        else
          let anchored = ''(?i)^(?:'' @ expr @ '')$'' in
          (case regexp_Compile lib anchored of
             Some e \<Rightarrow> Inl (Wrapf ''compile sender allowed domain regex %q: %w'' [raw] e)
           | None \<Rightarrow> Inr (Some (regexDomainMatcher anchored)))
      else if prefix ''glob:'' (to_lower lib raw) then
        (case compileSingleLabelGlob lib (TrimSpace (drop 5 raw)) of
           Inl e \<Rightarrow> Inl (Wrapf ''compile sender allowed domain glob %q: %w'' [raw] e)
         | Inr suf \<Rightarrow> Inr (Some (singleLabelGlobMatcher suf)))
      else
        (case normalizeExactDomain lib raw of
           Inl e \<Rightarrow> Inl (Wrapf ''compile sender allowed exact domain %q: %w'' [raw] e)
         | Inr d \<Rightarrow> Inr (Some (exactDomainMatcher d))))"

section \<open>The policy\<close>

datatype senderPolicyMode = SenderPolicyRewrite | SenderPolicyStrict

record sender_policy_options =
  opt_Mode :: string
  opt_AllowedDomainPatterns :: "string list"

record sender_policy =
  policy_mode :: senderPolicyMode
  matchers :: "senderDomainMatcher list"

record sender_policy_result =
  pr_Message :: message
  OriginalSender :: string
  EffectiveReplyTo :: "string list"
  DecisionReason :: string

definition SenderPolicyReasonNoOriginalSender :: string where
  "SenderPolicyReasonNoOriginalSender = ''no_original_sender''"

definition SenderPolicyReasonInvalidOriginalSender :: string where
  "SenderPolicyReasonInvalidOriginalSender = ''invalid_original_sender''"

definition SenderPolicyReasonDisallowedSenderDomain :: string where
  "SenderPolicyReasonDisallowedSenderDomain = ''disallowed_sender_domain''"

fun compileMatchers :: "policy_libs \<Rightarrow> string list \<Rightarrow> goerr + senderDomainMatcher list" where
  "compileMatchers lib [] = Inr []"
| "compileMatchers lib (p # ps) =
     (case compileSenderDomainMatcher lib p of
        Inl e \<Rightarrow> Inl e
      | Inr m \<Rightarrow>
          (case compileMatchers lib ps of
             Inl e \<Rightarrow> Inl e
           | Inr ms \<Rightarrow> Inr (case m of None \<Rightarrow> ms | Some x \<Rightarrow> x # ms)))"

definition NewSenderPolicy :: "policy_libs \<Rightarrow> sender_policy_options \<Rightarrow> goerr + sender_policy" where
  "NewSenderPolicy lib opts =
     (let mode = to_lower lib (TrimSpace (opt_Mode opts));
          build = (\<lambda>m. map_sum id (\<lambda>ms. \<lparr>policy_mode = m, matchers = ms\<rparr>) (compileMatchers lib (opt_AllowedDomainPatterns opts)))
      in if mode = ''rewrite'' then build SenderPolicyRewrite
         else if mode = ''strict'' then build SenderPolicyStrict
         else Inl (Errorf ''unsupported sender policy mode %q'' [opt_Mode opts]))"

definition selectOriginalSender :: "message \<Rightarrow> string" where
  "selectOriginalSender msg =
     (case ReplyTo msg of r # _ \<Rightarrow> TrimSpace r | [] \<Rightarrow> TrimSpace (HeaderFrom msg))"

text \<open>What follows the last \<open>@\<close>, with \<open>None\<close> when there is none.\<close>

definition after_last_at :: "string \<Rightarrow> (string \<times> string) option" where
  "after_last_at s =
     (if CHR ''@'' \<in> set s
      then Some (rev (tl (dropWhile (\<lambda>c. c \<noteq> CHR ''@'') (rev s))), rev (takeWhile (\<lambda>c. c \<noteq> CHR ''@'') (rev s)))
      else None)"

definition senderDomain :: "policy_libs \<Rightarrow> string \<Rightarrow> string option" where
  "senderDomain lib address =
     (case mail_ParseAddress lib (TrimSpace address) of
        None \<Rightarrow> None
      | Some a \<Rightarrow>
          (case after_last_at a of
             None \<Rightarrow> None
           | Some (l, d) \<Rightarrow>
               if l = [] \<or> d = [] then None
               else if TrimSpace d = [] then None
               else Some (to_lower lib (TrimSpace d))))"

definition allowedDomain :: "policy_libs \<Rightarrow> sender_policy \<Rightarrow> string \<Rightarrow> bool" where
  "allowedDomain lib p domain \<longleftrightarrow> matchers p = [] \<or> list_ex (\<lambda>m. Match lib m domain) (matchers p)"

definition applyPolicyDecision ::
  "sender_policy_result \<Rightarrow> senderPolicyMode \<Rightarrow> string \<Rightarrow> sender_policy_result \<times> goerr option" where
  "applyPolicyDecision result mode reason =
     (result\<lparr>pr_Message := (pr_Message result)\<lparr>ReplyTo := []\<rparr>, EffectiveReplyTo := [], DecisionReason := reason\<rparr>,
      if mode = SenderPolicyStrict then Some (SenderPolicyError reason) else None)"

definition ApplySenderPolicy :: "policy_libs \<Rightarrow> message \<Rightarrow> sender_policy \<Rightarrow> sender_policy_result \<times> goerr option" where
  "ApplySenderPolicy lib msg policy =
     (let candidate = selectOriginalSender msg;
          result = \<lparr>pr_Message = msg, OriginalSender = candidate, EffectiveReplyTo = [], DecisionReason = []\<rparr>
      in if candidate = [] then applyPolicyDecision result (policy_mode policy) SenderPolicyReasonNoOriginalSender
         else
           (case senderDomain lib candidate of
              None \<Rightarrow> applyPolicyDecision result (policy_mode policy) SenderPolicyReasonInvalidOriginalSender
            | Some domain \<Rightarrow>
                if \<not> allowedDomain lib policy domain
                then applyPolicyDecision result (policy_mode policy) SenderPolicyReasonDisallowedSenderDomain
                else (result\<lparr>pr_Message := msg\<lparr>ReplyTo := [candidate]\<rparr>, EffectiveReplyTo := [candidate], DecisionReason := []\<rparr>, None)))"

end
