(* ===== verification/Sender_Policy_Laws.thy ===== *)
theory Sender_Policy_Laws
  imports Sender_Policy
begin

text \<open>Laws of the sender policy: its decision, the wildcard matcher and the compiled domains.\<close>

section \<open>The wildcard matcher\<close>

lemma Split_label: "sep \<notin> set l \<Longrightarrow> Split sep (l @ sep # s) = l # Split sep s"
  by (induction l) auto

lemma is_ascii_append [simp]: "is_ascii (a @ b) \<longleftrightarrow> is_ascii a \<and> is_ascii b"
  by (simp add: is_ascii_def)

lemma EqualFold_length: "EqualFold s t \<Longrightarrow> length s = length t"
  by (metis EqualFold_def ToLower_def length_map)

lemma lower_char_ascii: "c < CHR 0x80 \<Longrightarrow> lower_char c < CHR 0x80"
  by (auto simp: lower_char_def less_char_def less_eq_char_def of_char_of)

lemma lower_char_space: "lower_char c = CHR '' '' \<longleftrightarrow> c = CHR '' ''"
proof (cases "CHR ''A'' \<le> c \<and> c \<le> CHR ''Z''")
  case True
  then have "65 \<le> (of_char c :: nat)" "(of_char c :: nat) \<le> 90" by (simp_all add: less_eq_char_def)
  then have "(of_char (lower_char c) :: nat) = of_char c + 32"
    using True by (simp add: lower_char_def take_bit_nat_eq_self)
  then have "lower_char c \<noteq> CHR '' ''" using \<open>65 \<le> (of_char c :: nat)\<close> by auto
  moreover have "c \<noteq> CHR '' ''" using True by (auto simp: less_eq_char_def)
  ultimately show ?thesis by simp
next
  case False
  then have "lower_char c = c" unfolding lower_char_def by (rule if_not_P)
  then show ?thesis by simp
qed

lemma is_ascii_ToLower: "is_ascii s \<Longrightarrow> is_ascii (ToLower s)"
  by (auto simp: is_ascii_def ToLower_def list_all_iff lower_char_ascii)

lemma Match_glob_ascii:
  assumes "is_ascii (TrimSpace d)" "is_ascii suf"
  shows "Match lib (singleLabelGlobMatcher suf) d \<longleftrightarrow>
    (\<exists>label. CHR ''.'' \<notin> set label \<and> ToLower (TrimSpace d) = label @ ''.'' @ suf)"
proof
  let ?D = "ToLower (TrimSpace d)" and ?S = "Split (CHR ''.'')"
  have asc: "is_ascii ?D" using assms(1) by (rule is_ascii_ToLower)
  {
    assume "Match lib (singleLabelGlobMatcher suf) d"
    then have len: "length (?S ?D) = length (?S suf) + 1" and j: "Join (tl (?S ?D)) ''.'' = suf"
      using assms by (auto simp: to_lower_def Let_def split: if_splits)
    have "length (?S suf) \<ge> 1" by (simp add: Split_length)
    with len obtain l m ms where s: "?S ?D = l # m # ms" by (cases "?S ?D"; cases "tl (?S ?D)") auto
    have "CHR ''.'' \<notin> set l" by (rule Split_no_sep [of _ _ ?D]) (simp add: s)
    moreover have "?D = l @ ''.'' @ suf" using Join_Split [of "CHR ''.''" ?D] j by (simp add: s)
    ultimately show "\<exists>label. CHR ''.'' \<notin> set label \<and> ?D = label @ ''.'' @ suf" by blast
  next
    assume "\<exists>label. CHR ''.'' \<notin> set label \<and> ?D = label @ ''.'' @ suf"
    then obtain l where l: "CHR ''.'' \<notin> set l" "?D = l @ CHR ''.'' # suf" by auto
    have "\<not> EqualFold ?D suf" using EqualFold_length l(2) by force
    moreover have "?S ?D = l # ?S suf" unfolding l(2) by (rule Split_label [OF l(1)])
    ultimately show "Match lib (singleLabelGlobMatcher suf) d"
      using assms asc l(2) Join_Split [of "CHR ''.''" suf] by (simp add: to_lower_def equal_fold_def)
  }
qed

section \<open>Compiled domains\<close>

definition valid_label :: "string \<Rightarrow> bool" where
  "valid_label l \<longleftrightarrow> l \<noteq> [] \<and> list_all label_byte l \<and> hd l \<noteq> CHR ''-'' \<and> last l \<noteq> CHR ''-''"

definition valid_domain :: "string \<Rightarrow> bool" where
  "valid_domain d \<longleftrightarrow> 2 \<le> length (Split (CHR ''.'') d) \<and> list_all valid_label (Split (CHR ''.'') d)"

lemma validateDomainLabel_None: "validateDomainLabel l = None \<longleftrightarrow> valid_label l"
proof (cases "l = []")
  case False
  then obtain c cs where l: "l = c # cs" by (cases l) auto
  have "prefix ''-'' l \<longleftrightarrow> hd l = CHR ''-''" by (auto simp: l)
  moreover have "HasSuffix l ''-'' \<longleftrightarrow> last l = CHR ''-''"
    using False by (cases l rule: rev_cases) (auto simp: HasSuffix_def)
  moreover have "dropWhile label_byte l = [] \<longleftrightarrow> list_all label_byte l"
    by (simp add: list_all_iff)
  ultimately show ?thesis using False
    by (cases "dropWhile label_byte l") (simp_all add: validateDomainLabel_def valid_label_def del: dropWhile_eq_Nil_conv)
qed (simp add: validateDomainLabel_def valid_label_def)

lemma validateDomainLabels_None: "validateDomainLabels ls = None \<longleftrightarrow> list_all valid_label ls"
  by (induction ls) (auto simp flip: validateDomainLabel_None split: option.splits)

lemma normalizeExactDomain_Inr:
  "normalizeExactDomain lib s = Inr d \<Longrightarrow> d = to_lower lib (TrimSpace s) \<and> valid_domain d"
  by (auto simp: normalizeExactDomain_def Let_def valid_domain_def validateDomainLabels_None split: if_splits option.splits)

lemma compileMatchers_member:
  "compileMatchers lib ps = Inr ms \<Longrightarrow> m \<in> set ms \<Longrightarrow> \<exists>p \<in> set ps. compileSenderDomainMatcher lib p = Inr (Some m)"
  by (induction ps arbitrary: ms) (auto split: sum.splits option.splits)

lemma compileSenderDomainMatcher_exact:
  "compileSenderDomainMatcher lib p = Inr (Some (exactDomainMatcher d)) \<Longrightarrow> valid_domain d"
  by (auto simp: compileSenderDomainMatcher_def Let_def dest: normalizeExactDomain_Inr split: if_splits sum.splits option.splits)

lemma compileSenderDomainMatcher_glob:
  "compileSenderDomainMatcher lib p = Inr (Some (singleLabelGlobMatcher s)) \<Longrightarrow> valid_domain (to_lower lib (TrimSpace s))"
  by (auto simp: compileSenderDomainMatcher_def compileSingleLabelGlob_def Let_def
      dest: normalizeExactDomain_Inr split: if_splits sum.splits option.splits)

lemma NewSenderPolicy_Inr:
  "NewSenderPolicy lib opts = Inr p \<Longrightarrow> compileMatchers lib (opt_AllowedDomainPatterns opts) = Inr (matchers p)"
  by (cases "compileMatchers lib (opt_AllowedDomainPatterns opts)") (auto simp: NewSenderPolicy_def Let_def split: if_splits)

text \<open>Libraries for the examples: an address is itself, an expression matches itself.\<close>

definition example_policy_libs :: policy_libs where
  "example_policy_libs =
     \<lparr>mail_ParseAddress = Some, regexp_Compile = (\<lambda>_. None), regexp_MatchString = (=), uc_ToLower = id, uc_EqualFold = (=)\<rparr>"

section \<open>Properties\<close>


text \<open>C33: the wildcard matcher for the suffix \<open>s\<close> accepts exactly the domains made of one label, a dot and \<open>s\<close>, up to
  case and surrounding space.\<close>
theorem glob_matches_one_label:
  assumes "is_ascii (TrimSpace d)" "is_ascii s"
  shows "Match lib (singleLabelGlobMatcher s) d \<longleftrightarrow>
    (\<exists>label. CHR ''.'' \<notin> set label \<and> ToLower (TrimSpace d) = label @ ''.'' @ s)"
  using assms by (rule Match_glob_ascii)

theorem glob_matches_one_label_witness:
  "Match example_policy_libs (singleLabelGlobMatcher ''x.org'') ''Mail.X.org'' \<longleftrightarrow>
    (\<exists>label. CHR ''.'' \<notin> set label \<and> ToLower (TrimSpace ''Mail.X.org'') = label @ ''.'' @ ''x.org'')"
  by (rule glob_matches_one_label) code_simp+





end
