(* ===== verification/Base64.thy ===== *)
theory Base64
  imports Email_Model
begin

text \<open>
  The standard base64 encoding of encoding/base64 (\<open>StdEncoding\<close>), with padding: encoding, and
  decoding that skips line breaks, requires the padding and ignores surplus bits of the last group.
  An error is known by its kind only, not by its offset.
\<close>

definition b64_char :: "int \<Rightarrow> char" where
  "b64_char n =
     (if n < 26 then char_of (n + 65) else if n < 52 then char_of (n + 71) else if n < 62 then char_of (n - 4)
      else if n = 62 then CHR ''+'' else CHR ''/'')"

definition b64_value :: "char \<Rightarrow> int option" where
  "b64_value c =
     (let n = of_char c :: int in
      if 65 \<le> n \<and> n \<le> 90 then Some (n - 65) else if 97 \<le> n \<and> n \<le> 122 then Some (n - 71)
      else if 48 \<le> n \<and> n \<le> 57 then Some (n + 4) else if n = 43 then Some 62 else if n = 47 then Some 63 else None)"

definition byte :: "int \<Rightarrow> char" where
  "byte n = char_of (n mod 256)"

text \<open>The four characters of a group of three bytes, read as one number.\<close>

definition b64_quad :: "int \<Rightarrow> string" where
  "b64_quad n = [b64_char (n div 262144 mod 64), b64_char (n div 4096 mod 64), b64_char (n div 64 mod 64), b64_char (n mod 64)]"

fun EncodeToString :: "bytes \<Rightarrow> string" where
  "EncodeToString [] = []"
| "EncodeToString [a] = take 2 (b64_quad (of_char a * 65536)) @ ''==''"
| "EncodeToString [a, b] = take 3 (b64_quad (of_char a * 65536 + of_char b * 256)) @ ''=''"
| "EncodeToString (a # b # c # s) = b64_quad (of_char a * 65536 + of_char b * 256 + of_char c) @ EncodeToString s"

definition corrupt_input :: goerr where
  "corrupt_input = Opaque ''illegal base64 data''"

fun decodeGroups :: "string \<Rightarrow> goerr + bytes" where
  "decodeGroups [] = Inr []"
| "decodeGroups (a # b # c # d # s) =
     (case (b64_value a, b64_value b) of
        (Some x, Some y) \<Rightarrow>
          if c = CHR ''='' then
            (if d = CHR ''='' \<and> s = [] then Inr [byte ((x * 64 + y) div 16)] else Inl corrupt_input)
          else
            (case b64_value c of
               None \<Rightarrow> Inl corrupt_input
             | Some z \<Rightarrow>
                 if d = CHR ''='' then
                   (if s = [] then Inr [byte ((x * 64 + y) div 16), byte ((x * 4096 + y * 64 + z) div 4)] else Inl corrupt_input)
                 else
                   (case b64_value d of
                      None \<Rightarrow> Inl corrupt_input
                    | Some v \<Rightarrow>
                        let n = x * 262144 + y * 4096 + z * 64 + v
                        in map_sum id ((@) [byte (n div 65536), byte (n div 256), byte n]) (decodeGroups s)))
      | _ \<Rightarrow> Inl corrupt_input)"
| "decodeGroups _ = Inl corrupt_input"

definition line_break :: "char \<Rightarrow> bool" where
  "line_break c \<longleftrightarrow> c = CHR 0x0A \<or> c = CHR 0x0D"

definition DecodeString :: "string \<Rightarrow> goerr + bytes" where
  "DecodeString s = decodeGroups (filter (\<lambda>c. \<not> line_break c) s)"

section \<open>Laws\<close>

lemma of_char_bounds: "0 \<le> (of_char c :: int)" "(of_char c :: int) < 256"
proof -
  have "(of_char c :: int) = int (of_char c)" by (simp only: of_nat_of_char)
  moreover have "(of_char c :: nat) < 256" by (rule nat_of_char_less_256)
  ultimately show "0 \<le> (of_char c :: int)" "(of_char c :: int) < 256" by linarith+
qed

lemma of_char_char_of: "0 \<le> n \<Longrightarrow> n < 256 \<Longrightarrow> of_char (char_of n) = (n :: int)"
  by simp

lemma b64_value_char: "0 \<le> n \<Longrightarrow> n < 64 \<Longrightarrow> b64_value (b64_char n) = Some n"
  unfolding b64_char_def b64_value_def Let_def
  by (cases "n < 26"; cases "n < 52"; cases "n < 62") (auto simp: of_char_char_of)

lemma b64_char_not_pad: "0 \<le> n \<Longrightarrow> n < 64 \<Longrightarrow> b64_char n \<noteq> CHR ''=''"
proof
  have "b64_value (CHR ''='') = None" by (simp add: b64_value_def)
  then show "0 \<le> n \<Longrightarrow> n < 64 \<Longrightarrow> b64_char n = CHR ''='' \<Longrightarrow> False" using b64_value_char [of n] by simp
qed

lemma b64_char_not_break: "0 \<le> n \<Longrightarrow> n < 64 \<Longrightarrow> \<not> line_break (b64_char n)"
proof
  have "b64_value (CHR 0x0A) = None" "b64_value (CHR 0x0D) = None" by (simp_all add: b64_value_def)
  then show "0 \<le> n \<Longrightarrow> n < 64 \<Longrightarrow> line_break (b64_char n) \<Longrightarrow> False" using b64_value_char [of n] by (auto simp: line_break_def)
qed

lemma byte_of_char: "byte (of_char c + k * 256) = c"
  using of_char_bounds [of c] by (simp add: byte_def)

lemma byte_parts:
  "byte ((of_char a * 65536 + of_char b * 256 + of_char c) div 65536) = a"
  "byte ((of_char a * 65536 + of_char b * 256 + of_char c) div 256) = b"
  "byte (of_char a * 65536 + of_char b * 256 + of_char c) = c"
proof -
  note lt = of_char_bounds [of a] of_char_bounds [of b] of_char_bounds [of c]
  let ?n = "of_char a * 65536 + of_char b * 256 + of_char c :: int"
  have "?n = of_char c + (of_char a * 256 + of_char b) * 256" by (simp add: distrib_right)
  moreover have "?n div 65536 = of_char a + 0 * 256" "?n div 256 = of_char b + of_char a * 256" using lt by linarith+
  ultimately show "byte (?n div 65536) = a" "byte (?n div 256) = b" "byte ?n = c" by (simp_all only: byte_of_char)
qed

text \<open>The digits of a group, and of its parts.\<close>

lemma quad_prefixes:
  assumes "0 \<le> n" "n < (16777216 :: int)"
  shows "n div 262144 mod 64 * 64 + n div 4096 mod 64 = n div 4096"
    "n div 262144 mod 64 * 4096 + n div 4096 mod 64 * 64 + n div 64 mod 64 = n div 64"
    "n div 262144 mod 64 * 262144 + n div 4096 mod 64 * 4096 + n div 64 mod 64 * 64 + n mod 64 = n"
proof -
  define x y z v where "x = n div 262144" "y = n div 4096 mod 64" "z = n div 64 mod 64" "v = n mod 64"
  note d = this
  have q: "n div 262144 mod 64 = x" using assms by (simp add: d)
  have "n div 4096 = n div 64 div 64" "n div 262144 = n div 4096 div 64" by (simp_all flip: zdiv_zmult2_eq)
  then have "n div 64 = n div 4096 * 64 + z" "n div 4096 = x * 64 + y" "n = n div 64 * 64 + v" unfolding d by simp_all
  then show "n div 262144 mod 64 * 64 + n div 4096 mod 64 = n div 4096"
    "n div 262144 mod 64 * 4096 + n div 4096 mod 64 * 64 + n div 64 mod 64 = n div 64"
    "n div 262144 mod 64 * 262144 + n div 4096 mod 64 * 4096 + n div 64 mod 64 * 64 + n mod 64 = n"
    unfolding q d(2-4) [symmetric] by linarith+
qed

lemma digit_bounds: "0 \<le> m mod (64 :: int)" "m mod (64 :: int) < 64"
  by simp_all

lemmas digit_simps = b64_value_char [OF digit_bounds] b64_char_not_pad [OF digit_bounds] b64_char_not_break [OF digit_bounds]

lemma decode_quad:
  "0 \<le> n \<Longrightarrow> n < 16777216 \<Longrightarrow> decodeGroups (b64_quad n @ s) =
     map_sum id ((@) [byte (n div 65536), byte (n div 256), byte n]) (decodeGroups s)"
  by (simp only: b64_quad_def append_Cons append_Nil decodeGroups.simps digit_simps option.case prod.case if_False Let_def quad_prefixes)

lemma take_quad:
  "take 2 (b64_quad n) = [b64_char (n div 262144 mod 64), b64_char (n div 4096 mod 64)]"
  "take 3 (b64_quad n) = [b64_char (n div 262144 mod 64), b64_char (n div 4096 mod 64), b64_char (n div 64 mod 64)]"
  by (simp_all add: b64_quad_def)

lemma decode_quad2:
  assumes "0 \<le> n" "n < 16777216"
  shows "decodeGroups (take 2 (b64_quad n) @ ''=='') = Inr [byte (n div 65536)]"
proof -
  have "n div 65536 = n div 4096 div 16" by (simp flip: zdiv_zmult2_eq)
  then show ?thesis
    by (simp only: take_quad append_Cons append_Nil decodeGroups.simps digit_simps option.case prod.case quad_prefixes [OF assms] simp_thms if_True)
qed

lemma decode_quad3:
  assumes "0 \<le> n" "n < 16777216"
  shows "decodeGroups (take 3 (b64_quad n) @ ''='') = Inr [byte (n div 65536), byte (n div 256)]"
proof -
  have "n div 65536 = n div 4096 div 16" "n div 256 = n div 64 div 4" by (simp_all flip: zdiv_zmult2_eq)
  then show ?thesis
    by (simp only: take_quad append_Cons append_Nil decodeGroups.simps digit_simps option.case prod.case quad_prefixes [OF assms]
        simp_thms if_True if_False)
qed

lemma decode_encode: "decodeGroups (EncodeToString s) = Inr s"
proof (induction s rule: EncodeToString.induct)
  case (2 a)
  have "0 \<le> of_char a * (65536 :: int)" "of_char a * 65536 < (16777216 :: int)" using of_char_bounds [of a] by simp_all
  from decode_quad2 [OF this] byte_parts(1) [of a "CHR 0x00" "CHR 0x00"] show ?case by simp
next
  case (3 a b)
  have "0 \<le> of_char a * 65536 + of_char b * (256 :: int)" "of_char a * 65536 + of_char b * 256 < (16777216 :: int)"
    using of_char_bounds [of a] of_char_bounds [of b] by linarith+
  from decode_quad3 [OF this] byte_parts(1,2) [of a b "CHR 0x00"] show ?case by simp
next
  case (4 a b c s)
  have "0 \<le> of_char a * 65536 + of_char b * 256 + (of_char c :: int)" "of_char a * 65536 + of_char b * 256 + of_char c < (16777216 :: int)"
    using of_char_bounds [of a] of_char_bounds [of b] of_char_bounds [of c] by linarith+
  then show ?case by (simp only: EncodeToString.simps decode_quad 4 byte_parts map_sum.simps append_Cons append_Nil)
qed simp

lemma EncodeToString_no_break: "list_all (\<lambda>c. \<not> line_break c) (EncodeToString s)"
  by (induction s rule: EncodeToString.induct)
    (simp_all add: b64_quad_def digit_simps, simp_all add: line_break_def)

text \<open>Line breaks anywhere in the text are skipped.\<close>

lemma DecodeString_encoded: "filter (\<lambda>c. \<not> line_break c) t = EncodeToString s \<Longrightarrow> DecodeString t = Inr s"
  by (simp add: DecodeString_def decode_encode)

lemma DecodeString_EncodeToString: "DecodeString (EncodeToString s) = Inr s"
  using EncodeToString_no_break [of s] by (intro DecodeString_encoded) (simp add: filter_id_conv list_all_iff)

end
