(* ===== verification/Smtp_Parser.thy ===== *)
theory Smtp_Parser
  imports Base64 Sender_Policy
begin

text \<open>
  internal/smtp/parser.go: from the bytes of the DATA command and the envelope to a message. The
  readers of net/mail, mime, mime/multipart and mime/quotedprintable are parameters. A reader is a
  stream: the bytes it yields and the error it then returns, if it is not the end of the input.
  A header is the list of its fields under their canonical names; a part of a multipart body has the
  header and the content \<open>NextPart\<close> gives, and the result of its \<open>FileName\<close>.
\<close>

section \<open>Readers\<close>

type_synonym stream = "bytes \<times> goerr option"

type_synonym mime_header = "(string \<times> string) list"

record mime_part =
  part_Header :: mime_header
  part_FileName :: string
  part_Body :: stream

record parser_libs =
  px_policy :: policy_libs
  mail_ReadMessage :: "stream \<Rightarrow> goerr + mime_header \<times> stream"
  mail_ParseAddressList :: "string \<Rightarrow> string list option"
  mime_ParseMediaType :: "string \<Rightarrow> string \<times> (string \<times> string) list \<times> goerr option"
  multipart_Parts :: "string \<Rightarrow> stream \<Rightarrow> mime_part list \<times> goerr option"
  quotedprintable_Read :: "bytes \<Rightarrow> goerr + bytes"
  mime_DecodeHeader :: "string \<Rightarrow> string option"

text \<open>\<open>Header.Get\<close>, which also reads a parameter of a media type, and \<open>io.ReadAll\<close>.\<close>

definition Get :: "mime_header \<Rightarrow> string \<Rightarrow> string" where
  "Get h k = (case map_of h k of None \<Rightarrow> [] | Some v \<Rightarrow> v)"

definition ReadAll :: "stream \<Rightarrow> goerr + bytes" where
  "ReadAll s = (case snd s of None \<Rightarrow> Inr (fst s) | Some e \<Rightarrow> Inl e)"

section \<open>Fields\<close>

definition decodeTransferEncoding :: "parser_libs \<Rightarrow> string \<Rightarrow> bytes \<Rightarrow> goerr + bytes" where
  "decodeTransferEncoding lib encoding data =
     (let e = to_lower (px_policy lib) (TrimSpace encoding) in
      if e \<in> set ['''', ''7bit'', ''8bit'', ''binary''] then Inr data
      else if e = ''base64'' then
        (let cleaned = filter (\<lambda>c. c \<noteq> CHR 0x0D) (filter (\<lambda>c. c \<noteq> CHR 0x0A) data) in
         case DecodeString cleaned of
           Inl err \<Rightarrow> Inl (Wrapf ''decode base64 mime part: %w'' [] err)
         | Inr decoded \<Rightarrow> Inr decoded)
      else if e = ''quoted-printable'' then
        (case quotedprintable_Read lib data of
           Inl err \<Rightarrow> Inl (Wrapf ''decode quoted-printable mime part: %w'' [] err)
         | Inr decoded \<Rightarrow> Inr decoded)
      else Inr data)"

definition normalizeAddresses :: "string list \<Rightarrow> string list" where
  "normalizeAddresses values = filter (\<lambda>v. v \<noteq> []) (map TrimSpace values)"

definition parseHeaderAddress :: "parser_libs \<Rightarrow> string \<Rightarrow> string" where
  "parseHeaderAddress lib v =
     (let v' = TrimSpace v in
      if v' = [] then []
      else case mail_ParseAddress (px_policy lib) v' of None \<Rightarrow> [] | Some a \<Rightarrow> TrimSpace a)"

definition parseHeaderAddressList :: "parser_libs \<Rightarrow> string \<Rightarrow> string list" where
  "parseHeaderAddressList lib v =
     (let v' = TrimSpace v in
      if v' = [] then []
      else case mail_ParseAddressList lib v' of None \<Rightarrow> [] | Some addrs \<Rightarrow> filter (\<lambda>a. a \<noteq> []) (map TrimSpace addrs))"

definition decodeHeader :: "parser_libs \<Rightarrow> string \<Rightarrow> string" where
  "decodeHeader lib v =
     (let v' = TrimSpace v in
      if v' = [] then [] else case mime_DecodeHeader lib v' of None \<Rightarrow> v' | Some d \<Rightarrow> d)"

section \<open>Bodies\<close>

text \<open>A body text is set, or appended on a new line.\<close>

definition appendBody :: "string \<Rightarrow> string \<Rightarrow> string" where
  "appendBody body decoded = (if body = [] then decoded else body @ CHR 0x0A # decoded)"

definition is_multipart :: "parser_libs \<Rightarrow> string \<Rightarrow> bool" where
  "is_multipart lib mediaType \<longleftrightarrow> prefix ''multipart/'' (to_lower (px_policy lib) mediaType)"

text \<open>The media type and its parameters, with the fallback for a type that does not parse.\<close>

definition mediaTypeOr :: "parser_libs \<Rightarrow> string \<Rightarrow> string \<Rightarrow> string \<times> (string \<times> string) list" where
  "mediaTypeOr lib fallback contentType =
     (case mime_ParseMediaType lib contentType of (t, params, err) \<Rightarrow>
        (if err = None then t else fallback, params))"

text \<open>A part that is not itself multipart: an attachment, a text, or nothing the relay keeps.\<close>

definition parsePart :: "parser_libs \<Rightarrow> mime_part \<Rightarrow> message \<Rightarrow> goerr + message" where
  "parsePart lib part out =
     (let mediaType = fst (mediaTypeOr lib ''application/octet-stream'' (Get (part_Header part) ''Content-Type'')) in
      case ReadAll (part_Body part) of
        Inl e \<Rightarrow> Inl (Wrapf ''read mime part body: %w'' [] e)
      | Inr partBytes \<Rightarrow>
     (case decodeTransferEncoding lib (Get (part_Header part) ''Content-Transfer-Encoding'') partBytes of
        Inl e \<Rightarrow> Inl e
      | Inr decoded \<Rightarrow>
     (case mime_ParseMediaType lib (Get (part_Header part) ''Content-Disposition'') of (disposition, dispositionParams, _) \<Rightarrow>
        let filename = TrimSpace (part_FileName part);
            filename = (if filename = [] then TrimSpace (Get dispositionParams ''filename'') else filename);
            fold = equal_fold (px_policy lib)
        in if fold disposition ''attachment'' \<or> filename \<noteq> [] then
             Inr (out\<lparr>Attachments := Attachments out @
               [\<lparr>Filename = filename, ContentType = (if mediaType = [] then ''application/octet-stream'' else mediaType), Data = decoded\<rparr>]\<rparr>)
           else if fold mediaType ''text/plain'' then Inr (out\<lparr>TextBody := appendBody (TextBody out) decoded\<rparr>)
           else if fold mediaType ''text/html'' then Inr (out\<lparr>HTMLBody := appendBody (HTMLBody out) decoded\<rparr>)
           else Inr out)))"

text \<open>
  The loop over the parts, with the loop over the parts of a nested part inside. The fuel bounds the
  nesting: \<open>None\<close> when it does not suffice.
\<close>

fun parseMultipart_n :: "nat \<Rightarrow> parser_libs \<Rightarrow> mime_part list \<times> goerr option \<Rightarrow> message \<Rightarrow> (goerr + message) option" where
  "parseMultipart_n n lib ([], None) out = Some (Inr out)"
| "parseMultipart_n n lib ([], Some e) out = Some (Inl (Wrapf ''read mime part: %w'' [] e))"
| "parseMultipart_n n lib (part # parts, end) out =
     (case mediaTypeOr lib ''application/octet-stream'' (Get (part_Header part) ''Content-Type'') of (mediaType, params) \<Rightarrow>
      if is_multipart lib mediaType then
        (if Get params ''boundary'' = [] then parseMultipart_n n lib (parts, end) out
         else
           (case n of
              0 \<Rightarrow> None
            | Suc k \<Rightarrow>
                (case parseMultipart_n k lib (multipart_Parts lib (Get params ''boundary'') (part_Body part)) out of
                   Some (Inr out') \<Rightarrow> parseMultipart_n n lib (parts, end) out'
                 | r \<Rightarrow> r)))
      else
        (case parsePart lib part out of
           Inl e \<Rightarrow> Some (Inl e)
         | Inr out' \<Rightarrow> parseMultipart_n n lib (parts, end) out'))"

text \<open>A part is shorter than the body it is in, so the length of the body bounds the nesting.\<close>

definition parseMultipart :: "parser_libs \<Rightarrow> string \<Rightarrow> stream \<Rightarrow> message \<Rightarrow> (goerr + message) option" where
  "parseMultipart lib boundary body out =
     parseMultipart_n (length (fst body)) lib (multipart_Parts lib boundary body) out"

definition parseBody :: "parser_libs \<Rightarrow> mime_header \<Rightarrow> string \<Rightarrow> stream \<Rightarrow> message \<Rightarrow> goerr + message" where
  "parseBody lib h mediaType body result =
     (case ReadAll body of
        Inl e \<Rightarrow> Inl (Wrapf ''read message body: %w'' [] e)
      | Inr bodyBytes \<Rightarrow>
     (case decodeTransferEncoding lib (Get h ''Content-Transfer-Encoding'') bodyBytes of
        Inl e \<Rightarrow> Inl e
      | Inr decodedBody \<Rightarrow>
          if equal_fold (px_policy lib) mediaType ''text/html'' then Inr (result\<lparr>HTMLBody := decodedBody\<rparr>)
          else Inr (result\<lparr>TextBody := decodedBody\<rparr>)))"

definition ParseMessage :: "parser_libs \<Rightarrow> stream \<Rightarrow> string \<Rightarrow> string list \<Rightarrow> (goerr + message) option" where
  "ParseMessage lib r envelopeFrom envelopeTo =
     (case mail_ReadMessage lib r of
        Inl e \<Rightarrow> Some (Inl (Wrapf ''read smtp message: %w'' [] e))
      | Inr (h, body) \<Rightarrow>
          let result = empty_message\<lparr>EnvelopeFrom := TrimSpace envelopeFrom,
                HeaderFrom := parseHeaderAddress lib (Get h ''From''),
                ReplyTo := parseHeaderAddressList lib (Get h ''Reply-To''),
                To := normalizeAddresses envelopeTo,
                Subject := decodeHeader lib (Get h ''Subject'')\<rparr>
          in case mediaTypeOr lib ''text/plain'' (Get h ''Content-Type'') of (mediaType, params) \<Rightarrow>
             if is_multipart lib mediaType then
               (if Get params ''boundary'' = [] then Some (Inl (Errorf ''multipart message missing boundary'' []))
                else parseMultipart lib (Get params ''boundary'') body result)
             else Some (parseBody lib h mediaType body result))"

end
