(* ===== verification/Relay_Handler.thy ===== *)
theory Relay_Handler
  imports Sender_Policy Delivery_Worker
begin

text \<open>
  internal/relay/handler.go: the service that applies the sender policy and durably enqueues the
  message. The buffered channel \<open>inflight\<close> is a counter of the slots taken, next to the world the
  store works on; its capacity is a field of the handler. Logging is not modelled.
\<close>

section \<open>State\<close>

record 's handler_state =
  inflight :: nat
  hs_world :: 's

record 's handler =
  h_policyMode :: string
  h_senderPolicy :: sender_policy
  h_store :: "'s store_api"
  h_maxInflight :: nat

definition onWorld :: "('s, 'a) op \<Rightarrow> ('s handler_state, 'a) op" where
  "onWorld m = (\<lambda>s. case m (hs_world s) of (r, w) \<Rightarrow> (r, s\<lparr>hs_world := w\<rparr>))"

definition NewHandler ::
  "string \<Rightarrow> sender_policy \<Rightarrow> 's store_api option \<Rightarrow> int \<Rightarrow> goerr + 's handler" where
  "NewHandler senderPolicyMode senderPolicy store maxInflight =
     (case store of
        None \<Rightarrow> Inl (Errorf ''spool store is required'' [])
      | Some st \<Rightarrow>
          if maxInflight \<le> 0 then Inl (Errorf ''max inflight must be positive'' [])
          else Inr \<lparr>h_policyMode = senderPolicyMode, h_senderPolicy = senderPolicy, h_store = st,
                    h_maxInflight = nat maxInflight\<rparr>)"

section \<open>Handling a message\<close>

text \<open>The \<open>select\<close> on the channel: a slot is taken, or the handler is busy; and the deferred receive.\<close>

definition acquireSlot :: "'s handler \<Rightarrow> ('s handler_state, unit) op" where
  "acquireSlot h = (\<lambda>s.
     if inflight s < h_maxInflight h then (Inr (), s\<lparr>inflight := inflight s + 1\<rparr>)
     else (Inl (BusyError (int (h_maxInflight h))), s))"

definition releaseSlot :: "('s handler_state, unit) op" where
  "releaseSlot = (\<lambda>s. (Inr (), s\<lparr>inflight := inflight s - 1\<rparr>))"

text \<open>Up to the slot: the context, the policy, whose message replaces the given one, and the slot.\<close>

definition admitMessage ::
  "policy_libs \<Rightarrow> 'z relay_world_scheme handler \<Rightarrow> message \<Rightarrow> ('z relay_world_scheme handler_state, message) op" where
  "admitMessage plib h msg =
     bindE (onWorld ctxErr) (\<lambda>_.
     case ApplySenderPolicy plib msg (h_senderPolicy h) of
       (policyResult, Some e) \<Rightarrow> throwE e
     | (policyResult, None) \<Rightarrow> bindE (acquireSlot h) (\<lambda>_. retE (pr_Message policyResult)))"

definition enqueueAdmitted ::
  "'z relay_world_scheme handler \<Rightarrow> message \<Rightarrow> ('z relay_world_scheme handler_state, unit) op" where
  "enqueueAdmitted h msg =
     deferE
       (tryE (onWorld (api_Enqueue (h_store h) msg)) (\<lambda>r.
          case r of
            Inl e \<Rightarrow>
              bindE (if AsStoreError e \<noteq> None then onWorld IncEnqueueFailures else retE ()) (\<lambda>_. throwE e)
          | Inr _ \<Rightarrow> onWorld IncEnqueued))
       (\<lambda>_. releaseSlot)"

definition HandleMessage ::
  "policy_libs \<Rightarrow> 'z relay_world_scheme handler \<Rightarrow> message \<Rightarrow> ('z relay_world_scheme handler_state, unit) op" where
  "HandleMessage plib h msg = bindE (admitMessage plib h msg) (enqueueAdmitted h)"

section \<open>Concurrent requests\<close>

text \<open>
  Every SMTP connection runs in its own goroutine. A configuration has the messages that are between
  the slot and the end of their enqueue, and the state; between the two halves of a request other
  requests and the rest of the process run. What the rest of the process does to the world is
  arbitrary.
\<close>

inductive handler_step ::
  "policy_libs \<Rightarrow> 'z relay_world_scheme handler \<Rightarrow> message list \<times> 'z relay_world_scheme handler_state \<Rightarrow>
   message list \<times> 'z relay_world_scheme handler_state \<Rightarrow> bool"
  for plib h where
  admit: "admitMessage plib h msg s = (Inr m, s') \<Longrightarrow> handler_step plib h (ms, s) (m # ms, s')"
| refuse: "admitMessage plib h msg s = (Inl e, s') \<Longrightarrow> handler_step plib h (ms, s) (ms, s')"
| finish: "enqueueAdmitted h m s = (r, s') \<Longrightarrow> handler_step plib h (xs @ m # ys, s) (xs @ ys, s')"
| other: "handler_step plib h (ms, s) (ms, s\<lparr>hs_world := w\<rparr>)"

inductive_cases handler_stepE: "handler_step plib h (ms, s) c'"

section \<open>Laws\<close>

lemma onWorld_iff: "onWorld m s = (r, s') \<longleftrightarrow> (\<exists>w. m (hs_world s) = (r, w) \<and> s' = s\<lparr>hs_world := w\<rparr>)"
  by (auto simp: onWorld_def split: prod.splits)

lemma onWorld_inflight [simp]: "inflight (snd (onWorld m s)) = inflight s"
  by (simp add: onWorld_def split: prod.splits)

lemma admitMessage_Inr:
  assumes "admitMessage plib h msg s = (Inr m, s')"
  obtains w res where "ctxErr (hs_world s) = (Inr (), w)" "ApplySenderPolicy plib msg (h_senderPolicy h) = (res, None)"
    "m = pr_Message res" "inflight s < h_maxInflight h" "s' = s\<lparr>hs_world := w, inflight := inflight s + 1\<rparr>"
  using assms
  by (auto simp: admitMessage_def bindE_Inr_iff onWorld_iff acquireSlot_def split: prod.splits option.splits if_splits)

lemma admitMessage_Inl:
  assumes "admitMessage plib h msg s = (Inl e, s')"
  obtains w where "s' = s\<lparr>hs_world := w\<rparr>" "w = snd (ctxErr (hs_world s))"
  using assms
  by (auto simp: admitMessage_def bindE_Inl_iff onWorld_iff acquireSlot_def split: prod.splits option.splits if_splits)

text \<open>Work on the world leaves the slots alone.\<close>

definition slots_kept :: "'s handler_state \<Rightarrow> 's handler_state \<Rightarrow> bool" where
  "slots_kept s s' \<longleftrightarrow> inflight s' = inflight s"

interpretation slots: op_preorder slots_kept
  by unfold_locales (simp_all add: slots_kept_def)

lemma slots_onWorld: "effect_in slots_kept (onWorld m)"
  by (simp add: effect_in_def slots_kept_def)

lemma enqueueAdmitted_inflight: "enqueueAdmitted h m s = (r, s') \<Longrightarrow> inflight s' = inflight s - 1"
proof -
  let ?body = "tryE (onWorld (api_Enqueue (h_store h) m)) (\<lambda>r. case r of
      Inl e \<Rightarrow> bindE (if AsStoreError e \<noteq> None then onWorld IncEnqueueFailures else retE ()) (\<lambda>_. throwE e)
    | Inr _ \<Rightarrow> onWorld IncEnqueued)"
  have kept: "effect_in slots_kept ?body" by (intro slots.effect_intros slots_onWorld)
  assume "enqueueAdmitted h m s = (r, s')"
  then obtain u where u: "?body s = (r, u)" "s' = u\<lparr>inflight := inflight u - 1\<rparr>"
    by (auto simp: enqueueAdmitted_def deferE_iff releaseSlot_def)
  with effect_inD [OF kept u(1)] show ?thesis by (simp add: slots_kept_def)
qed

text \<open>The slots taken are those of the requests in progress, and never more than the capacity.\<close>

lemma handler_step_slots:
  assumes "handler_step plib h (ms, s) (ms', s')" "inflight s = length ms" "length ms \<le> h_maxInflight h"
  shows "inflight s' = length ms' \<and> length ms' \<le> h_maxInflight h"
  using assms(1)
proof cases
  case (admit msg m)
  then show ?thesis using assms(2) by (auto elim: admitMessage_Inr)
next
  case (refuse msg e)
  then show ?thesis using assms(2,3) by (auto elim: admitMessage_Inl)
next
  case (finish m r xs ys)
  then show ?thesis using assms(2,3) enqueueAdmitted_inflight [OF finish(3)] by simp
next
  case (other w)
  then show ?thesis using assms(2,3) by simp
qed

end
