(* ===== verification/Smtp_Session.thy ===== *)
theory Smtp_Session
  imports Smtp_Parser Relay_Handler
begin

text \<open>
  internal/smtp/server.go, the sessions, and internal/smtp/delivery_status.go: who may connect, the
  checks before each command, and the hand-over of a parsed message. The SMTP library, which reads the
  commands and calls these methods, may call them in any order. Parsing an address (net, net/netip) and
  the library's own errors are parameters.
\<close>

section \<open>Addresses\<close>

text \<open>A \<open>netip.Addr\<close>: an IPv4 address, or an IPv6 address with its zone.\<close>

datatype netip_addr = Addr4 "32 word" | Addr6 "128 word" string

record netip_prefix =
  pfx_addr :: netip_addr
  pfx_bits :: int

record net_libs =
  net_SplitHostPort :: "string \<Rightarrow> (string \<times> string) option"
  netip_ParseAddr :: "string \<Rightarrow> goerr + netip_addr"
  ErrAuthUnsupported :: goerr
  ErrAuthUnknownMechanism :: goerr
  ErrServerClosed :: goerr

fun Unmap :: "netip_addr \<Rightarrow> netip_addr" where
  "Unmap (Addr6 a zone) = (if drop_bit 32 a = 0xFFFF then Addr4 (ucast a) else Addr6 a zone)"
| "Unmap (Addr4 a) = Addr4 a"

text \<open>\<open>Prefix.Contains\<close>: of the same family, without a zone, and equal in the leading bits.\<close>

fun Contains :: "netip_prefix \<Rightarrow> netip_addr \<Rightarrow> bool" where
  "Contains p (Addr4 a) =
     (case pfx_addr p of
        Addr4 b \<Rightarrow> 0 \<le> pfx_bits p \<and> pfx_bits p \<le> 32 \<and> drop_bit (32 - nat (pfx_bits p)) (xor a b) = 0
      | Addr6 b z \<Rightarrow> False)"
| "Contains p (Addr6 a zone) =
     (case pfx_addr p of
        Addr4 b \<Rightarrow> False
      | Addr6 b z \<Rightarrow> zone = [] \<and> 0 \<le> pfx_bits p \<and> pfx_bits p \<le> 128 \<and> drop_bit (128 - nat (pfx_bits p)) (xor a b) = 0)"

definition isAddrAllowed :: "netip_addr \<Rightarrow> netip_prefix list \<Rightarrow> bool" where
  "isAddrAllowed addr allowed \<longleftrightarrow> list_ex (\<lambda>p. Contains p addr) allowed"

text \<open>\<open>netip.AddrFromSlice\<close>.\<close>

definition AddrFromSlice :: "8 word list \<Rightarrow> netip_addr option" where
  "AddrFromSlice bs =
     (if length bs = 4 then Some (Addr4 (word_rcat bs))
      else if length bs = 16 then Some (Addr6 (word_rcat bs) []) else None)"

datatype remote_addr =
    TCPAddr "8 word list" string
  | UDPAddr "8 word list" string
  | IPAddr "8 word list" string
  | OtherAddr string

text \<open>A connection: its remote address, if it has one, and whether TLS is active on it.\<close>

record smtp_conn =
  RemoteAddr :: "remote_addr option"
  tls_active :: bool

definition sliceAddr :: "string \<Rightarrow> 8 word list \<Rightarrow> string \<Rightarrow> goerr + netip_addr \<times> string" where
  "sliceAddr kind bs remoteAddr =
     (case AddrFromSlice bs of
        None \<Rightarrow> Inl (Errorf (''invalid '' @ kind @ '' remote ip'') [])
      | Some a \<Rightarrow> Inr (Unmap a, remoteAddr))"

definition remoteAddrIP :: "net_libs \<Rightarrow> smtp_conn option \<Rightarrow> goerr + netip_addr \<times> string" where
  "remoteAddrIP lib c =
     (case Option.bind c RemoteAddr of
        None \<Rightarrow> Inl (Errorf ''missing remote address'' [])
      | Some (TCPAddr bs t) \<Rightarrow> sliceAddr ''tcp'' bs t
      | Some (UDPAddr bs t) \<Rightarrow> sliceAddr ''udp'' bs t
      | Some (IPAddr bs t) \<Rightarrow> sliceAddr ''ip'' bs t
      | Some (OtherAddr remoteAddr) \<Rightarrow>
          let host = (case net_SplitHostPort lib remoteAddr of None \<Rightarrow> remoteAddr | Some (h, _) \<Rightarrow> h);
              host = (if prefix ''['' host then drop 1 host else host);
              host = (if HasSuffix host '']'' then butlast host else host)
          in case netip_ParseAddr lib host of
               Inl e \<Rightarrow> Inl (Wrapf ''parse remote ip: %w'' [] e)
             | Inr a \<Rightarrow> Inr (Unmap a, remoteAddr))"

section \<open>Sessions\<close>

type_synonym 'z relay_state = "'z relay_world_scheme handler_state"

type_synonym 'z messageHandler = "message \<Rightarrow> ('z relay_state, unit) op"

type_synonym authProvider = "string \<Rightarrow> string \<Rightarrow> goerr option"

record staticAuthProvider =
  Username :: string
  Password :: string

definition AuthPlain :: "staticAuthProvider \<Rightarrow> authProvider" where
  "AuthPlain p username password =
     (if username \<noteq> Username p then Some (Errorf ''invalid username or password'' [])
      else if password \<noteq> Password p then Some (Errorf ''invalid username or password'' [])
      else None)"

record 'z sessionPolicy =
  allowedCIDRs :: "netip_prefix list"
  requireAuth :: bool
  requireTLS :: bool
  sp_authProvider :: "authProvider option"
  sp_handler :: "'z messageHandler"
  handlerTimeout :: duration

record 'z session =
  s_conn :: "smtp_conn option"
  s_from :: string
  s_to :: "string list"
  authed :: bool
  s_remoteAddr :: string
  s_policy :: "'z sessionPolicy"

definition accessDenied :: goerr where
  "accessDenied = SMTPError 554 (5, 7, 1) ''access denied''"

definition NewSession :: "net_libs \<Rightarrow> 'z sessionPolicy \<Rightarrow> smtp_conn option \<Rightarrow> ('z relay_state, 'z session) op" where
  "NewSession lib policy c =
     (case remoteAddrIP lib c of
        Inl e \<Rightarrow> bindE (onWorld IncSessionsDenied) (\<lambda>_. throwE accessDenied)
      | Inr (remoteIP, remoteAddr) \<Rightarrow>
          if \<not> isAddrAllowed remoteIP (allowedCIDRs policy)
          then bindE (onWorld IncSessionsDenied) (\<lambda>_. throwE accessDenied)
          else retE \<lparr>s_conn = c, s_from = [], s_to = [], authed = False, s_remoteAddr = remoteAddr, s_policy = policy\<rparr>)"

definition isTLSActive :: "'z session \<Rightarrow> bool" where
  "isTLSActive s = (case s_conn s of None \<Rightarrow> False | Some c \<Rightarrow> tls_active c)"

definition enforceSessionPolicy :: "'z session \<Rightarrow> goerr option" where
  "enforceSessionPolicy s =
     (if requireTLS (s_policy s) \<and> \<not> isTLSActive s then Some (SMTPError 530 (5, 7, 0) ''Must issue STARTTLS first'')
      else if requireAuth (s_policy s) \<and> \<not> authed s then Some (SMTPError 530 (5, 7, 0) ''Authentication required'')
      else None)"

definition AuthMechanisms :: "'z session \<Rightarrow> string list" where
  "AuthMechanisms s = (if \<not> requireAuth (s_policy s) \<or> sp_authProvider (s_policy s) = None then [] else [''PLAIN''])"

text \<open>\<open>Auth\<close> gives the callback that the SASL server runs with the client's credentials.\<close>

definition plainCallback ::
  "authProvider \<Rightarrow> string \<Rightarrow> string \<Rightarrow> 'z session \<Rightarrow> 'z relay_state \<Rightarrow> goerr option \<times> 'z session \<times> 'z relay_state" where
  "plainCallback auth username password s st =
     (case auth username password of
        Some e \<Rightarrow>
          (Some (SMTPError 535 (5, 7, 8) ''authentication failed''), s, snd (onWorld IncAuthFailures st))
      | None \<Rightarrow> (None, s\<lparr>authed := True\<rparr>, st))"

definition Auth :: "net_libs \<Rightarrow> policy_libs \<Rightarrow> 'z session \<Rightarrow> string \<Rightarrow> goerr + authProvider" where
  "Auth lib plib s mech =
     (case sp_authProvider (s_policy s) of
        None \<Rightarrow> Inl (ErrAuthUnsupported lib)
      | Some auth \<Rightarrow>
          if \<not> requireAuth (s_policy s) then Inl (ErrAuthUnsupported lib)
          else if \<not> equal_fold plib mech ''PLAIN'' then Inl (ErrAuthUnknownMechanism lib)
          else Inr auth)"

definition Mail :: "string \<Rightarrow> 'z session \<Rightarrow> goerr option \<times> 'z session" where
  "Mail from s = (case enforceSessionPolicy s of Some e \<Rightarrow> (Some e, s) | None \<Rightarrow> (None, s\<lparr>s_from := from\<rparr>))"

definition Rcpt :: "string \<Rightarrow> 'z session \<Rightarrow> goerr option \<times> 'z session" where
  "Rcpt to s = (case enforceSessionPolicy s of Some e \<Rightarrow> (Some e, s) | None \<Rightarrow> (None, s\<lparr>s_to := s_to s @ [to]\<rparr>))"

text \<open>
  \<open>Data\<close>. The handler's context, with its timeout, is one of the calls the handler makes; a parse that
  does not return is not a success.
\<close>

definition Data_cmd :: "parser_libs \<Rightarrow> 'z session \<Rightarrow> stream \<Rightarrow> ('z relay_state, unit) op" where
  "Data_cmd lib s r =
     (case enforceSessionPolicy s of
        Some e \<Rightarrow> throwE e
      | None \<Rightarrow>
          (case ParseMessage lib r (s_from s) (s_to s) of
             Some (Inr msg) \<Rightarrow>
               mapErr (\<lambda>e. case errors_As is_SMTPError e of Some smtpErr \<Rightarrow> smtpErr | None \<Rightarrow> Wrapf ''handle parsed message: %w'' [] e)
                 (sp_handler (s_policy s) msg)
           | _ \<Rightarrow> throwE (SMTPError 554 (5, 6, 0) ''invalid message content'')))"

definition Reset :: "'z session \<Rightarrow> 'z session" where
  "Reset s = s\<lparr>s_from := [], s_to := []\<rparr>"

definition Logout :: "'z session \<Rightarrow> goerr option" where
  "Logout s = None"

section \<open>Delivery errors as replies\<close>

definition temporaryDeliveryError :: goerr where
  "temporaryDeliveryError = SMTPError 451 (4, 3, 0) ''temporary relay failure''"

definition permanentDeliveryError :: goerr where
  "permanentDeliveryError = SMTPError 554 (5, 0, 0) ''permanent relay failure''"

definition MapDeliveryError :: "goerr option \<Rightarrow> goerr option" where
  "MapDeliveryError err =
     (case err of
        None \<Rightarrow> None
      | Some e \<Rightarrow>
          (case errors_As is_SMTPError e of
             Some smtpErr \<Rightarrow> Some smtpErr
           | None \<Rightarrow>
               (case AsDeliveryError e of
                  None \<Rightarrow> Some temporaryDeliveryError
                | Some d \<Rightarrow> Some (if Temporary d then temporaryDeliveryError else permanentDeliveryError))))"

section \<open>The commands of a session\<close>

text \<open>
  What the SMTP library does with a session, in any order: it calls the methods, and it may turn TLS
  on. A refused AUTH leaves the session as it is. The reply is the error, if any.
\<close>

datatype session_call =
    CallAuth string string string
  | CallMail string
  | CallRcpt string
  | CallData stream
  | CallReset
  | CallStartTLS

record session_libs =
  sl_net :: net_libs
  sl_parser :: parser_libs

fun run_session_call ::
  "session_libs \<Rightarrow> session_call \<Rightarrow> 'z session \<times> 'z relay_state \<Rightarrow> goerr option \<times> 'z session \<times> 'z relay_state" where
  "run_session_call lib (CallAuth mech user pass) (s, st) =
     (case Auth (sl_net lib) (px_policy (sl_parser lib)) s mech of
        Inl e \<Rightarrow> (Some e, s, st)
      | Inr auth \<Rightarrow> plainCallback auth user pass s st)"
| "run_session_call lib (CallMail from) (s, st) = (case Mail from s of (r, s') \<Rightarrow> (r, s', st))"
| "run_session_call lib (CallRcpt to) (s, st) = (case Rcpt to s of (r, s') \<Rightarrow> (r, s', st))"
| "run_session_call lib (CallData r) (s, st) =
     (case Data_cmd (sl_parser lib) s r st of (Inl e, st') \<Rightarrow> (Some e, s, st') | (Inr _, st') \<Rightarrow> (None, s, st'))"
| "run_session_call lib CallReset (s, st) = (None, Reset s, st)"
| "run_session_call lib CallStartTLS (s, st) =
     (None, s\<lparr>s_conn := map_option (\<lambda>c. c\<lparr>tls_active := True\<rparr>) (s_conn s)\<rparr>, st)"

fun run_session ::
  "session_libs \<Rightarrow> session_call list \<Rightarrow> 'z session \<times> 'z relay_state \<Rightarrow> (session_call \<times> goerr option) list \<times> 'z session \<times> 'z relay_state" where
  "run_session lib [] c = ([], c)"
| "run_session lib (x # xs) c =
     (case run_session_call lib x c of (r, c') \<Rightarrow> case run_session lib xs c' of (tr, c'') \<Rightarrow> ((x, r) # tr, c''))"

end
