(* ===== verification/Smtp_Server.thy ===== *)
theory Smtp_Server
  imports Smtp_Session
begin

text \<open>
  internal/smtp/server.go, the server: validating its configuration, and the life of its listeners. The
  goroutines that serve are not steps of the model: which of the channels of a \<open>select\<close> is ready first
  is an argument. \<open>sockets\<close> are the addresses of the open sockets. Closing a socket releases it
  whether or not the call reports an error.
\<close>

section \<open>Configuration\<close>

definition defaultDomain :: string where "defaultDomain = ''smtp-cloud-relay.local''"
definition defaultMaxMessageSize :: int where "defaultMaxMessageSize = 25 * 2 ^ 20"
definition defaultMaxRecipients :: int where "defaultMaxRecipients = 100"
definition defaultReadTimeout :: duration where "defaultReadTimeout = 30 * second"
definition defaultWriteTimeout :: duration where "defaultWriteTimeout = 30 * second"
definition defaultHandlerTimeout :: duration where "defaultHandlerTimeout = 45 * second"

record tls_config =
  MinVersion :: int
  Certificates :: "string list"

record server_config =
  ListenAddr :: string
  SMTPSListenAddr :: string
  Domain :: string
  AllowedCIDRs :: "netip_prefix list"
  RequireAuth :: bool
  RequireTLS :: bool
  StartTLSEnabled :: bool
  TLSConfig :: "tls_config option"
  MaxMessageBytes :: int
  MaxRecipients :: int
  ReadTimeout :: duration
  WriteTimeout :: duration
  HandlerTimeout :: duration

record gosmtp_server =
  srv_Addr :: string
  srv_Domain :: string
  srv_AllowInsecureAuth :: bool
  srv_ReadTimeout :: duration
  srv_WriteTimeout :: duration
  srv_MaxMessageBytes :: int
  srv_MaxRecipients :: int
  srv_TLSConfig :: "tls_config option"

record 'z smtp_server =
  smtpServer :: "gosmtp_server option"
  smtpsServer :: "gosmtp_server option"
  sv_policy :: "'z sessionPolicy"

definition newSMTPListener ::
  "string \<Rightarrow> string \<Rightarrow> bool \<Rightarrow> int \<Rightarrow> int \<Rightarrow> duration \<Rightarrow> duration \<Rightarrow> gosmtp_server" where
  "newSMTPListener addr domain allowInsecureAuth maxMessageBytes maxRecipients readTimeout writeTimeout =
     \<lparr>srv_Addr = addr, srv_Domain = domain, srv_AllowInsecureAuth = allowInsecureAuth, srv_ReadTimeout = readTimeout,
      srv_WriteTimeout = writeTimeout, srv_MaxMessageBytes = maxMessageBytes, srv_MaxRecipients = maxRecipients,
      srv_TLSConfig = None\<rparr>"

definition NewServer ::
  "server_config \<Rightarrow> 'z messageHandler option \<Rightarrow> authProvider option \<Rightarrow> goerr + 'z smtp_server" where
  "NewServer cfg handler auth =
     (let plain = TrimSpace (ListenAddr cfg); tls = TrimSpace (SMTPSListenAddr cfg) in
      case handler of
        None \<Rightarrow> Inl (Errorf ''smtp handler is required'' [])
      | Some h \<Rightarrow>
          if AllowedCIDRs cfg = [] then Inl (Errorf ''at least one allowed CIDR is required'' [])
          else if plain = [] \<and> tls = [] then Inl (Errorf ''at least one SMTP listener address is required'' [])
          else if RequireAuth cfg \<and> auth = None then Inl (Errorf ''auth provider is required when auth is enforced'' [])
          else if (StartTLSEnabled cfg \<or> tls \<noteq> []) \<and> TLSConfig cfg = None
          then Inl (Errorf ''tls config is required when STARTTLS or SMTPS is enabled'' [])
          else
            let domain = (if TrimSpace (Domain cfg) = [] then defaultDomain else TrimSpace (Domain cfg));
                maxMessageBytes = (if MaxMessageBytes cfg \<le> 0 then defaultMaxMessageSize else MaxMessageBytes cfg);
                maxRecipients = (if MaxRecipients cfg \<le> 0 then defaultMaxRecipients else MaxRecipients cfg);
                readTimeout = (if ReadTimeout cfg \<le> 0 then defaultReadTimeout else ReadTimeout cfg);
                writeTimeout = (if WriteTimeout cfg \<le> 0 then defaultWriteTimeout else WriteTimeout cfg);
                timeout = (if HandlerTimeout cfg < 0 then defaultHandlerTimeout else HandlerTimeout cfg);
                policy = \<lparr>allowedCIDRs = AllowedCIDRs cfg, requireAuth = RequireAuth cfg, requireTLS = RequireTLS cfg,
                  sp_authProvider = auth, sp_handler = h, handlerTimeout = timeout\<rparr>
            in Inr \<lparr>smtpServer =
                      (if plain = [] then None
                       else Some ((newSMTPListener (ListenAddr cfg) domain (\<not> RequireTLS cfg) maxMessageBytes maxRecipients readTimeout writeTimeout)
                              \<lparr>srv_TLSConfig := (if StartTLSEnabled cfg then TLSConfig cfg else None)\<rparr>)),
                    smtpsServer =
                      (if tls = [] then None
                       else Some ((newSMTPListener (SMTPSListenAddr cfg) domain False maxMessageBytes maxRecipients readTimeout writeTimeout)
                              \<lparr>srv_TLSConfig := TLSConfig cfg\<rparr>)),
                    sv_policy = policy\<rparr>)"

section \<open>Listeners\<close>

record server_world = env +
  started :: bool
  startDone :: bool
  readyClosed :: bool
  listeners :: "string list"
  sockets :: "string list"

type_synonym ('z, 'a) server_op = "('z server_world_scheme, 'a) op"

definition net_ErrClosed :: goerr where
  "net_ErrClosed = Opaque ''use of closed network connection''"

definition isClosedServerError :: "session_libs \<Rightarrow> goerr \<Rightarrow> bool" where
  "isClosedServerError lib e \<longleftrightarrow>
     errors_Is e net_ErrClosed \<or> errors_Is e (ErrServerClosed (sl_net lib)) \<or>
     sublist ''closed'' (to_lower (px_policy (sl_parser lib)) (err_text e))"

definition net_Listen :: "string \<Rightarrow> ('z, unit) server_op" where
  "net_Listen addr = attemptE (\<lambda>w. (Inr (), w\<lparr>sockets := addr # sockets w\<rparr>))"

definition Listener_Close :: "string \<Rightarrow> ('z, unit) server_op" where
  "Listener_Close addr = (\<lambda>w. attemptE (retE ()) (w\<lparr>sockets := remove1 addr (sockets w)\<rparr>))"

definition beginStart :: "('z, unit) server_op" where
  "beginStart = (\<lambda>w. if started w then (Inl ErrServerAlreadyStarted, w) else (Inr (), w\<lparr>started := True\<rparr>))"

definition markStartDone :: "('z, unit) server_op" where
  "markStartDone = (\<lambda>w. (Inr (), w\<lparr>startDone := True\<rparr>))"

text \<open>\<open>waitForStartDone\<close> returns exactly in these states.\<close>

definition waitForStartDone :: "'z server_world_scheme \<Rightarrow> bool" where
  "waitForStartDone w \<longleftrightarrow> started w \<longrightarrow> startDone w"

definition storeManagedListeners :: "string list \<Rightarrow> ('z, unit) server_op" where
  "storeManagedListeners ls = (\<lambda>w. (Inr (), w\<lparr>listeners := ls\<rparr>))"

text \<open>The first error of a series of closing calls that is not the error of something already closed.\<close>

fun firstError :: "session_libs \<Rightarrow> goerr option \<Rightarrow> ('z, unit) server_op list \<Rightarrow> ('z, goerr option) server_op" where
  "firstError lib acc [] = retE acc"
| "firstError lib acc (m # ms) =
     tryE m (\<lambda>r. firstError lib
       (case r of Inl e \<Rightarrow> if \<not> isClosedServerError lib e \<and> acc = None then Some e else acc | Inr _ \<Rightarrow> acc) ms)"

definition closeManagedListeners :: "session_libs \<Rightarrow> ('z, goerr option) server_op" where
  "closeManagedListeners lib =
     (\<lambda>w. firstError lib None (map Listener_Close (listeners w)) (w\<lparr>listeners := []\<rparr>))"

text \<open>\<open>Close\<close> of the library's server is a call that can fail.\<close>

definition closeServers :: "session_libs \<Rightarrow> 'y smtp_server \<Rightarrow> ('z, goerr option) server_op" where
  "closeServers lib srv =
     firstError lib None
       ((case smtpServer srv of None \<Rightarrow> [] | Some _ \<Rightarrow> [attemptE (retE ())]) @
        (case smtpsServer srv of None \<Rightarrow> [] | Some _ \<Rightarrow> [attemptE (retE ())]))"

datatype wait_event = ServesDone | WaitCanceled goerr

definition Shutdown :: "session_libs \<Rightarrow> 'y smtp_server \<Rightarrow> wait_event \<Rightarrow> ('z, unit) server_op" where
  "Shutdown lib srv waited =
     bindE (closeManagedListeners lib) (\<lambda>e1.
     bindE (closeServers lib srv) (\<lambda>e2.
     let firstErr = (case e1 of Some e \<Rightarrow> Some e | None \<Rightarrow> e2) in
     case firstErr of
       Some e \<Rightarrow> throwE e
     | None \<Rightarrow> (case waited of ServesDone \<Rightarrow> retE () | WaitCanceled e \<Rightarrow> throwE e)))"

definition Close :: "session_libs \<Rightarrow> 'y smtp_server \<Rightarrow> ('z, unit) server_op" where
  "Close lib srv = Shutdown lib srv ServesDone"

text \<open>
  What ends the wait of \<open>Start\<close>: a listener's serving failed with an error that is not about being
  closed, all servings returned, or the context was cancelled.
\<close>

datatype wake_event = ServeFailed string goerr | ServesReturned | ContextDone

definition bindListeners :: "'y smtp_server \<Rightarrow> ('z, string list) server_op" where
  "bindListeners srv =
     bindE (case smtpServer srv of
              None \<Rightarrow> retE []
            | Some s \<Rightarrow> bindE (mapErr (Wrapf ''bind smtp listener %q: %w'' [srv_Addr s]) (net_Listen (srv_Addr s))) (\<lambda>_. retE [srv_Addr s]))
       (\<lambda>ls.
     case smtpsServer srv of
       None \<Rightarrow> retE ls
     | Some s \<Rightarrow>
         tryE (net_Listen (srv_Addr s)) (\<lambda>r.
           case r of
             Inl e \<Rightarrow> bindE (foreachE ls (\<lambda>l. ignoreE (Listener_Close l))) (\<lambda>_. throwE (Wrapf ''bind smtps listener %q: %w'' [srv_Addr s] e))
           | Inr _ \<Rightarrow> retE (ls @ [srv_Addr s])))"

definition Start :: "session_libs \<Rightarrow> 'y smtp_server \<Rightarrow> wake_event \<Rightarrow> ('z, unit) server_op" where
  "Start lib srv wake =
     (if smtpServer srv = None \<and> smtpsServer srv = None then throwE (Errorf ''no smtp listeners configured'' [])
      else
        bindE beginStart (\<lambda>_.
        deferE
          (bindE (bindListeners srv) (\<lambda>ls.
           bindE (storeManagedListeners ls) (\<lambda>_.
           bindE (\<lambda>w. (Inr (), w\<lparr>readyClosed := True\<rparr>)) (\<lambda>_.
           case wake of
             ServeFailed name e \<Rightarrow> bindE (ignoreE (Shutdown lib srv ServesDone)) (\<lambda>_. throwE (Wrapf ''%s serve: %w'' [name] e))
           | ServesReturned \<Rightarrow> retE ()
           | ContextDone \<Rightarrow> ignoreE (Shutdown lib srv ServesDone)))))
          (\<lambda>_. markStartDone)))"

end
