(* ===== verification/Smtp_Server_Laws.thy ===== *)
theory Smtp_Server_Laws
  imports Smtp_Server Sender_Policy_Laws "HOL-Library.Multiset"
begin

text \<open>Laws of the server's life: it starts once, and no socket outlives a start that is over.\<close>

text \<open>Closing the sockets of a list takes them out of the open ones, whatever errors are reported.\<close>

definition kept :: "'z server_world_scheme \<Rightarrow> 'z server_world_scheme \<Rightarrow> bool" where
  "kept w w' \<longleftrightarrow> started w' = started w \<and> readyClosed w' = readyClosed w \<and> listeners w' = listeners w"

lemma Listener_Close_effect:
  "Listener_Close a w = (r, w') \<Longrightarrow> mset (sockets w') = mset (sockets w) - {#a#} \<and> kept w w'"
  by (auto simp: Listener_Close_def kept_def attemptE_def Let_def split: option.splits)

lemma firstError_effect:
  "firstError lib acc (map Listener_Close ls) w = (r, w') \<Longrightarrow>
     \<exists>x. r = Inr x \<and> mset (sockets w') = mset (sockets w) - mset ls \<and> kept w w'"
proof (induction ls arbitrary: acc w)
  case (Cons a ls)
  obtain r1 w1 where a: "Listener_Close a w = (r1, w1)" by fastforce
  with Cons.prems obtain acc' where "firstError lib acc' (map Listener_Close ls) w1 = (r, w')"
    by (auto simp: tryE_def)
  from Cons.IH [OF this] Listener_Close_effect [OF a] show ?case by (auto simp: kept_def)
qed (auto simp: kept_def)

lemma closeServers_effect:
  "closeServers lib srv w = (r, w') \<Longrightarrow> (\<exists>x. r = Inr x) \<and> sockets w' = sockets w \<and> kept w w'"
  by (auto simp: closeServers_def tryE_def kept_def attemptE_def Let_def split: option.splits)

lemma Shutdown_effect:
  assumes "Shutdown lib srv waited w = (r, w')"
  shows "mset (sockets w') = mset (sockets w) - mset (listeners w) \<and> started w' = started w \<and> readyClosed w' = readyClosed w"
proof -
  obtain r1 w1 where 1: "closeManagedListeners lib w = (r1, w1)" by fastforce
  then have e1: "\<exists>x. r1 = Inr x" "mset (sockets w1) = mset (sockets w) - mset (listeners w)"
    "started w1 = started w" "readyClosed w1 = readyClosed w"
    using firstError_effect [of lib None "listeners w" "w\<lparr>listeners := []\<rparr>" r1 w1]
    by (auto simp: closeManagedListeners_def kept_def)
  obtain r2 w2 where 2: "closeServers lib srv w1 = (r2, w2)" by fastforce
  have "w' = w2" using assms 1 2 e1(1) closeServers_effect [OF 2]
    by (auto simp: Shutdown_def bindE_def Let_def split: option.splits wait_event.splits)
  with e1 closeServers_effect [OF 2] show ?thesis by (auto simp: kept_def)
qed

section \<open>Starting\<close>

definition configured :: "'y smtp_server \<Rightarrow> string list" where
  "configured srv = map srv_Addr (List.map_filter id [smtpServer srv, smtpsServer srv])"

lemma net_Listen_effect:
  "net_Listen a w = (r, w') \<Longrightarrow> kept w w' \<and> sockets w' = (case r of Inl e \<Rightarrow> sockets w | Inr _ \<Rightarrow> a # sockets w)"
  by (auto simp: net_Listen_def kept_def attemptE_def Let_def split: option.splits)

lemma close_each_effect:
  "foreachE ls (\<lambda>l. ignoreE (Listener_Close l)) w = (r, w') \<Longrightarrow>
     r = Inr () \<and> mset (sockets w') = mset (sockets w) - mset ls \<and> kept w w'"
proof (induction ls arbitrary: w)
  case (Cons a ls)
  obtain r1 w1 where a: "Listener_Close a w = (r1, w1)" by fastforce
  with Cons.prems have "foreachE ls (\<lambda>l. ignoreE (Listener_Close l)) w1 = (r, w')"
    by (auto simp: bindE_def ignoreE_def)
  from Cons.IH [OF this] Listener_Close_effect [OF a] show ?case by (auto simp: kept_def)
qed (auto simp: kept_def)

lemma bindListeners_effect:
  assumes "bindListeners srv w = (r, w')"
  shows "kept w w' \<and> mset (sockets w') = mset (sockets w) + (case r of Inl e \<Rightarrow> {#} | Inr ls \<Rightarrow> mset ls) \<and>
     (\<forall>ls. r = Inr ls \<longrightarrow> ls = configured srv)"
proof -
  let ?first = "case smtpServer srv of None \<Rightarrow> retE []
     | Some s \<Rightarrow> bindE (mapErr (Wrapf ''bind smtp listener %q: %w'' [srv_Addr s]) (net_Listen (srv_Addr s))) (\<lambda>_. retE [srv_Addr s])"
  from assms consider (fail) e where "?first w = (Inl e, w')" "r = Inl e"
    | (ok) ls u where "?first w = (Inr ls, u)" "(case smtpsServer srv of None \<Rightarrow> retE ls | Some s \<Rightarrow>
         tryE (net_Listen (srv_Addr s)) (\<lambda>r. case r of
             Inl e \<Rightarrow> bindE (foreachE ls (\<lambda>l. ignoreE (Listener_Close l))) (\<lambda>_. throwE (Wrapf ''bind smtps listener %q: %w'' [srv_Addr s] e))
           | Inr _ \<Rightarrow> retE (ls @ [srv_Addr s]))) u = (r, w')"
    unfolding bindListeners_def by (elim bindE_cases) auto
  then show ?thesis
  proof cases
    case fail
    then show ?thesis
      by (auto simp: bindE_Inl_iff mapErr_Inl_iff split: option.splits dest!: net_Listen_effect)
  next
    case ok
    have u: "kept w u" "mset (sockets u) = mset (sockets w) + mset ls" "ls = map srv_Addr (List.map_filter id [smtpServer srv])"
      using ok(1) by (auto simp: bindE_Inr_iff kept_def map_filter_simps split: option.splits dest!: net_Listen_effect)
    show ?thesis
    proof (cases "smtpsServer srv")
      case None
      then show ?thesis using ok(2) u by (auto simp: configured_def map_filter_simps split: option.splits)
    next
      case (Some s)
      obtain r1 v where l: "net_Listen (srv_Addr s) u = (r1, v)" by fastforce
      show ?thesis
      proof (cases r1)
        case (Inl e)
        obtain r2 v2 where c: "foreachE ls (\<lambda>l. ignoreE (Listener_Close l)) v = (r2, v2)" by fastforce
        with ok(2) Some l Inl close_each_effect [OF c] have "w' = v2" "\<exists>e'. r = Inl e'"
          by (auto simp: tryE_def bindE_def)
        with u l Inl net_Listen_effect [OF l] close_each_effect [OF c] show ?thesis by (auto simp: kept_def)
      next
        case (Inr x)
        with ok(2) u Some l net_Listen_effect [OF l] show ?thesis
          by (auto simp: tryE_def configured_def map_filter_simps kept_def split: option.splits)
      qed
    qed
  qed
qed

lemma Start_body:
  assumes "\<not> started w" "configured srv \<noteq> []" "Start lib srv wake w = (r, w')"
  obtains (bind_fails) e u where "bindListeners srv (w\<lparr>started := True\<rparr>) = (Inl e, u)" "r = Inl e" "w' = u\<lparr>startDone := True\<rparr>"
  | (shut) ls u v r1 where "bindListeners srv (w\<lparr>started := True\<rparr>) = (Inr ls, u)" "wake \<noteq> ServesReturned"
      "Shutdown lib srv ServesDone (u\<lparr>listeners := ls, readyClosed := True\<rparr>) = (r1, v)" "w' = v\<lparr>startDone := True\<rparr>"
  | (served) ls u where "bindListeners srv (w\<lparr>started := True\<rparr>) = (Inr ls, u)" "wake = ServesReturned" "r = Inr ()"
      "w' = u\<lparr>listeners := ls, readyClosed := True, startDone := True\<rparr>"
proof -
  have c: "\<not> (smtpServer srv = None \<and> smtpsServer srv = None)"
    using assms(2) by (auto simp: configured_def map_filter_simps split: option.splits)
  let ?w = "w\<lparr>started := True\<rparr>"
  obtain r1 u where b: "bindListeners srv ?w = (r1, u)" by fastforce
  show thesis
  proof (cases r1)
    case (Inl e)
    then show thesis using that(1) [of e u] assms c b
      by (auto simp: Start_def beginStart_def bindE_def deferE_def markStartDone_def)
  next
    case (Inr ls)
    let ?u = "u\<lparr>listeners := ls, readyClosed := True\<rparr>"
    obtain r2 v where s: "Shutdown lib srv ServesDone ?u = (r2, v)" by fastforce
    show thesis
      using that(2) [of ls u r2 v] that(3) [of ls u] assms c b Inr s
      by (cases wake) (auto simp: Start_def beginStart_def bindE_def deferE_def markStartDone_def storeManagedListeners_def ignoreE_def)
  qed
qed

section \<open>Properties\<close>

text \<open>C30: a server instance starts at most once. After a first start, whatever became of it, every further
  start fails at once and changes nothing.\<close>
theorem Start_single_use:
  assumes "configured srv \<noteq> []" "Start lib srv wake w = (r, w')"
  shows "started w' \<and> Start lib srv wake' w' = (Inl ErrServerAlreadyStarted, w')"
proof -
  have c: "\<not> (smtpServer srv = None \<and> smtpsServer srv = None)"
    using assms(1) by (auto simp: configured_def map_filter_simps split: option.splits)
  have s: "started w'"
  proof (cases "started w")
    case True
    then show ?thesis using assms(2) c by (auto simp: Start_def beginStart_def bindE_def)
  next
    case False
    then show ?thesis
      by (rule Start_body [OF _ assms])
        (use bindListeners_effect Shutdown_effect in \<open>fastforce simp: kept_def\<close>)+
  qed
  then show ?thesis using c by (auto simp: Start_def beginStart_def bindE_def)
qed

text \<open>C8: a start that is over leaves no socket open, and readiness means bound listeners. If a listener
  cannot be bound, the start fails, the sockets bound before are closed and the server does not become ready;
  otherwise it becomes ready with exactly the configured listeners bound, and when serving fails or the context
  is cancelled, all of them are closed, whatever errors closing reports.\<close>
theorem Start_releases_sockets:
  assumes "\<not> started w" "configured srv \<noteq> []" "wake \<noteq> ServesReturned" "Start lib srv wake w = (r, w')"
  shows "mset (sockets w') = mset (sockets w) \<and>
    (readyClosed w' \<longleftrightarrow> readyClosed w \<or> fst (bindListeners srv (w\<lparr>started := True\<rparr>)) = Inr (configured srv))"
  using assms(1,2,4)
proof (cases rule: Start_body)
  case (bind_fails e u)
  then show ?thesis using bindListeners_effect [OF bind_fails(1)] by (simp add: kept_def)
next
  case (shut ls u v r1)
  then show ?thesis using bindListeners_effect [OF shut(1)] Shutdown_effect [OF shut(3)] by (simp add: kept_def)
next
  case (served ls u)
  then show ?thesis using assms(3) by simp
qed

section \<open>An example server\<close>

definition example_server :: "unit smtp_server" where
  "example_server =
     \<lparr>smtpServer = Some (newSMTPListener '':2525'' defaultDomain True 1000 10 second second),
      smtpsServer = Some (newSMTPListener '':465'' defaultDomain False 1000 10 second second),
      sv_policy = \<lparr>allowedCIDRs = [], requireAuth = False, requireTLS = False, sp_authProvider = None,
        sp_handler = (\<lambda>m. retE ()), handlerTimeout = 0\<rparr>\<rparr>"

definition example_session_libs :: session_libs where
  "example_session_libs =
     \<lparr>sl_net = \<lparr>net_SplitHostPort = (\<lambda>s. None), netip_ParseAddr = (\<lambda>s. Inr (Addr4 0)), ErrAuthUnsupported = Opaque ''u'',
        ErrAuthUnknownMechanism = Opaque ''m'', ErrServerClosed = Opaque ''c''\<rparr>,
      sl_parser = \<lparr>px_policy = example_policy_libs, mail_ReadMessage = (\<lambda>s. Inr ([], s)), mail_ParseAddressList = (\<lambda>s. Some [s]),
        mime_ParseMediaType = (\<lambda>s. (s, [], None)), multipart_Parts = (\<lambda>b s. ([], None)), quotedprintable_Read = Inr,
        mime_DecodeHeader = Some\<rparr>\<rparr>"

text \<open>A host on which the second listener cannot be bound.\<close>

definition example_host :: server_world where
  "example_host = \<lparr>clock = (\<lambda>n. 0), ticks = 0, fault = (\<lambda>n. if n = 1 then Some (Opaque ''in use'') else None), calls = 0,
     entropy = (\<lambda>n. Inr []), draws = 0, started = False, startDone = False, readyClosed = False, listeners = [], sockets = ['':9090'']\<rparr>"

definition example_start :: "(goerr + unit) \<times> server_world" where
  "example_start = Start example_session_libs example_server ContextDone example_host"

lemma example_server_configured: "configured example_server \<noteq> []"
  by (simp add: example_server_def configured_def map_filter_simps)

theorem Start_single_use_witness:
  "Start example_session_libs example_server ServesReturned (snd example_start) = (Inl ErrServerAlreadyStarted, snd example_start)"
  using Start_single_use [OF example_server_configured, of example_session_libs ContextDone example_host "fst example_start" "snd example_start"]
  by (simp add: example_start_def)

theorem Start_releases_sockets_witness:
  "mset (sockets (snd example_start)) = {#'':9090''#} \<and> \<not> readyClosed (snd example_start)"
proof -
  have f: "fst (bindListeners example_server (example_host\<lparr>started := True\<rparr>)) \<noteq> Inr (configured example_server)" by code_simp
  show ?thesis
    using Start_releases_sockets [OF _ example_server_configured, of example_host ContextDone example_session_libs
        "fst example_start" "snd example_start"] f
    by (simp add: example_start_def) (simp add: example_host_def)
qed

end
