(* ===== verification/Smtp_Parser_Laws.thy ===== *)
theory Smtp_Parser_Laws
  imports Smtp_Parser
begin

text \<open>Laws of the message parser: it ends, keeps the envelope, and reads the leaf parts in order.\<close>

section \<open>Nesting\<close>

text \<open>What mime/multipart guarantees: a part is shorter than the body that encloses it in delimiters.\<close>

definition parts_shrink :: "parser_libs \<Rightarrow> bool" where
  "parts_shrink lib \<longleftrightarrow>
     (\<forall>b s. list_all (\<lambda>p. length (fst (part_Body p)) < length (fst s)) (fst (multipart_Parts lib b s)))"

lemma parts_shrink_nested:
  assumes "parts_shrink lib" "multipart_Parts lib b s = (parts, e)" "length (fst s) \<le> k"
  shows "list_all (\<lambda>p. length (fst (part_Body p)) < k) parts"
proof -
  have "list_all (\<lambda>p. length (fst (part_Body p)) < length (fst s)) parts"
    using assms(1,2) unfolding parts_shrink_def by (metis fst_conv)
  then show ?thesis using assms(3) by (metis (mono_tags, lifting) list.pred_mono_strong order_less_le_trans)
qed

lemma parseMultipart_n_ends:
  assumes shrink: "parts_shrink lib"
  shows "list_all (\<lambda>p. length (fst (part_Body p)) < n) parts \<Longrightarrow> parseMultipart_n n lib (parts, e) out \<noteq> None"
proof (induction n arbitrary: parts e out)
  case 0
  then show ?case by (cases parts; cases e) auto
next
  case (Suc k)
  from Suc.prems show ?case
  proof (induction parts arbitrary: out)
    case Nil
    then show ?case by (cases e) auto
  next
    case (Cons part parts)
    obtain t params where m: "mediaTypeOr lib ''application/octet-stream'' (Get (part_Header part) ''Content-Type'') = (t, params)"
      by fastforce
    obtain nparts ne where nested: "multipart_Parts lib (Get params ''boundary'') (part_Body part) = (nparts, ne)"
      by fastforce
    have "list_all (\<lambda>p. length (fst (part_Body p)) < k) nparts"
      using parts_shrink_nested [OF shrink nested] Cons.prems by simp
    from Suc.IH [OF this, of ne out] obtain r where "parseMultipart_n k lib (nparts, ne) out = Some r" by blast
    then show ?case using Cons by (auto simp: m nested split: sum.splits)
  qed
qed

lemma parseMultipart_ends: "parts_shrink lib \<Longrightarrow> parseMultipart lib b s out \<noteq> None"
  using parseMultipart_n_ends [of lib "length (fst s)" "fst (multipart_Parts lib b s)" "snd (multipart_Parts lib b s)"]
  by (cases s) (simp add: parseMultipart_def parts_shrink_def)

lemma ParseMessage_ends: "parts_shrink lib \<Longrightarrow> \<exists>r. ParseMessage lib s f t = Some r"
  using parseMultipart_ends by (auto simp: ParseMessage_def Let_def split: sum.splits prod.splits)

section \<open>The envelope\<close>

text \<open>The parts of a body add texts and attachments only.\<close>

definition same_envelope :: "message \<Rightarrow> message \<Rightarrow> bool" where
  "same_envelope m m' \<longleftrightarrow> EnvelopeFrom m' = EnvelopeFrom m \<and> HeaderFrom m' = HeaderFrom m \<and> ReplyTo m' = ReplyTo m \<and>
     To m' = To m \<and> Subject m' = Subject m"

lemma parsePart_envelope: "parsePart lib p out = Inr out' \<Longrightarrow> same_envelope out out'"
  by (auto simp: parsePart_def Let_def same_envelope_def split: sum.splits prod.splits if_splits)

lemma parseBody_envelope: "parseBody lib h t b out = Inr out' \<Longrightarrow> same_envelope out out'"
  by (auto simp: parseBody_def Let_def same_envelope_def split: sum.splits prod.splits if_splits)

lemma same_envelope_trans: "same_envelope a b \<Longrightarrow> same_envelope b c \<Longrightarrow> same_envelope a c"
  by (simp add: same_envelope_def)

lemma parseMultipart_n_envelope: "parseMultipart_n n lib ps out = Some (Inr out') \<Longrightarrow> same_envelope out out'"
proof (induction n lib ps out arbitrary: out' rule: parseMultipart_n.induct)
  case (3 n lib part parts e out)
  obtain t params where m: "mediaTypeOr lib ''application/octet-stream'' (Get (part_Header part) ''Content-Type'') = (t, params)"
    by fastforce
  show ?case
  proof (cases "is_multipart lib t")
    case False
    then show ?thesis using 3 m by (auto split: sum.splits) (metis parsePart_envelope same_envelope_trans)
  next
    case True
    then show ?thesis using 3 m by (auto split: sum.splits if_splits nat.splits option.splits) (metis same_envelope_trans)
  qed
qed (simp_all add: same_envelope_def)

lemma ParseMessage_envelope:
  "ParseMessage lib s f t = Some (Inr m) \<Longrightarrow> EnvelopeFrom m = TrimSpace f \<and> To m = normalizeAddresses t"
  by (auto simp: ParseMessage_def parseMultipart_def Let_def split: sum.splits prod.splits if_splits
      dest!: parseMultipart_n_envelope parseBody_envelope simp: same_envelope_def)

section \<open>The parts in order\<close>

text \<open>
  The parts of a body that are not themselves multipart, in document order, up to the first error of
  the reader: the reference the loop is compared with.
\<close>

fun leaves_n :: "nat \<Rightarrow> parser_libs \<Rightarrow> mime_part list \<times> goerr option \<Rightarrow> (mime_part list \<times> goerr option) option" where
  "leaves_n n lib ([], e) = Some ([], e)"
| "leaves_n n lib (part # parts, e) =
     (case mediaTypeOr lib ''application/octet-stream'' (Get (part_Header part) ''Content-Type'') of (mediaType, params) \<Rightarrow>
      if \<not> is_multipart lib mediaType then map_option (apfst ((#) part)) (leaves_n n lib (parts, e))
      else if Get params ''boundary'' = [] then leaves_n n lib (parts, e)
      else
        (case n of
           0 \<Rightarrow> None
         | Suc k \<Rightarrow>
             (case leaves_n k lib (multipart_Parts lib (Get params ''boundary'') (part_Body part)) of
                Some (ls, None) \<Rightarrow> map_option (apfst ((@) ls)) (leaves_n n lib (parts, e))
              | r \<Rightarrow> r)))"

fun parseLeaves :: "parser_libs \<Rightarrow> mime_part list \<times> goerr option \<Rightarrow> message \<Rightarrow> goerr + message" where
  "parseLeaves lib ([], None) out = Inr out"
| "parseLeaves lib ([], Some e) out = Inl (Wrapf ''read mime part: %w'' [] e)"
| "parseLeaves lib (p # ps, e) out = (case parsePart lib p out of Inl e' \<Rightarrow> Inl e' | Inr out' \<Rightarrow> parseLeaves lib (ps, e) out')"

lemma parseLeaves_append:
  "parseLeaves lib (ps @ qs, e) out =
     (case parseLeaves lib (ps, None) out of Inl e' \<Rightarrow> Inl e' | Inr out' \<Rightarrow> parseLeaves lib (qs, e) out')"
  by (induction ps arbitrary: out) (auto split: sum.splits)

lemma parseLeaves_error: "parseLeaves lib (ps, Some e) out \<noteq> Inr out'"
  by (induction ps arbitrary: out) (auto split: sum.splits)

lemma parseMultipart_leaves:
  "leaves_n n lib ps = Some ls \<Longrightarrow> parseMultipart_n n lib ps out = Some (parseLeaves lib ls out)"
proof (induction n lib ps arbitrary: ls out rule: leaves_n.induct)
  case (1 n lib e)
  then show ?case by (cases e) auto
next
  case (2 n lib part parts e)
  obtain t params where m: "mediaTypeOr lib ''application/octet-stream'' (Get (part_Header part) ''Content-Type'') = (t, params)"
    by fastforce
  consider (leaf) "\<not> is_multipart lib t" | (skip) "is_multipart lib t" "Get params ''boundary'' = []"
    | (nested) "is_multipart lib t" "Get params ''boundary'' \<noteq> []" by blast
  then show ?case
  proof cases
    case leaf
    then obtain qs where qs: "leaves_n n lib (parts, e) = Some qs" "ls = apfst ((#) part) qs" using 2(5) m by auto
    show ?thesis using 2(1) [OF m [symmetric] leaf qs(1)] leaf m qs(2)
      by (cases qs) (auto split: sum.splits)
  next
    case skip
    then show ?thesis using 2(2) [OF m [symmetric] _ skip(2)] 2(5) m by auto
  next
    case nested
    then obtain k where k: "n = Suc k" using 2(5) m by (auto split: nat.splits)
    obtain ks ke where ks: "leaves_n k lib (multipart_Parts lib (Get params ''boundary'') (part_Body part)) = Some (ks, ke)"
      using 2(5) m nested k by (auto split: option.splits)
    note inner = 2(3) [OF m [symmetric] _ nested(2) k ks]
    show ?thesis
    proof (cases ke)
      case None
      with 2(5) m nested k ks obtain qs where
        qs: "leaves_n n lib (parts, e) = Some qs" "ls = apfst ((@) ks) qs" by auto
      show ?thesis using 2(4) [OF m [symmetric] _ nested(2) k ks _ None qs(1)] inner m nested k None qs(2)
        by (cases qs) (auto simp: parseLeaves_append split: sum.splits)
    next
      case (Some x)
      then show ?thesis using 2(5) inner m nested k ks
        by (auto simp: parseLeaves_error split: sum.splits)
    qed
  qed
qed

section \<open>Transfer encodings\<close>

lemma filter_breaks: "filter (\<lambda>c. c \<noteq> CHR 0x0D) (filter (\<lambda>c. c \<noteq> CHR 0x0A) s) = filter (\<lambda>c. \<not> line_break c) s"
  by (simp add: line_break_def conj_commute)

lemma decodeTransferEncoding_base64:
  assumes "to_lower (px_policy lib) (TrimSpace enc) = ''base64''" "filter (\<lambda>c. \<not> line_break c) body = EncodeToString data"
  shows "decodeTransferEncoding lib enc body = Inr data"
proof -
  have "filter (\<lambda>x. x \<noteq> CHR 0x0A \<and> x \<noteq> CHR 0x0D) body = EncodeToString data"
    using assms(2) filter_breaks [of body] by simp
  then show ?thesis using assms(1) by (simp add: decodeTransferEncoding_def Let_def DecodeString_EncodeToString)
qed

end
