(* ===== verification/Smtp_Session_Laws.thy ===== *)
theory Smtp_Session_Laws
  imports Smtp_Session Smtp_Parser_Laws
begin

text \<open>
  Laws of the SMTP sessions: the allow list, what a session must have seen before a message is
  accepted, and the envelope of an accepted message. The locale \<open>message_service\<close> is the contract of
  the message handler for the sessions.
\<close>

section \<open>The allow list\<close>

lemma word_xor_zero_iff:
  fixes a b :: "'a::len word"
  shows "xor a b = 0 \<longleftrightarrow> a = b"
  by (auto simp: bit_eq_iff bit_simps)

lemma Contains4: "0 \<le> k \<Longrightarrow> k \<le> 32 \<Longrightarrow>
    Contains \<lparr>pfx_addr = Addr4 b, pfx_bits = k\<rparr> (Addr4 a) \<longleftrightarrow> drop_bit (32 - nat k) a = drop_bit (32 - nat k) b"
  by (simp add: word_xor_zero_iff)

text \<open>An IPv4-mapped address of a dual-stack listener is matched as the IPv4 address it carries.\<close>

lemma ucast_low: "ucast (or (ucast a) (push_bit 32 m) :: 128 word) = (a :: 32 word)"
  by (rule bit_word_eqI) (auto simp: bit_simps)

lemma Unmap_mapped: "Unmap (Addr6 (or (ucast a) (push_bit 32 0xFFFF)) z) = Addr4 a"
proof -
  have "drop_bit 32 (or (ucast a) (push_bit 32 0xFFFF) :: 128 word) = 0xFFFF"
    by (rule bit_word_eqI) (auto simp: bit_simps dest: bit_imp_le_length)
  then show ?thesis by (simp only: Unmap.simps if_True ucast_low simp_thms)
qed

lemma NewSession_Inr:
  assumes "NewSession lib policy c st = (Inr s, st')"
  obtains ip t where "remoteAddrIP lib c = Inr (ip, t)" "isAddrAllowed ip (allowedCIDRs policy)" "st' = st"
    "s = \<lparr>s_conn = c, s_from = [], s_to = [], authed = False, s_remoteAddr = t, s_policy = policy\<rparr>"
  using assms by (auto simp: NewSession_def bindE_Inr_iff split: sum.splits prod.splits if_splits)

section \<open>The calls of a session\<close>

lemma run_session_append:
  "run_session lib (xs @ ys) c =
     (case run_session lib xs c of (tr, c') \<Rightarrow> case run_session lib ys c' of (tr', c'') \<Rightarrow> (tr @ tr', c''))"
  by (induction xs arbitrary: c) (auto split: prod.splits)

lemma call_policy: "run_session_call lib x (s, st) = (r, s', st') \<Longrightarrow> s_policy s' = s_policy s"
  by (cases x) (auto simp: plainCallback_def Mail_def Rcpt_def Reset_def split: sum.splits option.splits prod.splits)

text \<open>What a call can do to the state of authentication and of TLS.\<close>

definition authenticates :: "'z session \<Rightarrow> session_call \<Rightarrow> bool" where
  "authenticates s x \<longleftrightarrow>
     (\<exists>mech u p auth. x = CallAuth mech u p \<and> sp_authProvider (s_policy s) = Some auth \<and> auth u p = None)"

lemma call_authed:
  "run_session_call lib x (s, st) = (r, s', st') \<Longrightarrow> authed s' \<Longrightarrow> authed s \<or> authenticates s x \<and> r = None"
  by (cases x) (auto simp: plainCallback_def Mail_def Rcpt_def Reset_def Auth_def authenticates_def
      split: sum.splits option.splits prod.splits if_splits)

lemma call_tls: "run_session_call lib x (s, st) = (r, s', st') \<Longrightarrow> isTLSActive s' \<Longrightarrow> isTLSActive s \<or> x = CallStartTLS"
  by (cases x) (auto simp: plainCallback_def Mail_def Rcpt_def Reset_def Auth_def isTLSActive_def
      split: sum.splits option.splits prod.splits if_splits)

lemma run_policy: "run_session lib xs (s, st) = (tr, s', st') \<Longrightarrow> s_policy s' = s_policy s"
proof (induction xs arbitrary: s st tr)
  case (Cons x xs)
  obtain r s1 st1 where x: "run_session_call lib x (s, st) = (r, s1, st1)" by (metis prod_cases3)
  obtain tr1 where xs: "run_session lib xs (s1, st1) = (tr1, s', st')" using Cons.prems x by (auto split: prod.splits)
  show ?case using Cons.IH [OF xs] call_policy [OF x] by simp
qed simp

lemma run_authed:
  "run_session lib xs (s, st) = (tr, s', st') \<Longrightarrow> authed s' \<Longrightarrow> authed s \<or> (\<exists>x. (x, None) \<in> set tr \<and> authenticates s x)"
proof (induction xs arbitrary: s st tr)
  case (Cons x xs)
  obtain r s1 st1 where x: "run_session_call lib x (s, st) = (r, s1, st1)" by (metis prod_cases3)
  obtain tr1 where xs: "run_session lib xs (s1, st1) = (tr1, s', st')" "tr = (x, r) # tr1"
    using Cons.prems x by (auto split: prod.splits)
  show ?case using Cons.IH [OF xs(1) Cons.prems(2)] call_authed [OF x] call_policy [OF x] xs(2)
    by (auto simp: authenticates_def)
qed simp

lemma run_tls:
  "run_session lib xs (s, st) = (tr, s', st') \<Longrightarrow> isTLSActive s' \<Longrightarrow> isTLSActive s \<or> CallStartTLS \<in> set xs"
proof (induction xs arbitrary: s st tr)
  case (Cons x xs)
  obtain r s1 st1 where x: "run_session_call lib x (s, st) = (r, s1, st1)" by (metis prod_cases3)
  obtain tr1 where xs: "run_session lib xs (s1, st1) = (tr1, s', st')" using Cons.prems x by (auto split: prod.splits)
  show ?case using Cons.IH [OF xs Cons.prems(2)] call_tls [OF x] by auto
qed simp

section \<open>The envelope\<close>

text \<open>The sender and the recipients of the current transaction, read off the calls and their replies.\<close>

fun envelope :: "string \<times> string list \<Rightarrow> (session_call \<times> goerr option) list \<Rightarrow> string \<times> string list" where
  "envelope e [] = e"
| "envelope (f, t) ((CallMail from, None) # tr) = envelope (from, t) tr"
| "envelope (f, t) ((CallRcpt to, None) # tr) = envelope (f, t @ [to]) tr"
| "envelope e ((CallReset, None) # tr) = envelope ([], []) tr"
| "envelope e (_ # tr) = envelope e tr"

lemma call_envelope:
  "run_session_call lib x (s, st) = (r, s', st') \<Longrightarrow> envelope (s_from s, s_to s) [(x, r)] = (s_from s', s_to s')"
  by (cases x; cases r) (auto simp: plainCallback_def Mail_def Rcpt_def Reset_def Auth_def
      split: sum.splits option.splits prod.splits if_splits)

lemma envelope_Cons: "envelope e (x # tr) = envelope (envelope e [x]) tr"
  by (cases "(e, [x])" rule: envelope.cases) auto

lemma run_envelope:
  "run_session lib xs (s, st) = (tr, s', st') \<Longrightarrow> envelope (s_from s, s_to s) tr = (s_from s', s_to s')"
proof (induction xs arbitrary: s st tr)
  case (Cons x xs)
  obtain r s1 st1 where x: "run_session_call lib x (s, st) = (r, s1, st1)" by (metis prod_cases3)
  obtain tr1 where xs: "run_session lib xs (s1, st1) = (tr1, s', st')" "tr = (x, r) # tr1"
    using Cons.prems x by (auto split: prod.splits)
  show ?case using Cons.IH [OF xs(1)] call_envelope [OF x] xs(2) by (simp add: envelope_Cons [of _ _ tr1])
qed simp

section \<open>The contract of the message handler\<close>

text \<open>When the handler reports success on a state that is ready, it has taken the message.\<close>

locale message_service =
  fixes handler :: "'z messageHandler"
    and ready :: "'z relay_state \<Rightarrow> bool"
    and taken :: "message \<Rightarrow> 'z relay_state \<Rightarrow> 'z relay_state \<Rightarrow> bool"
  assumes handler_takes: "ready st \<Longrightarrow> handler m st = (Inr (), st') \<Longrightarrow> taken m st st'"
begin

lemma data_accepted:
  assumes "sp_handler (s_policy s) = handler" "ready st" "run_session_call lib (CallData r) (s, st) = (None, s', st')"
  shows "\<exists>m. ParseMessage (sl_parser lib) r (s_from s) (s_to s) = Some (Inr m) \<and> taken m st st'"
    "enforceSessionPolicy s = None"
proof -
  show e: "enforceSessionPolicy s = None" using assms(3) by (cases "enforceSessionPolicy s") (simp_all add: Data_cmd_def)
  obtain m where m: "ParseMessage (sl_parser lib) r (s_from s) (s_to s) = Some (Inr m)"
    using assms(3) e by (cases "ParseMessage (sl_parser lib) r (s_from s) (s_to s)") (auto simp: Data_cmd_def split: sum.splits)
  then have "handler m st = (Inr (), st')"
    using assms(1,3) e by (cases "handler m st") (auto simp: Data_cmd_def mapErr_def split: sum.splits)
  with m show "\<exists>m. ParseMessage (sl_parser lib) r (s_from s) (s_to s) = Some (Inr m) \<and> taken m st st'"
    using handler_takes [OF assms(2)] by blast
qed

lemma session_accepted:
  assumes "NewSession (sl_net lib) policy c st0 = (Inr s, st)" "sp_handler policy = handler"
    "run_session lib xs (s, st) = (tr, s1, st1)" "ready st1"
    "run_session_call lib (CallData r) (s1, st1) = (None, s2, st2)"
  shows "\<exists>m. ParseMessage (sl_parser lib) r (fst (envelope ([], []) tr)) (snd (envelope ([], []) tr)) = Some (Inr m) \<and> taken m st1 st2"
    "requireAuth policy \<Longrightarrow> \<exists>x. (x, None) \<in> set tr \<and> authenticates s x"
    "requireTLS policy \<Longrightarrow> isTLSActive s \<or> CallStartTLS \<in> set xs"
proof -
  have s: "s_policy s = policy" "\<not> authed s" "s_from s = []" "s_to s = []"
    by (rule NewSession_Inr [OF assms(1)], simp)+
  have p: "s_policy s1 = policy" using run_policy [OF assms(3)] s(1) by simp
  have h: "sp_handler (s_policy s1) = handler" using p assms(2) by simp
  obtain m where m: "ParseMessage (sl_parser lib) r (s_from s1) (s_to s1) = Some (Inr m)" "taken m st1 st2"
    using data_accepted(1) [OF h assms(4,5)] by blast
  have "envelope ([], []) tr = (s_from s1, s_to s1)" using run_envelope [OF assms(3)] s(3,4) by simp
  then show "\<exists>m. ParseMessage (sl_parser lib) r (fst (envelope ([], []) tr)) (snd (envelope ([], []) tr)) = Some (Inr m) \<and> taken m st1 st2"
    using m by auto
  have e: "enforceSessionPolicy s1 = None" by (rule data_accepted(2) [OF h assms(4,5)])
  show "\<exists>x. (x, None) \<in> set tr \<and> authenticates s x" if "requireAuth policy"
    using e p that run_authed [OF assms(3)] s(2) by (auto simp: enforceSessionPolicy_def split: if_splits)
  show "isTLSActive s \<or> CallStartTLS \<in> set xs" if "requireTLS policy"
    using e p that run_tls [OF assms(3)] by (auto simp: enforceSessionPolicy_def split: if_splits)
qed

end

end
