(* ===== verification/Smtp_Properties.thy ===== *)
theory Smtp_Properties
  imports Smtp_Session_Laws Smtp_Server_Laws Spool_Delivery
begin

text \<open>
  The properties of the message parser and of the allow list: parsing ends and reads the leaf parts in
  document order, and a client is let in by the leading bits of its address.
\<close>

section \<open>Leaves\<close>

lemma leaves_n_ends:
  assumes shrink: "parts_shrink lib"
  shows "list_all (\<lambda>p. length (fst (part_Body p)) < n) parts \<Longrightarrow> leaves_n n lib (parts, e) \<noteq> None"
proof (induction n arbitrary: parts e)
  case 0
  then show ?case by (cases parts) auto
next
  case (Suc k)
  from Suc.prems show ?case
  proof (induction parts)
    case (Cons part parts)
    obtain t params where m: "mediaTypeOr lib ''application/octet-stream'' (Get (part_Header part) ''Content-Type'') = (t, params)"
      by fastforce
    obtain nparts ne where nested: "multipart_Parts lib (Get params ''boundary'') (part_Body part) = (nparts, ne)"
      by fastforce
    have "list_all (\<lambda>p. length (fst (part_Body p)) < k) nparts"
      using parts_shrink_nested [OF shrink nested] Cons.prems by simp
    from Suc.IH [OF this, of ne] obtain ls le where "leaves_n k lib (nparts, ne) = Some (ls, le)" by fastforce
    then show ?case using Cons by (auto simp: m nested split: option.splits)
  qed simp
qed

section \<open>Leading bits\<close>

lemma drop_bit_eq_leading:
  fixes a b :: "32 word"
  assumes "n \<le> 32"
  shows "drop_bit (32 - n) a = drop_bit (32 - n) b \<longleftrightarrow> (\<forall>i<n. bit a (31 - i) = bit b (31 - i))"
proof
  assume eq: "drop_bit (32 - n) a = drop_bit (32 - n) b"
  show "\<forall>i<n. bit a (31 - i) = bit b (31 - i)"
  proof (intro allI impI)
    fix i assume "i < n"
    then have "32 - n + (n - 1 - i) = 31 - i" using assms by simp
    moreover have "bit (drop_bit (32 - n) a) (n - 1 - i) = bit (drop_bit (32 - n) b) (n - 1 - i)" by (simp only: eq)
    ultimately show "bit a (31 - i) = bit b (31 - i)" by (simp add: bit_drop_bit_eq)
  qed
next
  assume eq: "\<forall>i<n. bit a (31 - i) = bit b (31 - i)"
  have high: "bit a k = bit b k" if "32 - n \<le> k" "k < 32" for k
    using eq [rule_format, of "31 - k"] that assms by auto
  have "bit a (32 - n + j) = bit b (32 - n + j)" for j
    using high [of "32 - n + j"] by (cases "32 - n + j < 32") (auto dest: bit_imp_le_length)
  then show "drop_bit (32 - n) a = drop_bit (32 - n) b" by (intro bit_word_eqI) (simp add: bit_drop_bit_eq)
qed

lemma Contains_Addr4:
  "Contains p (Addr4 a) \<longleftrightarrow> (\<exists>b. pfx_addr p = Addr4 b \<and> 0 \<le> pfx_bits p \<and> pfx_bits p \<le> 32 \<and>
     (\<forall>i<nat (pfx_bits p). bit a (31 - i) = bit b (31 - i)))"
proof (cases "pfx_addr p")
  case (Addr4 b)
  then have "p = \<lparr>pfx_addr = Addr4 b, pfx_bits = pfx_bits p\<rparr>" by simp
  then show ?thesis using Contains4 [of "pfx_bits p" b a] drop_bit_eq_leading [of "nat (pfx_bits p)" a b] Addr4 by fastforce
qed simp

text \<open>The IPv4-mapped form of an IPv4 address.\<close>

definition mapped :: "8 word list \<Rightarrow> 8 word list" where
  "mapped bs = replicate 10 0 @ [0xFF, 0xFF] @ bs"

lemma bit_word_rcat:
  "bit (word_rcat ws :: 'b::len word) n \<longleftrightarrow> n < LENGTH('b) \<and> n div 8 < length ws \<and> bit (rev ws ! (n div 8)) (n mod 8)"
  for ws :: "8 word list"
  by (simp add: word_rcat_def bit_word_of_int_iff bit_horner_sum_uint_exp_iff [where 'a = 8, simplified])

lemma word_rcat_mapped:
  assumes "length bs = 4"
  shows "(word_rcat (mapped bs) :: 128 word) = or (ucast (word_rcat bs :: 32 word)) (push_bit 32 0xFFFF)"
proof (rule bit_word_eqI)
  have ones: "bit (0xFF :: 8 word) k \<longleftrightarrow> k < 8" "bit (0xFFFF :: 128 word) k \<longleftrightarrow> k < 16" for k
    using bit_mask_iff [of 8 k, where 'a = "8 word"] bit_mask_iff [of 16 k, where 'a = "128 word"] by (auto simp: mask_numeral mask_eq_exp_minus_1)
  fix n assume n: "n < LENGTH(128)"
  then have l: "bit (word_rcat (mapped bs) :: 128 word) n \<longleftrightarrow> bit ((rev bs @ [0xFF, 0xFF] @ replicate 10 0) ! (n div 8)) (n mod 8)"
    using assms by (auto simp: bit_word_rcat mapped_def)
  have h: "bit (push_bit 32 0xFFFF :: 128 word) n \<longleftrightarrow> 32 \<le> n \<and> n < 48"
    using n by (simp only: bit_push_bit_iff ones) auto
  have r: "bit (or (ucast (word_rcat bs :: 32 word)) (push_bit 32 0xFFFF) :: 128 word) n \<longleftrightarrow>
      n < 32 \<and> bit (rev bs ! (n div 8)) (n mod 8) \<or> 32 \<le> n \<and> n < 48"
    using assms n by (simp only: bit_or_iff h) (auto simp: bit_ucast_iff bit_word_rcat)
  consider "n < 32" | "n div 8 = 4" | "n div 8 = 5" | "48 \<le> n" by linarith
  then show "bit (word_rcat (mapped bs) :: 128 word) n = bit (or (ucast (word_rcat bs :: 32 word)) (push_bit 32 0xFFFF) :: 128 word) n"
    unfolding l r using assms n ones(1) [of "n mod 8"] by cases (auto simp: nth_append nth_Cons')
qed

lemma AddrFromSlice_IPv4:
  assumes "length bs = 4" "bs' \<in> {bs, mapped bs}"
  shows "map_option Unmap (AddrFromSlice bs') = Some (Addr4 (word_rcat bs))"
proof -
  have "length (mapped bs) = 16" using assms(1) by (simp add: mapped_def)
  then have "AddrFromSlice (mapped bs) = Some (Addr6 (word_rcat (mapped bs)) [])" by (simp add: AddrFromSlice_def)
  then have "map_option Unmap (AddrFromSlice (mapped bs)) = Some (Addr4 (word_rcat bs))"
    by (simp only: word_rcat_mapped [OF assms(1)] Unmap_mapped option.map)
  moreover have "map_option Unmap (AddrFromSlice bs) = Some (Addr4 (word_rcat bs))" using assms(1) by (simp add: AddrFromSlice_def)
  ultimately show ?thesis using assms(2) by blast
qed

section \<open>An example reader\<close>

text \<open>
  A reader of a toy format: the first character of a body is the type of its first part, \<open>M\<close> for multipart,
  whose body is the rest; a second part is a full stop.
\<close>

definition nested_libs :: parser_libs where
  "nested_libs = (sl_parser example_session_libs)
     \<lparr>mail_ReadMessage := (\<lambda>s. Inr ([(''Content-Type'', ''M'')], s)),
      mime_ParseMediaType := (\<lambda>s. if s = ''M'' then (''multipart/mixed'', [(''boundary'', ''b'')], None) else (''text/plain'', [], None)),
      multipart_Parts := (\<lambda>b s. (case fst s of
        x # y # r \<Rightarrow> [\<lparr>part_Header = [(''Content-Type'', [x])], part_FileName = [], part_Body = (y # r, None)\<rparr>,
                      \<lparr>part_Header = [], part_FileName = [], part_Body = (''.'', None)\<rparr>]
      | _ \<Rightarrow> [], None))\<rparr>"

lemma nested_shrink: "parts_shrink nested_libs"
  by (simp add: parts_shrink_def nested_libs_def split: list.splits)

definition open_policy :: "unit sessionPolicy" where
  "open_policy =
     \<lparr>allowedCIDRs = [\<lparr>pfx_addr = Addr4 0x0A000000, pfx_bits = 8\<rparr>], requireAuth = False, requireTLS = False,
      sp_authProvider = None, sp_handler = (\<lambda>m. retE ()), handlerTimeout = 0\<rparr>"

section \<open>Properties\<close>

text \<open>C19: parsing a message ends, however deep its parts are nested, and the message it gives has the envelope of the
  SMTP session: the sender and the recipients are never taken from the headers.\<close>
theorem parse_message_ends:
  assumes "parts_shrink lib"
  shows "\<exists>r. ParseMessage lib s f t = Some r \<and>
    (case r of Inl e \<Rightarrow> True | Inr m \<Rightarrow> EnvelopeFrom m = TrimSpace f \<and> To m = normalizeAddresses t)"
  using ParseMessage_ends [OF assms] ParseMessage_envelope [of lib s f t] by (fastforce split: sum.splits)

theorem parse_message_ends_witness:
  "\<exists>m. ParseMessage nested_libs (''MMThello'', None) '' a@x.org'' [''b@y.org'', '' ''] = Some (Inr m) \<and> To m = [''b@y.org'']"
proof -
  have "normalizeAddresses [''b@y.org'', '' ''] = [''b@y.org'']"
    "case ParseMessage nested_libs (''MMThello'', None) '' a@x.org'' [''b@y.org'', '' ''] of Some (Inr m) \<Rightarrow> True | _ \<Rightarrow> False" by code_simp+
  then show ?thesis using parse_message_ends [OF nested_shrink, of "(''MMThello'', None)" "'' a@x.org''" "[''b@y.org'', '' '']"]
    by (auto split: sum.splits)
qed

text \<open>C18: a multipart body is read as its leaves. The recursive reader, with the length of the body as the bound on the
  nesting, gives what one pass over the parts that are not themselves multipart gives, in document order and up to
  the reader's first error.\<close>
theorem parse_reads_leaves:
  assumes "parts_shrink lib"
  shows "\<exists>ls. leaves_n (length (fst body)) lib (multipart_Parts lib b body) = Some ls \<and>
    parseMultipart lib b body out = Some (parseLeaves lib ls out)"
proof -
  obtain parts e where p: "multipart_Parts lib b body = (parts, e)" by fastforce
  then have "leaves_n (length (fst body)) lib (parts, e) \<noteq> None"
    by (intro leaves_n_ends [OF assms] parts_shrink_nested [OF assms p]) simp
  then show ?thesis by (auto simp: p parseMultipart_def parseMultipart_leaves)
qed

theorem parse_reads_leaves_witness:
  "map_option (map_sum id TextBody) (parseMultipart nested_libs ''b'' (''MThi'', None) empty_message) =
     Some (Inr (''hi'' @ [CHR 0x0A] @ ''.'' @ [CHR 0x0A] @ ''.''))"
proof -
  let ?s = "(''MThi'', None) :: stream"
  obtain ls where "leaves_n (length (fst ?s)) nested_libs (multipart_Parts nested_libs ''b'' ?s) = Some ls"
    and "parseMultipart nested_libs ''b'' ?s empty_message = Some (parseLeaves nested_libs ls empty_message)"
    using parse_reads_leaves [OF nested_shrink, of ?s "''b''" empty_message] by blast
  moreover have "map_option (\<lambda>ls. map_sum id TextBody (parseLeaves nested_libs ls empty_message))
      (leaves_n (length (fst ?s)) nested_libs (multipart_Parts nested_libs ''b'' ?s)) =
     Some (Inr (''hi'' @ [CHR 0x0A] @ ''.'' @ [CHR 0x0A] @ ''.''))" by code_simp
  ultimately show ?thesis by simp
qed

text \<open>C14: a client on IPv4 is let in exactly when the leading bits of its address are those of an IPv4 prefix of the
  allow list, also when a dual-stack socket reports the address in its IPv4-mapped form; every other client gets 554.\<close>
theorem allow_list_by_leading_bits:
  assumes "length bs = 4" "RemoteAddr c = Some (TCPAddr bs' t)" "bs' \<in> {bs, mapped bs}"
  shows "if list_ex (\<lambda>p. \<exists>b. pfx_addr p = Addr4 b \<and> 0 \<le> pfx_bits p \<and> pfx_bits p \<le> 32 \<and>
      (\<forall>i<nat (pfx_bits p). bit (word_rcat bs :: 32 word) (31 - i) = bit b (31 - i))) (allowedCIDRs policy)
    then \<exists>s. NewSession lib policy (Some c) st = (Inr s, st) \<and> \<not> authed s
    else \<exists>st'. NewSession lib policy (Some c) st = (Inl (SMTPError 554 (5, 7, 1) ''access denied''), st')"
proof -
  have "remoteAddrIP lib (Some c) = Inr (Addr4 (word_rcat bs), t)"
    using AddrFromSlice_IPv4 [OF assms(1,3)] assms(2) by (auto simp: remoteAddrIP_def sliceAddr_def)
  moreover obtain u where "onWorld IncSessionsDenied st = (Inr (), u)"
    by (simp add: onWorld_def IncSessionsDenied_def with_metrics_def)
  ultimately show ?thesis
    by (simp add: NewSession_def isAddrAllowed_def Contains_Addr4 accessDenied_def bindE_def throwE_def retE_def del: Contains.simps)
qed

theorem allow_list_by_leading_bits_witness:
  "\<exists>s. NewSession (sl_net example_session_libs) open_policy (Some \<lparr>RemoteAddr = Some (TCPAddr (mapped [10, 0, 0, 1]) ''c''), tls_active = False\<rparr>)
     \<lparr>inflight = 0, hs_world = empty_relay\<rparr> = (Inr s, \<lparr>inflight = 0, hs_world = empty_relay\<rparr>) \<and> \<not> authed s"
proof -
  have "Contains \<lparr>pfx_addr = Addr4 0x0A000000, pfx_bits = 8\<rparr> (Addr4 (word_rcat [10, 0, 0, 1 :: 8 word]))" by code_simp
  then have "list_ex (\<lambda>p. \<exists>b. pfx_addr p = Addr4 b \<and> 0 \<le> pfx_bits p \<and> pfx_bits p \<le> 32 \<and>
      (\<forall>i<nat (pfx_bits p). bit (word_rcat [10, 0, 0, 1 :: 8 word] :: 32 word) (31 - i) = bit b (31 - i))) (allowedCIDRs open_policy)"
    by (simp only: Contains_Addr4 [symmetric] open_policy_def sessionPolicy.select_convs list_ex_iff) simp
  then show ?thesis
    using allow_list_by_leading_bits [of "[10, 0, 0, 1]" "\<lparr>RemoteAddr = Some (TCPAddr (mapped [10, 0, 0, 1]) ''c''), tls_active = False\<rparr>"
        "mapped [10, 0, 0, 1]" "''c''" open_policy "sl_net example_session_libs" "\<lparr>inflight = 0, hs_world = empty_relay\<rparr>"] by simp
qed

end
