(* ===== verification/Relay_Handler_Laws.thy ===== *)
theory Relay_Handler_Laws
  imports Relay_Handler Sender_Policy_Laws Spool_Delivery
begin

text \<open>
  What the relay handler promises: the locale \<open>accepting_store\<close> is the contract of the store for its
  clients on the receiving side, interpreted on the durable spool.
\<close>

section \<open>The contract of the store\<close>

text \<open>Nothing that counters, clocks and metrics can tell apart.\<close>

definition same_data :: "'z relay_world_scheme \<Rightarrow> 'z relay_world_scheme \<Rightarrow> bool" where
  "same_data w u \<longleftrightarrow> fs u = fs w \<and> cwd u = cwd w \<and> db u = db w"

interpretation same: op_preorder same_data
  by unfold_locales (simp_all add: same_data_def)

lemma same_ctxErr: "effect_in same_data ctxErr"
  by (simp add: effect_in_def same_data_def ctxErr_def attemptE_def Let_def split: option.splits)

lemma same_with_metrics: "effect_in same_data (with_metrics f)"
  by (simp add: effect_in_def same_data_def with_metrics_def)

lemma same_metrics:
  "effect_in same_data IncSessionsDenied" "effect_in same_data IncAuthFailures"
  "effect_in same_data IncEnqueued" "effect_in same_data IncEnqueueFailures"
  by (simp_all add: IncSessionsDenied_def IncAuthFailures_def IncEnqueued_def IncEnqueueFailures_def same_with_metrics)

locale accepting_store =
  fixes store :: "'z relay_world_scheme store_api"
    and ready :: "'z relay_world_scheme \<Rightarrow> bool"
    and accepted :: "message \<Rightarrow> 'z relay_world_scheme \<Rightarrow> 'z relay_world_scheme \<Rightarrow> bool"
  assumes enqueue_accepts: "ready w \<Longrightarrow> api_Enqueue store m w = (Inr rec, w') \<Longrightarrow> accepted m w w'"
    and ready_same: "same_data w u \<Longrightarrow> ready w \<Longrightarrow> ready u"
    and accepted_same: "same_data w u \<Longrightarrow> accepted m u v \<Longrightarrow> same_data v w' \<Longrightarrow> accepted m w w'"
begin

lemma handler_accepts:
  assumes "h_store h = store" "ready (hs_world s)" "HandleMessage plib h msg s = (Inr (), s')"
  shows "\<exists>res. ApplySenderPolicy plib msg (h_senderPolicy h) = (res, None) \<and>
    accepted (pr_Message res) (hs_world s) (hs_world s')"
proof -
  obtain m s1 where a: "admitMessage plib h msg s = (Inr m, s1)" "enqueueAdmitted h m s1 = (Inr (), s')"
    using assms(3) by (auto simp: HandleMessage_def bindE_Inr_iff)
  obtain w res where w: "ctxErr (hs_world s) = (Inr (), w)" "ApplySenderPolicy plib msg (h_senderPolicy h) = (res, None)"
    "m = pr_Message res" "hs_world s1 = w"
    using admitMessage_Inr [OF a(1)] by (metis handler_state.select_convs(2) handler_state.surjective handler_state.update_convs(1,2))
  obtain rec v w' where e: "api_Enqueue store m w = (Inr rec, v)" "IncEnqueued v = (Inr (), w')" "hs_world s' = w'"
    using a(2) assms(1) w(4)
    by (auto simp: enqueueAdmitted_def deferE_iff tryE_case_iff onWorld_iff releaseSlot_def bindE_Inr_iff)
  have s: "same_data (hs_world s) w" "same_data v w'"
    using effect_inD [OF same_ctxErr w(1)] effect_inD [OF same_metrics(3) e(2)] .
  show ?thesis
    using accepted_same [OF s(1) enqueue_accepts [OF ready_same [OF s(1) assms(2)] e(1)] s(2)] w(2,3) e(3) by auto
qed

end

section \<open>The durable spool keeps the contract\<close>

text \<open>
  Ready: the file tree is well formed and every payload on disk belongs to a row. Accepted: one new
  row, queued, at attempt 0, and the complete payload of the message.
\<close>

definition spool_ready :: "payload_store \<Rightarrow> 'z relay_world_scheme \<Rightarrow> bool" where
  "spool_ready ps w \<longleftrightarrow> wf_node (fs w) \<and>
     (\<forall>rid. rid \<notin> r_id ` set (records (db w)) \<longrightarrow> lookup_path (fs w) (payload_path ps w rid) = None)"

definition spool_accepted ::
  "libs \<Rightarrow> payload_store \<Rightarrow> message \<Rightarrow> 'z relay_world_scheme \<Rightarrow> 'z relay_world_scheme \<Rightarrow> bool" where
  "spool_accepted lib ps msg w w' \<longleftrightarrow>
     (\<exists>rec t. records (db w') = records (db w) @ [row_of rec] \<and> State rec = StateQueued \<and> Attempt rec = 0 \<and>
        Message rec = msg \<and> lookup_path (fs w') (payload_path ps w (ID rec)) = Some t \<and> complete_payload lib msg t)"

lemma payload_path_same: "cwd u = cwd w \<Longrightarrow> payload_path ps u rid = payload_path ps w rid"
  by (simp add: payload_path_def spool_path_def Let_def)

lemma Enqueue_new_id: "Enqueue lib ps msg w = (Inr rec, w') \<Longrightarrow> ID rec \<notin> r_id ` set (records (db w))"
proof (erule Enqueue_Inr)
  fix u v now rid
  assume u: "db u = db w" "Save lib ps rid msg u = (Inr (), v)" "insertRecord rec v = (Inr (), w')"
  have "db v = db w" using effect_inD [OF env_Save u(2)] u(1) env_db by metis
  moreover have "r_id (row_of rec) = ID rec" using insertRecord_Inr(1) [OF u(3)] by (simp add: row_of_def canonical_id_trim)
  ultimately show ?thesis using insertRecord_effect [OF u(3)] by (auto simp: sql_insert_def split: if_splits)
qed

interpretation spooled: accepting_store "spool_api lib ps" "spool_ready ps" "spool_accepted lib ps" for lib ps
proof
  fix w w' m rec
  assume r: "spool_ready ps w" and "api_Enqueue (spool_api lib ps) m w = (Inr rec, w')"
  then have e: "Enqueue lib ps m w = (Inr rec, w')" by (simp add: spool_api_def)
  have "lookup_path (fs w) (payload_path ps w (ID rec)) = None"
    using r Enqueue_new_id [OF e] by (auto simp: spool_ready_def)
  note a = Enqueue_accepted [OF _ e this]
  obtain rid now where "rec = newRecordFor rid m now" by (rule Enqueue_Inr [OF e])
  then show "spool_accepted lib ps m w w'"
    using a r unfolding spool_accepted_def spool_ready_def by (auto simp: newRecordFor_def intro!: exI [of _ rec])
next
  fix w u assume "same_data w u" "spool_ready ps w"
  then show "spool_ready ps u" using payload_path_same [of u w] by (simp add: same_data_def spool_ready_def)
next
  fix w u m v w' assume "same_data w u" "spool_accepted lib ps m u v" "same_data v w'"
  then show "spool_accepted lib ps m w w'"
    using payload_path_same [of u w] by (simp add: same_data_def spool_accepted_def)
qed

end
