(* ===== verification/Relay_Config.thy ===== *)
theory Relay_Config
  imports Smtp_Session
begin

text \<open>
  internal/config/config.go: the configuration, read from the environment and from mounted files, and
  its validation. The environment, the files and the parsing of a network prefix (net/netip) are
  parameters.
\<close>

section \<open>Reading numbers and truth values\<close>

text \<open>\<open>strconv.Atoi\<close>: decimal digits with an optional sign, in the range of a 64-bit integer.\<close>

definition digit :: "char \<Rightarrow> bool" where
  "digit c \<longleftrightarrow> CHR ''0'' \<le> c \<and> c \<le> CHR ''9''"

definition Atoi :: "string \<Rightarrow> goerr + int" where
  "Atoi s =
     (let (neg, ds) = (case s of c # t \<Rightarrow> if c = CHR ''-'' then (True, t) else if c = CHR ''+'' then (False, t) else (False, s) | [] \<Rightarrow> (False, []));
          n = int (nat_of_digits 0 ds); v = (if neg then - n else n)
      in if ds = [] \<or> \<not> list_all digit ds then Inl (Errorf ''strconv.Atoi: parsing %q: invalid syntax'' [s])
         else if v < - (2 ^ 63) \<or> v \<ge> 2 ^ 63 then Inl (Errorf ''strconv.Atoi: parsing %q: value out of range'' [s])
         else Inr v)"

definition ParseBool :: "string \<Rightarrow> goerr + bool" where
  "ParseBool s =
     (if s \<in> set [''1'', ''t'', ''T'', ''true'', ''TRUE'', ''True''] then Inr True
      else if s \<in> set [''0'', ''f'', ''F'', ''false'', ''FALSE'', ''False''] then Inr False
      else Inl (Errorf ''strconv.ParseBool: parsing %q: invalid syntax'' [s]))"

text \<open>\<open>strings.FieldsFunc\<close>: the maximal runs of characters that do not separate.\<close>

function FieldsFunc :: "(char \<Rightarrow> bool) \<Rightarrow> string \<Rightarrow> string list" where
  "FieldsFunc sep [] = []"
| "FieldsFunc sep (c # s) =
     (if sep c then FieldsFunc sep s
      else (c # takeWhile (\<lambda>x. \<not> sep x) s) # FieldsFunc sep (dropWhile (\<lambda>x. \<not> sep x) s))"
  by pat_completeness auto
termination
  by (relation "measure (\<lambda>(sep, s). length s)") (auto simp: length_dropWhile_le le_imp_less_Suc)

section \<open>The environment\<close>

record process_env =
  os_LookupEnv :: "string \<Rightarrow> string option"
  os_ReadFile :: "string \<Rightarrow> goerr + bytes"
  netip_ParsePrefix :: "string \<Rightarrow> goerr + netip_prefix"
  env_policy :: policy_libs

definition bindR :: "'e + 'a \<Rightarrow> ('a \<Rightarrow> 'e + 'b) \<Rightarrow> 'e + 'b" where
  "bindR x f = (case x of Inl e \<Rightarrow> Inl e | Inr a \<Rightarrow> f a)"

definition envOrFile :: "process_env \<Rightarrow> string \<Rightarrow> goerr + string" where
  "envOrFile env key =
     (let fromFile =
        (case os_LookupEnv env (key @ ''_FILE'') of
           None \<Rightarrow> Inr []
         | Some path \<Rightarrow>
             (case os_ReadFile env path of
                Inl e \<Rightarrow> Inl (Wrapf ''read %s from file %q: %w'' [key, path] e)
              | Inr b \<Rightarrow> Inr (TrimSpace b)))
      in case os_LookupEnv env key of
           None \<Rightarrow> fromFile
         | Some v \<Rightarrow> if TrimSpace v \<noteq> [] then Inr (TrimSpace v) else fromFile)"

fun envOrFileCompat :: "process_env \<Rightarrow> string list \<Rightarrow> goerr + string" where
  "envOrFileCompat env [] = Inr []"
| "envOrFileCompat env (key # keys) =
     bindR (envOrFile env key) (\<lambda>v. if v \<noteq> [] then Inr v else envOrFileCompat env keys)"

definition list_separator :: "char \<Rightarrow> bool" where
  "list_separator c \<longleftrightarrow> c \<in> set [CHR '','', CHR 0x0A, CHR 0x0D, CHR 0x09, CHR '' '']"

definition envOrFileList :: "process_env \<Rightarrow> string \<Rightarrow> goerr + string list" where
  "envOrFileList env key =
     bindR (envOrFile env key) (\<lambda>raw.
     Inr (filter (\<lambda>f. f \<noteq> []) (map TrimSpace (FieldsFunc list_separator raw))))"

definition envOrFileInt :: "process_env \<Rightarrow> string \<Rightarrow> int \<Rightarrow> goerr + int" where
  "envOrFileInt env key defaultValue =
     bindR (envOrFile env key) (\<lambda>raw.
     if raw = [] then Inr defaultValue
     else
       (case Atoi raw of
          Inl e \<Rightarrow> Inl (Wrapf ''%s must be an integer: %w'' [key] e)
        | Inr v \<Rightarrow> if v < 1 then Inl (Errorf ''%s must be >= 1'' [key]) else Inr v))"

definition envOrFileBool :: "process_env \<Rightarrow> string \<Rightarrow> bool \<Rightarrow> goerr + bool" where
  "envOrFileBool env key defaultValue =
     bindR (envOrFile env key) (\<lambda>raw.
     if raw = [] then Inr defaultValue
     else (case ParseBool raw of Inl e \<Rightarrow> Inl (Wrapf ''%s must be a boolean: %w'' [key] e) | Inr v \<Rightarrow> Inr v))"

text \<open>A default that a non-empty value replaces, as it is or in lower case.\<close>

definition envOr :: "process_env \<Rightarrow> string \<Rightarrow> string \<Rightarrow> goerr + string" where
  "envOr env key d = bindR (envOrFile env key) (\<lambda>v. Inr (if v \<noteq> [] then v else d))"

definition envLower :: "process_env \<Rightarrow> string \<Rightarrow> string \<Rightarrow> goerr + string" where
  "envLower env key d =
     bindR (envOrFile env key) (\<lambda>v. Inr (if v \<noteq> [] then to_lower (env_policy env) (TrimSpace v) else d))"

section \<open>The configuration\<close>

record config =
  cfg_SMTPListenAddr :: string
  cfg_HTTPListenAddr :: string
  cfg_DeliveryMode :: string
  cfg_SMTPAllowedCIDRs :: "string list"
  cfg_SMTPRequireAuth :: bool
  cfg_SMTPAuthProvider :: string
  cfg_SMTPAuthUsername :: string
  cfg_SMTPAuthPassword :: string
  cfg_SMTPStartTLSEnabled :: bool
  cfg_SMTPRequireTLS :: bool
  cfg_SMTPSListenAddr :: string
  cfg_SMTPTLSCertFile :: string
  cfg_SMTPTLSKeyFile :: string
  cfg_SMTPMaxInflightSends :: int
  cfg_SenderPolicyMode :: string
  cfg_SenderAllowedDomains :: "string list"
  cfg_DeliveryRetryAttempts :: int
  cfg_DeliveryRetryBaseDelayMS :: int
  cfg_DeliveryHTTPTimeoutMS :: int
  cfg_DeliveryHTTPMaxIdleConns :: int
  cfg_DeliveryHTTPMaxIdleConnsPerHost :: int
  cfg_DeliveryHTTPIdleConnTimeoutMS :: int
  cfg_SpoolDir :: string
  cfg_SpoolPollIntervalMS :: int
  cfg_ACSEndpoint :: string
  cfg_ACSConnectionString :: string
  cfg_ACSSender :: string
  cfg_OutboundTLSCAFile :: string
  cfg_OutboundTLSCAPEM :: string
  cfg_SESRegion :: string
  cfg_SESSender :: string
  cfg_SESEndpoint :: string
  cfg_SESConfigurationSet :: string
  cfg_SESAccessKeyID :: string
  cfg_SESSecretAccessKey :: string
  cfg_SESSessionToken :: string

definition defaultSMTPListenAddr :: string where "defaultSMTPListenAddr = ''0.0.0.0:2525''"
definition defaultHTTPListenAddr :: string where "defaultHTTPListenAddr = ''0.0.0.0:8080''"
definition defaultDeliveryRetryAttempts :: int where "defaultDeliveryRetryAttempts = 3"
definition maxDeliveryRetryAttempts :: int where "maxDeliveryRetryAttempts = 10"
definition defaultDeliveryRetryBaseDelayMS :: int where "defaultDeliveryRetryBaseDelayMS = 1000"
definition defaultDeliveryMode :: string where "defaultDeliveryMode = ''acs''"
definition defaultSMTPRequireAuth :: bool where "defaultSMTPRequireAuth = True"
definition defaultSMTPAuthProvider :: string where "defaultSMTPAuthProvider = ''static''"
definition defaultSMTPStartTLSEnabled :: bool where "defaultSMTPStartTLSEnabled = True"
definition defaultSMTPRequireTLS :: bool where "defaultSMTPRequireTLS = False"
definition defaultSMTPMaxInflightSends :: int where "defaultSMTPMaxInflightSends = 200"
definition defaultDeliveryHTTPTimeoutMS :: int where "defaultDeliveryHTTPTimeoutMS = 30000"
definition defaultDeliveryHTTPMaxIdleConns :: int where "defaultDeliveryHTTPMaxIdleConns = 200"
definition defaultDeliveryHTTPMaxIdleConnsPerHost :: int where "defaultDeliveryHTTPMaxIdleConnsPerHost = 50"
definition defaultDeliveryHTTPIdleConnTimeoutMS :: int where "defaultDeliveryHTTPIdleConnTimeoutMS = 90000"
definition defaultSenderPolicyMode :: string where "defaultSenderPolicyMode = ''rewrite''"
definition defaultSpoolDir :: string where "defaultSpoolDir = ''/var/lib/smtp-cloud-relay/spool''"
definition defaultSpoolPollIntervalMS :: int where "defaultSpoolPollIntervalMS = DefaultPollInterval div millisecond"

fun ParseCIDRs_loop :: "process_env \<Rightarrow> string list \<Rightarrow> goerr + netip_prefix list" where
  "ParseCIDRs_loop env [] = Inr []"
| "ParseCIDRs_loop env (raw # values) =
     (if TrimSpace raw = [] then ParseCIDRs_loop env values
      else
        (case netip_ParsePrefix env (TrimSpace raw) of
           Inl e \<Rightarrow> Inl (Wrapf ''invalid CIDR in SMTP_ALLOWED_CIDRS: %q: %w'' [TrimSpace raw] e)
         | Inr pfx \<Rightarrow> bindR (ParseCIDRs_loop env values) (\<lambda>ps. Inr (pfx # ps))))"

definition ParseCIDRs :: "process_env \<Rightarrow> string list \<Rightarrow> goerr + netip_prefix list" where
  "ParseCIDRs env values =
     bindR (ParseCIDRs_loop env values) (\<lambda>out.
     if out = [] then Inl (Errorf ''SMTP_ALLOWED_CIDRS contains no valid entries'' []) else Inr out)"

section \<open>Validation\<close>

text \<open>The checks in their order: the first that fails is reported.\<close>

fun firstFailure :: "(bool \<times> goerr) list \<Rightarrow> goerr option" where
  "firstFailure [] = None"
| "firstFailure ((failed, e) # checks) = (if failed then Some e else firstFailure checks)"

definition blank :: "string \<Rightarrow> bool" where
  "blank s \<longleftrightarrow> TrimSpace s = []"

definition Validate_delivery :: "config \<Rightarrow> (bool \<times> goerr) list" where
  "Validate_delivery c =
     [(cfg_DeliveryMode c \<notin> set [''acs'', ''noop'', ''ses''], Errorf ''DELIVERY_MODE must be one of: acs, noop, ses'' [])] @
     (if cfg_DeliveryMode c = ''acs'' then
        [(blank (cfg_ACSConnectionString c), Errorf ''ACS_CONNECTION_STRING is required when DELIVERY_MODE=acs'' []),
         (blank (cfg_ACSSender c), Errorf ''ACS_SENDER is required when DELIVERY_MODE=acs'' [])]
      else if cfg_DeliveryMode c = ''ses'' then
        (let hasAccess = (\<not> blank (cfg_SESAccessKeyID c)); hasSecret = (\<not> blank (cfg_SESSecretAccessKey c)) in
         [(blank (cfg_SESRegion c), Errorf ''SES_REGION is required when DELIVERY_MODE=ses'' []),
          (blank (cfg_SESSender c), Errorf ''SES_SENDER is required when DELIVERY_MODE=ses'' []),
          (hasAccess \<noteq> hasSecret, Errorf ''SES_ACCESS_KEY_ID and SES_SECRET_ACCESS_KEY must both be set or both be empty'' []),
          (\<not> blank (cfg_SESSessionToken c) \<and> (\<not> hasAccess \<or> \<not> hasSecret),
           Errorf ''SES_SESSION_TOKEN requires SES_ACCESS_KEY_ID and SES_SECRET_ACCESS_KEY'' [])])
      else [])"

definition Validate_smtp :: "process_env \<Rightarrow> config \<Rightarrow> (bool \<times> goerr) list" where
  "Validate_smtp env c =
     (let tlsConfigured = (\<not> blank (cfg_SMTPTLSCertFile c) \<and> \<not> blank (cfg_SMTPTLSKeyFile c)) in
      [(cfg_SMTPAllowedCIDRs c = [], Errorf ''SMTP_ALLOWED_CIDRS must be configured to avoid open relay'' [])] @
      (case ParseCIDRs env (cfg_SMTPAllowedCIDRs c) of Inl e \<Rightarrow> [(True, e)] | Inr _ \<Rightarrow> []) @
      [(\<not> cfg_SMTPRequireAuth c, Errorf ''SMTP_REQUIRE_AUTH must be true to avoid open relay'' []),
       (TrimSpace (cfg_SMTPAuthProvider c) \<noteq> ''static'', Errorf ''SMTP_AUTH_PROVIDER %q is not supported; expected static'' [cfg_SMTPAuthProvider c]),
       (blank (cfg_SMTPAuthUsername c), Errorf ''SMTP_AUTH_USERNAME is required when SMTP_REQUIRE_AUTH=true'' []),
       (blank (cfg_SMTPAuthPassword c), Errorf ''SMTP_AUTH_PASSWORD is required when SMTP_REQUIRE_AUTH=true'' []),
       ((cfg_SMTPStartTLSEnabled c \<or> \<not> blank (cfg_SMTPSListenAddr c)) \<and> \<not> tlsConfigured,
        Errorf ''SMTP_TLS_CERT_FILE and SMTP_TLS_KEY_FILE are required when STARTTLS or SMTPS is enabled'' []),
       (cfg_SMTPRequireTLS c \<and> \<not> cfg_SMTPStartTLSEnabled c \<and> blank (cfg_SMTPSListenAddr c),
        Errorf ''SMTP_REQUIRE_TLS=true requires SMTP_STARTTLS_ENABLED=true or SMTPS_LISTEN_ADDR to be set'' []),
       (cfg_SMTPMaxInflightSends c < 1, Errorf ''SMTP_MAX_INFLIGHT_SENDS must be >= 1'' []),
       (TrimSpace (cfg_SenderPolicyMode c) \<notin> set [''rewrite'', ''strict''], Errorf ''SENDER_POLICY_MODE must be one of: rewrite, strict'' [])])"

definition Validate_limits :: "config \<Rightarrow> (bool \<times> goerr) list" where
  "Validate_limits c =
     [(cfg_DeliveryRetryAttempts c < 1, Errorf ''DELIVERY_RETRY_ATTEMPTS must be >= 1'' []),
      (cfg_DeliveryRetryAttempts c > maxDeliveryRetryAttempts, Errorf ''DELIVERY_RETRY_ATTEMPTS must be <= %d'' [show_int maxDeliveryRetryAttempts]),
      (cfg_DeliveryRetryBaseDelayMS c < 1, Errorf ''DELIVERY_RETRY_BASE_DELAY_MS must be >= 1'' []),
      (cfg_DeliveryHTTPTimeoutMS c < 1, Errorf ''DELIVERY_HTTP_TIMEOUT_MS must be >= 1'' []),
      (cfg_DeliveryHTTPMaxIdleConns c < 1, Errorf ''DELIVERY_HTTP_MAX_IDLE_CONNS must be >= 1'' []),
      (cfg_DeliveryHTTPMaxIdleConnsPerHost c < 1, Errorf ''DELIVERY_HTTP_MAX_IDLE_CONNS_PER_HOST must be >= 1'' []),
      (cfg_DeliveryHTTPIdleConnTimeoutMS c < 1, Errorf ''DELIVERY_HTTP_IDLE_CONN_TIMEOUT_MS must be >= 1'' []),
      (blank (cfg_SpoolDir c), Errorf ''SPOOL_DIR must be non-empty'' []),
      (cfg_SpoolPollIntervalMS c < 1, Errorf ''SPOOL_POLL_INTERVAL_MS must be >= 1'' [])]"

definition Validate :: "process_env \<Rightarrow> config \<Rightarrow> goerr option" where
  "Validate env c = firstFailure (Validate_delivery c @ Validate_smtp env c @ Validate_limits c)"

section \<open>Loading\<close>

text \<open>The variables in the order they are read: the first that cannot be read is reported.\<close>

definition Load_values :: "process_env \<Rightarrow> goerr + config" where
  "Load_values env =
     bindR (envOr env ''SMTP_LISTEN_ADDR'' defaultSMTPListenAddr) (\<lambda>v1.
     bindR (envOr env ''HTTP_LISTEN_ADDR'' defaultHTTPListenAddr) (\<lambda>v2.
     bindR (envLower env ''DELIVERY_MODE'' defaultDeliveryMode) (\<lambda>v3.
     bindR (envOrFileList env ''SMTP_ALLOWED_CIDRS'') (\<lambda>v4.
     bindR (envOrFileBool env ''SMTP_REQUIRE_AUTH'' defaultSMTPRequireAuth) (\<lambda>v5.
     bindR (envLower env ''SMTP_AUTH_PROVIDER'' defaultSMTPAuthProvider) (\<lambda>v6.
     bindR (envOrFile env ''SMTP_AUTH_USERNAME'') (\<lambda>v7.
     bindR (envOrFile env ''SMTP_AUTH_PASSWORD'') (\<lambda>v8.
     bindR (envOrFileBool env ''SMTP_STARTTLS_ENABLED'' defaultSMTPStartTLSEnabled) (\<lambda>v9.
     bindR (envOrFileBool env ''SMTP_REQUIRE_TLS'' defaultSMTPRequireTLS) (\<lambda>v10.
     bindR (envOrFile env ''SMTPS_LISTEN_ADDR'') (\<lambda>v11.
     bindR (envOrFile env ''SMTP_TLS_CERT_FILE'') (\<lambda>v12.
     bindR (envOrFile env ''SMTP_TLS_KEY_FILE'') (\<lambda>v13.
     bindR (envOrFileInt env ''SMTP_MAX_INFLIGHT_SENDS'' defaultSMTPMaxInflightSends) (\<lambda>v14.
     bindR (envLower env ''SENDER_POLICY_MODE'' defaultSenderPolicyMode) (\<lambda>v15.
     bindR (envOrFileList env ''SENDER_ALLOWED_DOMAINS'') (\<lambda>v16.
     bindR (envOrFileInt env ''DELIVERY_RETRY_ATTEMPTS'' defaultDeliveryRetryAttempts) (\<lambda>v17.
     bindR (envOrFileInt env ''DELIVERY_RETRY_BASE_DELAY_MS'' defaultDeliveryRetryBaseDelayMS) (\<lambda>v18.
     bindR (envOrFileInt env ''DELIVERY_HTTP_TIMEOUT_MS'' defaultDeliveryHTTPTimeoutMS) (\<lambda>v19.
     bindR (envOrFileInt env ''DELIVERY_HTTP_MAX_IDLE_CONNS'' defaultDeliveryHTTPMaxIdleConns) (\<lambda>v20.
     bindR (envOrFileInt env ''DELIVERY_HTTP_MAX_IDLE_CONNS_PER_HOST'' defaultDeliveryHTTPMaxIdleConnsPerHost) (\<lambda>v21.
     bindR (envOrFileInt env ''DELIVERY_HTTP_IDLE_CONN_TIMEOUT_MS'' defaultDeliveryHTTPIdleConnTimeoutMS) (\<lambda>v22.
     bindR (envOr env ''SPOOL_DIR'' defaultSpoolDir) (\<lambda>v23.
     bindR (envOrFileInt env ''SPOOL_POLL_INTERVAL_MS'' defaultSpoolPollIntervalMS) (\<lambda>v24.
     bindR (envOrFile env ''ACS_ENDPOINT'') (\<lambda>v25.
     bindR (envOrFile env ''ACS_CONNECTION_STRING'') (\<lambda>v26.
     bindR (envOrFile env ''ACS_SENDER'') (\<lambda>v27.
     bindR (envOrFileCompat env [''OUTBOUND_TLS_CA_FILE'', ''ACS_TLS_CA_FILE'']) (\<lambda>v28.
     bindR (envOrFileCompat env [''OUTBOUND_TLS_CA_PEM'', ''ACS_TLS_CA_PEM'']) (\<lambda>v29.
     bindR (envOrFile env ''SES_REGION'') (\<lambda>v30.
     bindR (envOrFile env ''SES_SENDER'') (\<lambda>v31.
     bindR (envOrFile env ''SES_ENDPOINT'') (\<lambda>v32.
     bindR (envOrFile env ''SES_CONFIGURATION_SET'') (\<lambda>v33.
     bindR (envOrFile env ''SES_ACCESS_KEY_ID'') (\<lambda>v34.
     bindR (envOrFile env ''SES_SECRET_ACCESS_KEY'') (\<lambda>v35.
     bindR (envOrFile env ''SES_SESSION_TOKEN'') (\<lambda>v36.
     Inr \<lparr>cfg_SMTPListenAddr = v1, cfg_HTTPListenAddr = v2, cfg_DeliveryMode = v3,
        cfg_SMTPAllowedCIDRs = v4, cfg_SMTPRequireAuth = v5, cfg_SMTPAuthProvider = v6, cfg_SMTPAuthUsername = v7,
        cfg_SMTPAuthPassword = v8, cfg_SMTPStartTLSEnabled = v9, cfg_SMTPRequireTLS = v10,
        cfg_SMTPSListenAddr = v11, cfg_SMTPTLSCertFile = v12, cfg_SMTPTLSKeyFile = v13,
        cfg_SMTPMaxInflightSends = v14, cfg_SenderPolicyMode = v15, cfg_SenderAllowedDomains = v16,
        cfg_DeliveryRetryAttempts = v17, cfg_DeliveryRetryBaseDelayMS = v18, cfg_DeliveryHTTPTimeoutMS = v19,
        cfg_DeliveryHTTPMaxIdleConns = v20, cfg_DeliveryHTTPMaxIdleConnsPerHost = v21,
        cfg_DeliveryHTTPIdleConnTimeoutMS = v22, cfg_SpoolDir = v23, cfg_SpoolPollIntervalMS = v24,
        cfg_ACSEndpoint = v25, cfg_ACSConnectionString = v26, cfg_ACSSender = v27, cfg_OutboundTLSCAFile = v28,
        cfg_OutboundTLSCAPEM = v29, cfg_SESRegion = v30, cfg_SESSender = v31, cfg_SESEndpoint = v32,
        cfg_SESConfigurationSet = v33, cfg_SESAccessKeyID = v34, cfg_SESSecretAccessKey = v35,
        cfg_SESSessionToken = v36\<rparr>))))))))))))))))))))))))))))))))))))"

definition Load :: "process_env \<Rightarrow> goerr + config" where
  "Load env =
     bindR (Load_values env) (\<lambda>cfg. case Validate env cfg of Some e \<Rightarrow> Inl e | None \<Rightarrow> Inr cfg)"

end
