(* ===== verification/Http_Client.thy ===== *)
theory Http_Client
  imports Base64 Sender_Policy Relay_Config
begin

text \<open>
  internal/providers/httpclient/builder.go, and what the providers use of net/http and net/url: requests,
  responses and targets. The network is an oracle of the world: the n-th request sent gets the n-th
  answer, an error or a response, and the requests sent are kept.
\<close>

section \<open>Building a client\<close>

record http_config =
  hc_Timeout :: duration
  hc_MaxIdleConns :: int
  hc_MaxIdleConnsPerHost :: int
  hc_IdleConnTimeout :: duration
  hc_TLSCAFile :: string
  hc_TLSCAPEM :: string

text \<open>A client: its limits, and the certificates added to the system's roots, if any.\<close>

record http_client =
  client_Timeout :: duration
  client_MaxIdleConns :: int
  client_MaxIdleConnsPerHost :: int
  client_IdleConnTimeout :: duration
  client_RootCAs :: "bytes list"

text \<open>
  Reading a file, whether a text holds certificates (crypto/x509), and whether the default transport
  of net/http is the one it documents.
\<close>

record http_libs =
  hl_ReadFile :: "string \<Rightarrow> goerr + bytes"
  x509_AppendCertsFromPEM :: "bytes \<Rightarrow> bool"
  default_transport :: bool

definition validatePEM :: "http_libs \<Rightarrow> bytes \<Rightarrow> goerr + bytes" where
  "validatePEM lib raw =
     (let raw = TrimSpace raw in
      if raw = [] then Inl (Errorf ''tls ca pem cannot be empty'' [])
      else if \<not> x509_AppendCertsFromPEM lib raw then Inl (Errorf ''tls ca pem does not contain valid certificates'' [])
      else Inr raw)"

definition collectExtraPEMs :: "http_libs \<Rightarrow> string \<Rightarrow> string \<Rightarrow> goerr + bytes list" where
  "collectExtraPEMs lib filePath inlinePEM =
     (let filePath = TrimSpace filePath; inlinePEM = TrimSpace inlinePEM in
      bindR (if filePath = [] then Inr []
             else
               (case hl_ReadFile lib filePath of
                  Inl e \<Rightarrow> Inl (Wrapf ''read tls ca file %q: %w'' [filePath] e)
                | Inr b \<Rightarrow> bindR (validatePEM lib b) (\<lambda>p. Inr [p]))) (\<lambda>out.
      if inlinePEM = [] then Inr out else bindR (validatePEM lib inlinePEM) (\<lambda>p. Inr (out @ [p]))))"

definition httpclient_Build :: "http_libs \<Rightarrow> http_config \<Rightarrow> goerr + http_client" where
  "httpclient_Build lib cfg =
     (if hc_Timeout cfg \<le> 0 then Inl (Errorf ''http timeout must be > 0'' [])
      else if hc_MaxIdleConns cfg \<le> 0 then Inl (Errorf ''http max idle conns must be > 0'' [])
      else if hc_MaxIdleConnsPerHost cfg \<le> 0 then Inl (Errorf ''http max idle conns per host must be > 0'' [])
      else if hc_IdleConnTimeout cfg \<le> 0 then Inl (Errorf ''http idle conn timeout must be > 0'' [])
      else if \<not> default_transport lib then Inl (Errorf ''default transport is not *http.Transport'' [])
      else
        bindR (collectExtraPEMs lib (hc_TLSCAFile cfg) (hc_TLSCAPEM cfg)) (\<lambda>extraPEMs.
        if \<not> list_all (x509_AppendCertsFromPEM lib) extraPEMs then Inl (Errorf ''failed to append tls ca certificates'' [])
        else
          Inr \<lparr>client_Timeout = hc_Timeout cfg, client_MaxIdleConns = hc_MaxIdleConns cfg,
               client_MaxIdleConnsPerHost = hc_MaxIdleConnsPerHost cfg, client_IdleConnTimeout = hc_IdleConnTimeout cfg,
               client_RootCAs = extraPEMs\<rparr>))"

section \<open>Requests and responses\<close>

record http_request =
  req_Method :: string
  req_URL :: string
  req_Header :: mime_header
  req_Body :: bytes

record http_response =
  StatusCode :: int
  resp_Header :: mime_header
  resp_Body :: stream

record net_world = relay_world +
  sent :: "http_request list"
  answers :: "nat \<Rightarrow> goerr + http_response"

type_synonym ('z, 'a) net_op = "('z net_world_scheme, 'a) op"

definition http_Do :: "http_request \<Rightarrow> ('z, http_response) net_op" where
  "http_Do req = (\<lambda>w. (answers w (length (sent w)), w\<lparr>sent := sent w @ [req]\<rparr>))"

text \<open>\<open>io.ReadAll\<close> of \<open>io.LimitReader\<close>: an error after the limit is not seen.\<close>

definition ReadLimited :: "int \<Rightarrow> stream \<Rightarrow> goerr + bytes" where
  "ReadLimited n s = (if n \<le> int (length (fst s)) then Inr (take (nat n) (fst s)) else ReadAll s)"

section \<open>Targets\<close>

record go_url =
  Scheme :: string
  Host :: string
  Path :: string
  RawQuery :: string

record url_libs =
  url_Parse :: "string \<Rightarrow> goerr + go_url"
  url_String :: "go_url \<Rightarrow> string"
  url_RequestURI :: "go_url \<Rightarrow> string"
  url_SetQuery :: "string \<Rightarrow> string \<Rightarrow> string \<Rightarrow> string"
  url_PathEscape :: "string \<Rightarrow> string"

text \<open>\<open>strings.TrimRight\<close> with one character, and \<open>retryBackoff\<close>'s doubling, which both providers have.\<close>

definition TrimRight :: "char \<Rightarrow> string \<Rightarrow> string" where
  "TrimRight c s = rev (dropWhile (\<lambda>x. x = c) (rev s))"

fun doubled :: "nat \<Rightarrow> duration \<Rightarrow> duration" where
  "doubled 0 backoff = backoff"
| "doubled (Suc n) backoff = (if backoff > maxDuration div 2 then maxDuration else doubled n (backoff * 2))"

text \<open>The loop is the exact product, cut off at the largest duration.\<close>

lemma doubled_saturates: "0 < b \<Longrightarrow> b \<le> maxDuration \<Longrightarrow> doubled n b = min maxDuration (b * 2 ^ n)"
proof (induction n arbitrary: b)
  case (Suc n)
  show ?case
  proof (cases "b > maxDuration div 2")
    case True
    then have "maxDuration < b * 2" by (simp add: maxDuration_def)
    moreover have "b * 2 * 1 \<le> b * 2 * 2 ^ n" using Suc.prems by (intro mult_left_mono) simp_all
    ultimately show ?thesis using True by (simp add: min_def)
  next
    case False
    then have "b * 2 \<le> maxDuration" by (simp add: maxDuration_def)
    then show ?thesis using Suc False by (simp add: mult.assoc)
  qed
qed simp

end
