(* ===== verification/Acs_Provider.thy ===== *)
theory Acs_Provider
  imports Http_Client Noop_Provider
begin

text \<open>
  internal/providers/acs/provider.go: the provider that submits to Azure Communication Services and polls
  its operations. JSON, SHA-256, HMAC, the HTTP date format, url parsing and the validity of a request are
  parameters; the network is the oracle of \<open>net_world\<close>.
\<close>

section \<open>Requests and responses\<close>

record acs_content =
  c_Subject :: string
  PlainText :: string
  HTML :: string

record attachmentDTO =
  Name :: string
  dto_ContentType :: string
  ContentInBase64 :: string

record sendRequest =
  SenderAddress :: string
  Recipients :: "string list"
  Content :: acs_content
  sr_ReplyTo :: "string list"
  Headers :: "(string \<rightharpoonup> string) option"
  sr_Attachments :: "attachmentDTO list"

record operationErrorDTO =
  err_Code :: string
  err_Message :: string

record operationResponseDTO =
  op_ID :: string
  op_Status :: string
  op_Error :: "operationErrorDTO option"

record acs_libs =
  al_url :: url_libs
  al_http :: http_libs
  al_policy :: policy_libs
  acs_Marshal :: "sendRequest \<Rightarrow> goerr + bytes"
  acs_Unmarshal :: "bytes \<Rightarrow> goerr + operationResponseDTO"
  acs_Sum256 :: "bytes \<Rightarrow> bytes"
  hmac_SHA256 :: "bytes \<Rightarrow> bytes \<Rightarrow> bytes"
  http_FormatTime :: "gotime \<Rightarrow> string"
  http_ParseTime :: "string \<Rightarrow> gotime option"
  http_NewRequest :: "string \<Rightarrow> string \<Rightarrow> goerr option"

definition emailSendPath :: string where "emailSendPath = ''/emails:send''"
definition emailOperationPathPrefix :: string where "emailOperationPathPrefix = ''/emails/operations/''"
definition emailSendAPIVersion :: string where "emailSendAPIVersion = ''2023-03-31''"
definition defaultRetryAttempts :: int where "defaultRetryAttempts = 3"
definition maxRetryAttempts :: int where "maxRetryAttempts = 10"
definition defaultRetryBaseDelay :: duration where "defaultRetryBaseDelay = 1 * second"
definition maxResponseBodyBytes :: int where "maxResponseBodyBytes = 8192"

section \<open>Errors\<close>

definition clampAttempt :: "int \<Rightarrow> int" where
  "clampAttempt v = (if v < 1 then 1 else v)"

definition isRetryableStatus :: "int \<Rightarrow> bool" where
  "isRetryableStatus statusCode \<longleftrightarrow> statusCode = 429 \<or> statusCode \<ge> 500"

definition permanentSendError :: "string \<Rightarrow> int \<Rightarrow> int \<Rightarrow> goerr \<Rightarrow> goerr" where
  "permanentSendError requestID attempt attempts e =
     SendError ''acs'' requestID (clampAttempt attempt) (clampAttempt attempts) 0 False (Some e)"

definition temporarySendError :: "string \<Rightarrow> int \<Rightarrow> int \<Rightarrow> int \<Rightarrow> goerr \<Rightarrow> goerr" where
  "temporarySendError requestID attempt attempts statusCode e =
     SendError ''acs'' requestID (clampAttempt attempt) (clampAttempt attempts) statusCode True (Some e)"

definition statusSendError :: "string \<Rightarrow> int \<Rightarrow> int \<Rightarrow> int \<Rightarrow> goerr" where
  "statusSendError requestID attempt attempts statusCode =
     SendError ''acs'' requestID (clampAttempt attempt) (clampAttempt attempts) statusCode (isRetryableStatus statusCode) None"

section \<open>The provider\<close>

record transport_config =
  tc_Timeout :: duration
  tc_MaxIdleConns :: int
  tc_MaxIdleConnsPerHost :: int
  tc_IdleConnTimeout :: duration

record acs_provider =
  endpoint :: go_url
  accessKey :: bytes
  acs_sender :: string
  httpClient :: "http_client option"
  hasHTTPClient :: bool
  retryAttempts :: int
  retryBaseDelay :: duration
  extraCAPEMs :: "bytes list"
  transportConfig :: transport_config
  hasTransportConfig :: bool

datatype acs_option =
    WithRetry int duration
  | WithHTTPClient "http_client option"
  | WithHTTPTransportConfig transport_config
  | WithTLSCAFile string
  | WithTLSCAPEM string

definition appendExtraCAPEM :: "http_libs \<Rightarrow> acs_provider \<Rightarrow> bytes \<Rightarrow> goerr + acs_provider" where
  "appendExtraCAPEM lib p pemBytes =
     (let pemBytes = TrimSpace pemBytes in
      if pemBytes = [] then Inl (Errorf ''tls ca pem cannot be empty'' [])
      else if \<not> x509_AppendCertsFromPEM lib pemBytes then Inl (Errorf ''tls ca pem does not contain valid certificates'' [])
      else Inr (p\<lparr>extraCAPEMs := extraCAPEMs p @ [pemBytes]\<rparr>))"

fun applyOption :: "http_libs \<Rightarrow> acs_option \<Rightarrow> acs_provider \<Rightarrow> goerr + acs_provider" where
  "applyOption lib (WithRetry attempts baseDelay) p =
     (if attempts < 1 then Inl (Errorf ''retry attempts must be >= 1'' [])
      else if attempts > maxRetryAttempts then Inl (Errorf ''retry attempts must be <= %d'' [show_int maxRetryAttempts])
      else if baseDelay \<le> 0 then Inl (Errorf ''retry base delay must be > 0'' [])
      else Inr (p\<lparr>retryAttempts := attempts, retryBaseDelay := baseDelay\<rparr>))"
| "applyOption lib (WithHTTPClient client) p =
     (if client = None then Inl (Errorf ''http client cannot be nil'' [])
      else Inr (p\<lparr>httpClient := client, hasHTTPClient := True\<rparr>))"
| "applyOption lib (WithHTTPTransportConfig cfg) p =
     (if tc_Timeout cfg \<le> 0 then Inl (Errorf ''http timeout must be > 0'' [])
      else if tc_MaxIdleConns cfg \<le> 0 then Inl (Errorf ''http max idle conns must be > 0'' [])
      else if tc_MaxIdleConnsPerHost cfg \<le> 0 then Inl (Errorf ''http max idle conns per host must be > 0'' [])
      else if tc_IdleConnTimeout cfg \<le> 0 then Inl (Errorf ''http idle conn timeout must be > 0'' [])
      else Inr (p\<lparr>transportConfig := cfg, hasTransportConfig := True\<rparr>))"
| "applyOption lib (WithTLSCAFile path) p =
     (if TrimSpace path = [] then Inl (Errorf ''tls ca file path cannot be empty'' [])
      else
        (case hl_ReadFile lib (TrimSpace path) of
           Inl e \<Rightarrow> Inl (Wrapf ''read tls ca file %q: %w'' [TrimSpace path] e)
         | Inr b \<Rightarrow> appendExtraCAPEM lib p b))"
| "applyOption lib (WithTLSCAPEM pem) p =
     (if TrimSpace pem = [] then Inl (Errorf ''tls ca pem cannot be empty'' [])
      else appendExtraCAPEM lib p (TrimSpace pem))"

fun applyOptions :: "http_libs \<Rightarrow> acs_option list \<Rightarrow> acs_provider \<Rightarrow> goerr + acs_provider" where
  "applyOptions lib [] p = Inr p"
| "applyOptions lib (opt # opts) p =
     (case applyOption lib opt p of
        Inl e \<Rightarrow> Inl (permanentSendError [] 1 1 (Wrapf ''apply provider option: %w'' [] e))
      | Inr p' \<Rightarrow> applyOptions lib opts p')"

text \<open>The connection string: \<open>key=value\<close> parts between semicolons, a later key replacing an earlier one.\<close>

fun parseParts :: "policy_libs \<Rightarrow> string list \<Rightarrow> (string \<rightharpoonup> string) \<Rightarrow> goerr + (string \<rightharpoonup> string)" where
  "parseParts lib [] result = Inr result"
| "parseParts lib (part0 # parts) result =
     (let part = TrimSpace part0 in
      if part = [] then parseParts lib parts result
      else if CHR ''='' \<notin> set part then Inl (Errorf ''invalid ACS_CONNECTION_STRING part %q'' [part])
      else
        let key = to_lower lib (TrimSpace (takeWhile (\<lambda>c. c \<noteq> CHR ''='') part));
            val = TrimSpace (tl (dropWhile (\<lambda>c. c \<noteq> CHR ''='') part))
        in if key = [] \<or> val = [] then Inl (Errorf ''invalid ACS_CONNECTION_STRING part %q'' [part])
           else parseParts lib parts (result(key \<mapsto> val)))"

definition parseConnectionString :: "policy_libs \<Rightarrow> string \<Rightarrow> goerr + (string \<rightharpoonup> string)" where
  "parseConnectionString lib raw =
     bindR (parseParts lib (Split (CHR '';'') raw) Map.empty) (\<lambda>result.
     if list_all (\<lambda>p. TrimSpace p = []) (Split (CHR '';'') raw) then Inl (Errorf ''ACS_CONNECTION_STRING is empty'' [])
     else Inr result)"

definition lookup_part :: "(string \<rightharpoonup> string) \<Rightarrow> string \<Rightarrow> string" where
  "lookup_part m k = (case m k of None \<Rightarrow> [] | Some v \<Rightarrow> v)"

definition parseConnection :: "acs_libs \<Rightarrow> string \<Rightarrow> string \<Rightarrow> goerr + go_url \<times> bytes" where
  "parseConnection lib endp connectionString =
     bindR (parseConnectionString (al_policy lib) connectionString) (\<lambda>parts.
     let resolvedEndpoint = (if TrimSpace endp = [] then lookup_part parts ''endpoint'' else TrimSpace endp) in
     if resolvedEndpoint = [] then Inl (Errorf ''acs endpoint is required (ACS_ENDPOINT or endpoint= in ACS_CONNECTION_STRING)'' [])
     else
       (case url_Parse (al_url lib) (TrimRight (CHR ''/'') resolvedEndpoint) of
          Inl e \<Rightarrow> Inl (Wrapf ''parse acs endpoint: %w'' [] e)
        | Inr u \<Rightarrow>
            if Scheme u = [] \<or> Host u = [] then Inl (Errorf ''invalid acs endpoint %q'' [resolvedEndpoint])
            else if \<not> equal_fold (al_policy lib) (Scheme u) ''https'' then Inl (Errorf ''acs endpoint must use https scheme'' [])
            else if lookup_part parts ''accesskey'' = [] then Inl (Errorf ''ACS_CONNECTION_STRING missing accesskey'' [])
            else
              (case DecodeString (lookup_part parts ''accesskey'') of
                 Inl e \<Rightarrow> Inl (Wrapf ''decode accesskey from ACS_CONNECTION_STRING: %w'' [] e)
               | Inr key \<Rightarrow> Inr (u, key))))"

definition acs_buildHTTPClient :: "http_libs \<Rightarrow> acs_provider \<Rightarrow> goerr + http_client" where
  "acs_buildHTTPClient lib p =
     httpclient_Build lib
       \<lparr>hc_Timeout = tc_Timeout (transportConfig p), hc_MaxIdleConns = tc_MaxIdleConns (transportConfig p),
        hc_MaxIdleConnsPerHost = tc_MaxIdleConnsPerHost (transportConfig p), hc_IdleConnTimeout = tc_IdleConnTimeout (transportConfig p),
        hc_TLSCAFile = [], hc_TLSCAPEM = Join (extraCAPEMs p) [CHR 0x0A]\<rparr>"

definition acs_NewProvider ::
  "acs_libs \<Rightarrow> string \<Rightarrow> string \<Rightarrow> string \<Rightarrow> acs_option list \<Rightarrow> goerr + acs_provider" where
  "acs_NewProvider lib endp connectionString sender opts =
     (case parseConnection lib endp connectionString of
        Inl e \<Rightarrow> Inl (permanentSendError [] 1 1 e)
      | Inr (parsedEndpoint, key) \<Rightarrow>
          if TrimSpace sender = [] then Inl (permanentSendError [] 1 1 (Errorf ''acs sender cannot be empty'' []))
          else
            bindR (applyOptions (al_http lib) opts
              \<lparr>endpoint = parsedEndpoint, accessKey = key, acs_sender = TrimSpace sender, httpClient = None, hasHTTPClient = False,
               retryAttempts = defaultRetryAttempts, retryBaseDelay = defaultRetryBaseDelay, extraCAPEMs = [],
               transportConfig = \<lparr>tc_Timeout = 30 * second, tc_MaxIdleConns = 100, tc_MaxIdleConnsPerHost = 10, tc_IdleConnTimeout = 90 * second\<rparr>,
               hasTransportConfig = False\<rparr>) (\<lambda>p.
            if hasHTTPClient p \<and> extraCAPEMs p \<noteq> []
            then Inl (permanentSendError [] 1 1 (Errorf ''cannot combine WithHTTPClient with TLS CA options'' []))
            else if hasHTTPClient p \<and> hasTransportConfig p
            then Inl (permanentSendError [] 1 1 (Errorf ''cannot combine WithHTTPClient with WithHTTPTransportConfig'' []))
            else if hasHTTPClient p then Inr p
            else
              (case acs_buildHTTPClient (al_http lib) p of
                 Inl e \<Rightarrow> Inl (permanentSendError [] 1 1 e)
               | Inr client \<Rightarrow> Inr (p\<lparr>httpClient := Some client\<rparr>))))"

section \<open>Building the request\<close>

definition parseable :: "policy_libs \<Rightarrow> string \<Rightarrow> string option" where
  "parseable lib raw =
     (if TrimSpace raw = [] then None
      else
        (case mail_ParseAddress lib (TrimSpace raw) of
           None \<Rightarrow> None
         | Some a \<Rightarrow> if TrimSpace a = [] then None else Some a))"

definition normalizeReplyToRecipients :: "policy_libs \<Rightarrow> string list \<Rightarrow> string list" where
  "normalizeReplyToRecipients lib addresses = List.map_filter (parseable lib) addresses"

definition attachmentName :: "nat \<Rightarrow> attachment \<Rightarrow> string" where
  "attachmentName i a =
     (if TrimSpace (Filename a) = [] then Sprintf ''attachment-%d'' [show_nat (i + 1)] else TrimSpace (Filename a))"

definition attachmentType :: "attachment \<Rightarrow> string" where
  "attachmentType a = (if TrimSpace (ContentType a) = [] then ''application/octet-stream'' else TrimSpace (ContentType a))"

definition attachmentDTOs :: "attachment list \<Rightarrow> attachmentDTO list" where
  "attachmentDTOs as =
     map (\<lambda>(i, a). \<lparr>Name = attachmentName i a, dto_ContentType = attachmentType a, ContentInBase64 = EncodeToString (Data a)\<rparr>)
       (enumerate 0 as)"

definition buildSendRequest :: "policy_libs \<Rightarrow> string \<Rightarrow> message \<Rightarrow> goerr + sendRequest" where
  "buildSendRequest lib sender msg =
     (let toRecipients = filter (\<lambda>t. t \<noteq> []) (map TrimSpace (To msg)) in
      if To msg = [] then Inl (Errorf ''message has no recipients'' [])
      else if toRecipients = [] then Inl (Errorf ''message has no valid recipients'' [])
      else
        Inr \<lparr>SenderAddress = sender, Recipients = toRecipients,
             Content = \<lparr>c_Subject = Subject msg,
               PlainText = (if TextBody msg = [] \<and> HTMLBody msg = [] then ''(empty message)'' else TextBody msg),
               HTML = HTMLBody msg\<rparr>,
             sr_ReplyTo = normalizeReplyToRecipients lib (ReplyTo msg),
             Headers = SenderTraceHeaderMap msg,
             sr_Attachments = attachmentDTOs (Attachments msg)\<rparr>)"

section \<open>Sending\<close>

definition hashRequestBody :: "acs_libs \<Rightarrow> bytes \<Rightarrow> string" where
  "hashRequestBody lib body = EncodeToString (acs_Sum256 lib body)"

definition buildSignature :: "acs_libs \<Rightarrow> acs_provider \<Rightarrow> string \<Rightarrow> string \<Rightarrow> string \<Rightarrow> string \<Rightarrow> string \<Rightarrow> string" where
  "buildSignature lib p meth pathAndQuery xmsDate host contentHash =
     (let stringToSign = Join [meth, pathAndQuery, xmsDate @ '';'' @ host @ '';'' @ contentHash] [CHR 0x0A]
      in ''HMAC-SHA256 SignedHeaders=x-ms-date;host;x-ms-content-sha256&Signature='' @
         EncodeToString (hmac_SHA256 lib (accessKey p) stringToSign))"

definition withAPIVersion :: "acs_libs \<Rightarrow> go_url \<Rightarrow> go_url" where
  "withAPIVersion lib u = u\<lparr>RawQuery := url_SetQuery (al_url lib) (RawQuery u) ''api-version'' emailSendAPIVersion\<rparr>"

definition sendTarget :: "acs_libs \<Rightarrow> acs_provider \<Rightarrow> go_url" where
  "sendTarget lib p =
     withAPIVersion lib ((endpoint p)\<lparr>Path := TrimRight (CHR ''/'') (Path (endpoint p)) @ emailSendPath\<rparr>)"

definition operationTarget :: "acs_libs \<Rightarrow> acs_provider \<Rightarrow> string \<Rightarrow> go_url" where
  "operationTarget lib p operationID =
     withAPIVersion lib ((endpoint p)\<lparr>Path := TrimRight (CHR ''/'') (Path (endpoint p)) @ emailOperationPathPrefix @
       url_PathEscape (al_url lib) operationID\<rparr>)"

definition authorizedRequest ::
  "acs_libs \<Rightarrow> acs_provider \<Rightarrow> string \<Rightarrow> string \<Rightarrow> string \<Rightarrow> go_url \<Rightarrow> bytes \<Rightarrow> string \<Rightarrow> http_request" where
  "authorizedRequest lib p requestID operationID meth target body xmsDate =
     (let contentHash = hashRequestBody lib body;
          signature = buildSignature lib p meth (url_RequestURI (al_url lib) target) xmsDate (Host target) contentHash
      in \<lparr>req_Method = meth, req_URL = url_String (al_url lib) target,
          req_Header =
            (if body \<noteq> [] then [(''Content-Type'', ''application/json'')] else []) @
            [(''X-Ms-Date'', xmsDate), (''X-Ms-Content-Sha256'', contentHash), (''Authorization'', signature),
             (''X-Ms-Client-Request-Id'', requestID)] @
            (if TrimSpace operationID \<noteq> [] then [(''Operation-Id'', TrimSpace operationID)] else []),
          req_Body = body\<rparr>)"

text \<open>Writing to an HMAC never fails, so \<open>buildSignature\<close> returns no error.\<close>

definition sendAuthorizedRequest ::
  "acs_libs \<Rightarrow> acs_provider \<Rightarrow> string \<Rightarrow> string \<Rightarrow> string \<Rightarrow> go_url \<Rightarrow> bytes \<Rightarrow> int \<Rightarrow> ('z, http_response) net_op" where
  "sendAuthorizedRequest lib p requestID operationID meth target body attempt =
     bindE nowE (\<lambda>now.
     let req = authorizedRequest lib p requestID operationID meth target body (http_FormatTime lib now) in
     case http_NewRequest lib meth (req_URL req) of
       Some e \<Rightarrow> throwE (permanentSendError requestID attempt (retryAttempts p) (Wrapf ''build request: %w'' [] e))
     | None \<Rightarrow> mapErr (temporarySendError requestID attempt (retryAttempts p) 0) (http_Do req))"

definition decodeOperationResponse :: "acs_libs \<Rightarrow> stream \<Rightarrow> goerr + operationResponseDTO" where
  "decodeOperationResponse lib r =
     bindR (ReadLimited maxResponseBodyBytes r) (\<lambda>raw.
     let body = TrimSpace raw in
     if body = [] then Inr \<lparr>op_ID = [], op_Status = [], op_Error = None\<rparr> else acs_Unmarshal lib body)"

definition mapACSOperationState :: "policy_libs \<Rightarrow> string \<Rightarrow> goerr + submission_state" where
  "mapACSOperationState lib raw =
     (let s = to_lower lib (TrimSpace raw) in
      if s = ''running'' \<or> s = ''notstarted'' then Inr SubmissionStateRunning
      else if s = ''succeeded'' then Inr SubmissionStateSucceeded
      else if s = ''failed'' then Inr SubmissionStateFailed
      else if s = ''canceled'' \<or> s = ''cancelled'' then Inr SubmissionStateCanceled
      else Inl (Errorf ''unsupported acs operation status %q'' [raw]))"

definition submissionFailureForState :: "submission_state \<Rightarrow> operationErrorDTO option \<Rightarrow> submission_failure option" where
  "submissionFailureForState state detail =
     (if state \<noteq> SubmissionStateFailed \<and> state \<noteq> SubmissionStateCanceled then None
      else
        let message = (case detail of
               None \<Rightarrow> []
             | Some d \<Rightarrow> if TrimSpace (err_Message d) = [] then TrimSpace (err_Code d) else TrimSpace (err_Message d))
        in Some \<lparr>fail_Message = (if message = [] then Sprintf ''acs operation ended in %q state'' [submission_state_text state] else message),
                 fail_Temporary = False, fail_StatusCode = 0\<rparr>)"

definition newRequestID :: "('z, string) net_op" where
  "newRequestID = bindE randE (\<lambda>b. retE (hex_Encode b))"

text \<open>Seconds, with the multiplication of 64-bit integers, or a date; \<open>time.Until\<close> saturates.\<close>

definition parseRetryAfter :: "acs_libs \<Rightarrow> string \<Rightarrow> ('z, duration) net_op" where
  "parseRetryAfter lib raw0 =
     (let raw = TrimSpace raw0;
          date = (case http_ParseTime lib raw of
             None \<Rightarrow> retE 0
           | Some t \<Rightarrow> bindE nowE (\<lambda>now.
               let delay = max (- (2 ^ 63)) (min maxDuration (t - now)) in retE (if delay < 0 then 0 else delay)))
      in if raw = [] then retE 0
         else (case Atoi raw of
                 Inr seconds \<Rightarrow> if seconds \<ge> 0 then retE (wrap64 (seconds * second)) else date
               | Inl _ \<Rightarrow> date))"

definition submitOnce ::
  "acs_libs \<Rightarrow> acs_provider \<Rightarrow> string \<Rightarrow> string \<Rightarrow> int \<Rightarrow> bytes \<Rightarrow> ('z, submission_result) net_op" where
  "submitOnce lib p requestID operationID attempt body =
     bindE (sendAuthorizedRequest lib p requestID operationID ''POST'' (sendTarget lib p) body attempt) (\<lambda>resp.
     if StatusCode resp \<noteq> 202 then throwE (statusSendError requestID attempt (retryAttempts p) (StatusCode resp))
     else
       (case decodeOperationResponse lib (resp_Body resp) of
          Inl e \<Rightarrow> throwE (permanentSendError requestID attempt (retryAttempts p) (Wrapf ''decode acs submit response: %w'' [] e))
        | Inr bodyResult \<Rightarrow>
            bindE (parseRetryAfter lib (Get (resp_Header resp) ''Retry-After'')) (\<lambda>retryAfter.
            retE \<lparr>res_OperationID = [], res_OperationLocation = TrimSpace (Get (resp_Header resp) ''Operation-Location''),
                  res_RetryAfter = retryAfter, res_State = SubmissionStateRunning,
                  res_ProviderMessageID = TrimSpace (op_ID bodyResult), res_Failure = None\<rparr>)))"

definition retryBackoff :: "duration \<Rightarrow> int \<Rightarrow> duration" where
  "retryBackoff base attempt = (if attempt \<le> 1 \<or> base \<le> 0 then base else doubled (nat (attempt - 1)) base)"

text \<open>
  The loop over the attempts that are left. The wait between two attempts ends early with the error of a
  context that is done. No attempt left is a state the loop never reaches when it starts with one.
\<close>

fun submitLoop ::
  "nat \<Rightarrow> acs_libs \<Rightarrow> acs_provider \<Rightarrow> string \<Rightarrow> string \<Rightarrow> bytes \<Rightarrow> int \<Rightarrow> ('z, submission_result) net_op" where
  "submitLoop 0 lib p requestID operationID body attempt = throwE (Opaque ''nil *SendError'')"
| "submitLoop (Suc k) lib p requestID operationID body attempt =
     tryE (submitOnce lib p requestID operationID attempt body) (\<lambda>r.
       case r of
         Inr attemptResult \<Rightarrow> retE (attemptResult\<lparr>res_OperationID := operationID, res_State := SubmissionStateRunning\<rparr>)
       | Inl attemptErr \<Rightarrow>
           if \<not> Temporary attemptErr \<or> attempt = retryAttempts p then throwE attemptErr
           else
             tryE ctxErr (\<lambda>c.
               case c of
                 Inl e \<Rightarrow> throwE (permanentSendError requestID attempt (retryAttempts p) e)
               | Inr _ \<Rightarrow> submitLoop k lib p requestID operationID body (attempt + 1)))"

definition acs_Submit :: "acs_libs \<Rightarrow> acs_provider \<Rightarrow> message \<Rightarrow> string \<Rightarrow> ('z, submission_result) net_op" where
  "acs_Submit lib p msg operationID =
     (case buildSendRequest (al_policy lib) (acs_sender p) msg of
        Inl e \<Rightarrow> throwE (permanentSendError [] 1 1 e)
      | Inr body \<Rightarrow>
     (case acs_Marshal lib body of
        Inl e \<Rightarrow> throwE (permanentSendError [] 1 1 (Wrapf ''marshal acs request: %w'' [] e))
      | Inr bodyBytes \<Rightarrow>
          bindE (mapErr (\<lambda>e. permanentSendError [] 1 1 (Wrapf ''generate request id: %w'' [] e)) newRequestID) (\<lambda>requestID.
          submitLoop (nat (retryAttempts p)) lib p requestID (TrimSpace operationID) bodyBytes 1)))"

definition acs_Poll :: "acs_libs \<Rightarrow> acs_provider \<Rightarrow> string \<Rightarrow> ('z, submission_status) net_op" where
  "acs_Poll lib p operationID0 =
     (let operationID = TrimSpace operationID0 in
      if operationID = [] then throwE (permanentSendError [] 1 1 (Errorf ''acs poll operation id cannot be empty'' []))
      else
        bindE (mapErr (\<lambda>e. permanentSendError operationID 1 1 (Wrapf ''generate request id: %w'' [] e)) newRequestID) (\<lambda>requestID.
        bindE (sendAuthorizedRequest lib p requestID [] ''GET'' (operationTarget lib p operationID) [] 1) (\<lambda>resp.
        if StatusCode resp \<noteq> 200 then throwE (statusSendError requestID 1 1 (StatusCode resp))
        else
          (case decodeOperationResponse lib (resp_Body resp) of
             Inl e \<Rightarrow> throwE (permanentSendError requestID 1 1 (Wrapf ''decode acs poll response: %w'' [] e))
           | Inr body \<Rightarrow>
          (case mapACSOperationState (al_policy lib) (op_Status body) of
             Inl e \<Rightarrow> throwE (permanentSendError requestID 1 1 e)
           | Inr state \<Rightarrow>
               bindE (parseRetryAfter lib (Get (resp_Header resp) ''Retry-After'')) (\<lambda>retryAfter.
               retE \<lparr>st_OperationID = operationID, st_RetryAfter = retryAfter, st_State = state,
                     st_ProviderMessageID = TrimSpace (op_ID body),
                     st_Failure = submissionFailureForState state (op_Error body)\<rparr>))))))"

definition acs_api :: "acs_libs \<Rightarrow> acs_provider \<Rightarrow> 'z net_world_scheme provider_api" where
  "acs_api lib p = \<lparr>Submit = acs_Submit lib p, Poll = acs_Poll lib p\<rparr>"

end
