(* ===== verification/Ses_Provider.thy ===== *)
theory Ses_Provider
  imports Acs_Provider
begin

text \<open>
  internal/providers/ses/provider.go: the provider that sends raw messages through SES. The AWS SDK is a
  parameter: loading its configuration, the client it gives, and what its errors carry. The multipart
  writer of the standard library is modelled with its random boundaries as parameters.
\<close>

section \<open>Errors\<close>

definition ses_permanentSendError :: "goerr \<Rightarrow> goerr" where
  "ses_permanentSendError e = SendError ''ses'' [] 1 1 0 False (Some e)"

definition ses_temporarySendError :: "int \<Rightarrow> goerr \<Rightarrow> goerr" where
  "ses_temporarySendError statusCode e = SendError ''ses'' [] 1 1 statusCode True (Some e)"

record sendEmailInput =
  FromEmailAddress :: string
  ToAddresses :: "string list"
  RawData :: bytes
  ReplyToAddresses :: "string list"
  ConfigurationSetName :: "string option"

type_synonym 's sendEmailAPI = "sendEmailInput \<Rightarrow> ('s, string option) op"

text \<open>
  The options of the provider. Those given to the SDK are the region, the number of attempts and the
  base of their delays, the HTTP client and the credentials.
\<close>

record 's providerOptions =
  po_httpClient :: "http_client option"
  po_retryAttempts :: int
  po_retryBaseDelay :: duration
  po_accessKeyID :: string
  po_secretAccessKey :: string
  po_sessionToken :: string
  po_client :: "'s sendEmailAPI option"

text \<open>
  \<open>smithy_status\<close> and \<open>smithy_code\<close> are \<open>errors.As\<close> with the SDK's response error and API error: the HTTP
  status and the error code, when the error has one.
\<close>

record 's ses_libs =
  sel_url :: url_libs
  sel_policy :: policy_libs
  smithy_status :: "goerr \<Rightarrow> int option"
  smithy_code :: "goerr \<Rightarrow> string option"
  sesv2_New :: "string \<Rightarrow> 's providerOptions \<Rightarrow> string \<Rightarrow> goerr + 's sendEmailAPI"
  mime_QEncode :: "string \<Rightarrow> string"
  mime_Boundary :: "nat \<Rightarrow> string"

definition isRetryableAPIError :: "policy_libs \<Rightarrow> string \<Rightarrow> bool" where
  "isRetryableAPIError lib code0 =
     (let code = to_lower lib (TrimSpace code0) in
      code \<noteq> [] \<and>
      list_ex (\<lambda>s. sublist s code) [''throttl'', ''too_many_requests'', ''toomanyrequests'', ''timeout'', ''serviceunavailable'', ''internal''])"

definition errorsIsContextCanceled :: "policy_libs \<Rightarrow> goerr \<Rightarrow> bool" where
  "errorsIsContextCanceled lib e \<longleftrightarrow>
     sublist ''context canceled'' (to_lower lib (err_text e)) \<or> sublist ''context deadline exceeded'' (to_lower lib (err_text e))"

definition classifySendError :: "'s ses_libs \<Rightarrow> goerr \<Rightarrow> goerr" where
  "classifySendError lib e =
     (case smithy_status lib e of
        Some code \<Rightarrow>
          if isRetryableStatus code then ses_temporarySendError code e
          else SendError ''ses'' [] 1 1 code False (Some e)
      | None \<Rightarrow>
     (case smithy_code lib e of
        Some code \<Rightarrow> if isRetryableAPIError (sel_policy lib) code then ses_temporarySendError 0 e else ses_permanentSendError e
      | None \<Rightarrow>
          if errorsIsContextCanceled (sel_policy lib) e then ses_permanentSendError e else ses_temporarySendError 0 e))"

section \<open>Options and construction\<close>

datatype 's ses_option =
    SesHTTPClient "http_client option"
  | SesRetry int duration
  | SesStaticCredentials string string string
  | SesClient "'s sendEmailAPI option"

fun ses_applyOption :: "'s ses_option \<Rightarrow> 's providerOptions \<Rightarrow> goerr + 's providerOptions" where
  "ses_applyOption (SesHTTPClient client) o1 =
     (if client = None then Inl (Errorf ''http client cannot be nil'' []) else Inr (o1\<lparr>po_httpClient := client\<rparr>))"
| "ses_applyOption (SesRetry attempts baseDelay) o1 =
     (if attempts < 1 then Inl (Errorf ''retry attempts must be >= 1'' [])
      else if attempts > maxRetryAttempts then Inl (Errorf ''retry attempts must be <= %d'' [show_int maxRetryAttempts])
      else if baseDelay \<le> 0 then Inl (Errorf ''retry base delay must be > 0'' [])
      else Inr (o1\<lparr>po_retryAttempts := attempts, po_retryBaseDelay := baseDelay\<rparr>))"
| "ses_applyOption (SesStaticCredentials accessKeyID secretAccessKey sessionToken) o1 =
     (let access = TrimSpace accessKeyID; secret = TrimSpace secretAccessKey; token = TrimSpace sessionToken in
      if (access \<noteq> []) \<noteq> (secret \<noteq> []) then Inl (Errorf ''ses static credentials require both access key and secret'' [])
      else if token \<noteq> [] \<and> (access = [] \<or> secret = []) then Inl (Errorf ''session token requires access key and secret'' [])
      else Inr (o1\<lparr>po_accessKeyID := access, po_secretAccessKey := secret, po_sessionToken := token\<rparr>))"
| "ses_applyOption (SesClient client) o1 =
     (case client of None \<Rightarrow> Inl (Errorf ''ses client cannot be nil'' []) | Some c \<Rightarrow> Inr (o1\<lparr>po_client := Some c\<rparr>))"

fun ses_applyOptions :: "'s ses_option list \<Rightarrow> 's providerOptions \<Rightarrow> goerr + 's providerOptions" where
  "ses_applyOptions [] o1 = Inr o1"
| "ses_applyOptions (opt # opts) o1 =
     (case ses_applyOption opt o1 of
        Inl e \<Rightarrow> Inl (ses_permanentSendError (Wrapf ''apply ses option: %w'' [] e))
      | Inr o2 \<Rightarrow> ses_applyOptions opts o2)"

definition validateEndpoint :: "url_libs \<Rightarrow> policy_libs \<Rightarrow> string \<Rightarrow> goerr + string" where
  "validateEndpoint ulib plib raw0 =
     (let raw = TrimSpace raw0 in
      if raw = [] then Inr []
      else
        (case url_Parse ulib raw of
           Inl e \<Rightarrow> Inl (Wrapf ''parse ses endpoint: %w'' [] e)
         | Inr u \<Rightarrow>
             if Scheme u = [] \<or> Host u = [] then Inl (Errorf ''invalid ses endpoint %q'' [raw])
             else if \<not> equal_fold plib (Scheme u) ''https'' then Inl (Errorf ''ses endpoint must use https scheme'' [])
             else Inr (url_String ulib u)))"

record 's ses_provider =
  ses_client :: "'s sendEmailAPI"
  ses_sender :: string
  configurationSet :: string

definition ses_NewProvider ::
  "'s ses_libs \<Rightarrow> string \<Rightarrow> string \<Rightarrow> string \<Rightarrow> string \<Rightarrow> 's ses_option list \<Rightarrow> goerr + 's ses_provider" where
  "ses_NewProvider lib region0 sender0 endpoint0 configurationSet0 opts =
     (let region = TrimSpace region0; sender = TrimSpace sender0; confSet = TrimSpace configurationSet0 in
      if region = [] then Inl (ses_permanentSendError (Errorf ''ses region cannot be empty'' []))
      else if sender = [] then Inl (ses_permanentSendError (Errorf ''ses sender cannot be empty'' []))
      else
        (case validateEndpoint (sel_url lib) (sel_policy lib) (TrimSpace endpoint0) of
           Inl e \<Rightarrow> Inl (ses_permanentSendError e)
         | Inr endp \<Rightarrow>
             bindR (ses_applyOptions opts
               \<lparr>po_httpClient = None, po_retryAttempts = defaultRetryAttempts, po_retryBaseDelay = defaultRetryBaseDelay,
                po_accessKeyID = [], po_secretAccessKey = [], po_sessionToken = [], po_client = None\<rparr>) (\<lambda>o1.
             bindR (case po_client o1 of
                      Some c \<Rightarrow> Inr c
                    | None \<Rightarrow>
                        (case sesv2_New lib region o1 endp of
                           Inl e \<Rightarrow> Inl (ses_permanentSendError (Wrapf ''load aws config: %w'' [] e))
                         | Inr c \<Rightarrow> Inr c)) (\<lambda>client.
             Inr \<lparr>ses_client = client, ses_sender = sender, configurationSet = confSet\<rparr>))))"

text \<open>\<open>exponentialBackoff.BackoffDelay\<close>, which the SDK asks between attempts.\<close>

definition BackoffDelay :: "duration \<Rightarrow> int \<Rightarrow> duration" where
  "BackoffDelay base attempt =
     (if base \<le> 0 then defaultRetryBaseDelay else if attempt \<le> 1 then base else doubled (nat (attempt - 1)) base)"

section \<open>The raw message\<close>

definition crlf :: string where
  "crlf = [CHR 0x0D, CHR 0x0A]"

text \<open>The three replacements of \<open>normalizeLineEndings\<close>.\<close>

fun crlf_to_lf :: "string \<Rightarrow> string" where
  "crlf_to_lf [] = []"
| "crlf_to_lf [c] = [c]"
| "crlf_to_lf (c # d # s) = (if c = CHR 0x0D \<and> d = CHR 0x0A then CHR 0x0A # crlf_to_lf s else c # crlf_to_lf (d # s))"

definition lf_to_crlf :: "string \<Rightarrow> string" where
  "lf_to_crlf s = concat (map (\<lambda>c. if c = CHR 0x0A then crlf else [c]) s)"

definition normalizeLineEndings :: "string \<Rightarrow> string" where
  "normalizeLineEndings s = lf_to_crlf (map (\<lambda>c. if c = CHR 0x0D then CHR 0x0A else c) (crlf_to_lf s))"

definition writeHeader :: "string \<Rightarrow> string \<Rightarrow> string" where
  "writeHeader key v = key @ '': '' @ v @ crlf"

text \<open>The lines of an attachment: 76 characters each, the last one shorter or equal.\<close>

function base64Lines :: "string \<Rightarrow> string list" where
  "base64Lines encoded = (if length encoded > 76 then take 76 encoded # base64Lines (drop 76 encoded) else [encoded])"
  by pat_completeness auto
termination
  by (relation "measure length") auto

declare base64Lines.simps [simp del]

definition writeBase64MIME :: "bytes \<Rightarrow> string" where
  "writeBase64MIME data = concat (map (\<lambda>l. l @ crlf) (base64Lines (EncodeToString data)))"

text \<open>
  The multipart writer: each part after its delimiter line and its header, whose fields are sorted, and
  the closing delimiter.
\<close>

definition writePart :: "string \<Rightarrow> bool \<Rightarrow> mime_header \<times> string \<Rightarrow> string" where
  "writePart boundary first part =
     (if first then [] else crlf) @ ''--'' @ boundary @ crlf @
     concat (map (\<lambda>(k, v). writeHeader k v) (fst part)) @ crlf @ snd part"

definition multipart_Write :: "string \<Rightarrow> (mime_header \<times> string) list \<Rightarrow> string" where
  "multipart_Write boundary parts =
     (case parts of [] \<Rightarrow> [] | p # ps \<Rightarrow> writePart boundary True p @ concat (map (writePart boundary False) ps)) @
     crlf @ ''--'' @ boundary @ ''--'' @ crlf"

definition textPart :: "string \<Rightarrow> string \<Rightarrow> mime_header \<times> string" where
  "textPart contentType body = ([(''Content-Transfer-Encoding'', ''8bit''), (''Content-Type'', contentType)], body)"

definition plainType :: string where "plainType = ''text/plain; charset=UTF-8''"
definition htmlType :: string where "htmlType = ''text/html; charset=UTF-8''"

definition buildAlternativeBody :: "string \<Rightarrow> string \<Rightarrow> string \<Rightarrow> string \<times> string" where
  "buildAlternativeBody boundary plain html =
     (Sprintf ''multipart/alternative; boundary=%q'' [boundary],
      multipart_Write boundary
        ((if plain \<noteq> [] then [textPart plainType plain] else []) @ (if html \<noteq> [] then [textPart htmlType html] else [])))"

definition attachmentPart :: "nat \<Rightarrow> attachment \<Rightarrow> mime_header \<times> string" where
  "attachmentPart i a =
     (let name = attachmentName i a in
      ([(''Content-Disposition'', Sprintf ''attachment; filename=%q'' [name]), (''Content-Transfer-Encoding'', ''base64''),
        (''Content-Type'', Sprintf ''%s; name=%q'' [attachmentType a, name])],
       writeBase64MIME (Data a)))"

text \<open>The boundary of the inner body is drawn after that of the outer one.\<close>

definition buildMixedBody :: "(nat \<Rightarrow> string) \<Rightarrow> string \<Rightarrow> string \<Rightarrow> attachment list \<Rightarrow> string \<times> string" where
  "buildMixedBody boundary plain html attachments =
     (let body =
        (if plain \<noteq> [] \<and> html \<noteq> [] then
           (case buildAlternativeBody (boundary 1) plain html of (altType, altBody) \<Rightarrow> ([(''Content-Type'', altType)], altBody))
         else if html \<noteq> [] then textPart htmlType html else textPart plainType plain)
      in (Sprintf ''multipart/mixed; boundary=%q'' [boundary 0],
          multipart_Write (boundary 0) (body # map (\<lambda>(i, a). attachmentPart i a) (enumerate 0 attachments))))"

definition buildMIMEBody :: "(nat \<Rightarrow> string) \<Rightarrow> string \<Rightarrow> string \<Rightarrow> attachment list \<Rightarrow> string \<times> string" where
  "buildMIMEBody boundary plain0 html0 attachments =
     (let plain = normalizeLineEndings plain0; html = normalizeLineEndings html0 in
      if attachments = [] \<and> plain \<noteq> [] \<and> html \<noteq> [] then buildAlternativeBody (boundary 0) plain html
      else if attachments = [] \<and> html \<noteq> [] then (htmlType, html)
      else if attachments = [] then (plainType, plain)
      else buildMixedBody boundary plain html attachments)"

definition normalizeRecipients :: "string list \<Rightarrow> string list" where
  "normalizeRecipients recipients = filter (\<lambda>r. r \<noteq> []) (map TrimSpace recipients)"

definition normalizeReplyTo :: "policy_libs \<Rightarrow> string list \<Rightarrow> string list" where
  "normalizeReplyTo lib values = List.map_filter (parseable lib) values"

definition rawHeader :: "'s ses_libs \<Rightarrow> string \<Rightarrow> message \<Rightarrow> string list \<Rightarrow> string list \<Rightarrow> string \<Rightarrow> mime_header" where
  "rawHeader lib sender msg recipients replyTo contentType =
     [(''From'', sender), (''To'', Join recipients '', '')] @
     (if replyTo \<noteq> [] then [(''Reply-To'', Join replyTo '', '')] else []) @
     SenderTraceHeaders msg @
     [(''Subject'', if TrimSpace (Subject msg) \<noteq> [] then mime_QEncode lib (Subject msg) else []),
      (''MIME-Version'', ''1.0''), (''Content-Type'', contentType)]"

definition buildRawMessage ::
  "'s ses_libs \<Rightarrow> (nat \<Rightarrow> string) \<Rightarrow> string \<Rightarrow> message \<Rightarrow> goerr + bytes \<times> string list \<times> string list" where
  "buildRawMessage lib boundary sender msg =
     (let recipients = normalizeRecipients (To msg); replyTo = normalizeReplyTo (sel_policy lib) (ReplyTo msg);
          plain = (if TrimSpace (TextBody msg) = [] \<and> TrimSpace (HTMLBody msg) = [] then ''(empty message)'' else TextBody msg)
      in if recipients = [] then Inl (Errorf ''message has no valid recipients'' [])
         else
           (case buildMIMEBody boundary plain (HTMLBody msg) (Attachments msg) of (contentType, body) \<Rightarrow>
              Inr (concat (map (\<lambda>(k, v). writeHeader k v) (rawHeader lib sender msg recipients replyTo contentType)) @ crlf @ body,
                   recipients, replyTo)))"

section \<open>The provider's operations\<close>

text \<open>Two boundaries at most are drawn for a message.\<close>

definition ses_Submit ::
  "'z env_scheme ses_libs \<Rightarrow> 'z env_scheme ses_provider \<Rightarrow> message \<Rightarrow> string \<Rightarrow> ('z env_scheme, submission_result) op" where
  "ses_Submit lib p msg operationID =
     bindE (\<lambda>w. (Inr (\<lambda>i. mime_Boundary lib (draws w + i)), w\<lparr>draws := draws w + 2\<rparr>)) (\<lambda>boundary.
     case buildRawMessage lib boundary (ses_sender p) msg of
       Inl e \<Rightarrow> throwE (ses_permanentSendError e)
     | Inr (raw, recipients, replyTo) \<Rightarrow>
         bindE (mapErr (classifySendError lib)
           (ses_client p \<lparr>FromEmailAddress = ses_sender p, ToAddresses = recipients, RawData = raw, ReplyToAddresses = replyTo,
              ConfigurationSetName = (if configurationSet p \<noteq> [] then Some (configurationSet p) else None)\<rparr>)) (\<lambda>messageID.
         retE \<lparr>res_OperationID = [], res_OperationLocation = [], res_RetryAfter = 0, res_State = SubmissionStateSucceeded,
               res_ProviderMessageID = (case messageID of None \<Rightarrow> [] | Some m \<Rightarrow> m), res_Failure = None\<rparr>))"

definition ses_Poll :: "string \<Rightarrow> ('s, submission_status) op" where
  "ses_Poll operationID =
     retE \<lparr>st_OperationID = TrimSpace operationID, st_RetryAfter = 0, st_State = SubmissionStateSucceeded,
           st_ProviderMessageID = [], st_Failure = None\<rparr>"

definition ses_api :: "'z env_scheme ses_libs \<Rightarrow> 'z env_scheme ses_provider \<Rightarrow> 'z env_scheme provider_api" where
  "ses_api lib p = \<lparr>Submit = ses_Submit lib p, Poll = ses_Poll\<rparr>"

end
