(* ===== verification/Provider_Factory.thy ===== *)
theory Provider_Factory
  imports Ses_Provider
begin

text \<open>
  internal/providers: the provider of the configured delivery mode, and the time budget of one
  submission.
\<close>

section \<open>Saturating arithmetic on durations\<close>

text \<open>
  The sums and products below are reached only when they fit, so they are written on \<^typ>\<open>int\<close> without
  wrapping; the laws show that no result exceeds \<^const>\<open>maxDuration\<close>.
\<close>

definition multiplyDuration :: "duration \<Rightarrow> int \<Rightarrow> duration" where
  "multiplyDuration d n =
     (if d \<le> 0 \<or> n \<le> 0 then 0 else if d > maxDuration div n then maxDuration else d * n)"

fun saturatingAdd_loop :: "duration \<Rightarrow> duration list \<Rightarrow> duration" where
  "saturatingAdd_loop tot [] = tot"
| "saturatingAdd_loop tot (v # vs) =
     (if v \<le> 0 then saturatingAdd_loop tot vs
      else if tot > maxDuration - v then maxDuration
      else saturatingAdd_loop (tot + v) vs)"

definition saturatingAdd :: "duration list \<Rightarrow> duration" where
  "saturatingAdd vs = saturatingAdd_loop 0 vs"

fun retryBackoffTotal_loop :: "nat \<Rightarrow> duration \<Rightarrow> duration \<Rightarrow> duration" where
  "retryBackoffTotal_loop 0 tot backoff = tot"
| "retryBackoffTotal_loop (Suc n) tot backoff =
     retryBackoffTotal_loop n (saturatingAdd [tot, backoff])
       (if backoff > maxDuration div 2 then maxDuration else backoff * 2)"

definition retryBackoffTotal :: "duration \<Rightarrow> int \<Rightarrow> duration" where
  "retryBackoffTotal base attempts =
     (if attempts \<le> 1 \<or> base \<le> 0 then 0 else retryBackoffTotal_loop (nat (attempts - 1)) 0 base)"

definition runtimeSendTimeout :: "duration \<Rightarrow> duration \<Rightarrow> int \<Rightarrow> duration" where
  "runtimeSendTimeout httpTimeout baseDelay attempts =
     saturatingAdd [multiplyDuration httpTimeout attempts, retryBackoffTotal baseDelay attempts, 2 * second]"

section \<open>Selecting a provider\<close>

record 's runtime =
  Provider :: "'s provider_api"
  SendTimeout :: duration

definition milliseconds :: "int \<Rightarrow> duration" where
  "milliseconds n = wrap64 (n * millisecond)"

definition outboundHTTPConfig :: "config \<Rightarrow> http_config" where
  "outboundHTTPConfig cfg =
     \<lparr>hc_Timeout = milliseconds (cfg_DeliveryHTTPTimeoutMS cfg), hc_MaxIdleConns = cfg_DeliveryHTTPMaxIdleConns cfg,
      hc_MaxIdleConnsPerHost = cfg_DeliveryHTTPMaxIdleConnsPerHost cfg,
      hc_IdleConnTimeout = milliseconds (cfg_DeliveryHTTPIdleConnTimeoutMS cfg),
      hc_TLSCAFile = cfg_OutboundTLSCAFile cfg, hc_TLSCAPEM = cfg_OutboundTLSCAPEM cfg\<rparr>"

definition providers_Build ::
  "acs_libs \<Rightarrow> 'z net_world_scheme ses_libs \<Rightarrow> config \<Rightarrow> goerr + 'z net_world_scheme runtime" where
  "providers_Build al sl cfg =
     (let baseDelay = milliseconds (cfg_DeliveryRetryBaseDelayMS cfg);
          httpTimeout = milliseconds (cfg_DeliveryHTTPTimeoutMS cfg);
          sendTimeout = runtimeSendTimeout httpTimeout baseDelay (cfg_DeliveryRetryAttempts cfg);
          mode = to_lower (al_policy al) (TrimSpace (cfg_DeliveryMode cfg)) in
      if mode = ''noop'' then Inr \<lparr>Provider = noop_NewProvider, SendTimeout = 0\<rparr>
      else if mode = ''acs'' then
        (case httpclient_Build (al_http al) (outboundHTTPConfig cfg) of
           Inl e \<Rightarrow> Inl (Wrapf ''build acs http client: %w'' [] e)
         | Inr client \<Rightarrow>
             bindR (acs_NewProvider al (cfg_ACSEndpoint cfg) (cfg_ACSConnectionString cfg) (cfg_ACSSender cfg)
               [WithRetry (cfg_DeliveryRetryAttempts cfg) baseDelay, WithHTTPClient (Some client)]) (\<lambda>p.
             Inr \<lparr>Provider = acs_api al p, SendTimeout = sendTimeout\<rparr>))
      else if mode = ''ses'' then
        (case httpclient_Build (al_http al) (outboundHTTPConfig cfg) of
           Inl e \<Rightarrow> Inl (Wrapf ''build ses http client: %w'' [] e)
         | Inr client \<Rightarrow>
             bindR (ses_NewProvider sl (cfg_SESRegion cfg) (cfg_SESSender cfg) (cfg_SESEndpoint cfg) (cfg_SESConfigurationSet cfg)
               ([SesHTTPClient (Some client), SesRetry (cfg_DeliveryRetryAttempts cfg) baseDelay] @
                (if TrimSpace (cfg_SESAccessKeyID cfg) \<noteq> []
                 then [SesStaticCredentials (cfg_SESAccessKeyID cfg) (cfg_SESSecretAccessKey cfg) (cfg_SESSessionToken cfg)]
                 else []))) (\<lambda>p.
             Inr \<lparr>Provider = ses_api sl p, SendTimeout = sendTimeout\<rparr>))
      else Inl (Errorf ''unsupported delivery mode %q'' [cfg_DeliveryMode cfg]))"

end
