(* ===== verification/Record_Schema.thy ===== *)
theory Record_Schema
  imports Spool_Store Sender_Policy
begin

text \<open>
  internal/spool/schema.go and the opening of the spool: creating the schema in a new database,
  checking it in an existing one, and building the store over both halves.
\<close>

section \<open>The schema\<close>

definition sql_line :: "nat \<Rightarrow> string \<Rightarrow> string" where
  "sql_line indent s = replicate indent (CHR 0x09) @ s @ [CHR 0x0A]"

definition sql_quote :: "string \<Rightarrow> string" where
  "sql_quote s = CHR 0x27 # s @ [CHR 0x27]"

definition spoolSchemaVersion :: int where "spoolSchemaVersion = 1"

definition recordsTableName :: string where "recordsTableName = ''records''"

definition recordsReadyIndexName :: string where "recordsReadyIndexName = ''idx_records_ready''"

definition recordsOpIndexName :: string where "recordsOpIndexName = ''idx_records_operation_id''"

text \<open>The lines of the statement, each with its indentation.\<close>

definition recordsTableLines :: "(nat \<times> string) list" where
  "recordsTableLines =
     [(0, ''''),
      (0, ''CREATE TABLE IF NOT EXISTS records (''),
      (1, ''id TEXT NOT NULL PRIMARY KEY CHECK(length(id) > 0) CHECK(id = trim(id)),''),
      (1, ''state TEXT NOT NULL CHECK(state IN ('' @ sql_quote ''queued'' @ '', '' @ sql_quote ''working'' @ '', '' @ sql_quote ''submitted'' @ '', '' @ sql_quote ''succeeded'' @ '', '' @ sql_quote ''dead-letter'' @ '')),''),
      (1, ''attempt INTEGER NOT NULL CHECK(attempt >= 0),''),
      (1, ''next_attempt_at_ms INTEGER NOT NULL CHECK(next_attempt_at_ms > 0),''),
      (1, ''operation_id TEXT,''),
      (1, ''operation_location TEXT,''),
      (1, ''provider_message_id TEXT,''),
      (1, ''first_submitted_at_ms INTEGER CHECK(first_submitted_at_ms IS NULL OR first_submitted_at_ms > 0),''),
      (1, ''last_error_message TEXT,''),
      (1, ''last_error_provider TEXT,''),
      (1, ''last_error_temporary INTEGER CHECK(last_error_temporary IS NULL OR last_error_temporary IN (0, 1)),''),
      (1, ''last_error_timestamp_ms INTEGER CHECK(last_error_timestamp_ms IS NULL OR last_error_timestamp_ms > 0),''),
      (1, ''created_at_ms INTEGER NOT NULL CHECK(created_at_ms > 0),''),
      (1, ''updated_at_ms INTEGER NOT NULL CHECK(updated_at_ms > 0 AND updated_at_ms >= created_at_ms),''),
      (1, ''CHECK(''),
      (2, ''(last_error_message IS NULL AND last_error_provider IS NULL AND last_error_temporary IS NULL AND last_error_timestamp_ms IS NULL)''),
      (2, ''OR last_error_timestamp_ms IS NOT NULL''),
      (1, '')''),
      (0, '');'')]"

definition recordsTableSchema :: string where
  "recordsTableSchema = concat (map (\<lambda>(indent, s). sql_line indent s) recordsTableLines)"

definition recordsReadyIndexSchema :: string where
  "recordsReadyIndexSchema =
     concat [sql_line 0 '''',
       sql_line 0 (''CREATE INDEX IF NOT EXISTS idx_records_ready''),
       sql_line 0 (''ON records(state, next_attempt_at_ms, created_at_ms, id);'')]"

definition recordsOperationIndexSchema :: string where
  "recordsOperationIndexSchema =
     concat [sql_line 0 '''',
       sql_line 0 (''CREATE INDEX IF NOT EXISTS idx_records_operation_id''),
       sql_line 0 (''ON records(operation_id);'')]"

section \<open>Text\<close>

text \<open>\<open>strings.Fields\<close>: the words between white space; \<open>cur\<close> is the word being read.\<close>

function Fields_loop :: "string \<Rightarrow> string \<Rightarrow> string list" where
  "Fields_loop cur s =
     (case s of
        [] \<Rightarrow> (if cur = [] then [] else [cur])
      | c # cs \<Rightarrow>
          (case strip_any space_seqs s of
             Some t \<Rightarrow> (if cur = [] then [] else [cur]) @ (if length t < length s then Fields_loop [] t else [])
           | None \<Rightarrow> Fields_loop (cur @ [c]) cs))"
  by pat_completeness auto
termination by (relation "measure (\<lambda>(cur, s). length s)") auto

declare Fields_loop.simps [simp del]

definition Fields :: "string \<Rightarrow> string list" where
  "Fields s = Fields_loop [] s"

definition normalizeSQL :: "policy_libs \<Rightarrow> string \<Rightarrow> string" where
  "normalizeSQL lib sqlText = to_lower lib (Join (Fields sqlText) '' '')"

section \<open>SQLite's schema table\<close>

text \<open>
  A \<open>CREATE ... IF NOT EXISTS\<close> statement adds an entry to \<open>sqlite_master\<close> unless there is one of that name.
  The entry keeps the text of the statement without \<open>IF NOT EXISTS\<close>, the white space around it and the semicolon
  at the end. The columns of the table stand on a line each, in front of the constraints of the whole table.
\<close>

definition stored_sql :: "string \<Rightarrow> string \<Rightarrow> string" where
  "stored_sql kind stmt =
     (let body = TrimSpace stmt in kind @ drop (length (kind @ '' IF NOT EXISTS'')) (take (length body - 1) body))"

fun text_lines :: "string \<Rightarrow> string \<Rightarrow> string list" where
  "text_lines cur [] = [cur]"
| "text_lines cur (c # s) = (if c = CHR 0x0A then cur # text_lines [] s else text_lines (cur @ [c]) s)"

definition declared_columns :: "string \<Rightarrow> string list" where
  "declared_columns sqlText =
     takeWhile (\<lambda>w. w \<noteq> ''CHECK('')
       (map (\<lambda>l. case Fields l of [] \<Rightarrow> [] | w # ws \<Rightarrow> w) (tl (text_lines [] sqlText)))"

definition table_entry :: "string \<Rightarrow> string \<Rightarrow> master_entry" where
  "table_entry nm stmt =
     (let t = stored_sql ''CREATE TABLE'' stmt in
      \<lparr>me_type = ''table'', me_name = nm, me_sql = Some t, me_columns = declared_columns t\<rparr>)"

definition index_entry :: "string \<Rightarrow> string \<Rightarrow> master_entry" where
  "index_entry nm stmt =
     \<lparr>me_type = ''index'', me_name = nm, me_sql = Some (stored_sql ''CREATE INDEX'' stmt), me_columns = []\<rparr>"

definition exec_create :: "master_entry \<Rightarrow> ('z, unit) db_op" where
  "exec_create entry = attemptE (\<lambda>w.
     if list_ex (\<lambda>e. me_type e = me_type entry \<and> me_name e = me_name entry) (sqlite_master (tx w)) then (Inr (), w)
     else if list_ex (\<lambda>e. me_name e = me_name entry) (sqlite_master (tx w)) then (Inl (Opaque ''there is already an object of that name''), w)
     else (Inr (), w\<lparr>tx := (tx w)\<lparr>sqlite_master := sqlite_master (tx w) @ [entry]\<rparr>\<rparr>))"

text \<open>A row of \<open>sqlite_master\<close> by type and name; a query for one row fails when there is none.\<close>

definition sql_ErrNoRows :: goerr where
  "sql_ErrNoRows = Opaque ''sql: no rows in result set''"

definition master_row :: "string \<Rightarrow> string \<Rightarrow> database \<Rightarrow> master_entry option" where
  "master_row ty nm d = find (\<lambda>e. me_type e = ty \<and> me_name e = nm) (sqlite_master d)"

definition query_master :: "string \<Rightarrow> string \<Rightarrow> ('z, string option) db_op" where
  "query_master ty nm = attemptE (\<lambda>w.
     case master_row ty nm (db w) of None \<Rightarrow> (Inl sql_ErrNoRows, w) | Some e \<Rightarrow> (Inr (me_sql e), w))"

section \<open>Opening the records\<close>

definition applyPragmas :: "('z, unit) db_op" where
  "applyPragmas =
     foreachE [''PRAGMA journal_mode=WAL;'', ''PRAGMA synchronous=FULL;'', ''PRAGMA foreign_keys=ON;'', ''PRAGMA busy_timeout=5000;'']
       (\<lambda>pragma. mapErr (wrapStoreError (Sprintf ''apply sqlite pragma %q'' [pragma])) sql_inert)"

definition userVersion :: "('z, int) db_op" where
  "userVersion = mapErr (wrapStoreError ''query sqlite user_version'') (attemptE (\<lambda>w. (Inr (user_version (db w)), w)))"

definition tableExists :: "string \<Rightarrow> ('z, bool) db_op" where
  "tableExists nm =
     mapErr (wrapStoreError (Sprintf ''query sqlite table %q'' [nm])) (attemptE (\<lambda>w.
       (Inr (length (filter (\<lambda>e. me_type e = ''table'' \<and> me_name e = nm) (sqlite_master (db w))) = 1), w)))"

definition loadTableColumns :: "string \<Rightarrow> ('z, string list) db_op" where
  "loadTableColumns table =
     bindE (mapErr (wrapStoreError (Sprintf ''query sqlite table info for %q'' [table])) (attemptE (\<lambda>w.
       (Inr (case master_row ''table'' table (db w) of None \<Rightarrow> [] | Some e \<Rightarrow> me_columns e), w)))) (\<lambda>columns.
     bindE (foreachE columns (\<lambda>_. mapErr (wrapStoreError (Sprintf ''scan sqlite table info for %q'' [table])) sql_inert)) (\<lambda>_.
     bindE (mapErr (wrapStoreError (Sprintf ''iterate sqlite table info for %q'' [table])) sql_inert) (\<lambda>_.
     retE columns)))"

definition tableSQL :: "string \<Rightarrow> ('z, string) db_op" where
  "tableSQL table =
     bindE (mapErr (wrapStoreError (Sprintf ''query sqlite sql for table %q'' [table])) (query_master ''table'' table)) (\<lambda>sqlText.
     case sqlText of
       Some t \<Rightarrow> if TrimSpace t = [] then throwE (Errorf ''sqlite table %q has no schema SQL'' [table]) else retE t
     | None \<Rightarrow> throwE (Errorf ''sqlite table %q has no schema SQL'' [table]))"

definition indexSQL :: "string \<Rightarrow> ('z, string) db_op" where
  "indexSQL index =
     bindE (mapErr (\<lambda>e. if e = sql_ErrNoRows then Errorf ''sqlite index %q has no schema SQL'' [index]
                        else wrapStoreError (Sprintf ''query sqlite sql for index %q'' [index]) e) (query_master ''index'' index)) (\<lambda>sqlText.
     case sqlText of
       Some t \<Rightarrow> if TrimSpace t = [] then throwE (Errorf ''sqlite index %q has no schema SQL'' [index]) else retE t
     | None \<Rightarrow> throwE (Errorf ''sqlite index %q has no schema SQL'' [index]))"

definition bootstrapSchema :: "('z, unit) db_op" where
  "bootstrapSchema =
     transaction (\<lambda>_. True)
       (bindE (mapErr (wrapStoreError ''create current spool schema'') (exec_create (table_entry recordsTableName recordsTableSchema))) (\<lambda>_.
        bindE (foreachE [index_entry recordsReadyIndexName recordsReadyIndexSchema, index_entry recordsOpIndexName recordsOperationIndexSchema]
          (\<lambda>entry. mapErr (wrapStoreError ''create spool index'') (exec_create entry))) (\<lambda>_.
        bindE (mapErr (wrapStoreError ''set sqlite user_version'')
          (attemptE (\<lambda>w. (Inr (), w\<lparr>tx := (tx w)\<lparr>user_version := spoolSchemaVersion\<rparr>\<rparr>)))) (\<lambda>_.
        commitImmediate))))"

definition expectedColumns :: "string list" where
  "expectedColumns =
     [''id'', ''state'', ''attempt'', ''next_attempt_at_ms'', ''operation_id'', ''operation_location'', ''provider_message_id'',
      ''first_submitted_at_ms'', ''last_error_message'', ''last_error_provider'', ''last_error_temporary'',
      ''last_error_timestamp_ms'', ''created_at_ms'', ''updated_at_ms'']"

definition requiredTexts :: "string list" where
  "requiredTexts =
      [''create table records'',
       ''id text not null primary key'',
       ''check(length(id) > 0)'',
       ''check(id = trim(id))'',
       ''state text not null check(state in ('' @ sql_quote ''queued'' @ '', '' @ sql_quote ''working'' @ '', '' @ sql_quote ''submitted'' @ '', '' @ sql_quote ''succeeded'' @ '', '' @ sql_quote ''dead-letter'' @ ''))'',
       ''attempt integer not null check(attempt >= 0)'',
       ''next_attempt_at_ms integer not null check(next_attempt_at_ms > 0)'',
       ''provider_message_id text'',
       ''first_submitted_at_ms integer check(first_submitted_at_ms is null or first_submitted_at_ms > 0)'',
       ''created_at_ms integer not null check(created_at_ms > 0)'',
       ''updated_at_ms integer not null check(updated_at_ms > 0 and updated_at_ms >= created_at_ms)'',
       ''last_error_temporary integer check(last_error_temporary is null or last_error_temporary in (0, 1))'',
       ''last_error_timestamp_ms integer check(last_error_timestamp_ms is null or last_error_timestamp_ms > 0)'']"

definition requiredSnippets :: "policy_libs \<Rightarrow> string list" where
  "requiredSnippets lib = map (normalizeSQL lib) requiredTexts"

text \<open>
  The source visits the indexes in the order of a Go map, which only decides which of two errors is reported.
\<close>

definition requiredIndexes :: "policy_libs \<Rightarrow> (string \<times> string) list" where
  "requiredIndexes lib =
     [(recordsReadyIndexName, normalizeSQL lib ''create index idx_records_ready on records(state, next_attempt_at_ms, created_at_ms, id)''),
      (recordsOpIndexName, normalizeSQL lib ''create index idx_records_operation_id on records(operation_id)'')]"

definition unexpectedColumn :: "string \<Rightarrow> string list \<Rightarrow> goerr option" where
  "unexpectedColumn root columns =
     (if length columns \<noteq> length expectedColumns
      then Some (Errorf ''unsupported local spool schema in %s: expected %d columns in %q, found %d; delete the spool directory and restart''
        [root, show_int (int (length expectedColumns)), recordsTableName, show_int (int (length columns))])
      else
        map_option (\<lambda>(i, got, want). Errorf ''unsupported local spool schema in %s: unexpected column %d in %q (got %q, want %q); delete the spool directory and restart''
            [root, show_int (int i), recordsTableName, got, want])
          (find (\<lambda>(i, got, want). got \<noteq> want) (zip [0..<length columns] (zip columns expectedColumns))))"

definition checkIndex :: "policy_libs \<Rightarrow> string \<Rightarrow> string \<times> string \<Rightarrow> ('z, unit) db_op" where
  "checkIndex lib root = (\<lambda>(indexName, expectedSQL).
     bindE (mapErr (\<lambda>_. Errorf ''unsupported local spool schema in %s: missing or invalid %q index; delete the spool directory and restart'' [root, indexName])
       (indexSQL indexName)) (\<lambda>sqlText.
     if Contains (normalizeSQL lib sqlText) expectedSQL then retE ()
     else throwE (Errorf ''unsupported local spool schema in %s: %q does not match the expected v1 definition; delete the spool directory and restart'' [root, indexName])))"

definition validateCurrentSchema :: "policy_libs \<Rightarrow> string \<Rightarrow> ('z, unit) db_op" where
  "validateCurrentSchema lib root =
     bindE (tableExists recordsTableName) (\<lambda>present.
     if \<not> present
     then throwE (Errorf ''spool schema version %d is missing %q table in %s; delete the spool directory and restart'' [show_int spoolSchemaVersion, recordsTableName, root])
     else
       bindE (loadTableColumns recordsTableName) (\<lambda>columns.
       case unexpectedColumn root columns of
         Some e \<Rightarrow> throwE e
       | None \<Rightarrow>
           bindE (tableSQL recordsTableName) (\<lambda>sqlText.
           if \<not> list_all (Contains (normalizeSQL lib sqlText)) (requiredSnippets lib)
           then throwE (Errorf ''unsupported local spool schema in %s: %q does not match the expected v1 definition; delete the spool directory and restart'' [root, recordsTableName])
           else foreachE (requiredIndexes lib) (checkIndex lib root))))"

definition init :: "policy_libs \<Rightarrow> string \<Rightarrow> ('z, unit) db_op" where
  "init lib root =
     bindE applyPragmas (\<lambda>_.
     bindE userVersion (\<lambda>version.
     if version = 0 then
       bindE (tableExists recordsTableName) (\<lambda>present.
       if present then throwE (Errorf ''unsupported local spool schema in %s: delete the spool directory and restart'' [root])
       else bootstrapSchema)
     else if version = spoolSchemaVersion then validateCurrentSchema lib root
     else throwE (Errorf ''unsupported spool schema version %d'' [show_int version])))"

text \<open>\<open>sqliteRecordStore.close\<close>: closing the pool.\<close>

definition records_close :: "('z, unit) db_op" where
  "records_close = sql_inert"

text \<open>The record store is known by its root; its database is the one of the world.\<close>

definition newSQLiteRecordStore :: "policy_libs \<Rightarrow> string \<Rightarrow> ('z, string) db_op" where
  "newSQLiteRecordStore lib root0 =
     (let root = TrimSpace root0 in
      if root = [] then throwE (Errorf ''spool root cannot be empty'' [])
      else
        bindE (mapErr (Wrapf ''ensure spool root %s: %w'' [root]) (ensureDirectoryPathNoFollow root)) (\<lambda>(rootFD, cleanRoot).
        bindE (mapErr (wrapStoreError ''open sqlite database'') sql_inert) (\<lambda>_.
        tryE (init lib cleanRoot) (\<lambda>r.
          case r of
            Inl e \<Rightarrow> bindE (ignoreE records_close) (\<lambda>_. throwE e)
          | Inr _ \<Rightarrow> retE cleanRoot))))"

section \<open>Opening the spool\<close>

definition NewSpoolStore :: "policy_libs \<Rightarrow> string \<Rightarrow> ('z, payload_store) db_op" where
  "NewSpoolStore lib root =
     bindE (newSQLiteRecordStore lib root) (\<lambda>recordsRoot.
     tryE (NewPayloadStore recordsRoot) (\<lambda>r.
       case r of
         Inl e \<Rightarrow> bindE (ignoreE records_close) (\<lambda>_. throwE e)
       | Inr ps \<Rightarrow> retE ps))"

definition SpoolStore_Close :: "('z, unit) db_op" where
  "SpoolStore_Close = records_close"

end
