(* ===== verification/Relay_Main.thy ===== *)
theory Relay_Main
  imports Relay_Handler_Laws Smtp_Server Smtp_Session_Laws Provider_Factory Record_Schema
begin

text \<open>
  cmd/relay/main.go: the message handler that turns the relay's errors into SMTP replies, the builders
  of the parts, the startup in its order, the readiness of the process and the closing of its parts. The signal context, the
  goroutines and the logger are not modelled; a failure that ends the process is the error result of the
  startup.
\<close>

section \<open>The message handler\<close>

definition senderPolicyRejectedError :: goerr where
  "senderPolicyRejectedError = SMTPError 554 (5, 7, 1) ''sender rejected by relay policy''"

definition relayBusyError :: goerr where
  "relayBusyError = SMTPError 451 (4, 3, 2) ''relay busy, try again later''"

definition temporaryRelayError :: goerr where
  "temporaryRelayError = SMTPError 451 (4, 3, 0) ''temporary relay failure''"

definition enqueueReply :: "goerr \<Rightarrow> goerr" where
  "enqueueReply e =
     (if AsSenderPolicyError e \<noteq> None then senderPolicyRejectedError
      else if AsBusyError e \<noteq> None then relayBusyError
      else if AsStoreError e \<noteq> None then temporaryRelayError
      else if errors_Is e ContextCanceled \<or> errors_Is e ContextDeadlineExceeded then temporaryRelayError
      else temporaryRelayError)"

definition newEnqueueMessageHandler ::
  "policy_libs \<Rightarrow> 'z relay_world_scheme handler \<Rightarrow> 'z messageHandler" where
  "newEnqueueMessageHandler plib relayHandler = (\<lambda>msg.
     tryE (HandleMessage plib relayHandler msg) (\<lambda>r.
       case r of Inr _ \<Rightarrow> retE () | Inl e \<Rightarrow> throwE (enqueueReply e)))"

definition buildSenderPolicy :: "policy_libs \<Rightarrow> config \<Rightarrow> goerr + sender_policy" where
  "buildSenderPolicy plib cfg =
     NewSenderPolicy plib \<lparr>opt_Mode = cfg_SenderPolicyMode cfg, opt_AllowedDomainPatterns = cfg_SenderAllowedDomains cfg\<rparr>"

definition buildRelayHandler :: "policy_libs \<Rightarrow> config \<Rightarrow> 's store_api option \<Rightarrow> goerr + 's handler" where
  "buildRelayHandler plib cfg store =
     bindR (buildSenderPolicy plib cfg) (\<lambda>senderPolicy.
     NewHandler (cfg_SenderPolicyMode cfg) senderPolicy store (cfg_SMTPMaxInflightSends cfg))"

definition buildMessageHandler ::
  "policy_libs \<Rightarrow> config \<Rightarrow> 'z relay_world_scheme store_api option \<Rightarrow> goerr + 'z messageHandler \<times> duration" where
  "buildMessageHandler plib cfg store =
     bindR (buildRelayHandler plib cfg store) (\<lambda>h. Inr (newEnqueueMessageHandler plib h, 0))"

section \<open>Background delivery\<close>

definition buildBackgroundDelivery ::
  "policy_libs \<Rightarrow> libs \<Rightarrow> string \<Rightarrow> 'z relay_world_scheme provider_api option \<Rightarrow> worker_config \<Rightarrow>
   ('z, payload_store \<times> 'z relay_world_scheme worker) relay_op" where
  "buildBackgroundDelivery plib lib root provider workerCfg =
     (if provider = None then throwE (Errorf ''delivery runtime provider cannot be nil'' [])
      else
        bindE (NewSpoolStore plib root) (\<lambda>store.
        case NewWorker (Some (spool_api lib store)) provider workerCfg of
          Inl e \<Rightarrow> bindE (ignoreE SpoolStore_Close) (\<lambda>_. throwE e)
        | Inr worker \<Rightarrow> retE (store, worker)))"

text \<open>New metrics, and where their gauges come from.\<close>

definition buildMetrics :: "payload_store option \<Rightarrow> ('z, ('z, (string \<times> int) list) relay_op option) relay_op" where
  "buildMetrics store = (\<lambda>w. (Inr (map_option (\<lambda>_. StateCounts) store), w\<lparr>metrics := Some NewMetrics\<rparr>))"

definition runStartupRecovery :: "'s worker option \<Rightarrow> gotime \<Rightarrow> ('s, recovery_result) op" where
  "runStartupRecovery recoverer now =
     (case recoverer of
        None \<Rightarrow> throwE (Errorf ''startup recoverer cannot be nil'' [])
      | Some wk \<Rightarrow> Worker_Recover wk now)"

section \<open>Readiness\<close>

record processReadiness =
  smtpReady :: bool
  recoveryReady :: bool

definition Ready :: "processReadiness option \<Rightarrow> bool" where
  "Ready r = (case r of None \<Rightarrow> False | Some p \<Rightarrow> smtpReady p \<and> recoveryReady p)"

definition setSMTPReady :: "bool \<Rightarrow> processReadiness option \<Rightarrow> processReadiness option" where
  "setSMTPReady ready = map_option (\<lambda>p. p\<lparr>smtpReady := ready\<rparr>)"

definition setRecoveryReady :: "bool \<Rightarrow> processReadiness option \<Rightarrow> processReadiness option" where
  "setRecoveryReady ready = map_option (\<lambda>p. p\<lparr>recoveryReady := ready\<rparr>)"

section \<open>TLS\<close>

definition VersionTLS12 :: int where "VersionTLS12 = 0x0303"

definition loadSMTPServerTLS :: "(string \<Rightarrow> string \<Rightarrow> goerr + string) \<Rightarrow> string \<Rightarrow> string \<Rightarrow> goerr + tls_config" where
  "loadSMTPServerTLS tls_LoadX509KeyPair certFile keyFile =
     bindR (tls_LoadX509KeyPair (TrimSpace certFile) (TrimSpace keyFile)) (\<lambda>cert.
     Inr \<lparr>MinVersion = VersionTLS12, Certificates = [cert]\<rparr>)"

section \<open>Startup\<close>

text \<open>The libraries of all parts, and what startup leaves behind.\<close>

record 'z main_libs =
  ml_env :: process_env
  ml_acs :: acs_libs
  ml_ses :: "'z net_world_scheme ses_libs"
  ml_policy :: policy_libs
  ml_spool :: libs
  ml_LoadX509KeyPair :: "string \<Rightarrow> string \<Rightarrow> goerr + string"

record 'z process =
  p_config :: config
  p_store :: payload_store
  p_worker :: "'z net_world_scheme worker"
  p_server :: "'z net_world_ext smtp_server"
  p_stateCounts :: "('z net_world_ext, (string \<times> int) list) relay_op option"
  p_readiness :: "processReadiness option"

definition workerConfigFor :: "config \<Rightarrow> 's runtime \<Rightarrow> worker_config" where
  "workerConfigFor cfg deliveryRuntime =
     \<lparr>SubmitTimeout = SendTimeout deliveryRuntime, FinalizeTimeout = DefaultFinalizeTimeout,
      PollInterval = milliseconds (cfg_SpoolPollIntervalMS cfg), RetryAttempts = cfg_DeliveryRetryAttempts cfg,
      RetryBaseDelay = milliseconds (cfg_DeliveryRetryBaseDelayMS cfg), SubmittedTimeout = DefaultSubmittedTimeout,
      wc_ProviderName = cfg_DeliveryMode cfg\<rparr>"

text \<open>The TLS configuration, the handler and the server, which need no effects.\<close>

definition serverTLS :: "'z main_libs \<Rightarrow> config \<Rightarrow> goerr + tls_config option" where
  "serverTLS ml cfg =
     (if cfg_SMTPStartTLSEnabled cfg \<or> TrimSpace (cfg_SMTPSListenAddr cfg) \<noteq> []
      then map_sum id Some (loadSMTPServerTLS (ml_LoadX509KeyPair ml) (cfg_SMTPTLSCertFile cfg) (cfg_SMTPTLSKeyFile cfg))
      else Inr None)"

definition serverConfigFor :: "config \<Rightarrow> netip_prefix list \<Rightarrow> tls_config option \<Rightarrow> duration \<Rightarrow> server_config" where
  "serverConfigFor cfg cidrs tlsCfg timeout =
     \<lparr>ListenAddr = cfg_SMTPListenAddr cfg, SMTPSListenAddr = cfg_SMTPSListenAddr cfg, Domain = [], AllowedCIDRs = cidrs,
      RequireAuth = cfg_SMTPRequireAuth cfg, RequireTLS = cfg_SMTPRequireTLS cfg, StartTLSEnabled = cfg_SMTPStartTLSEnabled cfg,
      TLSConfig = tlsCfg, MaxMessageBytes = 0, MaxRecipients = 0, ReadTimeout = 0, WriteTimeout = 0, HandlerTimeout = timeout\<rparr>"

definition buildServer :: "'z main_libs \<Rightarrow> config \<Rightarrow> payload_store \<Rightarrow> goerr + 'z net_world_ext smtp_server" where
  "buildServer ml cfg store =
     bindR (ParseCIDRs (ml_env ml) (cfg_SMTPAllowedCIDRs cfg)) (\<lambda>cidrs.
     bindR (serverTLS ml cfg) (\<lambda>tlsCfg.
     bindR (buildMessageHandler (ml_policy ml) cfg (Some (spool_api (ml_spool ml) store))) (\<lambda>(handler, timeout).
     NewServer (serverConfigFor cfg cidrs tlsCfg timeout) (Some handler)
       (Some (AuthPlain \<lparr>Username = cfg_SMTPAuthUsername cfg, Password = cfg_SMTPAuthPassword cfg\<rparr>)))))"

text \<open>A failure after the spool was opened closes it before the process exits.\<close>

definition closing :: "goerr + 'a \<Rightarrow> ('z, 'a) db_op" where
  "closing r = (case r of Inl e \<Rightarrow> bindE (ignoreE SpoolStore_Close) (\<lambda>_. throwE e) | Inr x \<Rightarrow> retE x)"

text \<open>From the recovery on, with the spool open.\<close>

definition finishStartup ::
  "'z main_libs \<Rightarrow> config \<Rightarrow> 'z net_world_scheme runtime \<Rightarrow> payload_store \<Rightarrow> 'z net_world_scheme worker \<Rightarrow> ('z net_world_scheme, 'z process) op" where
  "finishStartup ml cfg deliveryRuntime store worker0 =
     bindE nowE (\<lambda>now.
     bindE (tryE (runStartupRecovery (Some worker0) now) closing) (\<lambda>recovery.
     bindE (buildMetrics (Some store)) (\<lambda>counts.
     bindE (closing (NewWorker (Some (spool_api (ml_spool ml) store)) (Some (Provider deliveryRuntime)) (workerConfigFor cfg deliveryRuntime))) (\<lambda>worker.
     bindE (closing (buildServer ml cfg store)) (\<lambda>server.
     retE \<lparr>p_config = cfg, p_store = store, p_worker = worker, p_server = server, p_stateCounts = counts,
           p_readiness = setRecoveryReady True (Some \<lparr>smtpReady = False, recoveryReady = False\<rparr>)\<rparr>)))))"

definition startup :: "'z main_libs \<Rightarrow> ('z net_world_scheme, 'z process) op" where
  "startup ml =
     (case Load (ml_env ml) of
        Inl e \<Rightarrow> throwE e
      | Inr cfg \<Rightarrow>
     (case providers_Build (ml_acs ml) (ml_ses ml) cfg of
        Inl e \<Rightarrow> throwE e
      | Inr deliveryRuntime \<Rightarrow>
          bindE (buildBackgroundDelivery (ml_policy ml) (ml_spool ml) (cfg_SpoolDir cfg) (Some (Provider deliveryRuntime))
              (workerConfigFor cfg deliveryRuntime)) (\<lambda>(store, worker0).
          finishStartup ml cfg deliveryRuntime store worker0)))"

section \<open>Running\<close>

text \<open>
  The two \<open>select\<close> statements: what wakes them, and the readiness afterwards. The first waits for the
  listeners, the second for the end; after the second the listeners count as not ready, whatever woke it.
\<close>

datatype main_event = ListenersReady | ContextDone | ServerFailed goerr

fun firstSelect :: "main_event \<Rightarrow> processReadiness option \<Rightarrow> processReadiness option" where
  "firstSelect ListenersReady r = setSMTPReady True r"
| "firstSelect ContextDone r = r"
| "firstSelect (ServerFailed e) r = r"

fun secondSelect :: "main_event \<Rightarrow> processReadiness option \<Rightarrow> processReadiness option" where
  "secondSelect (ServerFailed e) r = setSMTPReady False (setSMTPReady False r)"
| "secondSelect _ r = setSMTPReady False r"

section \<open>Stopping\<close>

text \<open>
  The end of \<open>main\<close>: the SMTP server is shut down, then the observability server, whose http.Server answers
  with or without an error, and when the worker has returned the spool is closed. An error is logged and
  does not keep the next part from being closed; the result lists the logged errors.
\<close>

definition obs_Shutdown :: "goerr option \<Rightarrow> goerr option" where
  "obs_Shutdown answer = map_option (Wrapf ''shutdown observability server: %w'' []) answer"

definition stopProcess ::
  "session_libs \<Rightarrow> 'y smtp_server \<Rightarrow> wait_event \<Rightarrow> goerr option \<Rightarrow> 'x server_world_scheme \<times> 'z spool_world_scheme \<Rightarrow>
   goerr list \<times> 'x server_world_scheme \<times> 'z spool_world_scheme" where
  "stopProcess lib srv waited obs = (\<lambda>(sw, w).
     case Shutdown lib srv waited sw of (r1, sw') \<Rightarrow>
     case SpoolStore_Close w of (r3, w') \<Rightarrow>
       (case_sum (\<lambda>e. [e]) (\<lambda>_. []) r1 @ (case obs_Shutdown obs of None \<Rightarrow> [] | Some e \<Rightarrow> [e]) @ case_sum (\<lambda>e. [e]) (\<lambda>_. []) r3,
        sw', w'))"

end
