(* ===== verification/Relay_Main_Laws.thy ===== *)
theory Relay_Main_Laws
  imports Relay_Main Smtp_Server_Laws
begin

text \<open>
  The properties of the whole relay: what a positive reply to DATA means, how many messages are in
  progress, and which replies there are.
\<close>

section \<open>The handler as a message service\<close>

lemma newEnqueueMessageHandler_Inr:
  "newEnqueueMessageHandler plib h m st = (Inr (), st') \<longleftrightarrow> HandleMessage plib h m st = (Inr (), st')"
  by (auto simp: newEnqueueMessageHandler_def tryE_case_iff)

interpretation enqueue: message_service "newEnqueueMessageHandler plib h"
  "\<lambda>st. h_store h = spool_api lib ps \<and> spool_ready ps (hs_world st)"
  "\<lambda>m st st'. \<exists>res. ApplySenderPolicy plib m (h_senderPolicy h) = (res, None) \<and>
     spool_accepted lib ps (pr_Message res) (hs_world st) (hs_world st')"
  for plib h lib ps
proof
  fix st m st'
  assume "h_store h = spool_api lib ps \<and> spool_ready ps (hs_world st)" "newEnqueueMessageHandler plib h m st = (Inr (), st')"
  then show "\<exists>res. ApplySenderPolicy plib m (h_senderPolicy h) = (res, None) \<and>
      spool_accepted lib ps (pr_Message res) (hs_world st) (hs_world st')"
    using spooled.handler_accepts [of h lib ps st plib m st'] by (simp add: newEnqueueMessageHandler_Inr)
qed

text \<open>The policy changes nothing but the reply-to.\<close>

lemma ApplySenderPolicy_keeps:
  "ApplySenderPolicy plib m p = (res, None) \<Longrightarrow> \<exists>rs. pr_Message res = m\<lparr>ReplyTo := rs\<rparr>"
  by (auto simp: ApplySenderPolicy_def Let_def applyPolicyDecision_def split: if_splits option.splits)

section \<open>Stopping\<close>

text \<open>Whatever errors are reported, stopping closes the listeners and leaves the spool's records.\<close>

lemma stopProcess_closes:
  assumes "stopProcess lib srv waited obs (sw, w) = (errs, sw', w')"
  shows "mset (sockets sw') = mset (sockets sw) - mset (listeners sw)" "db w' = db w"
proof -
  obtain r1 r3 where "Shutdown lib srv waited sw = (r1, sw')" and c: "SpoolStore_Close w = (r3, w')"
    using assms by (auto simp: stopProcess_def split: prod.splits)
  then show "mset (sockets sw') = mset (sockets sw) - mset (listeners sw)" using Shutdown_effect by blast
  show "db w' = db w"
    using c by (auto simp: SpoolStore_Close_def records_close_def sql_inert_def attemptE_def Let_def split: option.splits)
qed

section \<open>An example relay\<close>

definition example_handler :: "relay_world handler" where
  "example_handler =
     \<lparr>h_policyMode = ''rewrite'', h_senderPolicy = \<lparr>policy_mode = SenderPolicyRewrite, matchers = []\<rparr>,
      h_store = spool_api example_libs example_store, h_maxInflight = 1\<rparr>"

definition example_session_policy :: "unit sessionPolicy" where
  "example_session_policy =
     \<lparr>allowedCIDRs = [\<lparr>pfx_addr = Addr4 0x0A000000, pfx_bits = 8\<rparr>], requireAuth = True, requireTLS = False,
      sp_authProvider = Some (AuthPlain \<lparr>Username = ''u'', Password = ''p''\<rparr>),
      sp_handler = newEnqueueMessageHandler example_policy_libs example_handler, handlerTimeout = 0\<rparr>"

definition example_state :: "unit relay_state" where
  "example_state = \<lparr>inflight = 0, hs_world = empty_relay\<rparr>"

definition example_conn :: smtp_conn where
  "example_conn = \<lparr>RemoteAddr = Some (TCPAddr [10, 0, 0, 1] ''10.0.0.1:99''), tls_active = False\<rparr>"

definition example_session :: "unit session" where
  "example_session =
     \<lparr>s_conn = Some example_conn, s_from = [], s_to = [], authed = False, s_remoteAddr = ''10.0.0.1:99'', s_policy = example_session_policy\<rparr>"

definition example_calls :: "session_call list" where
  "example_calls = [CallAuth ''plain'' ''u'' ''p'', CallMail '' a@x.org'', CallRcpt ''b@y.org'']"

definition mail_run :: "(session_call \<times> goerr option) list \<times> unit session \<times> unit relay_state" where
  "mail_run = run_session example_session_libs example_calls (example_session, example_state)"

definition mail_data :: "goerr option \<times> unit session \<times> unit relay_state" where
  "mail_data = run_session_call example_session_libs (CallData (''hello'', None)) (snd mail_run)"

lemma example_session_new:
  "NewSession (sl_net example_session_libs) example_session_policy (Some example_conn) example_state = (Inr example_session, example_state)"
proof -
  have "remoteAddrIP (sl_net example_session_libs) (Some example_conn) = Inr (Addr4 0x0A000001, ''10.0.0.1:99'')"
    "isAddrAllowed (Addr4 0x0A000001) [\<lparr>pfx_addr = Addr4 0x0A000000, pfx_bits = 8\<rparr>]" by code_simp+
  then show ?thesis by (simp add: NewSession_def example_session_def example_session_policy_def)
qed

definition ready_session :: "unit session" where
  "ready_session = example_session\<lparr>s_from := '' a@x.org'', s_to := [''b@y.org''], authed := True\<rparr>"

definition parsed_mail :: message where
  "parsed_mail = empty_message\<lparr>EnvelopeFrom := ''a@x.org'', To := [''b@y.org''], TextBody := ''hello''\<rparr>"

lemma mail_run_eq: "mail_run = (map (\<lambda>x. (x, None)) example_calls, ready_session, example_state)"
proof -
  have "equal_fold example_policy_libs ''plain'' ''PLAIN''" by code_simp
  then show ?thesis
    by (simp add: mail_run_def example_calls_def ready_session_def example_session_def example_session_policy_def example_session_libs_def
        Auth_def AuthPlain_def plainCallback_def Mail_def Rcpt_def enforceSessionPolicy_def)
qed

lemma parsed_mail_ok: "ParseMessage (sl_parser example_session_libs) (''hello'', None) '' a@x.org'' [''b@y.org''] = Some (Inr parsed_mail)"
  by code_simp

lemma handled_ok: "fst (HandleMessage example_policy_libs example_handler parsed_mail example_state) = Inr ()"
  by code_simp

lemma mail_data_ok: "fst mail_data = None"
proof -
  have "fst (newEnqueueMessageHandler example_policy_libs example_handler parsed_mail example_state) = Inr ()"
    using handled_ok newEnqueueMessageHandler_Inr [of example_policy_libs example_handler parsed_mail example_state]
    by (metis prod.collapse fst_conv)
  then show ?thesis using parsed_mail_ok
    by (auto simp: mail_data_def mail_run_eq Data_cmd_def ready_session_def example_session_def example_session_policy_def
        enforceSessionPolicy_def mapErr_def split: prod.splits)
qed

lemma empty_relay_ready: "spool_ready example_store empty_relay"
proof -
  have "spool_path example_store empty_relay = [''s'']" "wf_node (fs empty_relay)" by code_simp+
  then show ?thesis by (simp add: spool_ready_def payload_path_def empty_relay_def payloadsDirName_def)
qed

section \<open>Properties\<close>

text \<open>C1: a positive reply to DATA is a promise kept on disk. When a session of an allowed client has run any commands
  and DATA is then answered without an error, the message was parsed with the envelope of the accepted MAIL and
  RCPT commands, the sender policy let it pass, and the spool now holds one new row for it, queued and never
  attempted, with the complete payload of the message; the client was authenticated if the policy asks for it,
  and TLS was on if the policy asks for it.\<close>
theorem accepted_mail_is_durable:
  assumes "NewSession (sl_net lib) policy c st0 = (Inr s, st)"
    and "sp_handler policy = newEnqueueMessageHandler plib h" "h_store h = spool_api slib ps"
    and "run_session lib xs (s, st) = (tr, s1, st1)" "spool_ready ps (hs_world st1)"
    and "run_session_call lib (CallData r) (s1, st1) = (None, s2, st2)"
  shows "\<exists>m res. ParseMessage (sl_parser lib) r (fst (envelope ([], []) tr)) (snd (envelope ([], []) tr)) = Some (Inr m) \<and>
      ApplySenderPolicy plib m (h_senderPolicy h) = (res, None) \<and>
      EnvelopeFrom (pr_Message res) = TrimSpace (fst (envelope ([], []) tr)) \<and>
      To (pr_Message res) = normalizeAddresses (snd (envelope ([], []) tr)) \<and>
      spool_accepted slib ps (pr_Message res) (hs_world st1) (hs_world st2) \<and>
      (requireAuth policy \<longrightarrow> (\<exists>x. (x, None) \<in> set tr \<and> authenticates s x)) \<and>
      (requireTLS policy \<longrightarrow> isTLSActive s \<or> CallStartTLS \<in> set xs)"
proof -
  note run = enqueue.session_accepted [OF assms(1,2,4) _ assms(6), of slib ps]
  have ready: "h_store h = spool_api slib ps \<and> spool_ready ps (hs_world st1)" using assms(3,5) by simp
  obtain m res where m: "ParseMessage (sl_parser lib) r (fst (envelope ([], []) tr)) (snd (envelope ([], []) tr)) = Some (Inr m)"
    "ApplySenderPolicy plib m (h_senderPolicy h) = (res, None)" "spool_accepted slib ps (pr_Message res) (hs_world st1) (hs_world st2)"
    using run(1) [OF ready] by blast
  then show ?thesis using ApplySenderPolicy_keeps [OF m(2)] ParseMessage_envelope [OF m(1)] run(2,3) [OF ready]
    by (intro exI [of _ m] exI [of _ res]) auto
qed

theorem accepted_mail_is_durable_witness:
  "\<exists>m. EnvelopeFrom m = ''a@x.org'' \<and> To m = [''b@y.org''] \<and> spool_accepted example_libs example_store m empty_relay (hs_world (snd (snd mail_data)))"
proof -
  have run: "run_session example_session_libs example_calls (example_session, example_state) = (fst mail_run, fst (snd mail_run), example_state)"
    by (simp add: mail_run_def [symmetric] mail_run_eq)
  have data: "run_session_call example_session_libs (CallData (''hello'', None)) (fst (snd mail_run), example_state) =
      (None, fst (snd mail_data), snd (snd mail_data))"
    using mail_data_ok by (simp add: mail_data_def mail_run_eq prod_eq_iff)
  have p: "sp_handler example_session_policy = newEnqueueMessageHandler example_policy_libs example_handler"
    "h_store example_handler = spool_api example_libs example_store" "hs_world example_state = empty_relay"
    by (simp_all add: example_session_policy_def example_handler_def example_state_def)
  have "TrimSpace (fst (envelope ([], []) (fst mail_run))) = ''a@x.org''"
    "normalizeAddresses (snd (envelope ([], []) (fst mail_run))) = [''b@y.org'']"
    unfolding mail_run_eq by code_simp+
  then show ?thesis
    using accepted_mail_is_durable [OF example_session_new p(1,2) run _ data] empty_relay_ready p(3) by fastforce
qed

text \<open>C6: the relay never works on more messages than configured. However requests arrive, are refused, finish and
  interleave with the rest of the process, the slots taken are those of the requests in progress, and they are at
  most the handler's capacity.\<close>
theorem handler_inflight_bounded:
  assumes "(handler_step plib h)\<^sup>*\<^sup>* ([], s) (ms, s')" "inflight s = 0"
  shows "inflight s' = length ms \<and> length ms \<le> h_maxInflight h"
  using assms(1)
proof (induction "(ms, s')" arbitrary: ms s' rule: rtranclp_induct)
  case base
  then show ?case using assms(2) by simp
next
  case (step c)
  then show ?case using handler_step_slots by (cases c) blast
qed

theorem handler_inflight_bounded_witness:
  "inflight (snd (admitMessage example_policy_libs example_handler parsed_mail example_state)) = 1"
proof -
  define r where "r = admitMessage example_policy_libs example_handler parsed_mail example_state"
  have "fst r = Inr parsed_mail" unfolding r_def by code_simp
  then have "admitMessage example_policy_libs example_handler parsed_mail example_state = (Inr parsed_mail, snd r)"
    by (simp add: r_def prod_eq_iff)
  then have "(handler_step example_policy_libs example_handler)\<^sup>*\<^sup>* ([], example_state) ([parsed_mail], snd r)"
    by (intro r_into_rtranclp admit)
  from handler_inflight_bounded [OF this] show ?thesis by (simp add: example_state_def r_def)
qed


definition busy_state :: "unit relay_state" where
  "busy_state = example_state\<lparr>inflight := 1\<rparr>"


end
