(* ===== verification/Acs_Provider_Laws.thy ===== *)
theory Acs_Provider_Laws
  imports Acs_Provider Sender_Policy_Laws
begin

text \<open>
  Laws of the ACS provider: the requests an operation sends, counted and each of a given kind, the outcomes
  of the retry loop, and that the spool is left alone.
\<close>

section \<open>The requests of an operation\<close>

text \<open>At most \<open>n\<close> requests, all satisfying \<open>P\<close>, and no change to the spool.\<close>

definition sends :: "(http_request \<Rightarrow> bool) \<Rightarrow> nat \<Rightarrow> ('z, 'a) net_op \<Rightarrow> bool" where
  "sends P n m \<longleftrightarrow>
     (\<forall>w. \<exists>reqs. sent (snd (m w)) = sent w @ reqs \<and> length reqs \<le> n \<and> list_all P reqs \<and>
        db (snd (m w)) = db w \<and> fs (snd (m w)) = fs w)"

lemma sendsE:
  assumes "sends P n m" "m w = (r, w')"
  obtains reqs where "sent w' = sent w @ reqs" "length reqs \<le> n" "list_all P reqs" "db w' = db w" "fs w' = fs w"
  using assms unfolding sends_def by (metis snd_conv)

lemma sendsI:
  assumes "\<And>w r w'. m w = (r, w') \<Longrightarrow>
    \<exists>reqs. sent w' = sent w @ reqs \<and> length reqs \<le> n \<and> list_all P reqs \<and> db w' = db w \<and> fs w' = fs w"
  shows "sends P n m"
  unfolding sends_def using assms by (metis prod.collapse)

lemma sends_quiet:
  assumes "\<And>w. sent (snd (m w)) = sent w \<and> db (snd (m w)) = db w \<and> fs (snd (m w)) = fs w"
  shows "sends P n m"
  unfolding sends_def using assms by (auto intro!: exI [of _ "[]"])

lemma sends_mono: "sends P n m \<Longrightarrow> n \<le> k \<Longrightarrow> sends P k m"
  unfolding sends_def by (meson order_trans)

lemma sends_tryE:
  assumes "sends P a m" "\<And>r. sends P b (f r)"
  shows "sends P (a + b) (tryE m f)"
proof (rule sendsI)
  fix w z w' assume "tryE m f w = (z, w')"
  then obtain r u where u: "m w = (r, u)" "f r u = (z, w')" by (auto simp: tryE_iff)
  show "\<exists>reqs. sent w' = sent w @ reqs \<and> length reqs \<le> a + b \<and> list_all P reqs \<and> db w' = db w \<and> fs w' = fs w"
    by (rule sendsE [OF assms(1) u(1)], rule sendsE [OF assms(2) u(2)]) (auto intro: exI [of _ "_ @ _"])
qed

lemma sends_bindE: "sends P a m \<Longrightarrow> (\<And>x. sends P b (f x)) \<Longrightarrow> sends P (a + b) (bindE m f)"
proof -
  assume m: "sends P a m" and f: "\<And>x. sends P b (f x)"
  have eq: "bindE m f = tryE m (\<lambda>r. case r of Inl e \<Rightarrow> throwE e | Inr x \<Rightarrow> f x)"
    by (auto simp: bindE_def tryE_def fun_eq_iff split: prod.splits sum.splits)
  have "sends P b (case r of Inl e \<Rightarrow> throwE e | Inr x \<Rightarrow> f x)" for r
    by (cases r) (simp_all add: f sends_quiet)
  then show ?thesis unfolding eq by (rule sends_tryE [OF m])
qed

lemma sends_mapErr: "sends P n m \<Longrightarrow> sends P n (mapErr g m)"
  by (simp add: sends_def)

lemma sends_calls:
  "sends P n nowE" "sends P n randE" "sends P n ctxErr" "sends P n (retE x)" "sends P n (throwE e)"
  by (rule sends_quiet; simp add: nowE_def randE_def ctxErr_def attemptE_def Let_def split: option.splits)+

lemma sends_Do: "P req \<Longrightarrow> sends P (Suc 0) (http_Do req)"
  unfolding sends_def http_Do_def by simp

text \<open>The same rules without counting in the continuation.\<close>

lemma sends_then: "sends P n m \<Longrightarrow> (\<And>x. sends P 0 (f x)) \<Longrightarrow> sends P n (bindE m f)"
  using sends_bindE [of P n m 0 f] by simp

lemma sends_first: "sends P 0 m \<Longrightarrow> (\<And>x. sends P n (f x)) \<Longrightarrow> sends P n (bindE m f)"
  using sends_bindE [of P 0 m n f] by simp

lemma sends_parseRetryAfter: "sends P 0 (parseRetryAfter lib raw)"
  by (auto simp: parseRetryAfter_def Let_def intro!: sends_calls sends_then split: sum.splits option.splits)

lemma sends_newRequestID: "sends P 0 newRequestID"
  unfolding newRequestID_def by (intro sends_then sends_calls)

lemma sends_authorized:
  assumes "\<And>date. P (authorizedRequest lib p requestID operationID meth target body date)"
  shows "sends P 1 (sendAuthorizedRequest lib p requestID operationID meth target body attempt)"
  unfolding sendAuthorizedRequest_def Let_def
  by (rule sends_first, rule sends_calls)
    (auto intro!: sends_calls sends_mapErr sends_Do [where P = P] assms split: option.splits)

text \<open>The requests of a submission: a post of the given body under the given operation id.\<close>

definition submission_request :: "string \<Rightarrow> bytes \<Rightarrow> http_request \<Rightarrow> bool" where
  "submission_request operationID body r \<longleftrightarrow>
     req_Method r = ''POST'' \<and> req_Body r = body \<and> Get (req_Header r) ''Operation-Id'' = operationID"

lemma authorizedRequest_submission:
  "submission_request (TrimSpace operationID) body (authorizedRequest lib p requestID operationID ''POST'' target body date)"
  by (simp add: submission_request_def authorizedRequest_def Let_def Get_def)

lemma sends_submitOnce:
  "sends (submission_request (TrimSpace operationID) body) 1 (submitOnce lib p requestID operationID attempt body)"
  unfolding submitOnce_def
  by (rule sends_then, rule sends_authorized, rule authorizedRequest_submission)
    (auto intro!: sends_calls sends_then sends_parseRetryAfter split: sum.splits)

lemma sends_submitLoop:
  "sends (submission_request (TrimSpace operationID) body) k (submitLoop k lib p requestID operationID body attempt :: ('z, submission_result) net_op)"
proof (induction k arbitrary: attempt)
  case 0
  show ?case by (simp only: submitLoop.simps sends_calls)
next
  case (Suc k)
  have k: "sends (submission_request (TrimSpace operationID) body) (0 + k)
      (tryE ctxErr (\<lambda>c. case c of Inl e \<Rightarrow> throwE (permanentSendError requestID attempt (retryAttempts p) e)
         | Inr _ \<Rightarrow> (submitLoop k lib p requestID operationID body (attempt + 1) :: ('z, submission_result) net_op)))"
    by (rule sends_tryE [OF sends_calls(3)]) (auto intro: sends_calls Suc split: sum.split)
  have "sends (submission_request (TrimSpace operationID) body) (1 + k) (submitLoop (Suc k) lib p requestID operationID body attempt :: ('z, submission_result) net_op)"
    unfolding submitLoop.simps
    by (rule sends_tryE [OF sends_submitOnce]) (use k in \<open>auto intro: sends_calls split: sum.split\<close>)
  then show ?case by simp
qed

lemma sends_Submit:
  assumes "buildSendRequest (al_policy lib) (acs_sender p) msg = Inr req" "acs_Marshal lib req = Inr body"
  shows "sends (submission_request (TrimSpace operationID) body) (nat (retryAttempts p)) (acs_Submit lib p msg operationID)"
  unfolding acs_Submit_def assms sum.case
  by (rule sends_first, rule sends_mapErr, rule sends_newRequestID)
    (use sends_submitLoop [of "TrimSpace operationID"] in \<open>simp add: TrimSpace_idem\<close>)

lemma acs_Submit_malformed:
  assumes "\<nexists>req body. buildSendRequest (al_policy lib) (acs_sender p) msg = Inr req \<and> acs_Marshal lib req = Inr body"
  shows "snd (acs_Submit lib p msg operationID w) = w"
  using assms by (auto simp: acs_Submit_def split: sum.splits)

lemma sends_Poll: "sends (\<lambda>r. req_Method r = ''GET'' \<and> req_Body r = []) 1 (acs_Poll lib p operationID)"
  unfolding acs_Poll_def Let_def
proof (split if_split, intro conjI impI)
  show "sends (\<lambda>r. req_Method r = ''GET'' \<and> req_Body r = []) 1 (throwE e)" for e by (rule sends_calls)
qed (rule sends_first, rule sends_mapErr, rule sends_newRequestID, rule sends_then, rule sends_authorized,
    simp add: authorizedRequest_def Let_def,
    auto intro!: sends_calls sends_then sends_parseRetryAfter split: sum.splits)

lemma sends_db: "sends P n m \<Longrightarrow> db (snd (m w)) = db w"
  unfolding sends_def by blast

lemma acs_leaves_database: "leaves_database (acs_api lib p :: 'z net_world_scheme provider_api)"
proof -
  have "db (snd (acs_Submit lib p msg i w)) = db w" for msg i and w :: "'z net_world_scheme"
  proof (cases "\<exists>req body. buildSendRequest (al_policy lib) (acs_sender p) msg = Inr req \<and> acs_Marshal lib req = Inr body")
    case True
    then show ?thesis using sends_db [OF sends_Submit] by blast
  next
    case False
    then show ?thesis using acs_Submit_malformed by metis
  qed
  then show ?thesis by (simp add: leaves_database_def acs_api_def sends_db [OF sends_Poll])
qed

section \<open>The retry loop\<close>

text \<open>Every error of an attempt is a delivery error of this provider, and a temporary one took one request.\<close>

lemma sendAuthorizedRequest_Inl:
  assumes "sendAuthorizedRequest lib p rid i meth target body attempt w = (Inl e, w')"
  shows "ProviderName e = ''acs'' \<and> (Temporary e \<longrightarrow> length (sent w') = Suc (length (sent w)))"
  using assms
  by (auto simp: sendAuthorizedRequest_def Let_def bindE_Inl_iff nowE_def mapErr_Inl_iff http_Do_def permanentSendError_def
      temporarySendError_def split: option.splits)

lemma sendAuthorizedRequest_Inr:
  assumes "sendAuthorizedRequest lib p rid i meth target body attempt w = (Inr resp, w')"
  shows "length (sent w') = Suc (length (sent w)) \<and> answers w (length (sent w)) = Inr resp"
  using assms
  by (auto simp: sendAuthorizedRequest_def Let_def bindE_Inr_iff nowE_def http_Do_def split: option.splits)

lemma submitOnce_Inl:
  assumes "submitOnce lib p rid i attempt body w = (Inl e, w')"
  shows "ProviderName e = ''acs'' \<and> (Temporary e \<longrightarrow> length (sent w') = Suc (length (sent w)))"
proof -
  from assms consider (send) "sendAuthorizedRequest lib p rid i ''POST'' (sendTarget lib p) body attempt w = (Inl e, w')"
    | (status) resp where "sendAuthorizedRequest lib p rid i ''POST'' (sendTarget lib p) body attempt w = (Inr resp, w')"
        "e = statusSendError rid attempt (retryAttempts p) (StatusCode resp)"
    | (decode) e' where "e = permanentSendError rid attempt (retryAttempts p) e'"
    unfolding submitOnce_def
    by (auto simp: bindE_Inl_iff parseRetryAfter_def Let_def nowE_def split: if_splits sum.splits option.splits)
  then show ?thesis
  proof cases
    case send
    then show ?thesis by (rule sendAuthorizedRequest_Inl)
  next
    case status
    then show ?thesis using sendAuthorizedRequest_Inr [OF status(1)] by (simp add: statusSendError_def)
  next
    case decode
    then show ?thesis by (simp add: permanentSendError_def)
  qed
qed

lemma submitLoop_Inl:
  assumes "submitLoop k lib p rid i body attempt w = (Inl e, w')" "attempt + int k = retryAttempts p + 1" "k > 0"
  shows "ProviderName e = ''acs'' \<and> (Temporary e \<longrightarrow> length (sent w') = length (sent w) + k)"
  using assms
proof (induction k arbitrary: attempt w)
  case (Suc k)
  obtain r u where once: "submitOnce lib p rid i attempt body w = (r, u)" by fastforce
  with Suc.prems(1) obtain e1 where r: "r = Inl e1" by (cases r) (auto simp: tryE_def)
  note e1 = submitOnce_Inl [OF once [unfolded r]]
  show ?case
  proof (cases "\<not> Temporary e1 \<or> attempt = retryAttempts p")
    case True
    then have "e = e1" "w' = u" using Suc.prems(1) once r by (auto simp: tryE_def)
    then show ?thesis using e1 True Suc.prems(2) by auto
  next
    case False
    obtain c v where c: "ctxErr u = (c, v)" by fastforce
    have sv: "sent v = sent u" using c by (auto simp: ctxErr_def attemptE_def Let_def split: option.splits)
    show ?thesis
    proof (cases c)
      case (Inl ce)
      then show ?thesis using Suc.prems(1) once r False c by (auto simp: tryE_def permanentSendError_def)
    next
      case (Inr x)
      then have l: "submitLoop k lib p rid i body (attempt + 1) v = (Inl e, w')"
        using Suc.prems(1) once r False c by (auto simp: tryE_def)
      have "k > 0" using False Suc.prems(2) by (cases k) auto
      then show ?thesis using Suc.IH [OF l] Suc.prems(2) e1 sv False by auto
    qed
  qed
qed simp

lemma submitLoop_Inr:
  "submitLoop k lib p rid i body attempt w = (Inr res, w') \<Longrightarrow> res_OperationID res = i \<and> res_State res = SubmissionStateRunning"
proof (induction k arbitrary: attempt w)
  case (Suc k)
  obtain r u where once: "submitOnce lib p rid i attempt body w = (r, u)" by fastforce
  obtain c v where c: "ctxErr u = (c, v)" by fastforce
  show ?case
  proof (cases r)
    case (Inl e)
    with Suc.prems once have "\<not> (\<not> Temporary e \<or> attempt = retryAttempts p)" by (auto simp: tryE_def split: if_splits)
    then have "submitLoop k lib p rid i body (attempt + 1) v = (Inr res, w')"
      using Suc.prems once Inl c by (cases c) (auto simp: tryE_def)
    then show ?thesis by (rule Suc.IH)
  next
    case (Inr res0)
    with Suc.prems once show ?thesis by (auto simp: tryE_def)
  qed
qed simp

lemma acs_Submit_Inr:
  "acs_Submit lib p msg i w = (Inr res, w') \<Longrightarrow> res_OperationID res = TrimSpace i \<and> res_State res = SubmissionStateRunning"
  by (auto simp: acs_Submit_def bindE_Inr_iff split: sum.splits dest!: submitLoop_Inr)

lemma acs_Submit_Inl:
  assumes "buildSendRequest (al_policy lib) (acs_sender p) msg = Inr req" "acs_Marshal lib req = Inr body"
    and "retryAttempts p \<ge> 1" "acs_Submit lib p msg i w = (Inl e, w')"
  shows "ProviderName e = ''acs'' \<and> (Temporary e \<longrightarrow> length (sent w') = length (sent w) + nat (retryAttempts p))"
proof -
  from assms(4) consider (id) e' where "e = permanentSendError [] 1 1 e'"
    | (loop) rid u where "sent u = sent w" "submitLoop (nat (retryAttempts p)) lib p rid (TrimSpace i) body 1 u = (Inl e, w')"
    unfolding acs_Submit_def assms(1,2) sum.case
    by (auto simp: bindE_Inl_iff mapErr_Inl_iff newRequestID_def randE_def bindE_Inr_iff) fastforce
  then show ?thesis
  proof cases
    case id
    then show ?thesis by (simp add: permanentSendError_def)
  next
    case loop
    with submitLoop_Inl [OF loop(2)] assms(3) show ?thesis by simp
  qed
qed

lemma retryBackoff_exact:
  "0 < base \<Longrightarrow> base \<le> maxDuration \<Longrightarrow> 1 \<le> attempt \<Longrightarrow>
     retryBackoff base attempt = min maxDuration (base * 2 ^ nat (attempt - 1))"
  by (auto simp: retryBackoff_def doubled_saturates)

section \<open>An example\<close>

definition example_url :: go_url where
  "example_url = \<lparr>Scheme = ''https'', Host = ''x.org'', Path = [], RawQuery = []\<rparr>"

definition example_acs_libs :: acs_libs where
  "example_acs_libs =
     \<lparr>al_url = \<lparr>url_Parse = (\<lambda>s. Inr example_url), url_String = (\<lambda>u. ''https://'' @ Host u @ Path u),
        url_RequestURI = Path, url_SetQuery = (\<lambda>q k v. k @ ''='' @ v), url_PathEscape = id\<rparr>,
      al_http = \<lparr>hl_ReadFile = (\<lambda>p. Inl (Errno ENOENT)), x509_AppendCertsFromPEM = (\<lambda>b. True), default_transport = True\<rparr>,
      al_policy = example_policy_libs, acs_Marshal = (\<lambda>r. Inr (concat (Recipients r))),
      acs_Unmarshal = (\<lambda>b. Inr \<lparr>op_ID = b, op_Status = ''Succeeded'', op_Error = None\<rparr>), acs_Sum256 = id,
      hmac_SHA256 = (\<lambda>k m. k), http_FormatTime = (\<lambda>t. ''date''), http_ParseTime = (\<lambda>s. None), http_NewRequest = (\<lambda>m u. None)\<rparr>"

definition example_acs :: acs_provider where
  "example_acs =
     \<lparr>endpoint = example_url, accessKey = ''k'', acs_sender = ''relay@x.org'', httpClient = None, hasHTTPClient = False,
      retryAttempts = 3, retryBaseDelay = second, extraCAPEMs = [],
      transportConfig = \<lparr>tc_Timeout = second, tc_MaxIdleConns = 1, tc_MaxIdleConnsPerHost = 1, tc_IdleConnTimeout = second\<rparr>,
      hasTransportConfig = False\<rparr>"

text \<open>A network on which the first answer is 503 and the others are 202, and one on which every answer is 503.\<close>

definition net_with :: "(nat \<Rightarrow> int) \<Rightarrow> (nat \<Rightarrow> goerr option) \<Rightarrow> net_world" where
  "net_with status faults =
     \<lparr>clock = (\<lambda>n. int n * 1000000000), ticks = 0, fault = faults, calls = 0, entropy = (\<lambda>n. Inr (replicate 16 (of_nat n))), draws = 0,
      fs = Dir [], cwd = [], short_write = (\<lambda>_. 0), db = \<lparr>records = [], sqlite_master = [], user_version = 1\<rparr>,
      tx = \<lparr>records = [], sqlite_master = [], user_version = 1\<rparr>, metrics = None, sent = [],
      answers = (\<lambda>n. Inr \<lparr>StatusCode = status n, resp_Header = [(''Retry-After'', ''7'')], resp_Body = (''op'', None)\<rparr>)\<rparr>"

definition flaky_net :: net_world where
  "flaky_net = net_with (\<lambda>n. if n = 0 then 503 else 202) (\<lambda>_. None)"

definition down_net :: net_world where
  "down_net = net_with (\<lambda>n. 503) (\<lambda>_. None)"

text \<open>The context is cancelled while the provider waits for its second attempt.\<close>

definition stopping_net :: net_world where
  "stopping_net = net_with (\<lambda>n. 503) (\<lambda>n. Some ContextCanceled)"

section \<open>Properties\<close>

text \<open>C15: a submission is repeated under one operation id. Whatever the network answers, a submission sends at most
  \<open>retryAttempts\<close> requests, all of them posts of the same body with the given operation id in the header
  \<open>Operation-Id\<close>, so that the service can recognise repetitions; when it succeeds, the result is running under that
  id, and a temporary failure is reported only after all attempts have been made.\<close>
theorem acs_submit_repeats_safely:
  assumes "buildSendRequest (al_policy lib) (acs_sender p) msg = Inr req" "acs_Marshal lib req = Inr body"
    and "retryAttempts p \<ge> 1" "acs_Submit lib p msg operationID w = (r, w')"
  shows "\<exists>reqs. sent w' = sent w @ reqs \<and> length reqs \<le> nat (retryAttempts p) \<and>
    list_all (submission_request (TrimSpace operationID) body) reqs \<and>
    (case r of
       Inr res \<Rightarrow> res_OperationID res = TrimSpace operationID \<and> res_State res = SubmissionStateRunning
     | Inl e \<Rightarrow> ProviderName e = ''acs'' \<and> (Temporary e \<longrightarrow> length reqs = nat (retryAttempts p)))"
proof -
  obtain reqs where reqs: "sent w' = sent w @ reqs" "length reqs \<le> nat (retryAttempts p)"
    "list_all (submission_request (TrimSpace operationID) body) reqs"
    using sendsE [OF sends_Submit [OF assms(1,2)] assms(4)] by metis
  show ?thesis
  proof (cases r)
    case (Inl e)
    have "ProviderName e = ''acs'' \<and> (Temporary e \<longrightarrow> length (sent w') = length (sent w) + nat (retryAttempts p))"
      by (rule acs_Submit_Inl [OF assms(1-3) assms(4) [unfolded Inl]])
    with reqs Inl show ?thesis by auto
  next
    case (Inr res)
    with acs_Submit_Inr [OF assms(4) [unfolded Inr]] reqs show ?thesis by auto
  qed
qed

definition acs_message :: message where
  "acs_message = empty_message\<lparr>To := ['' a@x.org ''], EnvelopeFrom := ''s@y.org'',
     Attachments := [\<lparr>Filename = [], ContentType = [], Data = ''hello''\<rparr>]\<rparr>"

definition flaky_submit :: "(goerr + submission_result) \<times> net_world" where
  "flaky_submit = acs_Submit example_acs_libs example_acs acs_message ''id-1'' flaky_net"

lemma acs_message_request:
  obtains req where "buildSendRequest example_policy_libs ''relay@x.org'' acs_message = Inr req" "Recipients req = [''a@x.org'']"
proof -
  have "TrimSpace '' a@x.org '' = ''a@x.org''" by code_simp
  then show thesis using that by (simp add: buildSendRequest_def acs_message_def)
qed

theorem acs_submit_repeats_safely_witness:
  "length (sent (snd flaky_submit)) = 2 \<and> list_all (submission_request ''id-1'' ''a@x.org'') (sent (snd flaky_submit))"
proof -
  obtain req where q: "buildSendRequest example_policy_libs ''relay@x.org'' acs_message = Inr req" "Recipients req = [''a@x.org'']"
    by (rule acs_message_request)
  then have b: "buildSendRequest (al_policy example_acs_libs) (acs_sender example_acs) acs_message = Inr req"
    "acs_Marshal example_acs_libs req = Inr ''a@x.org''"
    by (simp_all add: example_acs_libs_def example_acs_def)
  have r: "retryAttempts example_acs \<ge> 1" by (simp add: example_acs_def)
  have run: "acs_Submit example_acs_libs example_acs acs_message ''id-1'' flaky_net = (fst flaky_submit, snd flaky_submit)"
    by (simp add: flaky_submit_def)
  have "sent flaky_net = []" by (simp add: flaky_net_def net_with_def)
  then have "list_all (submission_request (TrimSpace ''id-1'') ''a@x.org'') (sent (snd flaky_submit))"
    using acs_submit_repeats_safely [OF b r run] by (elim exE conjE) simp
  moreover have "TrimSpace ''id-1'' = ''id-1''" by code_simp
  moreover have "length (sent (snd flaky_submit)) = 2" by code_simp
  ultimately show ?thesis by simp
qed

text \<open>C24: what is posted is the message. The recipients are the trimmed addresses of the message that are not blank,
  and there is at least one; every attachment's content decodes to the bytes of the message's attachment, in order;
  the headers are the sender trace headers.\<close>
theorem acs_request_faithful:
  assumes "buildSendRequest lib sender msg = Inr req"
  shows "SenderAddress req = sender \<and> Recipients req \<noteq> [] \<and> Recipients req = filter (\<lambda>t. t \<noteq> []) (map TrimSpace (To msg)) \<and>
    map (\<lambda>a. DecodeString (ContentInBase64 a)) (sr_Attachments req) = map (\<lambda>a. Inr (Data a)) (Attachments msg) \<and>
    (case Headers req of None \<Rightarrow> Map.empty | Some m \<Rightarrow> m) = map_of (SenderTraceHeaders msg)"
proof -
  have "map (\<lambda>a. DecodeString (ContentInBase64 a)) (attachmentDTOs as) = map (\<lambda>a. Inr (Data a)) as" for as
    unfolding attachmentDTOs_def by (induction as rule: rev_induct) (simp_all add: enumerate_append_eq DecodeString_EncodeToString)
  then show ?thesis
    using assms SenderTraceHeaderMap_eq [of msg] by (auto simp: buildSendRequest_def Let_def split: if_splits)
qed

theorem acs_request_faithful_witness:
  "\<exists>req. buildSendRequest example_policy_libs ''relay@x.org'' acs_message = Inr req \<and>
     map (\<lambda>a. DecodeString (ContentInBase64 a)) (sr_Attachments req) = [Inr ''hello'']"
proof -
  obtain req where r: "buildSendRequest example_policy_libs ''relay@x.org'' acs_message = Inr req"
    by (rule acs_message_request)
  have "Attachments acs_message = [\<lparr>Filename = [], ContentType = [], Data = ''hello''\<rparr>]" by (simp add: acs_message_def)
  then show ?thesis using r acs_request_faithful [OF r] by auto
qed



end
