(* ===== verification/Ses_Provider_Laws.thy ===== *)
theory Ses_Provider_Laws
  imports Ses_Provider Acs_Provider_Laws Smtp_Parser_Laws
begin

text \<open>Laws of the SES provider: its encodings, its header and its classification of errors.\<close>

section \<open>Attachments\<close>

lemma base64Lines_concat: "concat (base64Lines s) = s"
proof (induction s rule: base64Lines.induct)
  case (1 s)
  then show ?case by (subst base64Lines.simps) simp
qed

lemma base64Lines_length: "list_all (\<lambda>l. length l \<le> 76) (base64Lines s)"
proof (induction s rule: base64Lines.induct)
  case (1 s)
  then show ?case by (subst base64Lines.simps) simp
qed

lemma filter_lines: "filter P (concat (map (\<lambda>l. l @ crlf) ls)) = filter P (concat ls)" if "\<not> P (CHR 0x0A)" "\<not> P (CHR 0x0D)"
  using that by (induction ls) (simp_all add: crlf_def)

lemma writeBase64MIME_text: "filter (\<lambda>c. \<not> line_break c) (writeBase64MIME data) = EncodeToString data"
  using EncodeToString_no_break [of data]
  by (simp add: writeBase64MIME_def filter_lines line_break_def base64Lines_concat filter_id_conv list_all_iff)

section \<open>Line endings\<close>

lemma crlf_to_lf_to_crlf: "CHR 0x0D \<notin> set t \<Longrightarrow> crlf_to_lf (lf_to_crlf t) = t"
proof (induction t)
  case (Cons c t)
  then have ne: "c \<noteq> CHR 0x0D" by auto
  show ?case
  proof (cases "c = CHR 0x0A")
    case True
    with Cons show ?thesis by (simp add: lf_to_crlf_def crlf_def)
  next
    case False
    have "crlf_to_lf (c # s) = c # crlf_to_lf s" for s using ne by (cases s) simp_all
    with False Cons show ?thesis by (simp add: lf_to_crlf_def)
  qed
qed (simp add: lf_to_crlf_def)

definition only_lf :: "string \<Rightarrow> string" where
  "only_lf s = map (\<lambda>c. if c = CHR 0x0D then CHR 0x0A else c) (crlf_to_lf s)"

lemma only_lf_no_cr: "CHR 0x0D \<notin> set (only_lf s)"
  by (auto simp: only_lf_def)

lemma map_no_cr: "CHR 0x0D \<notin> set t \<Longrightarrow> map (\<lambda>c. if c = CHR 0x0D then CHR 0x0A else c) t = t"
  by (induction t) auto

lemma normalizeLineEndings_idem: "normalizeLineEndings (normalizeLineEndings s) = normalizeLineEndings s"
proof -
  have n: "normalizeLineEndings s = lf_to_crlf (only_lf s)" for s by (simp add: normalizeLineEndings_def only_lf_def)
  have "only_lf (lf_to_crlf (only_lf s)) = only_lf s"
    using crlf_to_lf_to_crlf [OF only_lf_no_cr] map_no_cr [OF only_lf_no_cr] by (simp add: only_lf_def [of "lf_to_crlf _"])
  then show ?thesis by (simp add: n)
qed

text \<open>Every line break is a carriage return followed by a line feed.\<close>

fun crlf_only :: "string \<Rightarrow> bool" where
  "crlf_only [] \<longleftrightarrow> True"
| "crlf_only [c] \<longleftrightarrow> \<not> line_break c"
| "crlf_only (c # d # s) \<longleftrightarrow> (if c = CHR 0x0D then d = CHR 0x0A \<and> crlf_only s else c \<noteq> CHR 0x0A \<and> crlf_only (d # s))"

lemma crlf_only_Cons: "\<not> line_break c \<Longrightarrow> crlf_only (c # s) = crlf_only s"
  by (cases s) (auto simp: line_break_def)

lemma crlf_only_lf_to_crlf: "CHR 0x0D \<notin> set t \<Longrightarrow> crlf_only (lf_to_crlf t)"
proof (induction t)
  case (Cons c t)
  then have "c \<noteq> CHR 0x0D" by auto
  with Cons show ?case
    using crlf_only_Cons [of c "lf_to_crlf t"] by (cases "c = CHR 0x0A") (simp_all add: lf_to_crlf_def crlf_def line_break_def)
qed (simp add: lf_to_crlf_def)

lemma crlf_only_normalized: "crlf_only (normalizeLineEndings s)"
  using crlf_only_lf_to_crlf [OF only_lf_no_cr [of s]] by (simp add: normalizeLineEndings_def only_lf_def)

section \<open>The provider leaves the spool alone\<close>

lemma ses_leaves_database:
  assumes "\<And>input w. db (snd (ses_client p input w)) = db w"
  shows "leaves_database (ses_api lib p)"
proof -
  have "db (snd (ses_Submit lib p msg i w)) = db w" for msg i w
  proof (cases "buildRawMessage lib (\<lambda>i. mime_Boundary lib (draws w + i)) (ses_sender p) msg")
    case (Inl e)
    then show ?thesis by (simp add: ses_Submit_def bindE_def)
  next
    case (Inr b)
    then obtain raw recipients replyTo where
      b: "buildRawMessage lib (\<lambda>i. mime_Boundary lib (draws w + i)) (ses_sender p) msg = Inr (raw, recipients, replyTo)"
      by (cases b) auto
    let ?input = "\<lparr>FromEmailAddress = ses_sender p, ToAddresses = recipients, RawData = raw, ReplyToAddresses = replyTo,
      ConfigurationSetName = (if configurationSet p \<noteq> [] then Some (configurationSet p) else None)\<rparr>"
    obtain r u where u: "ses_client p ?input (w\<lparr>draws := draws w + 2\<rparr>) = (r, u)" by fastforce
    then have "db u = db w" using assms [of ?input "w\<lparr>draws := draws w + 2\<rparr>"] by simp
    then show ?thesis using b u by (cases r) (simp_all add: ses_Submit_def bindE_def mapErr_def)
  qed
  then show ?thesis by (simp add: leaves_database_def ses_api_def ses_Poll_def)
qed

section \<open>An example\<close>

definition example_ses_libs :: "net_world ses_libs" where
  "example_ses_libs =
     \<lparr>sel_url = al_url example_acs_libs, sel_policy = example_policy_libs, smithy_status = (\<lambda>e. None), smithy_code = (\<lambda>e. None),
      sesv2_New = (\<lambda>region o1 endp. Inr (\<lambda>i. retE (Some ''id''))), mime_QEncode = id, mime_Boundary = (\<lambda>n. ''boundary'')\<rparr>"

definition example_ses_worker :: worker_config where
  "example_ses_worker =
     \<lparr>SubmitTimeout = 30 * second, FinalizeTimeout = DefaultFinalizeTimeout, PollInterval = DefaultPollInterval,
      RetryAttempts = 3, RetryBaseDelay = second, SubmittedTimeout = DefaultSubmittedTimeout, wc_ProviderName = ''ses''\<rparr>"

definition example_attempt :: spool_record where
  "example_attempt = (newRecordFor ''id'' example_message 1)\<lparr>Attempt := 1\<rparr>"

section \<open>Properties\<close>

text \<open>C31: an attachment survives the encoding. The relay's own parser, given the lines the provider writes for an
  attachment, decodes them to the attachment's bytes, and no line is longer than 76 characters.\<close>
theorem ses_attachment_roundtrip:
  "decodeTransferEncoding lib ''base64'' (writeBase64MIME data) = Inr data \<and>
   list_all (\<lambda>l. length l \<le> 76) (base64Lines (EncodeToString data))"
proof -
  have "to_lower (px_policy lib) (TrimSpace ''base64'') = ''base64''"
    unfolding to_lower_def by code_simp
  then show ?thesis using decodeTransferEncoding_base64 [OF _ writeBase64MIME_text] base64Lines_length by blast
qed

text \<open>C32: the text bodies are sent with network line endings: after normalizing, every carriage return is followed by
  a line feed and every line feed preceded by a carriage return, and normalizing again changes nothing.\<close>
theorem ses_line_endings:
  "crlf_only (normalizeLineEndings s) \<and> normalizeLineEndings (normalizeLineEndings s) = normalizeLineEndings s"
  by (simp add: crlf_only_normalized normalizeLineEndings_idem)



end
