(* ===== verification/Provider_Factory_Laws.thy ===== *)
theory Provider_Factory_Laws
  imports Provider_Factory Ses_Provider_Laws
begin

text \<open>
  The time budget of a submission is the exact sum, cut off at the largest duration, and every
  provider the factory builds leaves the spool's database alone.
\<close>

section \<open>Saturating arithmetic\<close>

lemma saturatingAdd_loop_exact:
  "0 \<le> t \<Longrightarrow> t \<le> maxDuration \<Longrightarrow> list_all (\<lambda>v. v \<le> maxDuration) vs \<Longrightarrow>
   saturatingAdd_loop t vs = min maxDuration (t + sum_list (map (max 0) vs))"
proof (induction vs arbitrary: t)
  case (Cons v vs)
  have "0 \<le> sum_list (map (max 0) vs)" by (intro sum_list_nonneg) auto
  then have "v > 0 \<Longrightarrow> t > maxDuration - v \<Longrightarrow> maxDuration \<le> t + (v + sum_list (map (max 0) vs))" by linarith
  then show ?case using Cons by (simp add: add.assoc)
qed simp

lemma saturatingAdd_exact:
  "list_all (\<lambda>v. v \<le> maxDuration) vs \<Longrightarrow> saturatingAdd vs = min maxDuration (sum_list (map (max 0) vs))"
  by (simp add: saturatingAdd_def saturatingAdd_loop_exact maxDuration_def)

lemma div_less_iff: "0 < n \<Longrightarrow> m div n < d \<longleftrightarrow> m < d * (n::int)"
proof -
  assume n: "0 < n"
  have m: "m div n * n \<le> m" "m < (m div n + 1) * n"
    using div_mult_mod_eq [of m n] pos_mod_bound [OF n, of m] pos_mod_sign [OF n, of m] unfolding distrib_right mult_1 by linarith+
  show ?thesis
  proof (cases "m div n < d")
    case True
    then have "(m div n + 1) * n \<le> d * n" using n by (intro mult_right_mono) simp_all
    then show ?thesis using m True by linarith
  next
    case False
    then have "d * n \<le> m div n * n" using n by (intro mult_right_mono) simp_all
    then show ?thesis using m False by linarith
  qed
qed

lemma multiplyDuration_exact:
  "d \<le> maxDuration \<Longrightarrow> multiplyDuration d n = min maxDuration (max 0 d * max 0 n)"
proof (cases "d \<le> 0 \<or> n \<le> 0")
  case False
  then have "d > maxDuration div n \<longleftrightarrow> d * n > maxDuration"
    by (simp add: div_less_iff)
  then show ?thesis using False by (auto simp: multiplyDuration_def)
qed (auto simp: multiplyDuration_def maxDuration_def)

text \<open>The delays double, so their sum after \<open>n\<close> of them is \<open>base * (2 ^ n - 1)\<close>.\<close>

lemma retryBackoffTotal_loop_exact:
  "0 \<le> t \<Longrightarrow> t \<le> maxDuration \<Longrightarrow> 0 < b \<Longrightarrow> b \<le> maxDuration \<Longrightarrow>
   retryBackoffTotal_loop n t b = min maxDuration (t + b * (2 ^ n - 1))"
proof (induction n arbitrary: t b)
  case (Suc n)
  have step: "saturatingAdd [t, b] = min maxDuration (t + b)" using Suc.prems by (simp add: saturatingAdd_exact)
  show ?case
  proof (cases "b > maxDuration div 2")
    case True
    show ?thesis
    proof (cases n)
      case 0
      then show ?thesis using step by simp
    next
      case (Suc m)
      have "(3::int) \<le> 2 ^ Suc n - 1" "(1::int) \<le> 2 ^ n - 1"
        using one_le_power [of "2::int" m] unfolding Suc power_Suc by linarith+
      then have l: "b * 3 \<le> b * (2 ^ Suc n - 1)" "maxDuration * 1 \<le> maxDuration * (2 ^ n - 1)" using Suc.prems
        by (auto intro!: mult_left_mono simp: maxDuration_def)
      have "maxDuration \<le> t + b * (2 ^ Suc n - 1)" using l(1) True Suc.prems unfolding maxDuration_def by linarith
      then show ?thesis using l(2) True step Suc.prems Suc.IH [of "min maxDuration (t + b)" maxDuration] by (simp add: maxDuration_def)
    qed
  next
    case False
    then have "retryBackoffTotal_loop (Suc n) t b = min maxDuration (min maxDuration (t + b) + b * 2 * (2 ^ n - 1))"
      using step Suc.prems Suc.IH [of "min maxDuration (t + b)" "b * 2"] by (simp add: maxDuration_def)
    moreover have "0 \<le> b * 2 * (2 ^ n - 1)" using Suc.prems by simp
    ultimately show ?thesis by (simp add: algebra_simps min_def)
  qed
qed simp

lemma retryBackoffTotal_exact:
  assumes "0 < b" "b \<le> maxDuration" "1 \<le> n"
  shows "retryBackoffTotal b n = min maxDuration (b * (2 ^ nat (n - 1) - 1))"
  using assms by (auto simp: retryBackoffTotal_def retryBackoffTotal_loop_exact maxDuration_def)

text \<open>Cutting off the summands does not change a sum that is cut off.\<close>

lemma min_sum_list:
  "list_all (\<lambda>x. 0 \<le> x) xs \<Longrightarrow> 0 \<le> m \<Longrightarrow> min m (sum_list (map (min m) xs)) = min m (sum_list xs)" for m :: int
proof (induction xs)
  case (Cons x xs)
  have "0 \<le> sum_list (map (min m) xs)" "0 \<le> sum_list xs" using Cons.prems
    by (auto intro!: sum_list_nonneg simp: list_all_iff)
  then show ?case using Cons by (auto simp: min_def split: if_splits)
qed simp

lemma sum_doubling: "sum_list (map (\<lambda>k. b * 2 ^ (k - 1)) [1..<Suc n]) = b * (2 ^ n - 1 :: int)"
  by (induction n) (simp_all add: algebra_simps)

lemma backoffs_sum:
  assumes "0 < b" "b \<le> maxDuration"
  shows "min maxDuration (sum_list (map (\<lambda>k. retryBackoff b (int k)) [1..<Suc n])) = min maxDuration (b * (2 ^ n - 1))"
proof -
  have "map (\<lambda>k. retryBackoff b (int k)) [1..<Suc n] = map (min maxDuration) (map (\<lambda>k. b * 2 ^ (k - 1)) [1..<Suc n])"
    using assms by (auto simp: retryBackoff_exact nat_diff_distrib)
  moreover have "list_all (\<lambda>x. 0 \<le> x) (map (\<lambda>k. b * 2 ^ (k - 1)) [1..<Suc n])" "0 \<le> maxDuration"
    using assms by (auto simp: list_all_iff)
  ultimately show ?thesis by (simp only: min_sum_list sum_doubling)
qed

section \<open>The providers\<close>

lemma ses_applyOptions_client:
  "ses_applyOptions opts o1 = Inr o2 \<Longrightarrow> list_all (\<lambda>o3. \<forall>c. o3 \<noteq> SesClient c) opts \<Longrightarrow> po_client o2 = po_client o1"
proof (induction opts arbitrary: o1)
  case (Cons o3 opts)
  then obtain o4 where "ses_applyOption o3 o1 = Inr o4" "ses_applyOptions opts o4 = Inr o2"
    by (auto simp: bindR_def split: sum.splits)
  then show ?case using Cons by (cases o3) (auto simp: Let_def split: if_splits)
qed simp

lemma providers_Build_leaves_database:
  assumes "providers_Build al sl cfg = Inr rt"
    and "\<And>region o1 endp c input w. sesv2_New sl region o1 endp = Inr c \<Longrightarrow> db (snd (c input w)) = db w"
  shows "leaves_database (Provider rt)"
proof -
  have "leaves_database (ses_api sl p)" if "ses_NewProvider sl r s e c opts = Inr p" "list_all (\<lambda>o1. \<forall>x. o1 \<noteq> SesClient x) opts"
    for r s e c opts p
  proof -
    note new = that(1) and opts = that(2)
    obtain region o1 endp where "sesv2_New sl region o1 endp = Inr (ses_client p)"
      using new opts
      by (auto simp: ses_NewProvider_def Let_def bindR_def dest: ses_applyOptions_client split: if_splits sum.splits option.splits)
    then show ?thesis using assms(2) by (intro ses_leaves_database) blast
  qed
  then show ?thesis using assms(1) noop_leaves_database acs_leaves_database
    by (auto simp: providers_Build_def Let_def bindR_def split: if_splits sum.splits)
qed

section \<open>Properties\<close>

text \<open>C21: the deadline of a submission leaves room for everything a provider may do in it: it is the time of all HTTP
  attempts, the waits the provider's retry loop makes between them and two seconds, exactly, or the largest duration
  when that sum is larger; the saturating arithmetic never wraps around.\<close>
theorem send_timeout_covers_retries:
  assumes "0 < h" "h \<le> maxDuration" "0 < b" "b \<le> maxDuration" "1 \<le> n"
  shows "runtimeSendTimeout h b n =
    min maxDuration (h * n + sum_list (map (\<lambda>k. retryBackoff b (int k)) [1..<nat n]) + 2 * second)"
proof -
  define s where "s = sum_list (map (\<lambda>k. retryBackoff b (int k)) [1..<nat n])"
  have "nat n = Suc (nat (n - 1))" using assms(5) by simp
  then have "retryBackoffTotal b n = min maxDuration s"
    using assms backoffs_sum [of b "nat (n - 1)"] by (simp add: retryBackoffTotal_exact s_def)
  moreover have "0 \<le> s" unfolding s_def using assms by (intro sum_list_nonneg) (auto simp: retryBackoff_exact maxDuration_def)
  moreover have "multiplyDuration h n = min maxDuration (h * n)" "0 \<le> h * n" using assms by (simp_all add: multiplyDuration_exact)
  ultimately show ?thesis unfolding runtimeSendTimeout_def s_def [symmetric]
    by (simp add: saturatingAdd_exact maxDuration_def second_def min_def)
qed

theorem send_timeout_covers_retries_witness:
  "runtimeSendTimeout (30 * second) second 3 = 95 * second"
  using send_timeout_covers_retries [of "30 * second" second 3] by (simp add: second_def maxDuration_def retryBackoff_exact upt_rec)

end
