(* ===== verification/Record_Schema_Laws.thy ===== *)
theory Record_Schema_Laws
  imports Record_Schema Spool_Store_Laws Sender_Policy_Laws
begin

text \<open>
  The schema that the store creates is one that it accepts, and no operation on the spool changes it: a
  spool that was opened once can be opened again.
\<close>

section \<open>Text in bits\<close>

text \<open>
  The functions on text, read off the bits of the characters: on ASCII text they agree with the model's, and the
  schema's text can be evaluated with them.
\<close>

fun low_char :: "char \<Rightarrow> bool" where
  "low_char (Char b0 b1 b2 b3 b4 b5 b6 b7) = (\<not> b7)"

fun lower_bits :: "char \<Rightarrow> char" where
  "lower_bits (Char b0 b1 b2 b3 b4 b5 b6 b7) =
     Char b0 b1 b2 b3 b4
       (b5 \<or> (\<not> b7 \<and> b6 \<and> (b0 \<or> b1 \<or> b2 \<or> b3 \<or> b4) \<and> \<not> (b4 \<and> b3 \<and> (b2 \<or> b1 \<and> b0)))) b6 b7"

definition ascii_space :: "char \<Rightarrow> bool" where
  "ascii_space c \<longleftrightarrow> c = CHR 0x20 \<or> c = CHR 0x0A \<or> c = CHR 0x09 \<or> c = CHR 0x0B \<or> c = CHR 0x0C \<or> c = CHR 0x0D"

fun words_of :: "string \<Rightarrow> string \<Rightarrow> string list" where
  "words_of cur [] = (if cur = [] then [] else [cur])"
| "words_of cur (c # s) =
     (if ascii_space c then (if cur = [] then [] else [cur]) @ words_of [] s else words_of (cur @ [c]) s)"

lemma low_char_iff: "c < CHR 0x80 \<longleftrightarrow> low_char c"
proof (cases c)
  case (Char b0 b1 b2 b3 b4 b5 b6 b7)
  then show ?thesis
    by (cases b0; cases b1; cases b2; cases b3; cases b4; cases b5; cases b6; cases b7) (simp_all add: less_char_def)
qed

lemma lower_char_bits: "lower_char c = lower_bits c"
proof (cases c)
  case (Char b0 b1 b2 b3 b4 b5 b6 b7)
  then show ?thesis
    by (cases b0; cases b1; cases b2; cases b3; cases b4; cases b5; cases b6; cases b7)
      (simp_all add: lower_char_def less_eq_char_def char_of_def bit_0)
qed

lemma strip_space: "low_char c \<Longrightarrow> strip_any space_seqs (c # s) = (if ascii_space c then Some s else None)"
proof -
  assume "low_char c"
  then have "c \<noteq> CHR 0xC2" "c \<noteq> CHR 0xE1" "c \<noteq> CHR 0xE2" "c \<noteq> CHR 0xE3" by auto
  then show ?thesis by (simp add: space_seqs_def ascii_space_def)
qed

lemma Fields_words: "list_all low_char s \<Longrightarrow> Fields_loop cur s = words_of cur s"
proof (induction s arbitrary: cur)
  case Nil
  show ?case by (subst Fields_loop.simps) simp
next
  case (Cons c s)
  then show ?case by (subst Fields_loop.simps) (simp add: strip_space)
qed

lemma Join_low: "list_all (list_all low_char) ws \<Longrightarrow> low_char c \<Longrightarrow> list_all low_char (Join ws [c])"
  by (induction ws "[c]" rule: Join.induct) simp_all

lemma words_low: "list_all low_char cur \<Longrightarrow> list_all low_char s \<Longrightarrow> list_all (list_all low_char) (words_of cur s)"
  by (induction s arbitrary: cur) simp_all

lemma normalizeSQL_bits:
  "list_all low_char s \<Longrightarrow> normalizeSQL lib s = map lower_bits (Join (words_of [] s) '' '')"
  by (simp add: normalizeSQL_def Fields_def Fields_words to_lower_def is_ascii_def low_char_iff Join_low words_low ToLower_def lower_char_bits)


subsection \<open>Line by line\<close>

lemma words_of_line: "words_of cur (s @ CHR 0x0A # t) = words_of cur s @ words_of [] t"
  by (induction s arbitrary: cur) (simp_all add: ascii_space_def)

lemma words_of_lines: "words_of [] (Join ls [CHR 0x0A]) = concat (map (words_of []) ls)"
  by (induction ls "[CHR 0x0A]" rule: Join.induct) (simp_all add: words_of_line)

lemma text_lines_line: "CHR 0x0A \<notin> set s \<Longrightarrow> text_lines cur (s @ CHR 0x0A # t) = (cur @ s) # text_lines [] t"
  by (induction s arbitrary: cur) auto

lemma text_lines_last: "CHR 0x0A \<notin> set s \<Longrightarrow> text_lines cur s = [cur @ s]"
  by (induction s arbitrary: cur) auto

lemma text_lines_lines: "ls \<noteq> [] \<Longrightarrow> list_all (\<lambda>l. CHR 0x0A \<notin> set l) ls \<Longrightarrow> text_lines [] (Join ls [CHR 0x0A]) = ls"
  by (induction ls "[CHR 0x0A]" rule: Join.induct) (simp_all add: text_lines_line text_lines_last)

lemma Join_append: "xs \<noteq> [] \<Longrightarrow> ys \<noteq> [] \<Longrightarrow> Join (xs @ ys) sep = Join xs sep @ sep @ Join ys sep"
proof (induction xs sep rule: Join.induct)
  case (2 w sep)
  then show ?case by (cases ys) simp_all
qed simp_all

lemma Join_sublist: "ws \<in> set wss \<Longrightarrow> sublist (Join ws sep) (Join (concat wss) sep)"
proof -
  assume "ws \<in> set wss"
  then obtain xs ys where c: "concat wss = xs @ ws @ ys" by (metis concat.simps(2) concat_append in_set_conv_decomp_first)
  show ?thesis
  proof (cases "ws = []")
    case False
    then have "sublist (Join ws sep) (Join (ws @ ys) sep)" by (cases "ys = []") (simp_all add: Join_append)
    then show ?thesis using c False by (cases "xs = []") (auto simp: Join_append sublist_append)
  qed simp
qed

text \<open>What a line of a text contains is contained in the text, after normalizing both.\<close>

lemma normalizeSQL_lines:
  assumes "list_all (list_all low_char) ls" "l \<in> set ls" "Contains (map lower_bits (Join (words_of [] l) '' '')) x"
  shows "Contains (normalizeSQL lib (Join ls [CHR 0x0A])) x"
proof -
  have "sublist (Join (words_of [] l) '' '') (Join (words_of [] (Join ls [CHR 0x0A])) '' '')"
    unfolding words_of_lines using assms(2) by (intro Join_sublist) simp
  moreover have "list_all low_char (Join ls [CHR 0x0A])" using assms(1) by (intro Join_low) simp_all
  ultimately show ?thesis using assms(3)
    by (auto simp: Contains_iff normalizeSQL_bits intro: sublist_order.order_trans map_mono_sublist)
qed

lemma declared_columns_lines:
  assumes "ls \<noteq> []" "list_all (list_all low_char) ls" "list_all (\<lambda>l. CHR 0x0A \<notin> set l) ls"
  shows "declared_columns (Join ls [CHR 0x0A]) =
    takeWhile (\<lambda>w. w \<noteq> ''CHECK('') (map (\<lambda>l. case words_of [] l of [] \<Rightarrow> [] | w # ws \<Rightarrow> w) (tl ls))"
proof -
  have "list_all (list_all low_char) (tl ls)" using assms(1,2) by (cases ls) simp_all
  then have "map (\<lambda>l. case Fields l of [] \<Rightarrow> [] | w # ws \<Rightarrow> w) (tl ls) = map (\<lambda>l. case words_of [] l of [] \<Rightarrow> [] | w # ws \<Rightarrow> w) (tl ls)"
    by (auto simp: list_all_iff Fields_def Fields_words)
  then show ?thesis unfolding declared_columns_def text_lines_lines [OF assms(1,3)] by (rule arg_cong)
qed

subsection \<open>The text SQLite keeps\<close>

lemma trim_low:
  assumes "low_char c"
  shows "trim_left_by space_seqs (c # s) = (if ascii_space c then trim_left_by space_seqs s else c # s)"
    and "trim_left_by (map rev space_seqs) (c # s) = (if ascii_space c then trim_left_by (map rev space_seqs) s else c # s)"
proof -
  have "c \<noteq> CHR 0x85" "c \<noteq> CHR 0xA0" "c \<noteq> CHR 0x80" "c \<noteq> CHR 0x81" "c \<noteq> CHR 0x82" "c \<noteq> CHR 0x83" "c \<noteq> CHR 0x84"
    "c \<noteq> CHR 0x86" "c \<noteq> CHR 0x87" "c \<noteq> CHR 0x88" "c \<noteq> CHR 0x89" "c \<noteq> CHR 0x8A" "c \<noteq> CHR 0xA8" "c \<noteq> CHR 0xA9"
    "c \<noteq> CHR 0xAF" "c \<noteq> CHR 0x9F" using assms by auto
  then have "strip_any (map rev space_seqs) (c # s) = (if ascii_space c then Some s else None)"
    by (simp add: space_seqs_def ascii_space_def)
  then show "trim_left_by (map rev space_seqs) (c # s) = (if ascii_space c then trim_left_by (map rev space_seqs) s else c # s)"
    by (subst trim_left_by.simps) simp
  show "trim_left_by space_seqs (c # s) = (if ascii_space c then trim_left_by space_seqs s else c # s)"
    by (subst trim_left_by.simps) (simp add: strip_space assms)
qed

lemma drop_take_butlast: "drop (length x) (take (length (x @ rest @ [c]) - 1) (x @ rest @ [c])) = rest"
  by simp

lemma stored_sql_text:
  "stored_sql (CHR ''C'' # k) (CHR 0x0A # (CHR ''C'' # k) @ '' IF NOT EXISTS'' @ rest @ [CHR '';'', CHR 0x0A]) = (CHR ''C'' # k) @ rest"
proof -
  have "TrimSpace (CHR 0x0A # (CHR ''C'' # k) @ '' IF NOT EXISTS'' @ rest @ [CHR '';'', CHR 0x0A]) =
      (CHR ''C'' # k) @ '' IF NOT EXISTS'' @ rest @ '';''"
    by (simp add: TrimSpace_def trim_low ascii_space_def)
  then show ?thesis unfolding stored_sql_def Let_def using drop_take_butlast [of "(CHR ''C'' # k) @ '' IF NOT EXISTS''" rest "CHR '';''"]
    by (simp only: append_assoc)
qed

section \<open>The schema created and the schema expected\<close>

definition own_body :: "string list" where
  "own_body = map (\<lambda>(indent, s). replicate indent (CHR 0x09) @ s) (take 18 (drop 2 recordsTableLines))"

definition own_lines :: "string list" where
  "own_lines = ''CREATE TABLE records ('' # own_body @ ['')'']"

definition ready_lines :: "string list" where
  "ready_lines = [''CREATE INDEX idx_records_ready'', ''ON records(state, next_attempt_at_ms, created_at_ms, id)'']"

definition op_lines :: "string list" where
  "op_lines = [''CREATE INDEX idx_records_operation_id'', ''ON records(operation_id)'']"

lemma own_text: "list_all (list_all low_char) own_lines \<and> list_all (\<lambda>l. CHR 0x0A \<notin> set l) own_lines"
  by code_simp

lemma sql_lines_Join:
  "concat (map (\<lambda>(indent, s). sql_line indent s) ms) @ x = Join (map (\<lambda>(indent, s). replicate indent (CHR 0x09) @ s) ms @ [x]) [CHR 0x0A]"
proof (induction ms)
  case (Cons m ms)
  then show ?case by (cases m; cases ms) (simp_all add: sql_line_def)
qed simp

lemma own_sql: "stored_sql ''CREATE TABLE'' recordsTableSchema = Join own_lines [CHR 0x0A]"
proof -
  define mid where "mid = take 18 (drop 2 recordsTableLines)"
  have t: "recordsTableLines = (0, '''') # (0, ''CREATE TABLE IF NOT EXISTS records ('') # mid @ [(0, '');'')]"
    by (simp add: mid_def recordsTableLines_def)
  have schema: "recordsTableSchema = CHR 0x0A # ''CREATE TABLE'' @ '' IF NOT EXISTS'' @
      ('' records ('' @ [CHR 0x0A] @ concat (map (\<lambda>(indent, s). sql_line indent s) mid) @ '')'') @ [CHR '';'', CHR 0x0A]"
    unfolding recordsTableSchema_def t by (simp add: sql_line_def [of 0])
  have "stored_sql ''CREATE TABLE'' recordsTableSchema =
      ''CREATE TABLE'' @ '' records ('' @ [CHR 0x0A] @ concat (map (\<lambda>(indent, s). sql_line indent s) mid) @ '')''"
    unfolding schema by (rule stored_sql_text)
  also have "\<dots> = Join own_lines [CHR 0x0A]"
    unfolding sql_lines_Join own_lines_def own_body_def mid_def [symmetric] by (cases mid) simp_all
  finally show ?thesis .
qed

lemma index_sql:
  "stored_sql ''CREATE INDEX'' recordsReadyIndexSchema = Join ready_lines [CHR 0x0A]"
  "stored_sql ''CREATE INDEX'' recordsOperationIndexSchema = Join op_lines [CHR 0x0A]"
  using stored_sql_text [of "''REATE INDEX''" "'' idx_records_ready'' @ [CHR 0x0A] @ ''ON records(state, next_attempt_at_ms, created_at_ms, id)''"]
    stored_sql_text [of "''REATE INDEX''" "'' idx_records_operation_id'' @ [CHR 0x0A] @ ''ON records(operation_id)''"]
  by (simp_all add: recordsReadyIndexSchema_def recordsOperationIndexSchema_def ready_lines_def op_lines_def sql_line_def)

lemma own_columns: "declared_columns (Join own_lines [CHR 0x0A]) = expectedColumns"
  using own_text by (subst declared_columns_lines) (simp_all add: own_lines_def [THEN arg_cong [where f = "\<lambda>x. x = []"]], code_simp)

definition line_norm :: "string \<Rightarrow> string" where
  "line_norm l = map lower_bits (Join (words_of [] l) '' '')"

text \<open>The line and the column at which the schema has each of the texts it is checked for.\<close>

definition snippet_places :: "(nat \<times> nat) list" where
  "snippet_places = [(0, 0), (1, 0), (1, 29), (1, 51), (2, 0), (3, 0), (4, 0), (7, 0), (8, 0), (13, 0), (14, 0), (11, 0), (12, 0)]"

lemma own_places:
  "list_all2 (\<lambda>(i, k) x. i < length own_lines \<and> list_all low_char x \<and> prefix (line_norm x) (drop k (line_norm (own_lines ! i)))) snippet_places requiredTexts"
  by code_simp

lemma own_snippets: "list_all (Contains (normalizeSQL lib (Join own_lines [CHR 0x0A]))) (requiredSnippets lib)"
proof -
  have "Contains (normalizeSQL lib (Join own_lines [CHR 0x0A])) (normalizeSQL lib x)" if "x \<in> set requiredTexts" for x
  proof -
    obtain i k where i: "i < length own_lines" "list_all low_char x" "prefix (line_norm x) (drop k (line_norm (own_lines ! i)))"
      using own_places \<open>x \<in> set requiredTexts\<close> by (fastforce simp: list_all2_conv_all_nth in_set_conv_nth)
    then have "Contains (line_norm (own_lines ! i)) (line_norm x)"
      unfolding Contains_iff by (metis append_take_drop_id prefix_imp_sublist sublist_append_leftI sublist_order.order_trans)
    then show ?thesis using normalizeSQL_lines [of own_lines "own_lines ! i"] own_text i
      by (simp add: line_norm_def normalizeSQL_bits)
  qed
  then show ?thesis by (simp add: requiredSnippets_def list_all_iff)
qed

lemma own_indexes:
  "Contains (normalizeSQL lib (Join ready_lines [CHR 0x0A])) (snd (requiredIndexes lib ! 0))"
  "Contains (normalizeSQL lib (Join op_lines [CHR 0x0A])) (snd (requiredIndexes lib ! 1))"
proof -
  have "list_all low_char (Join ready_lines [CHR 0x0A])" "list_all low_char (Join op_lines [CHR 0x0A])" by code_simp+
  then have n: "normalizeSQL lib (Join ready_lines [CHR 0x0A]) = line_norm (Join ready_lines [CHR 0x0A])"
    "normalizeSQL lib (Join op_lines [CHR 0x0A]) = line_norm (Join op_lines [CHR 0x0A])"
    by (simp_all add: normalizeSQL_bits line_norm_def)
  have r: "normalizeSQL lib ''create index idx_records_ready on records(state, next_attempt_at_ms, created_at_ms, id)'' =
      line_norm ''create index idx_records_ready on records(state, next_attempt_at_ms, created_at_ms, id)''"
    "normalizeSQL lib ''create index idx_records_operation_id on records(operation_id)'' =
      line_norm ''create index idx_records_operation_id on records(operation_id)''"
    by (simp_all add: normalizeSQL_bits line_norm_def)
  have "line_norm (Join ready_lines [CHR 0x0A]) =
      line_norm ''create index idx_records_ready on records(state, next_attempt_at_ms, created_at_ms, id)''"
    "line_norm (Join op_lines [CHR 0x0A]) = line_norm ''create index idx_records_operation_id on records(operation_id)''"
    by code_simp+
  then show "Contains (normalizeSQL lib (Join ready_lines [CHR 0x0A])) (snd (requiredIndexes lib ! 0))"
    "Contains (normalizeSQL lib (Join op_lines [CHR 0x0A])) (snd (requiredIndexes lib ! 1))"
    by (simp_all add: requiredIndexes_def n r Contains_iff)
qed

section \<open>Opening twice\<close>

definition own_schema :: "master_entry list" where
  "own_schema = [table_entry recordsTableName recordsTableSchema, index_entry recordsReadyIndexName recordsReadyIndexSchema,
     index_entry recordsOpIndexName recordsOperationIndexSchema]"

lemma own_schema_eq:
  "own_schema =
     [\<lparr>me_type = ''table'', me_name = ''records'', me_sql = Some (Join own_lines [CHR 0x0A]), me_columns = expectedColumns\<rparr>,
      \<lparr>me_type = ''index'', me_name = ''idx_records_ready'', me_sql = Some (Join ready_lines [CHR 0x0A]), me_columns = []\<rparr>,
      \<lparr>me_type = ''index'', me_name = ''idx_records_operation_id'', me_sql = Some (Join op_lines [CHR 0x0A]), me_columns = []\<rparr>]"
  by (simp add: own_schema_def table_entry_def index_entry_def own_sql index_sql own_columns Let_def
      recordsTableName_def recordsReadyIndexName_def recordsOpIndexName_def)

text \<open>A world in which no call fails.\<close>

definition reliable :: "'z env_scheme \<Rightarrow> bool" where
  "reliable w \<longleftrightarrow> (\<forall>n. fault w n = None)"

lemma attemptE_reliable: "reliable w \<Longrightarrow> attemptE m w = m (w\<lparr>calls := Suc (calls w)\<rparr>)"
  by (simp add: reliable_def attemptE_def)

lemma mapErr_ok: "m w = (Inr x, w') \<Longrightarrow> mapErr g m w = (Inr x, w')"
  by simp

lemma reliable_calls [simp]: "reliable (w\<lparr>calls := n\<rparr>) \<longleftrightarrow> reliable w"
  by (simp add: reliable_def)

text \<open>\<open>reads x m w\<close>: in the world \<open>w\<close> the operation returns \<open>x\<close> and changes nothing but the count of calls.\<close>

definition reads :: "'a \<Rightarrow> ('z env_scheme, 'a) op \<Rightarrow> 'z env_scheme \<Rightarrow> bool" where
  "reads x m w \<longleftrightarrow> (\<exists>n. m w = (Inr x, w\<lparr>calls := n\<rparr>))"

lemma reads_bindE: "reads x m w \<Longrightarrow> (\<And>n. reads y (f x) (w\<lparr>calls := n\<rparr>)) \<Longrightarrow> reads y (bindE m f) w"
  by (fastforce simp: reads_def bindE_def)

lemma reads_mapErr: "reads x m w \<Longrightarrow> reads x (mapErr g m) w"
  by (simp add: reads_def)

lemma reads_retE: "reads x (retE x) w"
  by (auto simp: reads_def intro: exI [of _ "calls w"])

lemma reads_attemptE: "reliable w \<Longrightarrow> (\<And>n. m (w\<lparr>calls := n\<rparr>) = (Inr x, w\<lparr>calls := n\<rparr>)) \<Longrightarrow> reads x (attemptE m) w"
  by (auto simp: reads_def attemptE_reliable)

lemma reads_inert: "reliable w \<Longrightarrow> reads () sql_inert w"
  unfolding sql_inert_def by (rule reads_attemptE) simp_all

lemma reads_foreachE:
  "(\<And>x n. x \<in> set xs \<Longrightarrow> reads () (f x) (w\<lparr>calls := n\<rparr>)) \<Longrightarrow> reads () (foreachE xs f) w"
proof (induction xs arbitrary: w)
  case (Cons x xs)
  have "reads () (f x) (w\<lparr>calls := calls w\<rparr>)" by (rule Cons.prems) simp
  moreover have "reads () (foreachE xs f) (w\<lparr>calls := n\<rparr>)" for n using Cons.prems by (intro Cons.IH) simp
  ultimately show ?case by (auto intro: reads_bindE)
qed (simp add: reads_retE del: retE_apply)

lemmas reads_intros = reads_bindE reads_mapErr reads_retE reads_inert reads_foreachE

lemma reads_query_master: "reliable w \<Longrightarrow> master_row ty nm (db w) = Some e \<Longrightarrow> reads (me_sql e) (query_master ty nm) w"
  unfolding query_master_def by (rule reads_attemptE) simp_all

lemma own_rows:
  assumes "sqlite_master d = own_schema"
  shows "master_row ''table'' ''records'' d = Some (own_schema ! 0)" "master_row ''index'' ''idx_records_ready'' d = Some (own_schema ! 1)"
    "master_row ''index'' ''idx_records_operation_id'' d = Some (own_schema ! 2)"
  using assms by (simp_all add: master_row_def own_schema_eq)

lemma reads_indexSQL:
  assumes "reliable w" "master_row ''index'' nm (db w) = Some e" "me_sql e = Some t" "TrimSpace t \<noteq> []"
  shows "reads t (indexSQL nm) w"
  unfolding indexSQL_def by (rule reads_bindE [where x = "Some t"])
    (use assms reads_query_master [OF assms(1,2)] in \<open>auto intro: reads_mapErr simp: reads_retE simp del: retE_apply\<close>)

lemma reads_tableSQL:
  assumes "reliable w" "master_row ''table'' nm (db w) = Some e" "me_sql e = Some t" "TrimSpace t \<noteq> []"
  shows "reads t (tableSQL nm) w"
  unfolding tableSQL_def by (rule reads_bindE [where x = "Some t"])
    (use assms reads_query_master [OF assms(1,2)] in \<open>auto intro: reads_mapErr simp: reads_retE simp del: retE_apply\<close>)

lemma TrimSpace_statement: "TrimSpace (CHR ''C'' # x @ [CHR '')'']) = CHR ''C'' # x @ [CHR '')'']"
  by (simp add: TrimSpace_def trim_low ascii_space_def)

lemma Join_Cons_prefix: "\<exists>y. Join (s # ls) sep = s @ y"
  by (cases ls) auto

lemma own_texts_filled:
  "TrimSpace (Join own_lines [CHR 0x0A]) \<noteq> []" "TrimSpace (Join ready_lines [CHR 0x0A]) \<noteq> []" "TrimSpace (Join op_lines [CHR 0x0A]) \<noteq> []"
proof -
  have "\<exists>x. Join own_lines [CHR 0x0A] = CHR ''C'' # x @ [CHR '')'']"
    using Join_append [of "''CREATE TABLE records ('' # own_body" "['')'']" "[CHR 0x0A]"]
      Join_Cons_prefix [of "''CREATE TABLE records (''" own_body "[CHR 0x0A]"]
    unfolding own_lines_def by auto
  moreover have "\<exists>x. Join ready_lines [CHR 0x0A] = CHR ''C'' # x @ [CHR '')'']" "\<exists>x. Join op_lines [CHR 0x0A] = CHR ''C'' # x @ [CHR '')'']"
    by (simp_all add: ready_lines_def op_lines_def Cons_eq_append_conv)
  ultimately show "TrimSpace (Join own_lines [CHR 0x0A]) \<noteq> []" "TrimSpace (Join ready_lines [CHR 0x0A]) \<noteq> []" "TrimSpace (Join op_lines [CHR 0x0A]) \<noteq> []"
    using TrimSpace_statement by auto
qed

lemma reads_checkIndex:
  assumes "reliable w" "sqlite_master (db w) = own_schema" "x \<in> set (requiredIndexes lib)"
  shows "reads () (checkIndex lib root x) w"
proof -
  obtain nm expected t e where x: "x = (nm, expected)" and e: "master_row ''index'' nm (db w) = Some e" "me_sql e = Some t" "TrimSpace t \<noteq> []"
    and "Contains (normalizeSQL lib t) expected"
    using assms(3) own_rows [OF assms(2)] own_indexes [of lib] own_texts_filled
    by (auto simp: requiredIndexes_def recordsReadyIndexName_def recordsOpIndexName_def own_schema_eq)
  then show ?thesis unfolding checkIndex_def x prod.case
    by (intro reads_bindE [where x = t] reads_mapErr reads_indexSQL [OF assms(1) e]) (simp add: reads_retE del: retE_apply)
qed

lemma validate_own:
  assumes "reliable w" "sqlite_master (db w) = own_schema"
  shows "reads () (validateCurrentSchema lib root) w"
proof -
  have present: "reads True (tableExists recordsTableName) w"
    unfolding tableExists_def by (intro reads_mapErr reads_attemptE) (simp_all add: assms own_schema_eq recordsTableName_def)
  have columns: "reads expectedColumns (loadTableColumns recordsTableName) v" if "reliable v" "sqlite_master (db v) = own_schema" for v :: "'a spool_world_scheme"
    unfolding loadTableColumns_def
    by (intro reads_bindE [where x = expectedColumns] reads_bindE [where x = "()"] reads_mapErr reads_attemptE reads_foreachE reads_inert reads_retE)
      (simp_all add: that own_rows recordsTableName_def own_schema_eq)
  have sql: "reads (Join own_lines [CHR 0x0A]) (tableSQL recordsTableName) v"
    if "reliable v" "sqlite_master (db v) = own_schema" for v :: "'a spool_world_scheme"
    by (rule reads_tableSQL [OF that(1) own_rows(1) [OF that(2), folded recordsTableName_def] _ own_texts_filled(1)]) (simp add: own_schema_eq)
  have none: "unexpectedColumn root expectedColumns = None" by code_simp
  show ?thesis unfolding validateCurrentSchema_def
    by (rule reads_bindE [OF present], simp only: not_True_eq_False if_False, rule reads_bindE [OF columns])
      (use assms own_snippets [of lib] in \<open>simp_all add: none\<close>,
       rule reads_bindE [OF sql], auto intro!: reads_foreachE reads_checkIndex)
qed

lemma entry_fields:
  "me_type (table_entry nm s) = ''table''" "me_name (table_entry nm s) = nm"
  "me_type (index_entry nm s) = ''index''" "me_name (index_entry nm s) = nm"
  by (simp_all add: table_entry_def index_entry_def Let_def)

lemma exec_create_result:
  "exec_create e w = (Inr (), w') \<Longrightarrow> db w' = db w \<and>
     tx w' = (if list_ex (\<lambda>x. me_type x = me_type e \<and> me_name x = me_name e) (sqlite_master (tx w)) then tx w
              else (tx w)\<lparr>sqlite_master := sqlite_master (tx w) @ [e]\<rparr>)"
  by (auto simp: exec_create_def attemptE_def Let_def split: option.splits if_splits)

lemma bootstrap_own:
  assumes "bootstrapSchema w = (Inr (), w')" "sqlite_master (db w) = []"
  shows "db w' = (db w)\<lparr>sqlite_master := own_schema, user_version := spoolSchemaVersion\<rparr>"
  using assms(1) [unfolded bootstrapSchema_def]
proof (cases rule: transaction_cases)
  case (body u v)
  from body(3) obtain a a' b c where
    "exec_create (table_entry recordsTableName recordsTableSchema) u = (Inr (), a)" 
    "exec_create (index_entry recordsReadyIndexName recordsReadyIndexSchema) a = (Inr (), a')" 
    "exec_create (index_entry recordsOpIndexName recordsOperationIndexSchema) a' = (Inr (), b)" 
    "attemptE (\<lambda>w. (Inr (), w\<lparr>tx := (tx w)\<lparr>user_version := spoolSchemaVersion\<rparr>\<rparr>)) b = (Inr (), c)" "commitImmediate c = (Inr (), v)"
    by (auto simp: bindE_Inr_iff)
  then have "tx c = (tx u)\<lparr>sqlite_master := own_schema, user_version := spoolSchemaVersion\<rparr>" "db v = tx c"
    using body assms(2) by (auto dest!: exec_create_result commitImmediate_result simp: attemptE_def Let_def own_schema_def entry_fields
      recordsTableName_def recordsReadyIndexName_def recordsOpIndexName_def split: option.splits)
  then show ?thesis using body by simp
qed simp

text \<open>An empty database can be opened.\<close>

lemma init_fresh:
  assumes "reliable w" "user_version (db w) = 0" "sqlite_master (db w) = []"
  shows "\<exists>n m t. init lib root w = (Inr (), w\<lparr>tx := t, db := (db w)\<lparr>sqlite_master := m, user_version := spoolSchemaVersion\<rparr>, calls := n\<rparr>)"
  using assms
  by (simp add: init_def applyPragmas_def userVersion_def tableExists_def bootstrapSchema_def
      transaction_def beginImmediate_def commitImmediate_def finishImmediate_def exec_create_def op_defs attemptE_def Let_def
      sql_inert_def entry_fields recordsTableName_def recordsReadyIndexName_def recordsOpIndexName_def reliable_def)
    (intro exI, rule refl)

lemma newSQLiteRecordStore_fresh:
  assumes "TrimSpace root = root" "root \<noteq> []" "ensureDirectoryPathNoFollow root w = (Inr (fd, clean), u)"
    and "reliable u" "user_version (db u) = 0" "sqlite_master (db u) = []"
  shows "\<exists>n m t. newSQLiteRecordStore lib root w =
    (Inr clean, u\<lparr>tx := t, db := (db u)\<lparr>sqlite_master := m, user_version := spoolSchemaVersion\<rparr>, calls := n\<rparr>)"
proof -
  have "reliable (u\<lparr>calls := Suc (calls u)\<rparr>)" using assms(4) by simp
  from init_fresh [OF this, of lib clean] obtain n m t where
    "init lib clean (u\<lparr>calls := Suc (calls u)\<rparr>) = (Inr (), u\<lparr>tx := t, db := (db u)\<lparr>sqlite_master := m, user_version := spoolSchemaVersion\<rparr>, calls := n\<rparr>)"
    using assms(5,6) by auto
  with assms show ?thesis
    by (simp add: newSQLiteRecordStore_def Let_def bindE_def mapErr_def sql_inert_def attemptE_reliable tryE_def retE_def) blast
qed

section \<open>Properties\<close>

text \<open>C20: a spool that was created once can be opened again. After the schema has been bootstrapped in an empty database
  and after any sequence of calls of the store, opening the database again accepts its schema, when the calls to
  SQLite succeed, and leaves every record as it is.\<close>
theorem spool_reopens:
  assumes "user_version (db w) = 0" "sqlite_master (db w) = []" "init lib root w = (Inr (), w1)"
    and "w2 = run_calls slib ps cs w1" "reliable w2"
  shows "fst (init lib root w2) = Inr () \<and> db (snd (init lib root w2)) = db w2"
proof -
  have pragmas: "effect_in db_quiet applyPragmas" "effect_in db_quiet userVersion" "effect_in db_quiet (tableExists t)" for t
    unfolding applyPragmas_def userVersion_def tableExists_def
    by (intro db_quiet.effect_intros db_quiet_intros db_quiet_attemptE; simp)+
  obtain a b v where a: "applyPragmas w = (Inr (), a)" "userVersion a = (Inr v, b)"
    and k: "(if v = 0 then bindE (tableExists recordsTableName) (\<lambda>present. if present then throwE (Errorf ''unsupported local spool schema in %s: delete the spool directory and restart'' [root]) else bootstrapSchema)
       else if v = spoolSchemaVersion then validateCurrentSchema lib root else throwE (Errorf ''unsupported spool schema version %d'' [show_int v])) b = (Inr (), w1)"
    using assms(3) by (auto simp: init_def bindE_Inr_iff)
  have "db a = db w" "db b = db w" using a pragmas by (auto dest!: db_quiet_result)
  moreover from this have "v = 0" using a(2) assms(1) by (auto simp: userVersion_def attemptE_def Let_def split: option.splits)
  ultimately obtain u where u: "db u = db w" "bootstrapSchema u = (Inr (), w1)"
    using k by (auto simp: bindE_Inr_iff dest!: db_quiet_result [OF _ pragmas(3)] split: if_splits)
  then have w1: "sqlite_master (db w1) = own_schema" "user_version (db w1) = spoolSchemaVersion"
    using assms(2) by (simp_all add: bootstrap_own [OF u(2)])
  then have w2: "sqlite_master (db w2) = own_schema" "user_version (db w2) = spoolSchemaVersion"
    using step_calls [of w1 slib ps cs] unfolding assms(4) spool_step_def db_evolves_def
    by (metis database.select_convs database.surjective database.update_convs(1))+
  have "reads () (init lib root) w2" unfolding init_def applyPragmas_def userVersion_def
    using assms(5) w2
    by (intro reads_bindE [where x = "()"] reads_bindE [where x = spoolSchemaVersion] reads_mapErr reads_foreachE reads_inert reads_attemptE)
      (auto simp: spoolSchemaVersion_def intro!: validate_own)
  then show ?thesis by (auto simp: reads_def)
qed

text \<open>A new database, opened, and then opened again.\<close>

definition new_database :: spool_world where
  "new_database =
     \<lparr>clock = (\<lambda>n. int n * 1000000000), ticks = 0, fault = (\<lambda>_. None), calls = 0, entropy = (\<lambda>n. Inr (replicate 16 (of_nat n))), draws = 0,
      fs = Dir [], cwd = [], short_write = (\<lambda>_. 0),
      db = \<lparr>records = [], sqlite_master = [], user_version = 0\<rparr>, tx = \<lparr>records = [], sqlite_master = [], user_version = 0\<rparr>\<rparr>"

definition opened_database :: spool_world where
  "opened_database = snd (init example_policy_libs ''/spool'' new_database)"

lemma opened_database_run: "init example_policy_libs ''/spool'' new_database = (Inr (), opened_database) \<and> reliable opened_database"
  by (simp add: opened_database_def init_def applyPragmas_def userVersion_def tableExists_def bootstrapSchema_def
      transaction_def beginImmediate_def commitImmediate_def finishImmediate_def exec_create_def op_defs attemptE_def Let_def
      sql_inert_def new_database_def entry_fields recordsTableName_def recordsReadyIndexName_def recordsOpIndexName_def reliable_def)

lemma reliable_stateCounts: "reliable w \<Longrightarrow> reliable (run_call lib ps CallStateCounts w)" for w :: "'z spool_world_scheme"
proof -
  assume "reliable w"
  moreover have "effect_in db_quiet (StateCounts :: ('z, (string \<times> int) list) db_op)" unfolding StateCounts_def stateCounts_def
    by (intro db_quiet.effect_intros db_quiet_intros db_quiet_scanCounts db_quiet_attemptE, simp)
  ultimately show ?thesis by (simp add: effect_in_def db_quiet_def db_step_def reliable_def)
qed

theorem spool_reopens_witness:
  "fst (init example_policy_libs ''/spool'' (run_calls example_libs example_store [CallStateCounts] opened_database)) = Inr ()"
  using spool_reopens [of new_database example_policy_libs "''/spool''" opened_database
      "run_calls example_libs example_store [CallStateCounts] opened_database" example_libs example_store "[CallStateCounts]"]
    opened_database_run reliable_stateCounts [of opened_database]
  by (simp add: new_database_def run_calls_def)

end
