(* ===== verification/Relay_Config_Laws.thy ===== *)
theory Relay_Config_Laws
  imports Relay_Config Sender_Policy_Laws
begin

text \<open>What a configuration that loads guarantees to the rest of the process.\<close>

lemma bindR_Inr_iff: "bindR x f = Inr b \<longleftrightarrow> (\<exists>a. x = Inr a \<and> f a = Inr b)"
  by (cases x) (auto simp: bindR_def)

lemma firstFailure_None_iff: "firstFailure cs = None \<longleftrightarrow> list_all (\<lambda>c. \<not> fst c) cs"
  by (induction cs rule: firstFailure.induct) auto

lemma config_Load_Inr: "Load env = Inr cfg \<longleftrightarrow> Load_values env = Inr cfg \<and> Validate env cfg = None"
  by (auto simp: Load_def bindR_Inr_iff split: option.splits)

lemma Validate_None_iff:
  "Validate env c = None \<longleftrightarrow>
     list_all (\<lambda>x. \<not> fst x) (Validate_delivery c) \<and> list_all (\<lambda>x. \<not> fst x) (Validate_smtp env c) \<and>
     list_all (\<lambda>x. \<not> fst x) (Validate_limits c)"
  by (simp add: Validate_def firstFailure_None_iff)

lemma ParseCIDRs_nonempty: "ParseCIDRs env vs = Inr ps \<Longrightarrow> ps \<noteq> []"
  by (auto simp: ParseCIDRs_def bindR_Inr_iff split: if_splits)

text \<open>No open relay: the listener asks for credentials that are not blank and has an allow list.\<close>

definition closed_relay :: "process_env \<Rightarrow> config \<Rightarrow> bool" where
  "closed_relay env c \<longleftrightarrow>
     cfg_SMTPRequireAuth c \<and> TrimSpace (cfg_SMTPAuthProvider c) = ''static'' \<and>
     \<not> blank (cfg_SMTPAuthUsername c) \<and> \<not> blank (cfg_SMTPAuthPassword c) \<and>
     (\<exists>ps. ParseCIDRs env (cfg_SMTPAllowedCIDRs c) = Inr ps \<and> ps \<noteq> [])"

text \<open>TLS can be used where it is required, and has its certificate.\<close>

definition tls_usable :: "config \<Rightarrow> bool" where
  "tls_usable c \<longleftrightarrow>
     (cfg_SMTPRequireTLS c \<longrightarrow> cfg_SMTPStartTLSEnabled c \<or> \<not> blank (cfg_SMTPSListenAddr c)) \<and>
     (cfg_SMTPStartTLSEnabled c \<or> \<not> blank (cfg_SMTPSListenAddr c) \<longrightarrow>
        \<not> blank (cfg_SMTPTLSCertFile c) \<and> \<not> blank (cfg_SMTPTLSKeyFile c))"

definition limits_positive :: "config \<Rightarrow> bool" where
  "limits_positive c \<longleftrightarrow>
     1 \<le> cfg_SMTPMaxInflightSends c \<and> 1 \<le> cfg_DeliveryRetryAttempts c \<and> cfg_DeliveryRetryAttempts c \<le> 10 \<and>
     1 \<le> cfg_DeliveryRetryBaseDelayMS c \<and> 1 \<le> cfg_DeliveryHTTPTimeoutMS c \<and> 1 \<le> cfg_DeliveryHTTPMaxIdleConns c \<and>
     1 \<le> cfg_DeliveryHTTPMaxIdleConnsPerHost c \<and> 1 \<le> cfg_DeliveryHTTPIdleConnTimeoutMS c \<and>
     \<not> blank (cfg_SpoolDir c) \<and> 1 \<le> cfg_SpoolPollIntervalMS c"

lemma Validate_guarantees:
  assumes "Validate env c = None"
  shows "closed_relay env c" "tls_usable c" "limits_positive c" "cfg_DeliveryMode c \<in> set [''acs'', ''noop'', ''ses'']"
    "TrimSpace (cfg_SenderPolicyMode c) \<in> set [''rewrite'', ''strict'']"
proof -
  note v = assms [unfolded Validate_None_iff]
  obtain ps where ps: "ParseCIDRs env (cfg_SMTPAllowedCIDRs c) = Inr ps"
    using v by (cases "ParseCIDRs env (cfg_SMTPAllowedCIDRs c)") (auto simp: Validate_smtp_def Let_def)
  then show "closed_relay env c" "tls_usable c" "TrimSpace (cfg_SenderPolicyMode c) \<in> set [''rewrite'', ''strict'']"
    using v ParseCIDRs_nonempty [OF ps] by (auto simp: Validate_smtp_def Let_def closed_relay_def tls_usable_def)
  show "limits_positive c"
    using v by (auto simp: Validate_limits_def Validate_smtp_def Let_def limits_positive_def maxDeliveryRetryAttempts_def)
  show "cfg_DeliveryMode c \<in> set [''acs'', ''noop'', ''ses'']" using v by (auto simp: Validate_delivery_def)
qed

section \<open>Properties\<close>

text \<open>C9: a configuration that loads is safe to run. The relay is not open: it requires authentication with
  credentials that are not blank and has a non-empty list of allowed networks, all of which parse. TLS is available
  where it is required and has a certificate. All limits are positive and at most ten retries are allowed.\<close>
theorem Load_safe:
  assumes "Load env = Inr cfg"
  shows "closed_relay env cfg \<and> tls_usable cfg \<and> limits_positive cfg \<and> cfg_DeliveryMode cfg \<in> set [''acs'', ''noop'', ''ses'']"
  using Validate_guarantees [of env cfg] assms by (simp add: config_Load_Inr)

text \<open>An environment for a local run without TLS.\<close>

definition example_env :: process_env where
  "example_env =
     \<lparr>os_LookupEnv = map_of [(''DELIVERY_MODE'', ''noop''), (''SMTP_ALLOWED_CIDRS'', ''10.0.0.0/8, 127.0.0.1/32''),
        (''SMTP_AUTH_USERNAME'', ''app''), (''SMTP_AUTH_PASSWORD_FILE'', ''/secrets/p''), (''SMTP_STARTTLS_ENABLED'', ''false''),
        (''SPOOL_DIR'', ''/s''), (''DELIVERY_RETRY_ATTEMPTS'', ''5'')],
      os_ReadFile = (\<lambda>p. Inr ''secret ''), netip_ParsePrefix = (\<lambda>s. Inr \<lparr>pfx_addr = Addr4 0x0A000000, pfx_bits = 8\<rparr>),
      env_policy = example_policy_libs\<rparr>"

definition example_loaded :: config where
  "example_loaded = (case Load example_env of Inr c \<Rightarrow> c | Inl _ \<Rightarrow> undefined)"

lemma example_loads: "Load example_env = Inr example_loaded"
  unfolding example_loaded_def by code_simp

theorem Load_safe_witness: "limits_positive example_loaded \<and> cfg_DeliveryRetryAttempts example_loaded = 5"
proof -
  have "map_sum id cfg_DeliveryRetryAttempts (Load example_env) = Inr 5" by code_simp
  then show ?thesis using Load_safe [OF example_loads] example_loads by simp
qed

end
