(* ===== verification/Relay_Startup_Laws.thy ===== *)
theory Relay_Startup_Laws
  imports Relay_Main Provider_Factory_Laws Record_Schema_Laws Relay_Config_Laws
begin

text \<open>
  The startup of the process: what a started process consists of, a startup of an example relay on an empty
  machine, and the properties of startup.
\<close>

section \<open>What startup leaves\<close>

lemma closing_Inr: "closing r w = (Inr x, w') \<longleftrightarrow> r = Inr x \<and> w' = w"
  by (auto simp: closing_def bindE_Inr_iff split: sum.splits)

lemma tryE_closing_Inr: "tryE m closing w = (Inr x, w') \<longleftrightarrow> m w = (Inr x, w')"
  by (auto simp: tryE_iff closing_Inr)

lemma buildBackgroundDelivery_Inr:
  "buildBackgroundDelivery plib lib root (Some pr) cfg w = (Inr (store, wk), w') \<longleftrightarrow>
     NewSpoolStore plib root w = (Inr store, w') \<and> NewWorker (Some (spool_api lib store)) (Some pr) cfg = Inr wk"
  by (auto simp: buildBackgroundDelivery_def bindE_Inr_iff split: sum.split_asm)

lemma startup_Inr:
  assumes "startup ml w = (Inr p, w')"
  obtains cfg rt now u v res where "Load (ml_env ml) = Inr cfg" "providers_Build (ml_acs ml) (ml_ses ml) cfg = Inr rt"
    and "Recover (ml_spool ml) (p_store p) now u = (Inr res, v)" "w' = v\<lparr>metrics := Some NewMetrics\<rparr>"
    and "NewWorker (Some (spool_api (ml_spool ml) (p_store p))) (Some (Provider rt)) (workerConfigFor cfg rt) = Inr (p_worker p)"
    and "buildServer ml cfg (p_store p) = Inr (p_server p)"
    and "p_config p = cfg" "p_readiness p = Some \<lparr>smtpReady = False, recoveryReady = True\<rparr>"
proof -
  obtain cfg where cfg: "Load (ml_env ml) = Inr cfg"
    using assms by (cases "Load (ml_env ml)") (simp_all add: startup_def)
  obtain rt where rt: "providers_Build (ml_acs ml) (ml_ses ml) cfg = Inr rt"
    using assms cfg by (cases "providers_Build (ml_acs ml) (ml_ses ml) cfg") (simp_all add: startup_def)
  obtain store worker0 a where a: "buildBackgroundDelivery (ml_policy ml) (ml_spool ml) (cfg_SpoolDir cfg) (Some (Provider rt))
        (workerConfigFor cfg rt) w = (Inr (store, worker0), a)"
    and rest: "finishStartup ml cfg rt store worker0 a = (Inr p, w')"
    using assms by (auto simp: startup_def cfg rt bindE_Inr_iff)
  have w0: "wk_store worker0 = spool_api (ml_spool ml) store"
    using a by (auto simp: buildBackgroundDelivery_Inr dest!: NewWorker_fields)
  obtain now u res v where u: "nowE a = (Inr now, u)" "Recover (ml_spool ml) store now u = (Inr res, v)"
    and more: "NewWorker (Some (spool_api (ml_spool ml) store)) (Some (Provider rt)) (workerConfigFor cfg rt) = Inr (p_worker p)"
      "buildServer ml cfg store = Inr (p_server p)" "w' = v\<lparr>metrics := Some NewMetrics\<rparr>" "p_store p = store" "p_config p = cfg"
      "p_readiness p = Some \<lparr>smtpReady = False, recoveryReady = True\<rparr>"
    using rest by (auto simp: finishStartup_def bindE_Inr_iff tryE_closing_Inr closing_Inr runStartupRecovery_def Worker_Recover_def w0 spool_api_def
      buildMetrics_def setRecoveryReady_def)
  show thesis using that [OF cfg rt _ more(3)] u(2) more by simp
qed

lemma NewWorker_Inr:
  assumes "NewWorker (Some st) (Some pr) cfg = Inr wk"
  shows "wk_store wk = st" "wk_cfg wk = cfg" "0 < SubmitTimeout cfg" "0 < PollInterval cfg"
  using assms by (auto simp: NewWorker_def not_le split: if_splits)

lemma buildServer_Inr:
  assumes "buildServer ml cfg store = Inr srv"
  shows "requireAuth (sv_policy srv) = cfg_SMTPRequireAuth cfg" "sp_authProvider (sv_policy srv) \<noteq> None" "allowedCIDRs (sv_policy srv) \<noteq> []"
    "\<exists>h. sp_handler (sv_policy srv) = newEnqueueMessageHandler (ml_policy ml) h \<and> h_store h = spool_api (ml_spool ml) store"
proof -
  obtain cidrs tlsCfg h where c: "ParseCIDRs (ml_env ml) (cfg_SMTPAllowedCIDRs cfg) = Inr cidrs"
    and h: "buildRelayHandler (ml_policy ml) cfg (Some (spool_api (ml_spool ml) store)) = Inr h"
    and s: "NewServer (serverConfigFor cfg cidrs tlsCfg 0) (Some (newEnqueueMessageHandler (ml_policy ml) h))
       (Some (AuthPlain \<lparr>Username = cfg_SMTPAuthUsername cfg, Password = cfg_SMTPAuthPassword cfg\<rparr>)) = Inr srv"
    using assms by (auto simp: buildServer_def buildMessageHandler_def bindR_Inr_iff)
  have "h_store h = spool_api (ml_spool ml) store"
    using h by (auto simp: buildRelayHandler_def bindR_Inr_iff NewHandler_def split: if_splits)
  with s show "requireAuth (sv_policy srv) = cfg_SMTPRequireAuth cfg" "sp_authProvider (sv_policy srv) \<noteq> None" "allowedCIDRs (sv_policy srv) \<noteq> []"
    "\<exists>h. sp_handler (sv_policy srv) = newEnqueueMessageHandler (ml_policy ml) h \<and> h_store h = spool_api (ml_spool ml) store"
    by (auto simp: NewServer_def serverConfigFor_def Let_def split: if_splits)
qed

text \<open>Startup succeeds when its parts do.\<close>

lemma startup_succeeds:
  assumes "Load (ml_env ml) = Inr cfg" "providers_Build (ml_acs ml) (ml_ses ml) cfg = Inr rt"
    and "newSQLiteRecordStore (ml_policy ml) (cfg_SpoolDir cfg) w = (Inr root, v)" "NewPayloadStore root v = (Inr store, u)"
    and "NewWorker (Some (spool_api (ml_spool ml) store)) (Some (Provider rt)) (workerConfigFor cfg rt) = Inr wk"
    and "nowE u = (Inr now, u1)" "Recover (ml_spool ml) store now u1 = (Inr res, u2)" "buildServer ml cfg store = Inr srv"
  shows "\<exists>p. startup ml w = (Inr p, u2\<lparr>metrics := Some NewMetrics\<rparr>)"
proof -
  have "NewSpoolStore (ml_policy ml) (cfg_SpoolDir cfg) w = (Inr store, u)"
    by (simp add: NewSpoolStore_def assms(3,4) bindE_def tryE_def retE_def)
  then have "buildBackgroundDelivery (ml_policy ml) (ml_spool ml) (cfg_SpoolDir cfg) (Some (Provider rt)) (workerConfigFor cfg rt) w = (Inr (store, wk), u)"
    by (simp add: buildBackgroundDelivery_Inr assms(5))
  moreover have "wk_store wk = spool_api (ml_spool ml) store" using NewWorker_Inr [OF assms(5)] by simp
  ultimately show ?thesis using assms
    by (simp add: startup_def bindE_def finishStartup_def runStartupRecovery_def Worker_Recover_def spool_api_def tryE_def closing_def
      buildMetrics_def retE_def)
qed

section \<open>An example startup\<close>

text \<open>A machine with an empty disk and a configuration for SES.\<close>

definition start_env :: process_env where
  "start_env = example_env
     \<lparr>os_LookupEnv := map_of [(''DELIVERY_MODE'', ''ses''), (''SES_REGION'', ''eu''), (''SES_SENDER'', ''relay@x.org''),
        (''SMTP_ALLOWED_CIDRS'', ''10.0.0.0/8''), (''SMTP_AUTH_USERNAME'', ''app''), (''SMTP_AUTH_PASSWORD'', ''secret''),
        (''SMTP_STARTTLS_ENABLED'', ''false''), (''SPOOL_DIR'', ''/s'')]\<rparr>"

definition start_config :: config where
  "start_config = (case Load start_env of Inr c \<Rightarrow> c | Inl _ \<Rightarrow> undefined)"

definition main_example :: "process_env \<Rightarrow> unit main_libs" where
  "main_example penv =
     \<lparr>ml_env = penv, ml_acs = example_acs_libs, ml_ses = example_ses_libs, ml_policy = example_policy_libs, ml_spool = example_libs,
      ml_LoadX509KeyPair = (\<lambda>c k. Inr c)\<rparr>"

definition start_net :: net_world where
  "start_net = (net_with (\<lambda>n. 202) (\<lambda>_. None))\<lparr>db := \<lparr>records = [], sqlite_master = [], user_version = 0\<rparr>\<rparr>"

lemma start_loads: "Load start_env = Inr start_config"
  unfolding start_config_def by code_simp

lemma start_builds: "\<not> isl (providers_Build example_acs_libs example_ses_libs start_config)"
  by code_simp

lemma start_server: "\<not> isl (buildServer (main_example start_env) start_config store)"
  by code_simp

definition start_disk :: "(goerr + path \<times> string) \<times> net_world" where
  "start_disk = ensureDirectoryPathNoFollow ''/s'' start_net"

lemma start_opens:
  "fst start_disk = Inr ([''s''], ''/s'')" "user_version (db (snd start_disk)) = 0" "sqlite_master (db (snd start_disk)) = []"
  "fault (snd start_disk) n = None"
  by code_simp+

lemma start_payloads: "fst (NewPayloadStore ''/s'' (snd start_disk\<lparr>tx := t, db := d, calls := n\<rparr>)) = Inr example_store"
  by code_simp

lemma start_recovers:
  "\<not> isl (fst (Recover example_libs example_store now (snd (nowE (snd (NewPayloadStore ''/s''
     (snd start_disk\<lparr>tx := t, db := \<lparr>records = [], sqlite_master = m, user_version = v\<rparr>, calls := n\<rparr>)))))))"
  by code_simp

lemma start_records: "db (snd start_disk) = \<lparr>records = [], sqlite_master = [], user_version = 0\<rparr>"
  by code_simp

lemma start_dir: "cfg_SpoolDir start_config = ''/s''"
  by code_simp

lemma start_worker:
  "case providers_Build example_acs_libs example_ses_libs start_config of
     Inl e \<Rightarrow> False
   | Inr rt \<Rightarrow> \<not> isl (NewWorker (Some (spool_api example_libs example_store)) (Some (Provider rt)) (workerConfigFor start_config rt))"
  by code_simp

lemma start_starts: obtains p w' where "startup (main_example start_env) start_net = (Inr p, w')"
proof -
  have rel: "reliable (snd start_disk)" by (simp add: reliable_def start_opens(4))
  have disk: "ensureDirectoryPathNoFollow ''/s'' start_net = (Inr ([''s''], ''/s''), snd start_disk)"
    using start_opens(1) by (simp add: prod_eq_iff start_disk_def)
  have "TrimSpace ''/s'' = ''/s''" by code_simp
  from newSQLiteRecordStore_fresh [OF this _ disk rel start_opens(2,3), of example_policy_libs] obtain n m t where
    opened: "newSQLiteRecordStore example_policy_libs ''/s'' start_net = (Inr ''/s'', snd start_disk\<lparr>tx := t,
       db := \<lparr>records = [], sqlite_master = m, user_version = spoolSchemaVersion\<rparr>, calls := n\<rparr>)" (is "_ = (_, ?v)")
    by (auto simp: start_records)
  define u where "u = snd (NewPayloadStore ''/s'' ?v)"
  obtain rt srv res where parts: "providers_Build example_acs_libs example_ses_libs start_config = Inr rt"
    "buildServer (main_example start_env) start_config example_store = Inr srv"
    "fst (Recover example_libs example_store (clock u (ticks u)) (snd (nowE u))) = Inr res"
    using start_builds start_server [of example_store] start_recovers [where now = "clock u (ticks u)" and t = t and m = m and v = spoolSchemaVersion and n = n]
    unfolding u_def by (metis isl_def sum.exhaust)
  have "\<not> isl (NewWorker (Some (spool_api example_libs example_store)) (Some (Provider rt)) (workerConfigFor start_config rt))"
    using parts(1) start_worker by simp
  then obtain wk where "NewWorker (Some (spool_api example_libs example_store)) (Some (Provider rt)) (workerConfigFor start_config rt) = Inr wk"
    by (metis isl_def sum.exhaust)
  then have "\<exists>p. startup (main_example start_env) start_net =
      (Inr p, snd (Recover example_libs example_store (clock u (ticks u)) (snd (nowE u)))\<lparr>metrics := Some NewMetrics\<rparr>)"
    using startup_succeeds [of "main_example start_env" start_config rt start_net "''/s''" ?v example_store u wk "clock u (ticks u)" "snd (nowE u)" res]
      start_loads opened parts start_payloads start_dir
    by (simp add: main_example_def u_def prod_eq_iff nowE_def)
  then show thesis using that by blast
qed

section \<open>Properties\<close>

text \<open>C4: a process that has started is safe to serve. Its recovery has left no record in state working; its server asks
  for authentication, has an allow list and hands messages to the spool that its worker empties; the worker's
  timeouts are positive. It reports ready exactly when its listeners are bound, and no longer once it is told
  to stop or a server has failed.\<close>
theorem startup_safe:
  assumes "startup ml w = (Inr p, w')"
  shows "no_working (records (db w')) \<and>
    requireAuth (sv_policy (p_server p)) \<and> sp_authProvider (sv_policy (p_server p)) \<noteq> None \<and> allowedCIDRs (sv_policy (p_server p)) \<noteq> [] \<and>
    (\<exists>h. sp_handler (sv_policy (p_server p)) = newEnqueueMessageHandler (ml_policy ml) h \<and> h_store h = wk_store (p_worker p)) \<and>
    0 < SubmitTimeout (wk_cfg (p_worker p)) \<and> 0 < PollInterval (wk_cfg (p_worker p)) \<and>
    (Ready (firstSelect e (p_readiness p)) \<longleftrightarrow> e = ListenersReady) \<and> \<not> Ready (secondSelect e' (firstSelect e (p_readiness p)))"
  using assms
proof (rule startup_Inr)
  fix cfg rt now u v res
  assume cfg: "Load (ml_env ml) = Inr cfg" and rec: "Recover (ml_spool ml) (p_store p) now u = (Inr res, v)" "w' = v\<lparr>metrics := Some NewMetrics\<rparr>"
    and wk: "NewWorker (Some (spool_api (ml_spool ml) (p_store p))) (Some (Provider rt)) (workerConfigFor cfg rt) = Inr (p_worker p)"
    and srv: "buildServer ml cfg (p_store p) = Inr (p_server p)" and r: "p_readiness p = Some \<lparr>smtpReady = False, recoveryReady = True\<rparr>"
  have "closed_relay (ml_env ml) cfg" using cfg by (intro Validate_guarantees(1)) (simp add: config_Load_Inr)
  moreover have "no_working (records (db w'))" using Recover_no_working [OF rec(1)] rec(2) by simp
  moreover have "0 < SubmitTimeout (wk_cfg (p_worker p)) \<and> 0 < PollInterval (wk_cfg (p_worker p))"
    using NewWorker_Inr [OF wk] by simp
  moreover have "(Ready (firstSelect e (p_readiness p)) \<longleftrightarrow> e = ListenersReady) \<and> \<not> Ready (secondSelect e' (firstSelect e (p_readiness p)))"
    unfolding r by (cases e; cases e') (simp_all add: Ready_def setSMTPReady_def)
  ultimately show ?thesis using buildServer_Inr [OF srv] NewWorker_Inr [OF wk] by (simp add: closed_relay_def)
qed

theorem startup_safe_witness:
  "\<exists>p w'. startup (main_example start_env) start_net = (Inr p, w') \<and> no_working (records (db w')) \<and>
     requireAuth (sv_policy (p_server p)) \<and> Ready (firstSelect ListenersReady (p_readiness p))"
proof -
  obtain p w' where "startup (main_example start_env) start_net = (Inr p, w')" by (rule start_starts)
  then show ?thesis using startup_safe [of "main_example start_env" start_net p w' ListenersReady ContextDone] by auto
qed

text \<open>C37: the no-op mode cannot start. Its runtime has no send timeout, which the worker refuses, so that with
  \<open>DELIVERY_MODE=noop\<close> every startup ends with an error, whatever else is configured.\<close>
theorem noop_cannot_start:
  assumes "Load (ml_env ml) = Inr cfg" "cfg_DeliveryMode cfg = ''noop''"
  shows "\<exists>err w'. startup ml w = (Inl err, w')"
proof (cases "startup ml w")
  case (Pair r w')
  show ?thesis
  proof (cases r)
    case (Inr p)
    have "TrimSpace ''noop'' = ''noop''" "ToLower ''noop'' = ''noop''" "is_ascii ''noop''" by code_simp+
    then have "to_lower (al_policy (ml_acs ml)) (TrimSpace ''noop'') = ''noop''" by (simp add: to_lower_def)
    then have "SendTimeout rt = 0" if "providers_Build (ml_acs ml) (ml_ses ml) cfg = Inr rt" for rt
      using that assms(2) by (auto simp: providers_Build_def Let_def)
    moreover obtain rt where "providers_Build (ml_acs ml) (ml_ses ml) cfg = Inr rt"
      "NewWorker (Some (spool_api (ml_spool ml) (p_store p))) (Some (Provider rt)) (workerConfigFor cfg rt) = Inr (p_worker p)"
      using startup_Inr [of ml w p w'] Pair Inr assms(1) by (metis Inr_inject)
    ultimately show ?thesis by (simp add: NewWorker_def workerConfigFor_def)
  qed (use Pair in simp)
qed

theorem noop_cannot_start_witness: "\<exists>err w'. startup (main_example example_env) start_net = (Inl err, w')"
proof -
  have "cfg_DeliveryMode example_loaded = ''noop''" by code_simp
  then show ?thesis using noop_cannot_start [of "main_example example_env" example_loaded start_net] example_loads
    by (simp add: main_example_def)
qed

end
