(* ===== verification/Spec2Isabelle.thy ===== *)
theory Spec2Isabelle
  imports Payload_Roundtrip Spool_Properties Worker_Properties Sender_Policy_Laws Smtp_Server_Laws Smtp_Properties
    Relay_Main_Laws Relay_Startup_Laws
begin

text \<open>
  A model of the SMTP cloud relay and its verification.

  \<^bold>\<open>The program.\<close> The relay accepts mail by SMTP and hands it to a cloud provider. A session
  (src/internal/smtp/server.go) lets a client in by its address, asks for TLS and authentication, and parses the
  message (parser.go); the handler (src/internal/relay/handler.go) applies the sender policy
  (src/internal/email/sender_policy.go), takes one of a bounded number of slots and enqueues the message in the
  spool; only then the client gets a positive reply. The spool (src/internal/spool) keeps a row per message in SQLite
  and the payload in a directory per message. The worker (spool/worker.go) claims queued records, submits them to
  the provider (src/internal/providers), polls the operations that the provider runs, and retries or gives up.
  main (src/cmd/relay/main.go) loads the configuration (src/internal/config), builds the parts, recovers the spool
  after a crash and then serves; src/internal/observability counts what happens.

  \<^bold>\<open>Effects.\<close> An operation is a function from the state to an error or a value and the new state
  (\<open>Effects\<close>: \<open>bindE\<close> is the early return on an error, \<open>tryE\<close> inspects the error, \<open>deferE\<close> is a deferred call).
  The clock, the failures of external calls, the context's end and the random bytes are oracles in the state, indexed
  by counters: a theorem for every state covers every clock and every pattern of failures. The state grows by record
  extension: \<open>env\<close> (oracles), \<open>fs_world\<close> (the file tree), \<open>spool_world\<close> (the database and the open transaction),
  \<open>relay_world\<close> (metrics), \<open>net_world\<close> (requests sent and answers to come); the sockets of the server are in
  \<open>server_world\<close>. An error is a value of \<open>goerr\<close> (\<open>Go_Errors\<close>) with the errors it wraps, so that errors.Is and
  errors.As are functions. Strings are byte lists, durations are 64 bits wide with their wrap-around written out
  (\<open>wrap64\<close>), addresses are words of 32 and 128 bits.

  \<^bold>\<open>Theories and code.\<close>
  \<^item> \<open>Relay_Prelude\<close>, \<open>Go_Errors\<close>, \<open>Effects\<close>: what the code uses of Go's strings, time, errors and fmt; the
    operations; the locale \<open>op_preorder\<close>, which gives, for every reflexive and transitive relation on states, the rules
    that carry it through sequencing, error handling and loops. It is interpreted once per relation of interest.
  \<^item> \<open>Email_Model\<close>, \<open>Sender_Policy\<close>(\<open>_Laws\<close>): email/message.go, submission.go, trace_headers.go,
    sender_policy.go.
  \<^item> \<open>Spool_Types\<close>, \<open>Payload_FS\<close>(\<open>_Laws\<close>), \<open>Payload_Store\<close>(\<open>_Laws\<close>), \<open>Payload_Roundtrip\<close>: spool/types.go,
    common.go, errors.go, payload_fs.go and payload_store.go. The laws give the part of the tree an operation may touch,
    that a save is all or nothing under every failure, and that a load verifies and gives back what was saved.
  \<^item> \<open>Record_Store\<close>(\<open>_Laws\<close>), \<open>Record_Roundtrip\<close>, \<open>Record_Schema\<close>(\<open>_Laws\<close>): spool/sqlite_record_store.go and
    schema.go: rows, constraints, transactions; the lifecycle of a row as an inductive relation; what is written is
    read back; the schema that is created is accepted when it is opened again.
  \<^item> \<open>Spool_Store\<close>(\<open>_Laws\<close>), \<open>Spool_Properties\<close>: spool/spool_store.go: enqueueing, claiming, recovery.
  \<^item> \<open>Delivery_Worker\<close>(\<open>_Laws\<close>), \<open>Spool_Delivery\<close>, \<open>Worker_Properties\<close>, \<open>Noop_Provider\<close>: spool/worker.go. The
    locale \<open>delivery_store\<close> is what the loop needs of a store, \<open>delivery\<close> adds the provider; the spool is an
    interpretation of the first, the spool with the no-op provider of the second.
  \<^item> \<open>Observability\<close>: observability/metrics.go and http.go.
  \<^item> \<open>Relay_Handler\<close>(\<open>_Laws\<close>): relay/handler.go. The interleaving of requests is the inductive relation
    \<open>handler_step\<close>; the locale \<open>accepting_store\<close> is the promise of a store that accepted a message, interpreted for
    the spool.
  \<^item> \<open>Base64\<close>, \<open>Smtp_Parser\<close>(\<open>_Laws\<close>), \<open>Smtp_Session\<close>(\<open>_Laws\<close>), \<open>Smtp_Server\<close>(\<open>_Laws\<close>), \<open>Smtp_Properties\<close>:
    smtp/parser.go, server.go and delivery_status.go. A session is run on any sequence of commands. The locale
    \<open>message_service\<close> is the promise of the message handler to the session, interpreted in \<open>Relay_Main_Laws\<close> for
    the handler that main builds, on top of the interpretation for the spool: this chain of contracts is how a
    positive reply to DATA comes to mean a durable record.
  \<^item> \<open>Relay_Config\<close>(\<open>_Laws\<close>): config/config.go.
  \<^item> \<open>Http_Client\<close>, \<open>Acs_Provider\<close>(\<open>_Laws\<close>), \<open>Ses_Provider\<close>(\<open>_Laws\<close>), \<open>Provider_Factory\<close>(\<open>_Laws\<close>):
    providers/httpclient/builder.go, acs/provider.go, ses/provider.go and factory.go.
  \<^item> \<open>Relay_Main\<close>(\<open>_Laws\<close>), \<open>Relay_Startup_Laws\<close>: cmd/relay/main.go: the SMTP replies, the startup in its
    order, readiness, and the closing of the parts at the end.

  \<^bold>\<open>What is shown.\<close> Accepted mail is durable; rows move only along the lifecycle, under every failure and
  from every sequence of calls; a record is submitted a bounded number of times; recovery leaves no stale record; a
  payload is complete or absent, and loads as it was saved; the parser ends and reads the leaves of a message in order;
  only clients with an allowed address are let in; a started process is a closed relay; slots, sockets, retry delays and
  timeouts keep their bounds. Four properties show behaviour that the documentation or the rest of the code
  does not expect: the no-op mode cannot start, both cloud providers turn an expired or cancelled context into a
  permanent failure, and a glob with a blank before its suffix compiles to one that matches nothing.

  \<^bold>\<open>Bounds and fuel.\<close> The claiming loop \<open>claimReady_n\<close> has the number of queued records plus one as its bound,
  and every larger bound gives the same result. The multipart reader \<open>parseMultipart_n\<close> has the length of the body,
  which suffices because a part is shorter than the body around it (\<open>parts_shrink\<close>, the one assumption on
  mime/multipart). The walks over directories are bounded by the height of the tree. The provider's retry loop
  \<open>submitLoop\<close> has the configured number of attempts. The worker's loop \<open>Start_n\<close>, which runs until it is told to
  stop, has an arbitrary number of rounds, and what is shown of it holds for every number.

  \<^bold>\<open>Parameters.\<close> Third-party code and large libraries are arguments: JSON, SHA-256 and HMAC, net/mail, mime,
  mime/multipart, regexp, Unicode case mapping beyond ASCII, net/url, net/netip parsing, X.509, the AWS SDK, the
  go-smtp engine's own errors, the Prometheus text format. A property that needs a law of such an argument has it
  as a hypothesis and a witness with a concrete function.

  \<^bold>\<open>Not modelled.\<close> Goroutines are not scheduled: where the code selects on channels, which event comes first is an
  argument (\<open>wake_event\<close>, \<open>wait_event\<close>, \<open>main_event\<close>), and the requests of the handler interleave in
  \<open>handler_step\<close>; locks and atomic flags are therefore invisible. Logging, the SMTP and TLS protocols, the serving of
  HTTP, file permissions, SQLite's own durability and the effect of its pragmas are outside. A directory descriptor
  is the path it was opened on. ensureDir and syncDir of spool/common.go have no caller. The signal handling of main
  is the event \<open>ContextDone\<close>.
\<close>

end
